theory Spec2Isabelle
  imports Main
begin

section \<open>Python strings and exceptions\<close>

text \<open>
  A Python \<open>str\<close> is a sequence of Unicode code points, so it is modelled as a list of
  natural numbers (the instructions are Japanese, English and Chinese text; an Isabelle
  \<open>char\<close> is a byte).  \<open>ascii\<close> turns an ASCII literal into that representation.
\<close>

type_synonym ustr = "nat list"

definition ascii :: "string \<Rightarrow> ustr" where
  "ascii s = map of_char s"

text \<open>
  An exception is its class name and its message (what \<open>str(e)\<close> gives).  Only subclasses
  of \<open>Exception\<close> are values of this type: they are the ones the \<open>except Exception\<close>
  handlers of the runners catch.
\<close>

datatype exn = Exn (exn_class: string) (exn_message: ustr)

text \<open>\<open>str.isspace\<close>: the code points Python treats as whitespace (\<open>str.strip()\<close> and the
  regular expression class \<open>\s\<close> use the same table).\<close>

definition py_isspace :: "nat \<Rightarrow> bool" where
  "py_isspace c = (c \<in> set [9, 10, 11, 12, 13, 28, 29, 30, 31, 32, 133, 160, 5760,
     8192, 8193, 8194, 8195, 8196, 8197, 8198, 8199, 8200, 8201, 8202, 8232, 8233, 8239,
     8287, 12288])"

text \<open>\<open>str.isdecimal\<close>, the class \<open>\d\<close> of a \<open>str\<close> pattern: the decimal digits of every
  script (Unicode 14, the table of CPython 3.11), each block holding the digits 0 to 9 in
  order.\<close>

definition decimal_blocks :: "(nat \<times> nat) list" where
  "decimal_blocks = [(48, 57), (1632, 1641), (1776, 1785), (1984, 1993), (2406, 2415),
     (2534, 2543), (2662, 2671), (2790, 2799), (2918, 2927), (3046, 3055), (3174, 3183),
     (3302, 3311), (3430, 3439), (3558, 3567), (3664, 3673), (3792, 3801), (3872, 3881),
     (4160, 4169), (4240, 4249), (6112, 6121), (6160, 6169), (6470, 6479), (6608, 6617),
     (6784, 6793), (6800, 6809), (6992, 7001), (7088, 7097), (7232, 7241), (7248, 7257),
     (42528, 42537), (43216, 43225), (43264, 43273), (43472, 43481), (43504, 43513),
     (43600, 43609), (44016, 44025), (65296, 65305), (66720, 66729), (68912, 68921),
     (69734, 69743), (69872, 69881), (69942, 69951), (70096, 70105), (70384, 70393),
     (70736, 70745), (70864, 70873), (71248, 71257), (71360, 71369), (71472, 71481),
     (71904, 71913), (72016, 72025), (72784, 72793), (73040, 73049), (73120, 73129),
     (92768, 92777), (92864, 92873), (93008, 93017), (120782, 120831), (123200, 123209),
     (123632, 123641), (125264, 125273), (130032, 130041)]"

fun digit_value :: "(nat \<times> nat) list \<Rightarrow> nat \<Rightarrow> nat option" where
  "digit_value [] c = None"
| "digit_value ((lo, hi) # bs) c =
     (if lo \<le> c \<and> c \<le> hi then Some ((c - lo) mod 10) else digit_value bs c)"

definition py_isdecimal :: "nat \<Rightarrow> bool" where
  "py_isdecimal c = (digit_value decimal_blocks c \<noteq> None)"

text \<open>\<open>a in b\<close> on strings, \<open>str.startswith\<close>, \<open>str.endswith\<close>, \<open>str.replace\<close>,
  \<open>str.strip()\<close> and \<open>str.strip(chars)\<close>.\<close>

fun strip_prefix :: "ustr \<Rightarrow> ustr \<Rightarrow> ustr option" where
  "strip_prefix [] s = Some s"
| "strip_prefix (p # ps) [] = None"
| "strip_prefix (p # ps) (c # cs) = (if p = c then strip_prefix ps cs else None)"

definition startswith :: "ustr \<Rightarrow> ustr \<Rightarrow> bool" where
  "startswith s p = (strip_prefix p s \<noteq> None)"

definition endswith :: "ustr \<Rightarrow> ustr \<Rightarrow> bool" where
  "endswith s p = startswith (rev s) (rev p)"

fun contains :: "ustr \<Rightarrow> ustr \<Rightarrow> bool" where
  "contains [] p = (p = [])"
| "contains (c # cs) p = (startswith (c # cs) p \<or> contains cs p)"

text \<open>\<open>s.replace(old, new)\<close> for a non-empty \<open>old\<close>: every occurrence, left to right, not
  overlapping.  After an occurrence the scan resumes behind it; \<open>skip\<close> counts the code
  points of the occurrence still to be dropped.\<close>

fun replace_from :: "nat \<Rightarrow> ustr \<Rightarrow> ustr \<Rightarrow> ustr \<Rightarrow> ustr" where
  "replace_from skip old new [] = []"
| "replace_from (Suc n) old new (c # cs) = replace_from n old new cs"
| "replace_from 0 old new (c # cs) =
     (if startswith (c # cs) old then new @ replace_from (length old - 1) old new cs
      else c # replace_from 0 old new cs)"

definition replace :: "ustr \<Rightarrow> ustr \<Rightarrow> ustr \<Rightarrow> ustr" where
  "replace s old new = replace_from 0 old new s"

definition lstrip_by :: "(nat \<Rightarrow> bool) \<Rightarrow> ustr \<Rightarrow> ustr" where
  "lstrip_by P s = dropWhile P s"

definition strip_by :: "(nat \<Rightarrow> bool) \<Rightarrow> ustr \<Rightarrow> ustr" where
  "strip_by P s = rev (dropWhile P (rev (dropWhile P s)))"

definition strip :: "ustr \<Rightarrow> ustr" where
  "strip s = strip_by py_isspace s"

definition strip_chars :: "ustr \<Rightarrow> ustr \<Rightarrow> ustr" where
  "strip_chars s chars = strip_by (\<lambda>c. c \<in> set chars) s"

text \<open>\<open>str(n)\<close> for an integer.\<close>

function str_nat :: "nat \<Rightarrow> ustr" where
  "str_nat n = (if n < 10 then [48 + n] else str_nat (n div 10) @ [48 + n mod 10])"
  by pat_completeness auto
termination
  by (relation "measure (\<lambda>n. n)") auto

declare str_nat.simps [simp del]

definition str_int :: "int \<Rightarrow> ustr" where
  "str_int i = (if i < 0 then 45 # str_nat (nat (- i)) else str_nat (nat i))"

text \<open>\<open>int(s)\<close> on a string, in base 10.  Blanks around the literal are dropped (the
  whitespace of \<open>str.isspace\<close> without the four separators U+001C to U+001F, which the
  conversion leaves in place) and one sign may lead.  The digits, of any script, are then
  scanned up to the first code point that is neither a digit nor an underscore; an
  underscore is accepted only between two digits.  A scan that read more digits than the
  interpreter's limit (\<open>sys.get_int_max_str_digits()\<close>, 4300 unless configured, 0 for no
  limit) raises a ValueError of its own, before what follows the digits is looked at.  Any
  other ill-formed literal is a ValueError whose message ends with \<open>repr(s)\<close>, a builtin
  the caller hands in.\<close>

definition int_blank :: "nat \<Rightarrow> bool" where
  "int_blank c = (py_isspace c \<and> \<not> (28 \<le> c \<and> c \<le> 31))"

text \<open>The scan: the value and the number of the digits read, and what is left.\<close>

fun int_digits :: "bool \<Rightarrow> nat \<Rightarrow> nat \<Rightarrow> ustr \<Rightarrow> (nat \<times> nat \<times> ustr) option" where
  "int_digits after_digit acc n [] = (if after_digit then Some (acc, n, []) else None)"
| "int_digits after_digit acc n (c # cs) =
     (if c = 95 then (if after_digit then int_digits False acc n cs else None)
      else (case digit_value decimal_blocks c of
              None \<Rightarrow> (if after_digit then Some (acc, n, c # cs) else None)
            | Some d \<Rightarrow> int_digits True (10 * acc + d) (n + 1) cs))"

definition exceeds_limit :: "nat \<Rightarrow> nat \<Rightarrow> exn" where
  "exceeds_limit limit n =
     Exn ''ValueError'' (ascii ''Exceeds the limit ('' @ str_nat limit
       @ ascii '' digits) for integer string conversion: value has '' @ str_nat n
       @ ascii '' digits; use sys.set_int_max_str_digits() to increase the limit'')"

definition py_int :: "(ustr \<Rightarrow> ustr) \<Rightarrow> nat \<Rightarrow> ustr \<Rightarrow> exn + int" where
  "py_int repr limit s =
     (let invalid = Exn ''ValueError''
                      (ascii ''invalid literal for int() with base 10: '' @ repr s);
          body = strip_by int_blank s;
          negative = (body \<noteq> [] \<and> hd body = 45);
          signed = (body \<noteq> [] \<and> (hd body = 45 \<or> hd body = 43))
      in case int_digits False 0 0 (if signed then tl body else body) of
           None \<Rightarrow> Inl invalid
         | Some (v, n, rest) \<Rightarrow>
             if 0 < limit \<and> limit < n then Inl (exceeds_limit limit n)
             else if rest \<noteq> [] then Inl invalid
             else Inr (if negative then - int v else int v))"

section \<open>Regular expressions: the part of Python's \<open>re\<close> the repository uses\<close>

text \<open>
  The patterns of the repository use literals, the dot, bracket classes (with ranges,
  negation, \<open>\d\<close> and \<open>\s\<close>), capturing and non-capturing groups, alternation, the
  greedy \<open>?\<close> on any item, and \<open>+\<close>, \<open>+?\<close> and \<open>*\<close> on a single-character item.
  \<open>re\<close> is a backtracking matcher: alternatives are tried in order, a greedy item takes
  as much as it can first, a lazy one as little.  \<open>rmatch r k st\<close> matches \<open>r\<close> at the
  front of the remaining input and hands the rest to the continuation \<open>k\<close>; \<open>None\<close>
  makes the caller try its next choice, which is exactly \<open>re\<close>'s priority order.
\<close>

datatype citem = CChar nat | CRange nat nat | CDigit | CSpace

datatype cmatch = AnyChar | InSet "citem list" | NotInSet "citem list"

datatype rx =
    Str ustr
  | One cmatch
  | Seq "rx list"
  | Alt "rx list"
  | Grp nat rx
  | Opt rx
  | Plus cmatch
  | PlusLazy cmatch
  | Star cmatch

text \<open>A pattern as \<open>re.compile\<close> sees it: it compiles, to a tree with that many
  capturing groups, or \<open>re.compile\<close> raises \<open>re.error\<close> ("nothing to repeat at position
  n": a \<open>?\<close> with nothing in front of it).\<close>

datatype pattern = Rx nat rx | NothingToRepeat nat

fun citem_ok :: "citem \<Rightarrow> nat \<Rightarrow> bool" where
  "citem_ok (CChar d) c = (c = d)"
| "citem_ok (CRange lo hi) c = (lo \<le> c \<and> c \<le> hi)"
| "citem_ok CDigit c = py_isdecimal c"
| "citem_ok CSpace c = py_isspace c"

fun cmatch_ok :: "cmatch \<Rightarrow> nat \<Rightarrow> bool" where
  "cmatch_ok AnyChar c = (c \<noteq> 10)"
| "cmatch_ok (InSet items) c = list_ex (\<lambda>i. citem_ok i c) items"
| "cmatch_ok (NotInSet items) c = (\<not> list_ex (\<lambda>i. citem_ok i c) items)"

text \<open>The state of a match: the input still to be read and the groups closed so far,
  the latest first.\<close>

type_synonym mstate = "ustr \<times> (nat \<times> ustr) list"

fun star_greedy :: "cmatch \<Rightarrow> (mstate \<Rightarrow> mstate option) \<Rightarrow> ustr \<Rightarrow> (nat \<times> ustr) list \<Rightarrow> mstate option" where
  "star_greedy cm k [] caps = k ([], caps)"
| "star_greedy cm k (c # cs) caps =
     (if cmatch_ok cm c
      then (case star_greedy cm k cs caps of
              Some st \<Rightarrow> Some st
            | None \<Rightarrow> k (c # cs, caps))
      else k (c # cs, caps))"

fun star_lazy :: "cmatch \<Rightarrow> (mstate \<Rightarrow> mstate option) \<Rightarrow> ustr \<Rightarrow> (nat \<times> ustr) list \<Rightarrow> mstate option" where
  "star_lazy cm k [] caps = k ([], caps)"
| "star_lazy cm k (c # cs) caps =
     (case k (c # cs, caps) of
        Some st \<Rightarrow> Some st
      | None \<Rightarrow> (if cmatch_ok cm c then star_lazy cm k cs caps else None))"

fun rmatch :: "rx \<Rightarrow> (mstate \<Rightarrow> mstate option) \<Rightarrow> mstate \<Rightarrow> mstate option" where
  "rmatch (Str cs) k (inp, caps) =
     (case strip_prefix cs inp of None \<Rightarrow> None | Some rest \<Rightarrow> k (rest, caps))"
| "rmatch (One cm) k (inp, caps) =
     (case inp of
        [] \<Rightarrow> None
      | c # rest \<Rightarrow> if cmatch_ok cm c then k (rest, caps) else None)"
| "rmatch (Seq []) k st = k st"
| "rmatch (Seq (r # rs)) k st = rmatch r (\<lambda>st'. rmatch (Seq rs) k st') st"
| "rmatch (Alt []) k st = None"
| "rmatch (Alt (r # rs)) k st =
     (case rmatch r k st of Some st' \<Rightarrow> Some st' | None \<Rightarrow> rmatch (Alt rs) k st)"
| "rmatch (Grp n r) k (inp, caps) =
     rmatch r (\<lambda>(inp', caps'). k (inp', (n, take (length inp - length inp') inp) # caps'))
       (inp, caps)"
| "rmatch (Opt r) k st =
     (case rmatch r k st of Some st' \<Rightarrow> Some st' | None \<Rightarrow> k st)"
| "rmatch (Plus cm) k (inp, caps) =
     (case inp of
        [] \<Rightarrow> None
      | c # rest \<Rightarrow> if cmatch_ok cm c then star_greedy cm k rest caps else None)"
| "rmatch (PlusLazy cm) k (inp, caps) =
     (case inp of
        [] \<Rightarrow> None
      | c # rest \<Rightarrow> if cmatch_ok cm c then star_lazy cm k rest caps else None)"
| "rmatch (Star cm) k (inp, caps) = star_greedy cm k inp caps"

text \<open>A match object: the text matched (\<open>m.group()\<close>) and \<open>m.groups()\<close>, in which a group
  that took no part in the match is \<open>None\<close>.\<close>

record match =
  whole :: ustr
  groups :: "ustr option list"

text \<open>\<open>re.search\<close>: the first position, from the left, at which the pattern matches.\<close>

fun search_at :: "nat \<Rightarrow> rx \<Rightarrow> ustr \<Rightarrow> match option" where
  "search_at n r [] =
     (case rmatch r Some ([], []) of
        None \<Rightarrow> None
      | Some (rest, caps) \<Rightarrow> Some \<lparr>whole = [], groups = map (map_of caps) [1..<Suc n]\<rparr>)"
| "search_at n r (c # cs) =
     (case rmatch r Some (c # cs, []) of
        None \<Rightarrow> search_at n r cs
      | Some (rest, caps) \<Rightarrow>
          Some \<lparr>whole = take (length (c # cs) - length rest) (c # cs),
                groups = map (map_of caps) [1..<Suc n]\<rparr>)"

definition re_error :: "ustr \<Rightarrow> exn" where
  "re_error msg = Exn ''re.error'' msg"

fun re_search :: "pattern \<Rightarrow> ustr \<Rightarrow> exn + match option" where
  "re_search (Rx n r) s = Inr (search_at n r s)"
| "re_search (NothingToRepeat pos) s =
     Inl (re_error (ascii ''nothing to repeat at position '' @ str_nat pos))"


section \<open>The assertion subsystem: \<open>assertions.py\<close>\<close>

datatype AssertionType =
    TEXT_EXISTS | TEXT_NOT_EXISTS | TEXT_EQUALS | TEXT_CONTAINS | TEXT_MATCHES
  | ELEMENT_EXISTS | ELEMENT_NOT_EXISTS | ELEMENT_VISIBLE | ELEMENT_HIDDEN | ELEMENT_COUNT
  | ATTRIBUTE_EQUALS | ATTRIBUTE_CONTAINS | ATTRIBUTE_EXISTS
  | URL_EQUALS | URL_CONTAINS | URL_MATCHES | URL_STARTS_WITH | URL_ENDS_WITH
  | TITLE_EQUALS | TITLE_CONTAINS | TITLE_MATCHES
  | INPUT_VALUE_EQUALS | INPUT_VALUE_CONTAINS | CHECKBOX_CHECKED | CHECKBOX_UNCHECKED
  | ELEMENT_ENABLED | ELEMENT_DISABLED

text \<open>A Python float is kept abstract; what the code does with one (\<open>str\<close>, \<open>int\<close>, its
  truth value) is taken from the runtime record below, as are \<open>str.lower\<close>, whose Unicode
  case table is not part of the repository, \<open>repr\<close> of a string, which only error messages
  show, and the interpreter's limit on the digits of an integer literal.\<close>

typedecl pyfloat

datatype pyval = PStr ustr | PInt int | PBool bool | PFloat pyfloat

text \<open>
  What a test file holds once \<open>json.load\<close> or \<open>yaml.safe_load\<close> has read it: \<open>None\<close>, a
  truth value, a number, a string, a list, a dictionary (its items in order, keys
  distinct), or, from YAML only, another object, of which the runners use no more than
  the name of its type (a date, \<open>datetime.date\<close>).  YAML's binary values and sets, which
  can be iterated, are not represented.  \<open>str\<close> of a float, a list, a dictionary or such
  an object is taken from the runtime record.
\<close>

datatype yval = VNull | VBool bool | VInt int | VFloat pyfloat | VStr ustr
  | VList "yval list" | VDict "(yval \<times> yval) list" | VOther string

record pyrt =
  lower :: "ustr \<Rightarrow> ustr"
  float_str :: "pyfloat \<Rightarrow> ustr"
  float_int :: "pyfloat \<Rightarrow> exn + int"
  str_repr :: "ustr \<Rightarrow> ustr"
  float_nonzero :: "pyfloat \<Rightarrow> bool"
  value_str :: "yval \<Rightarrow> ustr"
  int_max_str_digits :: nat

subsection \<open>The pattern table\<close>

text \<open>
  \<open>PATTERNS\<close> is the class attribute of \<open>AssertionPatternMatcher\<close>, entry by entry and in
  its order; each pattern is named after the line of \<open>assertions.py\<close> that holds it, and
  the comment in front of it is the pattern as Python reads it (non-ASCII code points
  escaped).  Python joins adjacent string literals, so in a line such as
  \<^verbatim>\<open>r"[X""](.+?)[Y""]..."\<close> the doubled ASCII quotes end one literal and begin the next:
  they are not part of the pattern.  The patterns of lines 433 and 435 contain \<open>(?:X|?)\<close>,
  which \<open>re\<close> refuses to compile.
\<close>

(* assertions.py line 107: (.+?)\u304c(?:\u8868\u793a\u3055\u308c\u3066|\u51fa\u3066|\u898b\u3048\u3066)?(?:\u3044\u308b|\u3044\u308b\u3053\u3068|\u3044\u308b\u3053\u3068\u3092)(?:\u78ba\u8a8d|\u30c1\u30a7\u30c3\u30af|\u691c\u8a3c)(?:\u3059\u308b|\u3057\u307e\u3059|\u3057\u3066\u304f\u3060\u3055\u3044|\u304a\u9858\u3044\u3057\u307e\u3059)? *)
definition rx_L107 :: pattern where
  "rx_L107 = Rx 1 (Seq [Grp 1 (PlusLazy AnyChar), Str [12364], Opt (Alt [Str [34920, 31034, 12373,
     12428, 12390], Str [20986, 12390], Str [35211, 12360, 12390]]), Alt [Str [12356, 12427],
     Str [12356, 12427, 12371, 12392], Str [12356, 12427, 12371, 12392, 12434]], Alt [Str
     [30906, 35469], Str [12481, 12455, 12483, 12463], Str [26908, 35388]], Opt (Alt [Str
     [12377, 12427], Str [12375, 12414, 12377], Str [12375, 12390, 12367, 12384, 12373, 12356],
     Str [12362, 39000, 12356, 12375, 12414, 12377]])])"

(* assertions.py line 109: [\u300c](.+?)[\u300d]\u304c(?:\u8868\u793a|\u5b58\u5728|\u51fa\u73fe)(?:\u3057\u3066\u3044\u308b|\u3059\u308b\u3053\u3068\u3092|\u3059\u308b\u3053\u3068\u3092\u78ba\u8a8d)(?:\u3059\u308b|\u3057\u307e\u3059|\u3057\u3066\u304f\u3060\u3055\u3044|\u304a\u9858\u3044\u3057\u307e\u3059)? *)
definition rx_L109 :: pattern where
  "rx_L109 = Rx 1 (Seq [One (InSet [CChar 12300]), Grp 1 (PlusLazy AnyChar), One (InSet [CChar
     12301]), Str [12364], Alt [Str [34920, 31034], Str [23384, 22312], Str [20986, 29694]], Alt
     [Str [12375, 12390, 12356, 12427], Str [12377, 12427, 12371, 12392, 12434], Str [12377,
     12427, 12371, 12392, 12434, 30906, 35469]], Opt (Alt [Str [12377, 12427], Str [12375,
     12414, 12377], Str [12375, 12390, 12367, 12384, 12373, 12356], Str [12362, 39000, 12356,
     12375, 12414, 12377]])])"

(* assertions.py line 111: [\u300c](.+?)[\u300d]\u3068\u3044\u3046(?:\u30c6\u30ad\u30b9\u30c8|\u6587\u5b57|\u30e1\u30c3\u30bb\u30fc\u30b8)\u304c(?:\u8868\u793a|\u5b58\u5728)(?:\u3057\u3066\u3044\u308b|\u3059\u308b\u3053\u3068\u3092\u78ba\u8a8d)(?:\u3059\u308b|\u3057\u307e\u3059|\u3057\u3066\u304f\u3060\u3055\u3044|\u304a\u9858\u3044\u3057\u307e\u3059)? *)
definition rx_L111 :: pattern where
  "rx_L111 = Rx 1 (Seq [One (InSet [CChar 12300]), Grp 1 (PlusLazy AnyChar), One (InSet [CChar
     12301]), Str [12392, 12356, 12358], Alt [Str [12486, 12461, 12473, 12488], Str [25991,
     23383], Str [12513, 12483, 12475, 12540, 12472]], Str [12364], Alt [Str [34920, 31034], Str
     [23384, 22312]], Alt [Str [12375, 12390, 12356, 12427], Str [12377, 12427, 12371, 12392,
     12434, 30906, 35469]], Opt (Alt [Str [12377, 12427], Str [12375, 12414, 12377], Str [12375,
     12390, 12367, 12384, 12373, 12356], Str [12362, 39000, 12356, 12375, 12414, 12377]])])"

(* assertions.py line 115: (.+?)\u304c(?:\u8868\u793a\u3055\u308c\u3066|\u51fa\u3066|\u898b\u3048\u3066)?(?:\u3044\u306a\u3044|\u3044\u306a\u3044\u3053\u3068|\u3044\u306a\u3044\u3053\u3068\u3092)(?:\u78ba\u8a8d|\u30c1\u30a7\u30c3\u30af|\u691c\u8a3c)(?:\u3059\u308b|\u3057\u307e\u3059|\u3057\u3066\u304f\u3060\u3055\u3044|\u304a\u9858\u3044\u3057\u307e\u3059)? *)
definition rx_L115 :: pattern where
  "rx_L115 = Rx 1 (Seq [Grp 1 (PlusLazy AnyChar), Str [12364], Opt (Alt [Str [34920, 31034, 12373,
     12428, 12390], Str [20986, 12390], Str [35211, 12360, 12390]]), Alt [Str [12356, 12394,
     12356], Str [12356, 12394, 12356, 12371, 12392], Str [12356, 12394, 12356, 12371, 12392,
     12434]], Alt [Str [30906, 35469], Str [12481, 12455, 12483, 12463], Str [26908, 35388]],
     Opt (Alt [Str [12377, 12427], Str [12375, 12414, 12377], Str [12375, 12390, 12367, 12384,
     12373, 12356], Str [12362, 39000, 12356, 12375, 12414, 12377]])])"

(* assertions.py line 117: [\u300c](.+?)[\u300d]\u304c(?:\u8868\u793a\u3055\u308c\u3066|\u5b58\u5728\u3057\u3066)?(?:\u3044\u306a\u3044|\u3044\u306a\u3044\u3053\u3068\u3092\u78ba\u8a8d)(?:\u3059\u308b|\u3057\u307e\u3059|\u3057\u3066\u304f\u3060\u3055\u3044|\u304a\u9858\u3044\u3057\u307e\u3059)? *)
definition rx_L117 :: pattern where
  "rx_L117 = Rx 1 (Seq [One (InSet [CChar 12300]), Grp 1 (PlusLazy AnyChar), One (InSet [CChar
     12301]), Str [12364], Opt (Alt [Str [34920, 31034, 12373, 12428, 12390], Str [23384, 22312,
     12375, 12390]]), Alt [Str [12356, 12394, 12356], Str [12356, 12394, 12356, 12371, 12392,
     12434, 30906, 35469]], Opt (Alt [Str [12377, 12427], Str [12375, 12414, 12377], Str [12375,
     12390, 12367, 12384, 12373, 12356], Str [12362, 39000, 12356, 12375, 12414, 12377]])])"

(* assertions.py line 119: [\u300c](.+?)[\u300d]\u3068\u3044\u3046(?:\u30c6\u30ad\u30b9\u30c8|\u6587\u5b57|\u30e1\u30c3\u30bb\u30fc\u30b8)\u304c(?:\u8868\u793a\u3055\u308c\u3066|\u5b58\u5728\u3057\u3066)?(?:\u3044\u306a\u3044|\u3044\u306a\u3044\u3053\u3068\u3092\u78ba\u8a8d)(?:\u3059\u308b|\u3057\u307e\u3059|\u3057\u3066\u304f\u3060\u3055\u3044|\u304a\u9858\u3044\u3057\u307e\u3059)? *)
definition rx_L119 :: pattern where
  "rx_L119 = Rx 1 (Seq [One (InSet [CChar 12300]), Grp 1 (PlusLazy AnyChar), One (InSet [CChar
     12301]), Str [12392, 12356, 12358], Alt [Str [12486, 12461, 12473, 12488], Str [25991,
     23383], Str [12513, 12483, 12475, 12540, 12472]], Str [12364], Opt (Alt [Str [34920, 31034,
     12373, 12428, 12390], Str [23384, 22312, 12375, 12390]]), Alt [Str [12356, 12394, 12356],
     Str [12356, 12394, 12356, 12371, 12392, 12434, 30906, 35469]], Opt (Alt [Str [12377,
     12427], Str [12375, 12414, 12377], Str [12375, 12390, 12367, 12384, 12373, 12356], Str
     [12362, 39000, 12356, 12375, 12414, 12377]])])"

(* assertions.py line 123: (.+?)(?:\u30dc\u30bf\u30f3|\u30ea\u30f3\u30af|\u30d5\u30a3\u30fc\u30eb\u30c9|\u8981\u7d20|\u9805\u76ee)\u304c(?:\u5b58\u5728|\u8868\u793a|\u51fa\u73fe)(?:\u3057\u3066\u3044\u308b|\u3059\u308b\u3053\u3068\u3092\u78ba\u8a8d) *)
definition rx_L123 :: pattern where
  "rx_L123 = Rx 1 (Seq [Grp 1 (PlusLazy AnyChar), Alt [Str [12508, 12479, 12531], Str [12522,
     12531, 12463], Str [12501, 12451, 12540, 12523, 12489], Str [35201, 32032], Str [38917,
     30446]], Str [12364], Alt [Str [23384, 22312], Str [34920, 31034], Str [20986, 29694]], Alt
     [Str [12375, 12390, 12356, 12427], Str [12377, 12427, 12371, 12392, 12434, 30906,
     35469]]])"

(* assertions.py line 125: (.+?)\u304c(?:\u898b\u3048\u308b|\u8868\u793a\u3055\u308c\u3066\u3044\u308b|\u5b58\u5728\u3059\u308b\u3053\u3068\u3092\u78ba\u8a8d) *)
definition rx_L125 :: pattern where
  "rx_L125 = Rx 1 (Seq [Grp 1 (PlusLazy AnyChar), Str [12364], Alt [Str [35211, 12360, 12427], Str
     [34920, 31034, 12373, 12428, 12390, 12356, 12427], Str [23384, 22312, 12377, 12427, 12371,
     12392, 12434, 30906, 35469]]])"

(* assertions.py line 129: (.+?)(?:\u30dc\u30bf\u30f3|\u30ea\u30f3\u30af|\u30d5\u30a3\u30fc\u30eb\u30c9|\u8981\u7d20|\u9805\u76ee)\u304c(?:\u5b58\u5728\u3057\u3066|\u8868\u793a\u3055\u308c\u3066)?(?:\u3044\u306a\u3044|\u3044\u306a\u3044\u3053\u3068\u3092\u78ba\u8a8d) *)
definition rx_L129 :: pattern where
  "rx_L129 = Rx 1 (Seq [Grp 1 (PlusLazy AnyChar), Alt [Str [12508, 12479, 12531], Str [12522,
     12531, 12463], Str [12501, 12451, 12540, 12523, 12489], Str [35201, 32032], Str [38917,
     30446]], Str [12364], Opt (Alt [Str [23384, 22312, 12375, 12390], Str [34920, 31034, 12373,
     12428, 12390]]), Alt [Str [12356, 12394, 12356], Str [12356, 12394, 12356, 12371, 12392,
     12434, 30906, 35469]]])"

(* assertions.py line 131: (.+?)\u304c(?:\u898b\u3048\u306a\u3044|\u8868\u793a\u3055\u308c\u3066\u3044\u306a\u3044|\u5b58\u5728\u3057\u306a\u3044\u3053\u3068\u3092\u78ba\u8a8d) *)
definition rx_L131 :: pattern where
  "rx_L131 = Rx 1 (Seq [Grp 1 (PlusLazy AnyChar), Str [12364], Alt [Str [35211, 12360, 12394,
     12356], Str [34920, 31034, 12373, 12428, 12390, 12356, 12394, 12356], Str [23384, 22312,
     12375, 12394, 12356, 12371, 12392, 12434, 30906, 35469]]])"

(* assertions.py line 135: URL\u304c(.+?)(?:\u3067\u7d42\u308f\u308b|\u306b\u306a\u3063\u3066\u3044\u308b|\u3067\u3042\u308b\u3053\u3068\u3092\u78ba\u8a8d)(?:\u3059\u308b|\u3057\u307e\u3059|\u3057\u3066\u304f\u3060\u3055\u3044|\u304a\u9858\u3044\u3057\u307e\u3059)? *)
definition rx_L135 :: pattern where
  "rx_L135 = Rx 1 (Seq [Str [85, 82, 76, 12364], Grp 1 (PlusLazy AnyChar), Alt [Str [12391, 32066,
     12431, 12427], Str [12395, 12394, 12387, 12390, 12356, 12427], Str [12391, 12354, 12427,
     12371, 12392, 12434, 30906, 35469]], Opt (Alt [Str [12377, 12427], Str [12375, 12414,
     12377], Str [12375, 12390, 12367, 12384, 12373, 12356], Str [12362, 39000, 12356, 12375,
     12414, 12377]])])"

(* assertions.py line 137: URL\u306b[\u300c]?(.+?)[\u300d]?\u304c\u542b\u307e\u308c\u308b(?:\u3053\u3068\u3092\u78ba\u8a8d)?(?:\u3059\u308b|\u3057\u307e\u3059|\u3057\u3066\u304f\u3060\u3055\u3044|\u304a\u9858\u3044\u3057\u307e\u3059)? *)
definition rx_L137 :: pattern where
  "rx_L137 = Rx 1 (Seq [Str [85, 82, 76, 12395], Opt (One (InSet [CChar 12300])), Grp 1 (PlusLazy
     AnyChar), Opt (One (InSet [CChar 12301])), Str [12364, 21547, 12414, 12428, 12427], Opt
     (Str [12371, 12392, 12434, 30906, 35469]), Opt (Alt [Str [12377, 12427], Str [12375, 12414,
     12377], Str [12375, 12390, 12367, 12384, 12373, 12356], Str [12362, 39000, 12356, 12375,
     12414, 12377]])])"

(* assertions.py line 139: (?:\u30da\u30fc\u30b8\u306e)?URL\u304c[\u300c](.+?)[\u300d](?:\u3068\u4e00\u81f4|\u3067\u3042\u308b\u3053\u3068\u3092\u78ba\u8a8d)(?:\u3059\u308b|\u3057\u307e\u3059|\u3057\u3066\u304f\u3060\u3055\u3044|\u304a\u9858\u3044\u3057\u307e\u3059)? *)
definition rx_L139 :: pattern where
  "rx_L139 = Rx 1 (Seq [Opt (Str [12506, 12540, 12472, 12398]), Str [85, 82, 76, 12364], One
     (InSet [CChar 12300]), Grp 1 (PlusLazy AnyChar), One (InSet [CChar 12301]), Alt [Str
     [12392, 19968, 33268], Str [12391, 12354, 12427, 12371, 12392, 12434, 30906, 35469]], Opt
     (Alt [Str [12377, 12427], Str [12375, 12414, 12377], Str [12375, 12390, 12367, 12384,
     12373, 12356], Str [12362, 39000, 12356, 12375, 12414, 12377]])])"

(* assertions.py line 141: URL\u304c[\u300c]?(.+?)[\u300d]?\u3067\u59cb\u307e\u308b\u3053\u3068\u3092\u78ba\u8a8d(?:\u3059\u308b|\u3057\u307e\u3059|\u3057\u3066\u304f\u3060\u3055\u3044|\u304a\u9858\u3044\u3057\u307e\u3059)? *)
definition rx_L141 :: pattern where
  "rx_L141 = Rx 1 (Seq [Str [85, 82, 76, 12364], Opt (One (InSet [CChar 12300])), Grp 1 (PlusLazy
     AnyChar), Opt (One (InSet [CChar 12301])), Str [12391, 22987, 12414, 12427, 12371, 12392,
     12434, 30906, 35469], Opt (Alt [Str [12377, 12427], Str [12375, 12414, 12377], Str [12375,
     12390, 12367, 12384, 12373, 12356], Str [12362, 39000, 12356, 12375, 12414, 12377]])])"

(* assertions.py line 143: URL\u304c[\u300c]?(.+?)[\u300d]?\u3067\u7d42\u308f\u308b\u3053\u3068\u3092\u78ba\u8a8d(?:\u3059\u308b|\u3057\u307e\u3059|\u3057\u3066\u304f\u3060\u3055\u3044|\u304a\u9858\u3044\u3057\u307e\u3059)? *)
definition rx_L143 :: pattern where
  "rx_L143 = Rx 1 (Seq [Str [85, 82, 76, 12364], Opt (One (InSet [CChar 12300])), Grp 1 (PlusLazy
     AnyChar), Opt (One (InSet [CChar 12301])), Str [12391, 32066, 12431, 12427, 12371, 12392,
     12434, 30906, 35469], Opt (Alt [Str [12377, 12427], Str [12375, 12414, 12377], Str [12375,
     12390, 12367, 12384, 12373, 12356], Str [12362, 39000, 12356, 12375, 12414, 12377]])])"

(* assertions.py line 147: (?:\u30da\u30fc\u30b8)?\u30bf\u30a4\u30c8\u30eb\u304c[\u300c](.+?)[\u300d](?:\u3067\u3042\u308b\u3053\u3068\u3092\u78ba\u8a8d|\u3068\u4e00\u81f4)(?:\u3059\u308b|\u3057\u307e\u3059|\u3057\u3066\u304f\u3060\u3055\u3044|\u304a\u9858\u3044\u3057\u307e\u3059)? *)
definition rx_L147 :: pattern where
  "rx_L147 = Rx 1 (Seq [Opt (Str [12506, 12540, 12472]), Str [12479, 12452, 12488, 12523, 12364],
     One (InSet [CChar 12300]), Grp 1 (PlusLazy AnyChar), One (InSet [CChar 12301]), Alt [Str
     [12391, 12354, 12427, 12371, 12392, 12434, 30906, 35469], Str [12392, 19968, 33268]], Opt
     (Alt [Str [12377, 12427], Str [12375, 12414, 12377], Str [12375, 12390, 12367, 12384,
     12373, 12356], Str [12362, 39000, 12356, 12375, 12414, 12377]])])"

(* assertions.py line 149: (?:\u30da\u30fc\u30b8)?\u30bf\u30a4\u30c8\u30eb\u306b[\u300c]?(.+?)[\u300d]?\u304c\u542b\u307e\u308c\u308b(?:\u3053\u3068\u3092\u78ba\u8a8d)?(?:\u3059\u308b|\u3057\u307e\u3059|\u3057\u3066\u304f\u3060\u3055\u3044|\u304a\u9858\u3044\u3057\u307e\u3059)? *)
definition rx_L149 :: pattern where
  "rx_L149 = Rx 1 (Seq [Opt (Str [12506, 12540, 12472]), Str [12479, 12452, 12488, 12523, 12395],
     Opt (One (InSet [CChar 12300])), Grp 1 (PlusLazy AnyChar), Opt (One (InSet [CChar 12301])),
     Str [12364, 21547, 12414, 12428, 12427], Opt (Str [12371, 12392, 12434, 30906, 35469]), Opt
     (Alt [Str [12377, 12427], Str [12375, 12414, 12377], Str [12375, 12390, 12367, 12384,
     12373, 12356], Str [12362, 39000, 12356, 12375, 12414, 12377]])])"

(* assertions.py line 153: (.+?)(?:\u30d5\u30a3\u30fc\u30eb\u30c9|\u5165\u529b\u6b04)\u306e\u5024\u304c\u300c(.+?)\u300d(?:\u3067\u3042\u308b\u3053\u3068\u3092\u78ba\u8a8d|\u3068\u4e00\u81f4) *)
definition rx_L153 :: pattern where
  "rx_L153 = Rx 2 (Seq [Grp 1 (PlusLazy AnyChar), Alt [Str [12501, 12451, 12540, 12523, 12489],
     Str [20837, 21147, 27396]], Str [12398, 20516, 12364, 12300], Grp 2 (PlusLazy AnyChar), Str
     [12301], Alt [Str [12391, 12354, 12427, 12371, 12392, 12434, 30906, 35469], Str [12392,
     19968, 33268]]])"

(* assertions.py line 155: (.+?)(?:\u30c1\u30a7\u30c3\u30af\u30dc\u30c3\u30af\u30b9|\u30c1\u30a7\u30c3\u30af)\u304c(?:\u30c1\u30a7\u30c3\u30af\u3055\u308c\u3066|\u9078\u629e\u3055\u308c\u3066)(?:\u3044\u308b|\u3044\u308b\u3053\u3068\u3092\u78ba\u8a8d) *)
definition rx_L155 :: pattern where
  "rx_L155 = Rx 1 (Seq [Grp 1 (PlusLazy AnyChar), Alt [Str [12481, 12455, 12483, 12463, 12508,
     12483, 12463, 12473], Str [12481, 12455, 12483, 12463]], Str [12364], Alt [Str [12481,
     12455, 12483, 12463, 12373, 12428, 12390], Str [36984, 25246, 12373, 12428, 12390]], Alt
     [Str [12356, 12427], Str [12356, 12427, 12371, 12392, 12434, 30906, 35469]]])"

(* assertions.py line 157: (.+?)(?:\u30c1\u30a7\u30c3\u30af\u30dc\u30c3\u30af\u30b9|\u30c1\u30a7\u30c3\u30af)\u304c(?:\u30c1\u30a7\u30c3\u30af\u3055\u308c\u3066|\u9078\u629e\u3055\u308c\u3066)?(?:\u3044\u306a\u3044|\u3044\u306a\u3044\u3053\u3068\u3092\u78ba\u8a8d) *)
definition rx_L157 :: pattern where
  "rx_L157 = Rx 1 (Seq [Grp 1 (PlusLazy AnyChar), Alt [Str [12481, 12455, 12483, 12463, 12508,
     12483, 12463, 12473], Str [12481, 12455, 12483, 12463]], Str [12364], Opt (Alt [Str [12481,
     12455, 12483, 12463, 12373, 12428, 12390], Str [36984, 25246, 12373, 12428, 12390]]), Alt
     [Str [12356, 12394, 12356], Str [12356, 12394, 12356, 12371, 12392, 12434, 30906,
     35469]]])"

(* assertions.py line 161: (.+?)\u304c(\\d+)(?:\u500b|\u4ef6|\u3064)(?:\u8868\u793a|\u5b58\u5728)(?:\u3057\u3066\u3044\u308b|\u3059\u308b\u3053\u3068\u3092\u78ba\u8a8d) *)
definition rx_L161 :: pattern where
  "rx_L161 = Rx 2 (Seq [Grp 1 (PlusLazy AnyChar), Str [12364], Grp 2 (Plus (InSet [CDigit])), Alt
     [Str [20491], Str [20214], Str [12388]], Alt [Str [34920, 31034], Str [23384, 22312]], Alt
     [Str [12375, 12390, 12356, 12427], Str [12377, 12427, 12371, 12392, 12434, 30906,
     35469]]])"

(* assertions.py line 163: (.+?)\u306e(?:\u6570\u304c|\u4ef6\u6570\u304c)(\\d+)(?:\u3067\u3042\u308b\u3053\u3068\u3092\u78ba\u8a8d|\u3068\u4e00\u81f4) *)
definition rx_L163 :: pattern where
  "rx_L163 = Rx 2 (Seq [Grp 1 (PlusLazy AnyChar), Str [12398], Alt [Str [25968, 12364], Str
     [20214, 25968, 12364]], Grp 2 (Plus (InSet [CDigit])), Alt [Str [12391, 12354, 12427,
     12371, 12392, 12434, 30906, 35469], Str [12392, 19968, 33268]]])"

(* assertions.py line 167: (h[1-6]|div|span|p|table|form|input|button)\u8981\u7d20\u304c(?:\u8868\u793a\u3055\u308c\u3066|\u5b58\u5728\u3057\u3066)?(?:\u3044\u308b|\u3044\u308b\u3053\u3068\u3092\u78ba\u8a8d) *)
definition rx_L167 :: pattern where
  "rx_L167 = Rx 1 (Seq [Grp 1 (Alt [Seq [Str [104], One (InSet [CRange 49 54])], Str [100, 105,
     118], Str [115, 112, 97, 110], Str [112], Str [116, 97, 98, 108, 101], Str [102, 111, 114,
     109], Str [105, 110, 112, 117, 116], Str [98, 117, 116, 116, 111, 110]]), Str [35201,
     32032, 12364], Opt (Alt [Str [34920, 31034, 12373, 12428, 12390], Str [23384, 22312, 12375,
     12390]]), Alt [Str [12356, 12427], Str [12356, 12427, 12371, 12392, 12434, 30906,
     35469]]])"

(* assertions.py line 169: (h[1-6]|div|span|p|table|form|input|button)\u30bf\u30b0\u304c(?:\u8868\u793a\u3055\u308c\u3066|\u5b58\u5728\u3057\u3066)?(?:\u3044\u308b|\u3044\u308b\u3053\u3068\u3092\u78ba\u8a8d) *)
definition rx_L169 :: pattern where
  "rx_L169 = Rx 1 (Seq [Grp 1 (Alt [Seq [Str [104], One (InSet [CRange 49 54])], Str [100, 105,
     118], Str [115, 112, 97, 110], Str [112], Str [116, 97, 98, 108, 101], Str [102, 111, 114,
     109], Str [105, 110, 112, 117, 116], Str [98, 117, 116, 116, 111, 110]]), Str [12479,
     12464, 12364], Opt (Alt [Str [34920, 31034, 12373, 12428, 12390], Str [23384, 22312, 12375,
     12390]]), Alt [Str [12356, 12427], Str [12356, 12427, 12371, 12392, 12434, 30906,
     35469]]])"

(* assertions.py line 173: (?:verify|check|confirm|assert)(?:\\s+that)?\\s+[\\"\'](.+?)[\\"\']\\s+(?:is|exists?|appears?|is\\s+(?:visible|displayed|present)) *)
definition rx_L173 :: pattern where
  "rx_L173 = Rx 1 (Seq [Alt [Str [118, 101, 114, 105, 102, 121], Str [99, 104, 101, 99, 107], Str
     [99, 111, 110, 102, 105, 114, 109], Str [97, 115, 115, 101, 114, 116]], Opt (Seq [Plus
     (InSet [CSpace]), Str [116, 104, 97, 116]]), Plus (InSet [CSpace]), One (InSet [CChar 34,
     CChar 39]), Grp 1 (PlusLazy AnyChar), One (InSet [CChar 34, CChar 39]), Plus (InSet
     [CSpace]), Alt [Str [105, 115], Seq [Str [101, 120, 105, 115, 116], Opt (Str [115])], Seq
     [Str [97, 112, 112, 101, 97, 114], Opt (Str [115])], Seq [Str [105, 115], Plus (InSet
     [CSpace]), Alt [Str [118, 105, 115, 105, 98, 108, 101], Str [100, 105, 115, 112, 108, 97,
     121, 101, 100], Str [112, 114, 101, 115, 101, 110, 116]]]]])"

(* assertions.py line 175: (?:verify|check|confirm|assert)(?:\\s+that)?\\s+[\\"\'](.+?)[\\"\']\\s+(?:is\\s+not|does\\s+not\\s+exist|is\\s+(?:not\\s+visible|hidden|absent)) *)
definition rx_L175 :: pattern where
  "rx_L175 = Rx 1 (Seq [Alt [Str [118, 101, 114, 105, 102, 121], Str [99, 104, 101, 99, 107], Str
     [99, 111, 110, 102, 105, 114, 109], Str [97, 115, 115, 101, 114, 116]], Opt (Seq [Plus
     (InSet [CSpace]), Str [116, 104, 97, 116]]), Plus (InSet [CSpace]), One (InSet [CChar 34,
     CChar 39]), Grp 1 (PlusLazy AnyChar), One (InSet [CChar 34, CChar 39]), Plus (InSet
     [CSpace]), Alt [Seq [Str [105, 115], Plus (InSet [CSpace]), Str [110, 111, 116]], Seq [Str
     [100, 111, 101, 115], Plus (InSet [CSpace]), Str [110, 111, 116], Plus (InSet [CSpace]),
     Str [101, 120, 105, 115, 116]], Seq [Str [105, 115], Plus (InSet [CSpace]), Alt [Seq [Str
     [110, 111, 116], Plus (InSet [CSpace]), Str [118, 105, 115, 105, 98, 108, 101]], Str [104,
     105, 100, 100, 101, 110], Str [97, 98, 115, 101, 110, 116]]]]])"

(* assertions.py line 177: (?:verify|check|confirm|assert)(?:\\s+that)?\\s+(?:the\\s+)?url\\s+contains\\s+[\\"\'](.+?)[\\"\'] *)
definition rx_L177 :: pattern where
  "rx_L177 = Rx 1 (Seq [Alt [Str [118, 101, 114, 105, 102, 121], Str [99, 104, 101, 99, 107], Str
     [99, 111, 110, 102, 105, 114, 109], Str [97, 115, 115, 101, 114, 116]], Opt (Seq [Plus
     (InSet [CSpace]), Str [116, 104, 97, 116]]), Plus (InSet [CSpace]), Opt (Seq [Str [116,
     104, 101], Plus (InSet [CSpace])]), Str [117, 114, 108], Plus (InSet [CSpace]), Str [99,
     111, 110, 116, 97, 105, 110, 115], Plus (InSet [CSpace]), One (InSet [CChar 34, CChar 39]),
     Grp 1 (PlusLazy AnyChar), One (InSet [CChar 34, CChar 39])])"

(* assertions.py line 179: (?:verify|check|confirm|assert)(?:\\s+that)?\\s+(?:the\\s+)?url\\s+starts\\s+with\\s+[\\"\'](.+?)[\\"\'] *)
definition rx_L179 :: pattern where
  "rx_L179 = Rx 1 (Seq [Alt [Str [118, 101, 114, 105, 102, 121], Str [99, 104, 101, 99, 107], Str
     [99, 111, 110, 102, 105, 114, 109], Str [97, 115, 115, 101, 114, 116]], Opt (Seq [Plus
     (InSet [CSpace]), Str [116, 104, 97, 116]]), Plus (InSet [CSpace]), Opt (Seq [Str [116,
     104, 101], Plus (InSet [CSpace])]), Str [117, 114, 108], Plus (InSet [CSpace]), Str [115,
     116, 97, 114, 116, 115], Plus (InSet [CSpace]), Str [119, 105, 116, 104], Plus (InSet
     [CSpace]), One (InSet [CChar 34, CChar 39]), Grp 1 (PlusLazy AnyChar), One (InSet [CChar
     34, CChar 39])])"

(* assertions.py line 181: (?:verify|check|confirm|assert)(?:\\s+that)?\\s+(?:the\\s+)?url\\s+ends\\s+with\\s+[\\"\'](.+?)[\\"\'] *)
definition rx_L181 :: pattern where
  "rx_L181 = Rx 1 (Seq [Alt [Str [118, 101, 114, 105, 102, 121], Str [99, 104, 101, 99, 107], Str
     [99, 111, 110, 102, 105, 114, 109], Str [97, 115, 115, 101, 114, 116]], Opt (Seq [Plus
     (InSet [CSpace]), Str [116, 104, 97, 116]]), Plus (InSet [CSpace]), Opt (Seq [Str [116,
     104, 101], Plus (InSet [CSpace])]), Str [117, 114, 108], Plus (InSet [CSpace]), Str [101,
     110, 100, 115], Plus (InSet [CSpace]), Str [119, 105, 116, 104], Plus (InSet [CSpace]), One
     (InSet [CChar 34, CChar 39]), Grp 1 (PlusLazy AnyChar), One (InSet [CChar 34, CChar 39])])"

(* assertions.py line 183: (?:verify|check|confirm|assert)(?:\\s+that)?\\s+(?:the\\s+)?title\\s+contains\\s+[\\"\'](.+?)[\\"\'] *)
definition rx_L183 :: pattern where
  "rx_L183 = Rx 1 (Seq [Alt [Str [118, 101, 114, 105, 102, 121], Str [99, 104, 101, 99, 107], Str
     [99, 111, 110, 102, 105, 114, 109], Str [97, 115, 115, 101, 114, 116]], Opt (Seq [Plus
     (InSet [CSpace]), Str [116, 104, 97, 116]]), Plus (InSet [CSpace]), Opt (Seq [Str [116,
     104, 101], Plus (InSet [CSpace])]), Str [116, 105, 116, 108, 101], Plus (InSet [CSpace]),
     Str [99, 111, 110, 116, 97, 105, 110, 115], Plus (InSet [CSpace]), One (InSet [CChar 34,
     CChar 39]), Grp 1 (PlusLazy AnyChar), One (InSet [CChar 34, CChar 39])])"

(* assertions.py line 185: (?:verify|check|confirm|assert)(?:\\s+that)?\\s+(?:the\\s+)?title\\s+(?:is|equals)\\s+[\\"\'](.+?)[\\"\'] *)
definition rx_L185 :: pattern where
  "rx_L185 = Rx 1 (Seq [Alt [Str [118, 101, 114, 105, 102, 121], Str [99, 104, 101, 99, 107], Str
     [99, 111, 110, 102, 105, 114, 109], Str [97, 115, 115, 101, 114, 116]], Opt (Seq [Plus
     (InSet [CSpace]), Str [116, 104, 97, 116]]), Plus (InSet [CSpace]), Opt (Seq [Str [116,
     104, 101], Plus (InSet [CSpace])]), Str [116, 105, 116, 108, 101], Plus (InSet [CSpace]),
     Alt [Str [105, 115], Str [101, 113, 117, 97, 108, 115]], Plus (InSet [CSpace]), One (InSet
     [CChar 34, CChar 39]), Grp 1 (PlusLazy AnyChar), One (InSet [CChar 34, CChar 39])])"

(* assertions.py line 189: (?:\u9a8c\u8bc1|\u68c0\u67e5|\u786e\u8ba4|\u65ad\u8a00)[\\"\'](.+?)["\'](?:\u5b58\u5728|\u663e\u793a|\u51fa\u73b0) *)
definition rx_L189 :: pattern where
  "rx_L189 = Rx 1 (Seq [Alt [Str [39564, 35777], Str [26816, 26597], Str [30830, 35748], Str
     [26029, 35328]], One (InSet [CChar 34, CChar 39]), Grp 1 (PlusLazy AnyChar), One (InSet
     [CChar 34, CChar 39]), Alt [Str [23384, 22312], Str [26174, 31034], Str [20986, 29616]]])"

(* assertions.py line 191: (?:\u9a8c\u8bc1|\u68c0\u67e5|\u786e\u8ba4|\u65ad\u8a00)[\\"\'](.+?)["\'](?:\u4e0d\u5b58\u5728|\u672a\u663e\u793a|\u4e0d\u51fa\u73b0) *)
definition rx_L191 :: pattern where
  "rx_L191 = Rx 1 (Seq [Alt [Str [39564, 35777], Str [26816, 26597], Str [30830, 35748], Str
     [26029, 35328]], One (InSet [CChar 34, CChar 39]), Grp 1 (PlusLazy AnyChar), One (InSet
     [CChar 34, CChar 39]), Alt [Str [19981, 23384, 22312], Str [26410, 26174, 31034], Str
     [19981, 20986, 29616]]])"

(* assertions.py line 193: (?:\u9a8c\u8bc1|\u68c0\u67e5|\u786e\u8ba4|\u65ad\u8a00)(?:\u7f51\u5740|URL)\u5305\u542b[\\"\'](.+?)["\'] *)
definition rx_L193 :: pattern where
  "rx_L193 = Rx 1 (Seq [Alt [Str [39564, 35777], Str [26816, 26597], Str [30830, 35748], Str
     [26029, 35328]], Alt [Str [32593, 22336], Str [85, 82, 76]], Str [21253, 21547], One (InSet
     [CChar 34, CChar 39]), Grp 1 (PlusLazy AnyChar), One (InSet [CChar 34, CChar 39])])"

(* assertions.py line 195: (?:\u9a8c\u8bc1|\u68c0\u67e5|\u786e\u8ba4|\u65ad\u8a00)(?:\u7f51\u5740|URL)\u4ee5[\\"\'](.+?)["\']\u5f00\u5934 *)
definition rx_L195 :: pattern where
  "rx_L195 = Rx 1 (Seq [Alt [Str [39564, 35777], Str [26816, 26597], Str [30830, 35748], Str
     [26029, 35328]], Alt [Str [32593, 22336], Str [85, 82, 76]], Str [20197], One (InSet [CChar
     34, CChar 39]), Grp 1 (PlusLazy AnyChar), One (InSet [CChar 34, CChar 39]), Str [24320,
     22836]])"

(* assertions.py line 197: (?:\u9a8c\u8bc1|\u68c0\u67e5|\u786e\u8ba4|\u65ad\u8a00)(?:\u7f51\u5740|URL)\u4ee5[\\"\'](.+?)["\']\u7ed3\u5c3e *)
definition rx_L197 :: pattern where
  "rx_L197 = Rx 1 (Seq [Alt [Str [39564, 35777], Str [26816, 26597], Str [30830, 35748], Str
     [26029, 35328]], Alt [Str [32593, 22336], Str [85, 82, 76]], Str [20197], One (InSet [CChar
     34, CChar 39]), Grp 1 (PlusLazy AnyChar), One (InSet [CChar 34, CChar 39]), Str [32467,
     23614]])"

(* assertions.py line 199: (?:\u9a8c\u8bc1|\u68c0\u67e5|\u786e\u8ba4|\u65ad\u8a00)\u6807\u9898\u5305\u542b[\\"\'](.+?)["\'] *)
definition rx_L199 :: pattern where
  "rx_L199 = Rx 1 (Seq [Alt [Str [39564, 35777], Str [26816, 26597], Str [30830, 35748], Str
     [26029, 35328]], Str [26631, 39064, 21253, 21547], One (InSet [CChar 34, CChar 39]), Grp 1
     (PlusLazy AnyChar), One (InSet [CChar 34, CChar 39])])"

(* assertions.py line 201: (?:\u9a8c\u8bc1|\u68c0\u67e5|\u786e\u8ba4|\u65ad\u8a00)\u6807\u9898(?:\u662f|\u7b49\u4e8e)[\\"\'](.+?)["\'] *)
definition rx_L201 :: pattern where
  "rx_L201 = Rx 1 (Seq [Alt [Str [39564, 35777], Str [26816, 26597], Str [30830, 35748], Str
     [26029, 35328]], Str [26631, 39064], Alt [Str [26159], Str [31561, 20110]], One (InSet
     [CChar 34, CChar 39]), Grp 1 (PlusLazy AnyChar), One (InSet [CChar 34, CChar 39])])"

(* assertions.py line 207: [\u300c]?(.+?)[\u300d]?(?:\u3063\u3066|\u3068\u3044\u3046(?:\u306e|\u3082\u306e))(?:\u304c|\u306f)(?:\u3042\u308b\u304b|\u5b58\u5728\u3059\u308b\u304b|\u898b\u3048\u308b\u304b)(?:\u78ba\u8a8d|\u30c1\u30a7\u30c3\u30af)(?:\u3059\u308b|\u3057\u307e\u3059|\u3057\u3066\u304f\u3060\u3055\u3044)? *)
definition rx_L207 :: pattern where
  "rx_L207 = Rx 1 (Seq [Opt (One (InSet [CChar 12300])), Grp 1 (PlusLazy AnyChar), Opt (One (InSet
     [CChar 12301])), Alt [Str [12387, 12390], Seq [Str [12392, 12356, 12358], Alt [Str [12398],
     Str [12418, 12398]]]], Alt [Str [12364], Str [12399]], Alt [Str [12354, 12427, 12363], Str
     [23384, 22312, 12377, 12427, 12363], Str [35211, 12360, 12427, 12363]], Alt [Str [30906,
     35469], Str [12481, 12455, 12483, 12463]], Opt (Alt [Str [12377, 12427], Str [12375, 12414,
     12377], Str [12375, 12390, 12367, 12384, 12373, 12356]])])"

(* assertions.py line 209: [\u300c]?(.+?)[\u300d]?(?:\u306f|\u304c)(?:\u8868\u793a\u3055\u308c\u3066|\u898b\u3048\u3066)(?:\u3044\u307e\u3059\u304b|\u3044\u308b\u3067\u3057\u3087\u3046\u304b|\u3044\u308b\u304b)(?:\uff1f|\\?)? *)
definition rx_L209 :: pattern where
  "rx_L209 = Rx 1 (Seq [Opt (One (InSet [CChar 12300])), Grp 1 (PlusLazy AnyChar), Opt (One (InSet
     [CChar 12301])), Alt [Str [12399], Str [12364]], Alt [Str [34920, 31034, 12373, 12428,
     12390], Str [35211, 12360, 12390]], Alt [Str [12356, 12414, 12377, 12363], Str [12356,
     12427, 12391, 12375, 12423, 12358, 12363], Str [12356, 12427, 12363]], Opt (Alt [Str
     [65311], Str [63]])])"

(* assertions.py line 211: [\u300c]?(.+?)[\u300d]?(?:\u304c|\u3063\u3066)(?:\u3061\u3083\u3093\u3068|\u304d\u3061\u3093\u3068|\u6b63\u3057\u304f)(?:\u8868\u793a|\u51fa\u3066)(?:\u308b|\u3044\u308b)(?:\u304b|\u304b\u306a|\u3060\u308d\u3046\u304b)(?:\u78ba\u8a8d|\u898b\u308b) *)
definition rx_L211 :: pattern where
  "rx_L211 = Rx 1 (Seq [Opt (One (InSet [CChar 12300])), Grp 1 (PlusLazy AnyChar), Opt (One (InSet
     [CChar 12301])), Alt [Str [12364], Str [12387, 12390]], Alt [Str [12385, 12419, 12435,
     12392], Str [12365, 12385, 12435, 12392], Str [27491, 12375, 12367]], Alt [Str [34920,
     31034], Str [20986, 12390]], Alt [Str [12427], Str [12356, 12427]], Alt [Str [12363], Str
     [12363, 12394], Str [12384, 12429, 12358, 12363]], Alt [Str [30906, 35469], Str [35211,
     12427]]])"

(* assertions.py line 213: [\u300c]?(.+?)[\u300d]?(?:\u304c|\u3063\u3066)(?:\u8868\u793a\u3055\u308c\u3066\u308b|\u51fa\u3066\u308b|\u898b\u3048\u308b)(?:\u3088\u306d|\u306d|\u306a)(?:\uff1f|\\?)? *)
definition rx_L213 :: pattern where
  "rx_L213 = Rx 1 (Seq [Opt (One (InSet [CChar 12300])), Grp 1 (PlusLazy AnyChar), Opt (One (InSet
     [CChar 12301])), Alt [Str [12364], Str [12387, 12390]], Alt [Str [34920, 31034, 12373,
     12428, 12390, 12427], Str [20986, 12390, 12427], Str [35211, 12360, 12427]], Alt [Str
     [12424, 12397], Str [12397], Str [12394]], Opt (Alt [Str [65311], Str [63]])])"

(* assertions.py line 217: [\u300c]?(.+?)[\u300d]?(?:\u304c|\u306e)(?:\u8868\u793a\u72b6\u6cc1|\u5b58\u5728\u72b6\u6cc1|\u53ef\u8996\u6027)(?:\u3092|\u306b\u3064\u3044\u3066)(?:\u78ba\u8a8d|\u691c\u8a3c|\u30c1\u30a7\u30c3\u30af)(?:\u3059\u308b|\u3057\u307e\u3059|\u3057\u3066\u304f\u3060\u3055\u3044)? *)
definition rx_L217 :: pattern where
  "rx_L217 = Rx 1 (Seq [Opt (One (InSet [CChar 12300])), Grp 1 (PlusLazy AnyChar), Opt (One (InSet
     [CChar 12301])), Alt [Str [12364], Str [12398]], Alt [Str [34920, 31034, 29366, 27841], Str
     [23384, 22312, 29366, 27841], Str [21487, 35222, 24615]], Alt [Str [12434], Str [12395,
     12388, 12356, 12390]], Alt [Str [30906, 35469], Str [26908, 35388], Str [12481, 12455,
     12483, 12463]], Opt (Alt [Str [12377, 12427], Str [12375, 12414, 12377], Str [12375, 12390,
     12367, 12384, 12373, 12356]])])"

(* assertions.py line 219: [\u300c]?(.+?)[\u300d]?(?:\u306b\u3064\u3044\u3066|\u306b\u95a2\u3057\u3066)(?:\u8868\u793a|\u5b58\u5728)(?:\u78ba\u8a8d|\u691c\u8a3c|\u30c1\u30a7\u30c3\u30af)(?:\u3092\u884c\u3046|\u3092\u5b9f\u65bd)(?:\u3059\u308b|\u3057\u307e\u3059|\u3057\u3066\u304f\u3060\u3055\u3044)? *)
definition rx_L219 :: pattern where
  "rx_L219 = Rx 1 (Seq [Opt (One (InSet [CChar 12300])), Grp 1 (PlusLazy AnyChar), Opt (One (InSet
     [CChar 12301])), Alt [Str [12395, 12388, 12356, 12390], Str [12395, 38306, 12375, 12390]],
     Alt [Str [34920, 31034], Str [23384, 22312]], Alt [Str [30906, 35469], Str [26908, 35388],
     Str [12481, 12455, 12483, 12463]], Alt [Str [12434, 34892, 12358], Str [12434, 23455,
     26045]], Opt (Alt [Str [12377, 12427], Str [12375, 12414, 12377], Str [12375, 12390, 12367,
     12384, 12373, 12356]])])"

(* assertions.py line 221: [\u300c]?(.+?)[\u300d]?(?:\u306e|\u304c)(?:\u753b\u9762\u8868\u793a|\u753b\u9762\u51fa\u529b|\u30ec\u30f3\u30c0\u30ea\u30f3\u30b0)(?:\u3092|\u306b\u3064\u3044\u3066)(?:\u78ba\u8a8d|\u691c\u8a3c)(?:\u3059\u308b|\u3057\u307e\u3059|\u3057\u3066\u304f\u3060\u3055\u3044)? *)
definition rx_L221 :: pattern where
  "rx_L221 = Rx 1 (Seq [Opt (One (InSet [CChar 12300])), Grp 1 (PlusLazy AnyChar), Opt (One (InSet
     [CChar 12301])), Alt [Str [12398], Str [12364]], Alt [Str [30011, 38754, 34920, 31034], Str
     [30011, 38754, 20986, 21147], Str [12524, 12531, 12480, 12522, 12531, 12464]], Alt [Str
     [12434], Str [12395, 12388, 12356, 12390]], Alt [Str [30906, 35469], Str [26908, 35388]],
     Opt (Alt [Str [12377, 12427], Str [12375, 12414, 12377], Str [12375, 12390, 12367, 12384,
     12373, 12356]])])"

(* assertions.py line 225: \u3082\u3057[\u300c]?(.+?)[\u300d]?(?:\u304c|\u3063\u3066)(?:\u8868\u793a|\u5b58\u5728)(?:\u3055\u308c\u3066|\u3057\u3066)?(?:\u3044\u308b|\u3044\u305f\u3089)(?:\u306a\u3089|\u5834\u5408)(?:\u78ba\u8a8d|\u30c1\u30a7\u30c3\u30af)(?:\u3059\u308b|\u3057\u307e\u3059)? *)
definition rx_L225 :: pattern where
  "rx_L225 = Rx 1 (Seq [Str [12418, 12375], Opt (One (InSet [CChar 12300])), Grp 1 (PlusLazy
     AnyChar), Opt (One (InSet [CChar 12301])), Alt [Str [12364], Str [12387, 12390]], Alt [Str
     [34920, 31034], Str [23384, 22312]], Opt (Alt [Str [12373, 12428, 12390], Str [12375,
     12390]]), Alt [Str [12356, 12427], Str [12356, 12383, 12425]], Alt [Str [12394, 12425], Str
     [22580, 21512]], Alt [Str [30906, 35469], Str [12481, 12455, 12483, 12463]], Opt (Alt [Str
     [12377, 12427], Str [12375, 12414, 12377]])])"

(* assertions.py line 227: [\u300c]?(.+?)[\u300d]?(?:\u304c|\u3063\u3066)(?:\u6b63\u5e38\u306b|\u9069\u5207\u306b)(?:\u8868\u793a|\u51fa\u529b|\u30ec\u30f3\u30c0\u30ea\u30f3\u30b0)(?:\u3055\u308c\u3066\u3044\u308b|\u3055\u308c\u3066\u308b)(?:\u3053\u3068|\u3053\u3068\u3092)(?:\u78ba\u8a8d|\u691c\u8a3c)(?:\u3059\u308b|\u3057\u307e\u3059)? *)
definition rx_L227 :: pattern where
  "rx_L227 = Rx 1 (Seq [Opt (One (InSet [CChar 12300])), Grp 1 (PlusLazy AnyChar), Opt (One (InSet
     [CChar 12301])), Alt [Str [12364], Str [12387, 12390]], Alt [Str [27491, 24120, 12395], Str
     [36969, 20999, 12395]], Alt [Str [34920, 31034], Str [20986, 21147], Str [12524, 12531,
     12480, 12522, 12531, 12464]], Alt [Str [12373, 12428, 12390, 12356, 12427], Str [12373,
     12428, 12390, 12427]], Alt [Str [12371, 12392], Str [12371, 12392, 12434]], Alt [Str
     [30906, 35469], Str [26908, 35388]], Opt (Alt [Str [12377, 12427], Str [12375, 12414,
     12377]])])"

(* assertions.py line 231: [\u300c]?(.+?)[\u300d]?(?:\u304c|\u3063\u3066)(?:\u9593\u9055\u3044\u306a\u304f|\u78ba\u5b9f\u306b|\u7d76\u5bfe\u306b)(?:\u8868\u793a|\u5b58\u5728)(?:\u3057\u3066\u3044\u308b|\u3057\u3066\u308b)(?:\u306f\u305a|\u3060\u308d\u3046)(?:\u3060\u304b\u3089|\u306a\u306e\u3067)?(?:\u78ba\u8a8d|\u30c1\u30a7\u30c3\u30af)(?:\u3059\u308b|\u3057\u307e\u3059)? *)
definition rx_L231 :: pattern where
  "rx_L231 = Rx 1 (Seq [Opt (One (InSet [CChar 12300])), Grp 1 (PlusLazy AnyChar), Opt (One (InSet
     [CChar 12301])), Alt [Str [12364], Str [12387, 12390]], Alt [Str [38291, 36949, 12356,
     12394, 12367], Str [30906, 23455, 12395], Str [32118, 23550, 12395]], Alt [Str [34920,
     31034], Str [23384, 22312]], Alt [Str [12375, 12390, 12356, 12427], Str [12375, 12390,
     12427]], Alt [Str [12399, 12378], Str [12384, 12429, 12358]], Opt (Alt [Str [12384, 12363,
     12425], Str [12394, 12398, 12391]]), Alt [Str [30906, 35469], Str [12481, 12455, 12483,
     12463]], Opt (Alt [Str [12377, 12427], Str [12375, 12414, 12377]])])"

(* assertions.py line 233: [\u300c]?(.+?)[\u300d]?(?:\u304c|\u3063\u3066)(?:\u3084\u3063\u3071\u308a|\u7d50\u5c40|\u6848\u306e\u5b9a)(?:\u8868\u793a|\u51fa\u3066)(?:\u3044\u308b|\u3044\u305f)(?:\u304b|\u304b\u306a|\u3060\u308d\u3046\u304b)(?:\u78ba\u8a8d|\u898b\u308b)(?:\u3057\u307e\u3059)? *)
definition rx_L233 :: pattern where
  "rx_L233 = Rx 1 (Seq [Opt (One (InSet [CChar 12300])), Grp 1 (PlusLazy AnyChar), Opt (One (InSet
     [CChar 12301])), Alt [Str [12364], Str [12387, 12390]], Alt [Str [12420, 12387, 12401,
     12426], Str [32080, 23616], Str [26696, 12398, 23450]], Alt [Str [34920, 31034], Str
     [20986, 12390]], Alt [Str [12356, 12427], Str [12356, 12383]], Alt [Str [12363], Str
     [12363, 12394], Str [12384, 12429, 12358, 12363]], Alt [Str [30906, 35469], Str [35211,
     12427]], Opt (Str [12375, 12414, 12377])])"

(* assertions.py line 237: (?:\u73fe\u5728\u306e|\u4eca\u306e|\u3053\u306e\u30da\u30fc\u30b8\u306e)?(?:URL|\u30a2\u30c9\u30ec\u30b9|\u30ea\u30f3\u30af)(?:\u304c|\u306b|\u3067)[\u300c]?(.+?)[\u300d]?(?:\u304c|\u3092)(?:\u542b\u3093\u3067|\u542b\u307e|\u5165\u3063\u3066)(?:\u3044\u308b|\u3044\u308b\u3053\u3068|\u3044\u308b\u3053\u3068\u3092)(?:\u78ba\u8a8d|\u30c1\u30a7\u30c3\u30af|\u691c\u8a3c)(?:\u3059\u308b|\u3057\u307e\u3059|\u3057\u3066\u304f\u3060\u3055\u3044)? *)
definition rx_L237 :: pattern where
  "rx_L237 = Rx 1 (Seq [Opt (Alt [Str [29694, 22312, 12398], Str [20170, 12398], Str [12371,
     12398, 12506, 12540, 12472, 12398]]), Alt [Str [85, 82, 76], Str [12450, 12489, 12524,
     12473], Str [12522, 12531, 12463]], Alt [Str [12364], Str [12395], Str [12391]], Opt (One
     (InSet [CChar 12300])), Grp 1 (PlusLazy AnyChar), Opt (One (InSet [CChar 12301])), Alt [Str
     [12364], Str [12434]], Alt [Str [21547, 12435, 12391], Str [21547, 12414], Str [20837,
     12387, 12390]], Alt [Str [12356, 12427], Str [12356, 12427, 12371, 12392], Str [12356,
     12427, 12371, 12392, 12434]], Alt [Str [30906, 35469], Str [12481, 12455, 12483, 12463],
     Str [26908, 35388]], Opt (Alt [Str [12377, 12427], Str [12375, 12414, 12377], Str [12375,
     12390, 12367, 12384, 12373, 12356]])])"

(* assertions.py line 239: (?:\u30da\u30fc\u30b8\u306e|\u30b5\u30a4\u30c8\u306e)?(?:URL|\u30a2\u30c9\u30ec\u30b9)(?:\u304c|\u306f)[\u300c]?(.+?)[\u300d]?(?:\u304b\u3089|\u3067)(?:\u59cb\u307e\u3063\u3066|\u30b9\u30bf\u30fc\u30c8\u3057\u3066)(?:\u3044\u308b|\u3044\u308b\u3053\u3068|\u3044\u308b\u3053\u3068\u3092)(?:\u78ba\u8a8d|\u30c1\u30a7\u30c3\u30af|\u691c\u8a3c)(?:\u3059\u308b|\u3057\u307e\u3059|\u3057\u3066\u304f\u3060\u3055\u3044)? *)
definition rx_L239 :: pattern where
  "rx_L239 = Rx 1 (Seq [Opt (Alt [Str [12506, 12540, 12472, 12398], Str [12469, 12452, 12488,
     12398]]), Alt [Str [85, 82, 76], Str [12450, 12489, 12524, 12473]], Alt [Str [12364], Str
     [12399]], Opt (One (InSet [CChar 12300])), Grp 1 (PlusLazy AnyChar), Opt (One (InSet [CChar
     12301])), Alt [Str [12363, 12425], Str [12391]], Alt [Str [22987, 12414, 12387, 12390], Str
     [12473, 12479, 12540, 12488, 12375, 12390]], Alt [Str [12356, 12427], Str [12356, 12427,
     12371, 12392], Str [12356, 12427, 12371, 12392, 12434]], Alt [Str [30906, 35469], Str
     [12481, 12455, 12483, 12463], Str [26908, 35388]], Opt (Alt [Str [12377, 12427], Str
     [12375, 12414, 12377], Str [12375, 12390, 12367, 12384, 12373, 12356]])])"

(* assertions.py line 241: (?:URL|\u30a2\u30c9\u30ec\u30b9)(?:\u306e|\u304c)(?:\u672b\u5c3e|\u6700\u5f8c)(?:\u304c|\u306f|\u306b)[\u300c]?(.+?)[\u300d]?(?:\u3067|\u3068)(?:\u7d42\u308f\u3063\u3066|\u306a\u3063\u3066)(?:\u3044\u308b|\u3044\u308b\u3053\u3068|\u3044\u308b\u3053\u3068\u3092)(?:\u78ba\u8a8d|\u30c1\u30a7\u30c3\u30af|\u691c\u8a3c)(?:\u3059\u308b|\u3057\u307e\u3059|\u3057\u3066\u304f\u3060\u3055\u3044)? *)
definition rx_L241 :: pattern where
  "rx_L241 = Rx 1 (Seq [Alt [Str [85, 82, 76], Str [12450, 12489, 12524, 12473]], Alt [Str
     [12398], Str [12364]], Alt [Str [26411, 23614], Str [26368, 24460]], Alt [Str [12364], Str
     [12399], Str [12395]], Opt (One (InSet [CChar 12300])), Grp 1 (PlusLazy AnyChar), Opt (One
     (InSet [CChar 12301])), Alt [Str [12391], Str [12392]], Alt [Str [32066, 12431, 12387,
     12390], Str [12394, 12387, 12390]], Alt [Str [12356, 12427], Str [12356, 12427, 12371,
     12392], Str [12356, 12427, 12371, 12392, 12434]], Alt [Str [30906, 35469], Str [12481,
     12455, 12483, 12463], Str [26908, 35388]], Opt (Alt [Str [12377, 12427], Str [12375, 12414,
     12377], Str [12375, 12390, 12367, 12384, 12373, 12356]])])"

(* assertions.py line 245: (?:\u30da\u30fc\u30b8\u306e|\u30b5\u30a4\u30c8\u306e|\u3053\u306e)?(?:\u30bf\u30a4\u30c8\u30eb|\u984c\u540d|\u898b\u51fa\u3057)(?:\u304c|\u306b|\u3067)[\u300c]?(.+?)[\u300d]?(?:\u304c|\u3092)(?:\u542b\u3093\u3067|\u542b\u307e|\u5165\u3063\u3066)(?:\u3044\u308b|\u3044\u308b\u3053\u3068|\u3044\u308b\u3053\u3068\u3092)(?:\u78ba\u8a8d|\u30c1\u30a7\u30c3\u30af|\u691c\u8a3c)(?:\u3059\u308b|\u3057\u307e\u3059|\u3057\u3066\u304f\u3060\u3055\u3044)? *)
definition rx_L245 :: pattern where
  "rx_L245 = Rx 1 (Seq [Opt (Alt [Str [12506, 12540, 12472, 12398], Str [12469, 12452, 12488,
     12398], Str [12371, 12398]]), Alt [Str [12479, 12452, 12488, 12523], Str [38988, 21517],
     Str [35211, 20986, 12375]], Alt [Str [12364], Str [12395], Str [12391]], Opt (One (InSet
     [CChar 12300])), Grp 1 (PlusLazy AnyChar), Opt (One (InSet [CChar 12301])), Alt [Str
     [12364], Str [12434]], Alt [Str [21547, 12435, 12391], Str [21547, 12414], Str [20837,
     12387, 12390]], Alt [Str [12356, 12427], Str [12356, 12427, 12371, 12392], Str [12356,
     12427, 12371, 12392, 12434]], Alt [Str [30906, 35469], Str [12481, 12455, 12483, 12463],
     Str [26908, 35388]], Opt (Alt [Str [12377, 12427], Str [12375, 12414, 12377], Str [12375,
     12390, 12367, 12384, 12373, 12356]])])"

(* assertions.py line 247: (?:\u30da\u30fc\u30b8\u306e|\u30b5\u30a4\u30c8\u306e)?(?:\u30bf\u30a4\u30c8\u30eb|\u984c\u540d|\u898b\u51fa\u3057)(?:\u304c|\u306f)[\u300c]?(.+?)[\u300d]?(?:\u3068|\u306b|\u3067)(?:\u4e00\u81f4|\u540c\u3058|\u30de\u30c3\u30c1)(?:\u3057\u3066\u3044\u308b|\u3057\u3066\u308b|\u3059\u308b\u3053\u3068\u3092)(?:\u78ba\u8a8d|\u30c1\u30a7\u30c3\u30af|\u691c\u8a3c)(?:\u3059\u308b|\u3057\u307e\u3059|\u3057\u3066\u304f\u3060\u3055\u3044)? *)
definition rx_L247 :: pattern where
  "rx_L247 = Rx 1 (Seq [Opt (Alt [Str [12506, 12540, 12472, 12398], Str [12469, 12452, 12488,
     12398]]), Alt [Str [12479, 12452, 12488, 12523], Str [38988, 21517], Str [35211, 20986,
     12375]], Alt [Str [12364], Str [12399]], Opt (One (InSet [CChar 12300])), Grp 1 (PlusLazy
     AnyChar), Opt (One (InSet [CChar 12301])), Alt [Str [12392], Str [12395], Str [12391]], Alt
     [Str [19968, 33268], Str [21516, 12376], Str [12510, 12483, 12481]], Alt [Str [12375,
     12390, 12356, 12427], Str [12375, 12390, 12427], Str [12377, 12427, 12371, 12392, 12434]],
     Alt [Str [30906, 35469], Str [12481, 12455, 12483, 12463], Str [26908, 35388]], Opt (Alt
     [Str [12377, 12427], Str [12375, 12414, 12377], Str [12375, 12390, 12367, 12384, 12373,
     12356]])])"

(* assertions.py line 251: [\u300c]?(.+?)[\u300d]?(?:\u304c|\u3063\u3066)(?:\u8868\u793a\u3055\u308c\u3066|\u51fa\u3066|\u898b\u3048\u3066)?(?:\u3044\u306a\u3044|\u306a\u3044)(?:\u3053\u3068|\u3053\u3068\u3092|\u306f\u305a)(?:\u3092|\u306b\u3064\u3044\u3066)?(?:\u78ba\u8a8d|\u30c1\u30a7\u30c3\u30af|\u691c\u8a3c)(?:\u3059\u308b|\u3057\u307e\u3059|\u3057\u3066\u304f\u3060\u3055\u3044)? *)
definition rx_L251 :: pattern where
  "rx_L251 = Rx 1 (Seq [Opt (One (InSet [CChar 12300])), Grp 1 (PlusLazy AnyChar), Opt (One (InSet
     [CChar 12301])), Alt [Str [12364], Str [12387, 12390]], Opt (Alt [Str [34920, 31034, 12373,
     12428, 12390], Str [20986, 12390], Str [35211, 12360, 12390]]), Alt [Str [12356, 12394,
     12356], Str [12394, 12356]], Alt [Str [12371, 12392], Str [12371, 12392, 12434], Str
     [12399, 12378]], Opt (Alt [Str [12434], Str [12395, 12388, 12356, 12390]]), Alt [Str
     [30906, 35469], Str [12481, 12455, 12483, 12463], Str [26908, 35388]], Opt (Alt [Str
     [12377, 12427], Str [12375, 12414, 12377], Str [12375, 12390, 12367, 12384, 12373,
     12356]])])"

(* assertions.py line 253: [\u300c]?(.+?)[\u300d]?(?:\u304c|\u3063\u3066)(?:\u753b\u9762\u306b|\u30da\u30fc\u30b8\u306b)(?:\u8868\u793a\u3055\u308c\u3066|\u51fa\u3066|\u898b\u3048\u3066)?(?:\u3044\u306a\u3044|\u306a\u3044|\u5b58\u5728\u3057\u306a\u3044)(?:\u306f\u305a|\u3060\u308d\u3046|\u3068\u601d\u3046)(?:\u3060\u304b\u3089|\u306a\u306e\u3067)?(?:\u78ba\u8a8d|\u30c1\u30a7\u30c3\u30af)(?:\u3059\u308b|\u3057\u307e\u3059)? *)
definition rx_L253 :: pattern where
  "rx_L253 = Rx 1 (Seq [Opt (One (InSet [CChar 12300])), Grp 1 (PlusLazy AnyChar), Opt (One (InSet
     [CChar 12301])), Alt [Str [12364], Str [12387, 12390]], Alt [Str [30011, 38754, 12395], Str
     [12506, 12540, 12472, 12395]], Opt (Alt [Str [34920, 31034, 12373, 12428, 12390], Str
     [20986, 12390], Str [35211, 12360, 12390]]), Alt [Str [12356, 12394, 12356], Str [12394,
     12356], Str [23384, 22312, 12375, 12394, 12356]], Alt [Str [12399, 12378], Str [12384,
     12429, 12358], Str [12392, 24605, 12358]], Opt (Alt [Str [12384, 12363, 12425], Str [12394,
     12398, 12391]]), Alt [Str [30906, 35469], Str [12481, 12455, 12483, 12463]], Opt (Alt [Str
     [12377, 12427], Str [12375, 12414, 12377]])])"

(* assertions.py line 255: [\u300c]?(.+?)[\u300d]?(?:\u306a\u3093\u3066|\u3068\u3044\u3046)(?:\u30c6\u30ad\u30b9\u30c8|\u6587\u5b57|\u30e1\u30c3\u30bb\u30fc\u30b8)(?:\u304c|\u306f)(?:\u8868\u793a\u3055\u308c\u3066|\u51fa\u3066)?(?:\u3044\u306a\u3044|\u306a\u3044)(?:\u306f\u305a|\u3060\u308d\u3046)(?:\u78ba\u8a8d|\u30c1\u30a7\u30c3\u30af)(?:\u3059\u308b|\u3057\u307e\u3059)? *)
definition rx_L255 :: pattern where
  "rx_L255 = Rx 1 (Seq [Opt (One (InSet [CChar 12300])), Grp 1 (PlusLazy AnyChar), Opt (One (InSet
     [CChar 12301])), Alt [Str [12394, 12435, 12390], Str [12392, 12356, 12358]], Alt [Str
     [12486, 12461, 12473, 12488], Str [25991, 23383], Str [12513, 12483, 12475, 12540, 12472]],
     Alt [Str [12364], Str [12399]], Opt (Alt [Str [34920, 31034, 12373, 12428, 12390], Str
     [20986, 12390]]), Alt [Str [12356, 12394, 12356], Str [12394, 12356]], Alt [Str [12399,
     12378], Str [12384, 12429, 12358]], Alt [Str [30906, 35469], Str [12481, 12455, 12483,
     12463]], Opt (Alt [Str [12377, 12427], Str [12375, 12414, 12377]])])"

(* assertions.py line 259: (?:make sure|ensure|verify|check)(?:\\s+that)?\\s+[\\"\'](.+?)[\\"\']\\s+(?:is\\s+(?:present|shown|displayed|visible|there)|(?:appears|exists|shows up)) *)
definition rx_L259 :: pattern where
  "rx_L259 = Rx 1 (Seq [Alt [Str [109, 97, 107, 101, 32, 115, 117, 114, 101], Str [101, 110, 115,
     117, 114, 101], Str [118, 101, 114, 105, 102, 121], Str [99, 104, 101, 99, 107]], Opt (Seq
     [Plus (InSet [CSpace]), Str [116, 104, 97, 116]]), Plus (InSet [CSpace]), One (InSet [CChar
     34, CChar 39]), Grp 1 (PlusLazy AnyChar), One (InSet [CChar 34, CChar 39]), Plus (InSet
     [CSpace]), Alt [Seq [Str [105, 115], Plus (InSet [CSpace]), Alt [Str [112, 114, 101, 115,
     101, 110, 116], Str [115, 104, 111, 119, 110], Str [100, 105, 115, 112, 108, 97, 121, 101,
     100], Str [118, 105, 115, 105, 98, 108, 101], Str [116, 104, 101, 114, 101]]], Alt [Str
     [97, 112, 112, 101, 97, 114, 115], Str [101, 120, 105, 115, 116, 115], Str [115, 104, 111,
     119, 115, 32, 117, 112]]]])"

(* assertions.py line 261: (?:make sure|ensure|verify|check)(?:\\s+that)?\\s+[\\"\'](.+?)[\\"\']\\s+(?:is\\s+not\\s+(?:present|shown|displayed|visible|there)|(?:does\\s+not\\s+(?:appear|exist|show up))) *)
definition rx_L261 :: pattern where
  "rx_L261 = Rx 1 (Seq [Alt [Str [109, 97, 107, 101, 32, 115, 117, 114, 101], Str [101, 110, 115,
     117, 114, 101], Str [118, 101, 114, 105, 102, 121], Str [99, 104, 101, 99, 107]], Opt (Seq
     [Plus (InSet [CSpace]), Str [116, 104, 97, 116]]), Plus (InSet [CSpace]), One (InSet [CChar
     34, CChar 39]), Grp 1 (PlusLazy AnyChar), One (InSet [CChar 34, CChar 39]), Plus (InSet
     [CSpace]), Alt [Seq [Str [105, 115], Plus (InSet [CSpace]), Str [110, 111, 116], Plus
     (InSet [CSpace]), Alt [Str [112, 114, 101, 115, 101, 110, 116], Str [115, 104, 111, 119,
     110], Str [100, 105, 115, 112, 108, 97, 121, 101, 100], Str [118, 105, 115, 105, 98, 108,
     101], Str [116, 104, 101, 114, 101]]], Seq [Str [100, 111, 101, 115], Plus (InSet
     [CSpace]), Str [110, 111, 116], Plus (InSet [CSpace]), Alt [Str [97, 112, 112, 101, 97,
     114], Str [101, 120, 105, 115, 116], Str [115, 104, 111, 119, 32, 117, 112]]]]])"

(* assertions.py line 263: (?:i\\s+(?:should|need to|want to)\\s+)?(?:see|find|locate)\\s+[\\"\'](.+?)[\\"\']\\s+(?:on\\s+(?:the\\s+)?(?:page|screen))? *)
definition rx_L263 :: pattern where
  "rx_L263 = Rx 1 (Seq [Opt (Seq [Str [105], Plus (InSet [CSpace]), Alt [Str [115, 104, 111, 117,
     108, 100], Str [110, 101, 101, 100, 32, 116, 111], Str [119, 97, 110, 116, 32, 116, 111]],
     Plus (InSet [CSpace])]), Alt [Str [115, 101, 101], Str [102, 105, 110, 100], Str [108, 111,
     99, 97, 116, 101]], Plus (InSet [CSpace]), One (InSet [CChar 34, CChar 39]), Grp 1
     (PlusLazy AnyChar), One (InSet [CChar 34, CChar 39]), Plus (InSet [CSpace]), Opt (Seq [Str
     [111, 110], Plus (InSet [CSpace]), Opt (Seq [Str [116, 104, 101], Plus (InSet [CSpace])]),
     Alt [Str [112, 97, 103, 101], Str [115, 99, 114, 101, 101, 110]]])])"

(* assertions.py line 265: (?:the\\s+)?(?:page|screen)\\s+(?:should|must|needs to)\\s+(?:show|display|contain)\\s+[\\"\'](.+?)[\\"\'] *)
definition rx_L265 :: pattern where
  "rx_L265 = Rx 1 (Seq [Opt (Seq [Str [116, 104, 101], Plus (InSet [CSpace])]), Alt [Str [112, 97,
     103, 101], Str [115, 99, 114, 101, 101, 110]], Plus (InSet [CSpace]), Alt [Str [115, 104,
     111, 117, 108, 100], Str [109, 117, 115, 116], Str [110, 101, 101, 100, 115, 32, 116,
     111]], Plus (InSet [CSpace]), Alt [Str [115, 104, 111, 119], Str [100, 105, 115, 112, 108,
     97, 121], Str [99, 111, 110, 116, 97, 105, 110]], Plus (InSet [CSpace]), One (InSet [CChar
     34, CChar 39]), Grp 1 (PlusLazy AnyChar), One (InSet [CChar 34, CChar 39])])"

(* assertions.py line 269: (?:\u68c0\u67e5|\u786e\u8ba4|\u9a8c\u8bc1)[\\"\'](.+?)["\'](?:\u662f\u5426|\u6709\u6ca1\u6709)(?:\u663e\u793a|\u51fa\u73b0|\u5b58\u5728) *)
definition rx_L269 :: pattern where
  "rx_L269 = Rx 1 (Seq [Alt [Str [26816, 26597], Str [30830, 35748], Str [39564, 35777]], One
     (InSet [CChar 34, CChar 39]), Grp 1 (PlusLazy AnyChar), One (InSet [CChar 34, CChar 39]),
     Alt [Str [26159, 21542], Str [26377, 27809, 26377]], Alt [Str [26174, 31034], Str [20986,
     29616], Str [23384, 22312]]])"

(* assertions.py line 271: (?:\u9875\u9762|\u5c4f\u5e55)(?:\u4e0a|\u4e2d)(?:\u5e94\u8be5|\u5fc5\u987b|\u9700\u8981)(?:\u663e\u793a|\u5305\u542b|\u6709)[\\"\'](.+?)["\'] *)
definition rx_L271 :: pattern where
  "rx_L271 = Rx 1 (Seq [Alt [Str [39029, 38754], Str [23631, 24149]], Alt [Str [19978], Str
     [20013]], Alt [Str [24212, 35813], Str [24517, 39035], Str [38656, 35201]], Alt [Str
     [26174, 31034], Str [21253, 21547], Str [26377]], One (InSet [CChar 34, CChar 39]), Grp 1
     (PlusLazy AnyChar), One (InSet [CChar 34, CChar 39])])"

(* assertions.py line 273: (?:\u786e\u4fdd|\u4fdd\u8bc1)[\\"\'](.+?)["\'](?:\u5728|\u4e8e)(?:\u9875\u9762|\u5c4f\u5e55)(?:\u4e0a|\u4e2d)(?:\u663e\u793a|\u51fa\u73b0) *)
definition rx_L273 :: pattern where
  "rx_L273 = Rx 1 (Seq [Alt [Str [30830, 20445], Str [20445, 35777]], One (InSet [CChar 34, CChar
     39]), Grp 1 (PlusLazy AnyChar), One (InSet [CChar 34, CChar 39]), Alt [Str [22312], Str
     [20110]], Alt [Str [39029, 38754], Str [23631, 24149]], Alt [Str [19978], Str [20013]], Alt
     [Str [26174, 31034], Str [20986, 29616]]])"

(* assertions.py line 279: [\u300c]?(.+?)[\u300d]?(?:\u304c|\u3063\u3066)(?:\u51fa\u3066\u308b|\u898b\u3048\u308b)(?:\u3067|\u3084\u3093|\u3084\u3093\u304b|\u308f|\u306a)(?:\uff1f|\\?)? *)
definition rx_L279 :: pattern where
  "rx_L279 = Rx 1 (Seq [Opt (One (InSet [CChar 12300])), Grp 1 (PlusLazy AnyChar), Opt (One (InSet
     [CChar 12301])), Alt [Str [12364], Str [12387, 12390]], Alt [Str [20986, 12390, 12427], Str
     [35211, 12360, 12427]], Alt [Str [12391], Str [12420, 12435], Str [12420, 12435, 12363],
     Str [12431], Str [12394]], Opt (Alt [Str [65311], Str [63]])])"

(* assertions.py line 281: [\u300c]?(.+?)[\u300d]?(?:\u3061\u3083\u3093\u3068|\u304d\u3061\u3093\u3068)(?:\u8868\u793a\u3055\u308c\u3066\u308b|\u51fa\u3066\u308b)(?:\u304b|\u3084\u308d\u304b|\u3084\u3093)(?:\u78ba\u8a8d|\u898b\u308b)(?:\u3057|\u3057\u3044|\u3057\u3066\u3084)? *)
definition rx_L281 :: pattern where
  "rx_L281 = Rx 1 (Seq [Opt (One (InSet [CChar 12300])), Grp 1 (PlusLazy AnyChar), Opt (One (InSet
     [CChar 12301])), Alt [Str [12385, 12419, 12435, 12392], Str [12365, 12385, 12435, 12392]],
     Alt [Str [34920, 31034, 12373, 12428, 12390, 12427], Str [20986, 12390, 12427]], Alt [Str
     [12363], Str [12420, 12429, 12363], Str [12420, 12435]], Alt [Str [30906, 35469], Str
     [35211, 12427]], Opt (Alt [Str [12375], Str [12375, 12356], Str [12375, 12390, 12420]])])"

(* assertions.py line 283: [\u300c]?(.+?)[\u300d]?(?:\u304c|\u3063\u3066)(?:\u8868\u793a\u3055\u308c\u3068\u308b|\u51fa\u3068\u308b)(?:\u304b|\u3084\u308d|\u308f)(?:\u78ba\u8a8d|\u30c1\u30a7\u30c3\u30af) *)
definition rx_L283 :: pattern where
  "rx_L283 = Rx 1 (Seq [Opt (One (InSet [CChar 12300])), Grp 1 (PlusLazy AnyChar), Opt (One (InSet
     [CChar 12301])), Alt [Str [12364], Str [12387, 12390]], Alt [Str [34920, 31034, 12373,
     12428, 12392, 12427], Str [20986, 12392, 12427]], Alt [Str [12363], Str [12420, 12429], Str
     [12431]], Alt [Str [30906, 35469], Str [12481, 12455, 12483, 12463]]])"

(* assertions.py line 287: [\u300c]?(.+?)[\u300d]?(?:\u304c|\u3063\u3066)(?:\u51fa\u3066\u308b|\u898b\u3048\u308b)(?:\u3079|\u3060\u3079|\u307a)(?:\uff1f|\\?)? *)
definition rx_L287 :: pattern where
  "rx_L287 = Rx 1 (Seq [Opt (One (InSet [CChar 12300])), Grp 1 (PlusLazy AnyChar), Opt (One (InSet
     [CChar 12301])), Alt [Str [12364], Str [12387, 12390]], Alt [Str [20986, 12390, 12427], Str
     [35211, 12360, 12427]], Alt [Str [12409], Str [12384, 12409], Str [12410]], Opt (Alt [Str
     [65311], Str [63]])])"

(* assertions.py line 289: [\u300c]?(.+?)[\u300d]?(?:\u3061\u3083\u3093\u3068|\u304d\u3061\u3093\u3068)(?:\u8868\u793a\u3055\u308c\u3066\u308b|\u51fa\u3066\u308b)(?:\u3079|\u3060\u3079)(?:\u304b|\u304c)(?:\u78ba\u8a8d|\u898b\u308b) *)
definition rx_L289 :: pattern where
  "rx_L289 = Rx 1 (Seq [Opt (One (InSet [CChar 12300])), Grp 1 (PlusLazy AnyChar), Opt (One (InSet
     [CChar 12301])), Alt [Str [12385, 12419, 12435, 12392], Str [12365, 12385, 12435, 12392]],
     Alt [Str [34920, 31034, 12373, 12428, 12390, 12427], Str [20986, 12390, 12427]], Alt [Str
     [12409], Str [12384, 12409]], Alt [Str [12363], Str [12364]], Alt [Str [30906, 35469], Str
     [35211, 12427]]])"

(* assertions.py line 293: [\u300c]?(.+?)[\u300d]?(?:\u304c|\u3063\u3066)(?:\u51fa\u3066\u308b|\u898b\u3048\u308b)(?:\u3068|\u3070\u3044|\u305f\u3044)(?:\uff1f|\\?)? *)
definition rx_L293 :: pattern where
  "rx_L293 = Rx 1 (Seq [Opt (One (InSet [CChar 12300])), Grp 1 (PlusLazy AnyChar), Opt (One (InSet
     [CChar 12301])), Alt [Str [12364], Str [12387, 12390]], Alt [Str [20986, 12390, 12427], Str
     [35211, 12360, 12427]], Alt [Str [12392], Str [12400, 12356], Str [12383, 12356]], Opt (Alt
     [Str [65311], Str [63]])])"

(* assertions.py line 295: [\u300c]?(.+?)[\u300d]?(?:\u3061\u3083\u3093\u3068|\u304d\u3061\u3093\u3068)(?:\u8868\u793a\u3055\u308c\u3066\u308b|\u51fa\u3066\u308b)(?:\u3068|\u3070\u3044)(?:\u78ba\u8a8d|\u898b\u308b) *)
definition rx_L295 :: pattern where
  "rx_L295 = Rx 1 (Seq [Opt (One (InSet [CChar 12300])), Grp 1 (PlusLazy AnyChar), Opt (One (InSet
     [CChar 12301])), Alt [Str [12385, 12419, 12435, 12392], Str [12365, 12385, 12435, 12392]],
     Alt [Str [34920, 31034, 12373, 12428, 12390, 12427], Str [20986, 12390, 12427]], Alt [Str
     [12392], Str [12400, 12356]], Alt [Str [30906, 35469], Str [35211, 12427]]])"

(* assertions.py line 301: (?:\u3042\u3063|\u304a\u3063|\u3048\u3063)[\u300c]?(.+?)[\u300d]?(?:\u304c|\u3063\u3066)(?:\u8868\u793a\u3055\u308c\u3066\u308b|\u51fa\u3066\u308b|\u898b\u3048\u308b)(?:\u3058\u3083\u3093|\u3084\u3093|\u306d)(?:\uff01|!)?(?:\u78ba\u8a8d|\u30c1\u30a7\u30c3\u30af)? *)
definition rx_L301 :: pattern where
  "rx_L301 = Rx 1 (Seq [Alt [Str [12354, 12387], Str [12362, 12387], Str [12360, 12387]], Opt (One
     (InSet [CChar 12300])), Grp 1 (PlusLazy AnyChar), Opt (One (InSet [CChar 12301])), Alt [Str
     [12364], Str [12387, 12390]], Alt [Str [34920, 31034, 12373, 12428, 12390, 12427], Str
     [20986, 12390, 12427], Str [35211, 12360, 12427]], Alt [Str [12376, 12419, 12435], Str
     [12420, 12435], Str [12397]], Opt (Alt [Str [65281], Str [33]]), Opt (Alt [Str [30906,
     35469], Str [12481, 12455, 12483, 12463]])])"

(* assertions.py line 303: (?:\u3084\u3063\u3071\u308a|\u6848\u306e\u5b9a|\u601d\u3063\u305f\u901a\u308a)[\u300c]?(.+?)[\u300d]?(?:\u304c|\u3063\u3066)(?:\u8868\u793a\u3055\u308c\u3066\u308b|\u51fa\u3066\u308b|\u898b\u3048\u308b)(?:\u306a|\u306d|\u308f)(?:\u78ba\u8a8d|\u30c1\u30a7\u30c3\u30af)? *)
definition rx_L303 :: pattern where
  "rx_L303 = Rx 1 (Seq [Alt [Str [12420, 12387, 12401, 12426], Str [26696, 12398, 23450], Str
     [24605, 12387, 12383, 36890, 12426]], Opt (One (InSet [CChar 12300])), Grp 1 (PlusLazy
     AnyChar), Opt (One (InSet [CChar 12301])), Alt [Str [12364], Str [12387, 12390]], Alt [Str
     [34920, 31034, 12373, 12428, 12390, 12427], Str [20986, 12390, 12427], Str [35211, 12360,
     12427]], Alt [Str [12394], Str [12397], Str [12431]], Opt (Alt [Str [30906, 35469], Str
     [12481, 12455, 12483, 12463]])])"

(* assertions.py line 307: [\u300c]?(.+?)[\u300d]?(?:\u304c|\u3063\u3066)(?:\u672c\u5f53\u306b|\u3061\u3083\u3093\u3068|\u304d\u3061\u3093\u3068)(?:\u8868\u793a\u3055\u308c\u3066\u308b|\u51fa\u3066\u308b|\u898b\u3048\u308b)(?:\u304b\u306a|\u3060\u308d\u3046\u304b|\u306e\u304b\u3057\u3089)(?:\uff1f|\\?)?(?:\u78ba\u8a8d|\u30c1\u30a7\u30c3\u30af)? *)
definition rx_L307 :: pattern where
  "rx_L307 = Rx 1 (Seq [Opt (One (InSet [CChar 12300])), Grp 1 (PlusLazy AnyChar), Opt (One (InSet
     [CChar 12301])), Alt [Str [12364], Str [12387, 12390]], Alt [Str [26412, 24403, 12395], Str
     [12385, 12419, 12435, 12392], Str [12365, 12385, 12435, 12392]], Alt [Str [34920, 31034,
     12373, 12428, 12390, 12427], Str [20986, 12390, 12427], Str [35211, 12360, 12427]], Alt
     [Str [12363, 12394], Str [12384, 12429, 12358, 12363], Str [12398, 12363, 12375, 12425]],
     Opt (Alt [Str [65311], Str [63]]), Opt (Alt [Str [30906, 35469], Str [12481, 12455, 12483,
     12463]])])"

(* assertions.py line 309: [\u300c]?(.+?)[\u300d]?(?:\u304c|\u3063\u3066)(?:\u6b63\u3057\u304f|\u9069\u5207\u306b|\u554f\u984c\u306a\u304f)(?:\u8868\u793a\u3055\u308c\u3066\u308b|\u51fa\u3066\u308b|\u898b\u3048\u308b)(?:\u304b|\u304b\u306a)(?:\u4e0d\u5b89|\u5fc3\u914d)(?:\u3060\u304b\u3089|\u306a\u306e\u3067)(?:\u78ba\u8a8d|\u30c1\u30a7\u30c3\u30af) *)
definition rx_L309 :: pattern where
  "rx_L309 = Rx 1 (Seq [Opt (One (InSet [CChar 12300])), Grp 1 (PlusLazy AnyChar), Opt (One (InSet
     [CChar 12301])), Alt [Str [12364], Str [12387, 12390]], Alt [Str [27491, 12375, 12367], Str
     [36969, 20999, 12395], Str [21839, 38988, 12394, 12367]], Alt [Str [34920, 31034, 12373,
     12428, 12390, 12427], Str [20986, 12390, 12427], Str [35211, 12360, 12427]], Alt [Str
     [12363], Str [12363, 12394]], Alt [Str [19981, 23433], Str [24515, 37197]], Alt [Str
     [12384, 12363, 12425], Str [12394, 12398, 12391]], Alt [Str [30906, 35469], Str [12481,
     12455, 12483, 12463]]])"

(* assertions.py line 313: [\u300c]?(.+?)[\u300d]?(?:\u304c|\u3063\u3066)(?:\u7d76\u5bfe\u306b|\u9593\u9055\u3044\u306a\u304f|\u78ba\u5b9f\u306b|\u5fc5\u305a)(?:\u8868\u793a\u3055\u308c\u3066\u308b|\u51fa\u3066\u308b|\u898b\u3048\u308b)(?:\u306f\u305a|\u306b\u9055\u3044\u306a\u3044|\u3068\u601d\u3046)(?:\u78ba\u8a8d|\u30c1\u30a7\u30c3\u30af)? *)
definition rx_L313 :: pattern where
  "rx_L313 = Rx 1 (Seq [Opt (One (InSet [CChar 12300])), Grp 1 (PlusLazy AnyChar), Opt (One (InSet
     [CChar 12301])), Alt [Str [12364], Str [12387, 12390]], Alt [Str [32118, 23550, 12395], Str
     [38291, 36949, 12356, 12394, 12367], Str [30906, 23455, 12395], Str [24517, 12378]], Alt
     [Str [34920, 31034, 12373, 12428, 12390, 12427], Str [20986, 12390, 12427], Str [35211,
     12360, 12427]], Alt [Str [12399, 12378], Str [12395, 36949, 12356, 12394, 12356], Str
     [12392, 24605, 12358]], Opt (Alt [Str [30906, 35469], Str [12481, 12455, 12483, 12463]])])"

(* assertions.py line 315: [\u300c]?(.+?)[\u300d]?(?:\u306f|\u304c)(?:\u5f53\u7136|\u3082\u3061\u308d\u3093|\u5f53\u305f\u308a\u524d\u306b)(?:\u8868\u793a\u3055\u308c\u3066\u308b|\u51fa\u3066\u308b|\u898b\u3048\u308b)(?:\u3088\u306d|\u3067\u3057\u3087|\u306f\u305a)(?:\u78ba\u8a8d|\u30c1\u30a7\u30c3\u30af)? *)
definition rx_L315 :: pattern where
  "rx_L315 = Rx 1 (Seq [Opt (One (InSet [CChar 12300])), Grp 1 (PlusLazy AnyChar), Opt (One (InSet
     [CChar 12301])), Alt [Str [12399], Str [12364]], Alt [Str [24403, 28982], Str [12418,
     12385, 12429, 12435], Str [24403, 12383, 12426, 21069, 12395]], Alt [Str [34920, 31034,
     12373, 12428, 12390, 12427], Str [20986, 12390, 12427], Str [35211, 12360, 12427]], Alt
     [Str [12424, 12397], Str [12391, 12375, 12423], Str [12399, 12378]], Opt (Alt [Str [30906,
     35469], Str [12481, 12455, 12483, 12463]])])"

(* assertions.py line 321: [\u300c]?(.+?)[\u300d]?(?:\u304c|\u306e)(?:\u30ec\u30f3\u30c0\u30ea\u30f3\u30b0|\u63cf\u753b|\u51fa\u529b)(?:\u304c|\u306f)(?:\u6b63\u5e38|\u9069\u5207|\u554f\u984c\u306a\u3057)(?:\u304b|\u304b\u3069\u3046\u304b)(?:\u78ba\u8a8d|\u691c\u8a3c|\u30c1\u30a7\u30c3\u30af) *)
definition rx_L321 :: pattern where
  "rx_L321 = Rx 1 (Seq [Opt (One (InSet [CChar 12300])), Grp 1 (PlusLazy AnyChar), Opt (One (InSet
     [CChar 12301])), Alt [Str [12364], Str [12398]], Alt [Str [12524, 12531, 12480, 12522,
     12531, 12464], Str [25551, 30011], Str [20986, 21147]], Alt [Str [12364], Str [12399]], Alt
     [Str [27491, 24120], Str [36969, 20999], Str [21839, 38988, 12394, 12375]], Alt [Str
     [12363], Str [12363, 12393, 12358, 12363]], Alt [Str [30906, 35469], Str [26908, 35388],
     Str [12481, 12455, 12483, 12463]]])"

(* assertions.py line 323: [\u300c]?(.+?)[\u300d]?(?:\u304c|\u306e)(?:DOM|HTML)(?:\u306b|\u4e0a\u3067)(?:\u5b58\u5728|\u8868\u793a)(?:\u3057\u3066\u3044\u308b|\u3057\u3066\u308b)(?:\u304b|\u304b\u3069\u3046\u304b)(?:\u78ba\u8a8d|\u691c\u8a3c) *)
definition rx_L323 :: pattern where
  "rx_L323 = Rx 1 (Seq [Opt (One (InSet [CChar 12300])), Grp 1 (PlusLazy AnyChar), Opt (One (InSet
     [CChar 12301])), Alt [Str [12364], Str [12398]], Alt [Str [68, 79, 77], Str [72, 84, 77,
     76]], Alt [Str [12395], Str [19978, 12391]], Alt [Str [23384, 22312], Str [34920, 31034]],
     Alt [Str [12375, 12390, 12356, 12427], Str [12375, 12390, 12427]], Alt [Str [12363], Str
     [12363, 12393, 12358, 12363]], Alt [Str [30906, 35469], Str [26908, 35388]]])"

(* assertions.py line 325: [\u300c]?(.+?)[\u300d]?(?:\u306e|\u304c)(?:UI|\u753b\u9762|\u30a4\u30f3\u30bf\u30fc\u30d5\u30a7\u30fc\u30b9)(?:\u4e0a|\u3067)(?:\u8868\u793a|\u30ec\u30f3\u30c0\u30ea\u30f3\u30b0)(?:\u3055\u308c\u3066\u3044\u308b|\u3055\u308c\u3066\u308b)(?:\u78ba\u8a8d|\u691c\u8a3c) *)
definition rx_L325 :: pattern where
  "rx_L325 = Rx 1 (Seq [Opt (One (InSet [CChar 12300])), Grp 1 (PlusLazy AnyChar), Opt (One (InSet
     [CChar 12301])), Alt [Str [12398], Str [12364]], Alt [Str [85, 73], Str [30011, 38754], Str
     [12452, 12531, 12479, 12540, 12501, 12455, 12540, 12473]], Alt [Str [19978], Str [12391]],
     Alt [Str [34920, 31034], Str [12524, 12531, 12480, 12522, 12531, 12464]], Alt [Str [12373,
     12428, 12390, 12356, 12427], Str [12373, 12428, 12390, 12427]], Alt [Str [30906, 35469],
     Str [26908, 35388]]])"

(* assertions.py line 329: [\u300c]?(.+?)[\u300d]?(?:\u304c|\u306e)(?:\u671f\u5f85\u5024|\u60f3\u5b9a\u5024|\u4e88\u671f\u5024)(?:\u901a\u308a|\u3069\u304a\u308a)(?:\u8868\u793a|\u51fa\u529b)(?:\u3055\u308c\u3066\u3044\u308b|\u3055\u308c\u3066\u308b)(?:\u78ba\u8a8d|\u691c\u8a3c|\u30c6\u30b9\u30c8) *)
definition rx_L329 :: pattern where
  "rx_L329 = Rx 1 (Seq [Opt (One (InSet [CChar 12300])), Grp 1 (PlusLazy AnyChar), Opt (One (InSet
     [CChar 12301])), Alt [Str [12364], Str [12398]], Alt [Str [26399, 24453, 20516], Str
     [24819, 23450, 20516], Str [20104, 26399, 20516]], Alt [Str [36890, 12426], Str [12393,
     12362, 12426]], Alt [Str [34920, 31034], Str [20986, 21147]], Alt [Str [12373, 12428,
     12390, 12356, 12427], Str [12373, 12428, 12390, 12427]], Alt [Str [30906, 35469], Str
     [26908, 35388], Str [12486, 12473, 12488]]])"

(* assertions.py line 331: [\u300c]?(.+?)[\u300d]?(?:\u306e|\u304c)(?:\u8868\u793a|\u51fa\u529b)(?:\u306b\u95a2\u3059\u308b|\u306b\u3064\u3044\u3066)(?:\u56de\u5e30\u30c6\u30b9\u30c8|\u30ea\u30b0\u30ec\u30c3\u30b7\u30e7\u30f3\u30c6\u30b9\u30c8|\u691c\u8a3c) *)
definition rx_L331 :: pattern where
  "rx_L331 = Rx 1 (Seq [Opt (One (InSet [CChar 12300])), Grp 1 (PlusLazy AnyChar), Opt (One (InSet
     [CChar 12301])), Alt [Str [12398], Str [12364]], Alt [Str [34920, 31034], Str [20986,
     21147]], Alt [Str [12395, 38306, 12377, 12427], Str [12395, 12388, 12356, 12390]], Alt [Str
     [22238, 24112, 12486, 12473, 12488], Str [12522, 12464, 12524, 12483, 12471, 12519, 12531,
     12486, 12473, 12488], Str [26908, 35388]]])"

(* assertions.py line 333: [\u300c]?(.+?)[\u300d]?(?:\u304c|\u306e)(?:\u30a2\u30b5\u30fc\u30b7\u30e7\u30f3|assertion)(?:\u3068\u3057\u3066|\u3067)(?:\u671f\u5f85|\u60f3\u5b9a)(?:\u3055\u308c\u3066\u3044\u308b|\u3055\u308c\u3066\u308b)(?:\u78ba\u8a8d|\u691c\u8a3c) *)
definition rx_L333 :: pattern where
  "rx_L333 = Rx 1 (Seq [Opt (One (InSet [CChar 12300])), Grp 1 (PlusLazy AnyChar), Opt (One (InSet
     [CChar 12301])), Alt [Str [12364], Str [12398]], Alt [Str [12450, 12469, 12540, 12471,
     12519, 12531], Str [97, 115, 115, 101, 114, 116, 105, 111, 110]], Alt [Str [12392, 12375,
     12390], Str [12391]], Alt [Str [26399, 24453], Str [24819, 23450]], Alt [Str [12373, 12428,
     12390, 12356, 12427], Str [12373, 12428, 12390, 12427]], Alt [Str [30906, 35469], Str
     [26908, 35388]]])"

(* assertions.py line 339: [\u300c]?(.+?)[\u300d]?(?:\u304c|\u3063\u3066)(?:\u524d\u306f|\u4ee5\u524d\u306f|\u6628\u65e5\u306f)(?:\u8868\u793a\u3055\u308c\u3066|\u51fa\u3066)(?:\u3044\u305f|\u305f)(?:\u304b|\u304b\u306a)(?:\u78ba\u8a8d|\u30c1\u30a7\u30c3\u30af) *)
definition rx_L339 :: pattern where
  "rx_L339 = Rx 1 (Seq [Opt (One (InSet [CChar 12300])), Grp 1 (PlusLazy AnyChar), Opt (One (InSet
     [CChar 12301])), Alt [Str [12364], Str [12387, 12390]], Alt [Str [21069, 12399], Str
     [20197, 21069, 12399], Str [26152, 26085, 12399]], Alt [Str [34920, 31034, 12373, 12428,
     12390], Str [20986, 12390]], Alt [Str [12356, 12383], Str [12383]], Alt [Str [12363], Str
     [12363, 12394]], Alt [Str [30906, 35469], Str [12481, 12455, 12483, 12463]]])"

(* assertions.py line 341: [\u300c]?(.+?)[\u300d]?(?:\u304c|\u3063\u3066)(?:\u3055\u3063\u304d|\u5148\u307b\u3069|\u4eca\u3057\u304c\u305f)(?:\u8868\u793a\u3055\u308c\u3066|\u51fa\u3066)(?:\u3044\u305f|\u305f)(?:\u306f\u305a|\u3068\u601d\u3046)(?:\u78ba\u8a8d|\u30c1\u30a7\u30c3\u30af) *)
definition rx_L341 :: pattern where
  "rx_L341 = Rx 1 (Seq [Opt (One (InSet [CChar 12300])), Grp 1 (PlusLazy AnyChar), Opt (One (InSet
     [CChar 12301])), Alt [Str [12364], Str [12387, 12390]], Alt [Str [12373, 12387, 12365], Str
     [20808, 12411, 12393], Str [20170, 12375, 12364, 12383]], Alt [Str [34920, 31034, 12373,
     12428, 12390], Str [20986, 12390]], Alt [Str [12356, 12383], Str [12383]], Alt [Str [12399,
     12378], Str [12392, 24605, 12358]], Alt [Str [30906, 35469], Str [12481, 12455, 12483,
     12463]]])"

(* assertions.py line 345: [\u300c]?(.+?)[\u300d]?(?:\u304c|\u3063\u3066)(?:\u3053\u308c\u304b\u3089|\u4eca\u5f8c|\u5f8c\u3067)(?:\u8868\u793a\u3055\u308c\u308b|\u51fa\u308b)(?:\u306f\u305a|\u3060\u308d\u3046|\u3068\u601d\u3046)(?:\u78ba\u8a8d|\u30c1\u30a7\u30c3\u30af) *)
definition rx_L345 :: pattern where
  "rx_L345 = Rx 1 (Seq [Opt (One (InSet [CChar 12300])), Grp 1 (PlusLazy AnyChar), Opt (One (InSet
     [CChar 12301])), Alt [Str [12364], Str [12387, 12390]], Alt [Str [12371, 12428, 12363,
     12425], Str [20170, 24460], Str [24460, 12391]], Alt [Str [34920, 31034, 12373, 12428,
     12427], Str [20986, 12427]], Alt [Str [12399, 12378], Str [12384, 12429, 12358], Str
     [12392, 24605, 12358]], Alt [Str [30906, 35469], Str [12481, 12455, 12483, 12463]]])"

(* assertions.py line 347: [\u300c]?(.+?)[\u300d]?(?:\u304c|\u3063\u3066)(?:\u304d\u3063\u3068|\u304a\u305d\u3089\u304f|\u305f\u3076\u3093)(?:\u8868\u793a\u3055\u308c\u308b|\u51fa\u308b)(?:\u3060\u308d\u3046|\u3068\u601d\u3046)(?:\u78ba\u8a8d|\u30c1\u30a7\u30c3\u30af) *)
definition rx_L347 :: pattern where
  "rx_L347 = Rx 1 (Seq [Opt (One (InSet [CChar 12300])), Grp 1 (PlusLazy AnyChar), Opt (One (InSet
     [CChar 12301])), Alt [Str [12364], Str [12387, 12390]], Alt [Str [12365, 12387, 12392], Str
     [12362, 12381, 12425, 12367], Str [12383, 12406, 12435]], Alt [Str [34920, 31034, 12373,
     12428, 12427], Str [20986, 12427]], Alt [Str [12384, 12429, 12358], Str [12392, 24605,
     12358]], Alt [Str [30906, 35469], Str [12481, 12455, 12483, 12463]]])"

(* assertions.py line 353: (?:\u3082\u3057|if)[\u300c]?(.+?)[\u300d]?(?:\u304c|\u3063\u3066)(?:\u8868\u793a\u3055\u308c\u3066|\u51fa\u3066)(?:\u3044\u3066|\u3066)(?:\u3001\u304b\u3064|\u3001\u305d\u3057\u3066|\u3001\u306a\u304a\u304b\u3064)(?:\u6b63\u5e38|\u9069\u5207|\u554f\u984c\u306a\u3057)(?:\u306a\u3089|\u3067\u3042\u308c\u3070)(?:\u78ba\u8a8d|\u691c\u8a3c) *)
definition rx_L353 :: pattern where
  "rx_L353 = Rx 1 (Seq [Alt [Str [12418, 12375], Str [105, 102]], Opt (One (InSet [CChar 12300])),
     Grp 1 (PlusLazy AnyChar), Opt (One (InSet [CChar 12301])), Alt [Str [12364], Str [12387,
     12390]], Alt [Str [34920, 31034, 12373, 12428, 12390], Str [20986, 12390]], Alt [Str
     [12356, 12390], Str [12390]], Alt [Str [12289, 12363, 12388], Str [12289, 12381, 12375,
     12390], Str [12289, 12394, 12362, 12363, 12388]], Alt [Str [27491, 24120], Str [36969,
     20999], Str [21839, 38988, 12394, 12375]], Alt [Str [12394, 12425], Str [12391, 12354,
     12428, 12400]], Alt [Str [30906, 35469], Str [26908, 35388]]])"

(* assertions.py line 355: [\u300c]?(.+?)[\u300d]?(?:\u304c|\u3063\u3066)(?:\u8868\u793a\u3055\u308c\u3066|\u51fa\u3066)(?:\u3044\u308b|\u308b)(?:\u3053\u3068|\u306e)(?:\u3092|\u306b\u3064\u3044\u3066)(?:\u524d\u63d0|\u6761\u4ef6)(?:\u3068\u3057\u3066|\u306b)(?:\u78ba\u8a8d|\u691c\u8a3c) *)
definition rx_L355 :: pattern where
  "rx_L355 = Rx 1 (Seq [Opt (One (InSet [CChar 12300])), Grp 1 (PlusLazy AnyChar), Opt (One (InSet
     [CChar 12301])), Alt [Str [12364], Str [12387, 12390]], Alt [Str [34920, 31034, 12373,
     12428, 12390], Str [20986, 12390]], Alt [Str [12356, 12427], Str [12427]], Alt [Str [12371,
     12392], Str [12398]], Alt [Str [12434], Str [12395, 12388, 12356, 12390]], Alt [Str [21069,
     25552], Str [26465, 20214]], Alt [Str [12392, 12375, 12390], Str [12395]], Alt [Str [30906,
     35469], Str [26908, 35388]]])"

(* assertions.py line 359: [\u300c]?(.+?)[\u300d]?(?:\u304c|\u3063\u3066)(?:\u8868\u793a\u3055\u308c\u3066|\u51fa\u3066)(?:\u3044\u306a\u3044|\u306a\u3044)(?:\u304b\u3082|\u304b\u3082\u3057\u308c\u306a\u3044|\u53ef\u80fd\u6027)(?:\u3060\u304b\u3089|\u306a\u306e\u3067)(?:\u78ba\u8a8d|\u30c1\u30a7\u30c3\u30af) *)
definition rx_L359 :: pattern where
  "rx_L359 = Rx 1 (Seq [Opt (One (InSet [CChar 12300])), Grp 1 (PlusLazy AnyChar), Opt (One (InSet
     [CChar 12301])), Alt [Str [12364], Str [12387, 12390]], Alt [Str [34920, 31034, 12373,
     12428, 12390], Str [20986, 12390]], Alt [Str [12356, 12394, 12356], Str [12394, 12356]],
     Alt [Str [12363, 12418], Str [12363, 12418, 12375, 12428, 12394, 12356], Str [21487, 33021,
     24615]], Alt [Str [12384, 12363, 12425], Str [12394, 12398, 12391]], Alt [Str [30906,
     35469], Str [12481, 12455, 12483, 12463]]])"

(* assertions.py line 361: [\u300c]?(.+?)[\u300d]?(?:\u304c|\u3063\u3066)(?:\u3082\u3046|\u65e2\u306b)(?:\u8868\u793a\u3055\u308c\u3066|\u51fa\u3066)(?:\u3044\u306a\u3044|\u306a\u3044)(?:\u306f\u305a|\u3060\u308d\u3046|\u3068\u601d\u3046)(?:\u78ba\u8a8d|\u30c1\u30a7\u30c3\u30af) *)
definition rx_L361 :: pattern where
  "rx_L361 = Rx 1 (Seq [Opt (One (InSet [CChar 12300])), Grp 1 (PlusLazy AnyChar), Opt (One (InSet
     [CChar 12301])), Alt [Str [12364], Str [12387, 12390]], Alt [Str [12418, 12358], Str
     [26082, 12395]], Alt [Str [34920, 31034, 12373, 12428, 12390], Str [20986, 12390]], Alt
     [Str [12356, 12394, 12356], Str [12394, 12356]], Alt [Str [12399, 12378], Str [12384,
     12429, 12358], Str [12392, 24605, 12358]], Alt [Str [30906, 35469], Str [12481, 12455,
     12483, 12463]]])"

(* assertions.py line 367: [\u300c]?(.+?)[\u300d]?(?:\u304c|\u306e)(?:\u8868\u793a|\u51fa\u529b)(?:\u306b\u3064\u3044\u3066|\u306b\u95a2\u3057\u3066)(?:\u3054\u78ba\u8a8d|\u78ba\u8a8d)(?:\u3044\u305f\u3060\u304d|\u3057\u3066)(?:\u305f\u3044|\u304f\u3060\u3055\u3044|\u304a\u9858\u3044\u3057\u307e\u3059) *)
definition rx_L367 :: pattern where
  "rx_L367 = Rx 1 (Seq [Opt (One (InSet [CChar 12300])), Grp 1 (PlusLazy AnyChar), Opt (One (InSet
     [CChar 12301])), Alt [Str [12364], Str [12398]], Alt [Str [34920, 31034], Str [20986,
     21147]], Alt [Str [12395, 12388, 12356, 12390], Str [12395, 38306, 12375, 12390]], Alt [Str
     [12372, 30906, 35469], Str [30906, 35469]], Alt [Str [12356, 12383, 12384, 12365], Str
     [12375, 12390]], Alt [Str [12383, 12356], Str [12367, 12384, 12373, 12356], Str [12362,
     39000, 12356, 12375, 12414, 12377]]])"

(* assertions.py line 369: [\u300c]?(.+?)[\u300d]?(?:\u306e|\u304c)(?:\u8868\u793a\u72b6\u6cc1|\u5b58\u5728\u78ba\u8a8d)(?:\u306b\u3064\u3044\u3066|\u306b\u95a2\u3057\u3066)(?:\u304a\u8abf\u3079|\u8abf\u67fb)(?:\u3044\u305f\u3060\u304d|\u3057\u3066)(?:\u305f\u3044|\u304f\u3060\u3055\u3044) *)
definition rx_L369 :: pattern where
  "rx_L369 = Rx 1 (Seq [Opt (One (InSet [CChar 12300])), Grp 1 (PlusLazy AnyChar), Opt (One (InSet
     [CChar 12301])), Alt [Str [12398], Str [12364]], Alt [Str [34920, 31034, 29366, 27841], Str
     [23384, 22312, 30906, 35469]], Alt [Str [12395, 12388, 12356, 12390], Str [12395, 38306,
     12375, 12390]], Alt [Str [12362, 35519, 12409], Str [35519, 26619]], Alt [Str [12356,
     12383, 12384, 12365], Str [12375, 12390]], Alt [Str [12383, 12356], Str [12367, 12384,
     12373, 12356]]])"

(* assertions.py line 373: [\u300c]?(.+?)[\u300d]?(?:\u304c|\u306e)(?:\u8868\u793a|\u5b58\u5728)(?:\u306b\u3064\u3044\u3066|\u306b\u95a2\u3057\u3066)(?:\u62dd\u898b|\u78ba\u8a8d)(?:\u3055\u305b\u3066|\u3057\u3066)(?:\u3044\u305f\u3060\u304d|)(?:\u305f\u3044|\u307e\u3059) *)
definition rx_L373 :: pattern where
  "rx_L373 = Rx 1 (Seq [Opt (One (InSet [CChar 12300])), Grp 1 (PlusLazy AnyChar), Opt (One (InSet
     [CChar 12301])), Alt [Str [12364], Str [12398]], Alt [Str [34920, 31034], Str [23384,
     22312]], Alt [Str [12395, 12388, 12356, 12390], Str [12395, 38306, 12375, 12390]], Alt [Str
     [25309, 35211], Str [30906, 35469]], Alt [Str [12373, 12379, 12390], Str [12375, 12390]],
     Alt [Str [12356, 12383, 12384, 12365], Seq []], Alt [Str [12383, 12356], Str [12414,
     12377]]])"

(* assertions.py line 375: [\u300c]?(.+?)[\u300d]?(?:\u306e|\u304c)(?:\u8868\u793a\u78ba\u8a8d|\u5b58\u5728\u78ba\u8a8d)(?:\u3092|\u306b\u3064\u3044\u3066)(?:\u5b9f\u65bd|\u884c\u308f)(?:\u305b\u3066|\u3057\u3066)(?:\u3044\u305f\u3060\u304d|)(?:\u305f\u3044|\u307e\u3059) *)
definition rx_L375 :: pattern where
  "rx_L375 = Rx 1 (Seq [Opt (One (InSet [CChar 12300])), Grp 1 (PlusLazy AnyChar), Opt (One (InSet
     [CChar 12301])), Alt [Str [12398], Str [12364]], Alt [Str [34920, 31034, 30906, 35469], Str
     [23384, 22312, 30906, 35469]], Alt [Str [12434], Str [12395, 12388, 12356, 12390]], Alt
     [Str [23455, 26045], Str [34892, 12431]], Alt [Str [12379, 12390], Str [12375, 12390]], Alt
     [Str [12356, 12383, 12384, 12365], Seq []], Alt [Str [12383, 12356], Str [12414, 12377]]])"

(* assertions.py line 381: (?:\u73fe\u5728\u8868\u793a\u4e2d|\u8868\u793a\u3055\u308c\u3066\u3044\u308b|\u30a2\u30af\u30bb\u30b9\u4e2d)(?:\u306e|\u3057\u3066\u3044\u308b)(?:URL|\u30a2\u30c9\u30ec\u30b9|\u30da\u30fc\u30b8)(?:\u304c|\u306b|\u3067)[\u300c]?(.+?)[\u300d]?(?:\u304c|\u3092)(?:\u542b\u3093\u3067|\u542b\u6709\u3057\u3066|\u5185\u5305\u3057\u3066)(?:\u3044\u308b|\u3044\u308b\u3053\u3068)(?:\u3092|\u306b\u3064\u3044\u3066)(?:\u78ba\u8a8d|\u691c\u8a3c|\u30c1\u30a7\u30c3\u30af) *)
definition rx_L381 :: pattern where
  "rx_L381 = Rx 1 (Seq [Alt [Str [29694, 22312, 34920, 31034, 20013], Str [34920, 31034, 12373,
     12428, 12390, 12356, 12427], Str [12450, 12463, 12475, 12473, 20013]], Alt [Str [12398],
     Str [12375, 12390, 12356, 12427]], Alt [Str [85, 82, 76], Str [12450, 12489, 12524, 12473],
     Str [12506, 12540, 12472]], Alt [Str [12364], Str [12395], Str [12391]], Opt (One (InSet
     [CChar 12300])), Grp 1 (PlusLazy AnyChar), Opt (One (InSet [CChar 12301])), Alt [Str
     [12364], Str [12434]], Alt [Str [21547, 12435, 12391], Str [21547, 26377, 12375, 12390],
     Str [20869, 21253, 12375, 12390]], Alt [Str [12356, 12427], Str [12356, 12427, 12371,
     12392]], Alt [Str [12434], Str [12395, 12388, 12356, 12390]], Alt [Str [30906, 35469], Str
     [26908, 35388], Str [12481, 12455, 12483, 12463]]])"

(* assertions.py line 383: (?:\u30d6\u30e9\u30a6\u30b6|\u753b\u9762)(?:\u306e|\u3067)(?:\u30a2\u30c9\u30ec\u30b9\u30d0\u30fc|URL\u6b04)(?:\u304c|\u306b|\u3067)[\u300c]?(.+?)[\u300d]?(?:\u3067|\u304b\u3089)(?:\u958b\u59cb|\u30b9\u30bf\u30fc\u30c8)(?:\u3057\u3066\u3044\u308b|\u3057\u3066\u308b)(?:\u78ba\u8a8d|\u691c\u8a3c) *)
definition rx_L383 :: pattern where
  "rx_L383 = Rx 1 (Seq [Alt [Str [12502, 12521, 12454, 12470], Str [30011, 38754]], Alt [Str
     [12398], Str [12391]], Alt [Str [12450, 12489, 12524, 12473, 12496, 12540], Str [85, 82,
     76, 27396]], Alt [Str [12364], Str [12395], Str [12391]], Opt (One (InSet [CChar 12300])),
     Grp 1 (PlusLazy AnyChar), Opt (One (InSet [CChar 12301])), Alt [Str [12391], Str [12363,
     12425]], Alt [Str [38283, 22987], Str [12473, 12479, 12540, 12488]], Alt [Str [12375,
     12390, 12356, 12427], Str [12375, 12390, 12427]], Alt [Str [30906, 35469], Str [26908,
     35388]]])"

(* assertions.py line 385: (?:Web\u30da\u30fc\u30b8\u306eURL|\u30b5\u30a4\u30c8\u30a2\u30c9\u30ec\u30b9)(?:\u304c|\u306f)[\u300c]?(.+?)[\u300d]?(?:\u3067|\u306b\u3066)(?:\u7d42\u4e86|\u7d42\u308f\u3063|\u5b8c\u4e86)(?:\u3057\u3066\u3044\u308b|\u3057\u3066\u308b)(?:\u78ba\u8a8d|\u691c\u8a3c) *)
definition rx_L385 :: pattern where
  "rx_L385 = Rx 1 (Seq [Alt [Str [87, 101, 98, 12506, 12540, 12472, 12398, 85, 82, 76], Str
     [12469, 12452, 12488, 12450, 12489, 12524, 12473]], Alt [Str [12364], Str [12399]], Opt
     (One (InSet [CChar 12300])), Grp 1 (PlusLazy AnyChar), Opt (One (InSet [CChar 12301])), Alt
     [Str [12391], Str [12395, 12390]], Alt [Str [32066, 20102], Str [32066, 12431, 12387], Str
     [23436, 20102]], Alt [Str [12375, 12390, 12356, 12427], Str [12375, 12390, 12427]], Alt
     [Str [30906, 35469], Str [26908, 35388]]])"

(* assertions.py line 389: (?:\u30d6\u30e9\u30a6\u30b6|\u30bf\u30d6)(?:\u306e|\u3067)(?:\u30bf\u30a4\u30c8\u30eb\u30d0\u30fc|\u984c\u540d\u6b04|\u30d8\u30c3\u30c0\u30fc)(?:\u304c|\u306b|\u3067)[\u300c]?(.+?)[\u300d]?(?:\u304c|\u3092)(?:\u542b\u3093\u3067|\u542b\u6709\u3057\u3066)(?:\u3044\u308b|\u3044\u308b\u3053\u3068)(?:\u78ba\u8a8d|\u691c\u8a3c) *)
definition rx_L389 :: pattern where
  "rx_L389 = Rx 1 (Seq [Alt [Str [12502, 12521, 12454, 12470], Str [12479, 12502]], Alt [Str
     [12398], Str [12391]], Alt [Str [12479, 12452, 12488, 12523, 12496, 12540], Str [38988,
     21517, 27396], Str [12504, 12483, 12480, 12540]], Alt [Str [12364], Str [12395], Str
     [12391]], Opt (One (InSet [CChar 12300])), Grp 1 (PlusLazy AnyChar), Opt (One (InSet [CChar
     12301])), Alt [Str [12364], Str [12434]], Alt [Str [21547, 12435, 12391], Str [21547,
     26377, 12375, 12390]], Alt [Str [12356, 12427], Str [12356, 12427, 12371, 12392]], Alt [Str
     [30906, 35469], Str [26908, 35388]]])"

(* assertions.py line 391: (?:Web\u30da\u30fc\u30b8|\u30b5\u30a4\u30c8)(?:\u306e|\u3067)(?:\u30e1\u30bf\u30bf\u30a4\u30c8\u30eb|\u30da\u30fc\u30b8\u30bf\u30a4\u30c8\u30eb)(?:\u304c|\u306f)[\u300c]?(.+?)[\u300d]?(?:\u3068|\u306b)(?:\u5b8c\u5168\u4e00\u81f4|\u6b63\u78ba\u306b\u4e00\u81f4)(?:\u3057\u3066\u3044\u308b|\u3057\u3066\u308b)(?:\u78ba\u8a8d|\u691c\u8a3c) *)
definition rx_L391 :: pattern where
  "rx_L391 = Rx 1 (Seq [Alt [Str [87, 101, 98, 12506, 12540, 12472], Str [12469, 12452, 12488]],
     Alt [Str [12398], Str [12391]], Alt [Str [12513, 12479, 12479, 12452, 12488, 12523], Str
     [12506, 12540, 12472, 12479, 12452, 12488, 12523]], Alt [Str [12364], Str [12399]], Opt
     (One (InSet [CChar 12300])), Grp 1 (PlusLazy AnyChar), Opt (One (InSet [CChar 12301])), Alt
     [Str [12392], Str [12395]], Alt [Str [23436, 20840, 19968, 33268], Str [27491, 30906,
     12395, 19968, 33268]], Alt [Str [12375, 12390, 12356, 12427], Str [12375, 12390, 12427]],
     Alt [Str [30906, 35469], Str [26908, 35388]]])"

(* assertions.py line 397: (?:yo|hey|ok|so),?\\s*(?:is|does)\\s*[\\"\'](.+?)[\\"\']\\s*(?:show up|appear|display|show)(?:\\s+(?:on|in)\\s+(?:the\\s+)?(?:page|screen))? *)
definition rx_L397 :: pattern where
  "rx_L397 = Rx 1 (Seq [Alt [Str [121, 111], Str [104, 101, 121], Str [111, 107], Str [115, 111]],
     Opt (Str [44]), Star (InSet [CSpace]), Alt [Str [105, 115], Str [100, 111, 101, 115]], Star
     (InSet [CSpace]), One (InSet [CChar 34, CChar 39]), Grp 1 (PlusLazy AnyChar), One (InSet
     [CChar 34, CChar 39]), Star (InSet [CSpace]), Alt [Str [115, 104, 111, 119, 32, 117, 112],
     Str [97, 112, 112, 101, 97, 114], Str [100, 105, 115, 112, 108, 97, 121], Str [115, 104,
     111, 119]], Opt (Seq [Plus (InSet [CSpace]), Alt [Str [111, 110], Str [105, 110]], Plus
     (InSet [CSpace]), Opt (Seq [Str [116, 104, 101], Plus (InSet [CSpace])]), Alt [Str [112,
     97, 103, 101], Str [115, 99, 114, 101, 101, 110]]])])"

(* assertions.py line 399: (?:can\\s+(?:you|i|we)|could\\s+(?:you|i|we))\\s*(?:see|find|spot|locate)\\s*[\\"\'](.+?)[\\"\'](?:\\s+(?:on|in)\\s+(?:the\\s+)?(?:page|screen))? *)
definition rx_L399 :: pattern where
  "rx_L399 = Rx 1 (Seq [Alt [Seq [Str [99, 97, 110], Plus (InSet [CSpace]), Alt [Str [121, 111,
     117], Str [105], Str [119, 101]]], Seq [Str [99, 111, 117, 108, 100], Plus (InSet
     [CSpace]), Alt [Str [121, 111, 117], Str [105], Str [119, 101]]]], Star (InSet [CSpace]),
     Alt [Str [115, 101, 101], Str [102, 105, 110, 100], Str [115, 112, 111, 116], Str [108,
     111, 99, 97, 116, 101]], Star (InSet [CSpace]), One (InSet [CChar 34, CChar 39]), Grp 1
     (PlusLazy AnyChar), One (InSet [CChar 34, CChar 39]), Opt (Seq [Plus (InSet [CSpace]), Alt
     [Str [111, 110], Str [105, 110]], Plus (InSet [CSpace]), Opt (Seq [Str [116, 104, 101],
     Plus (InSet [CSpace])]), Alt [Str [112, 97, 103, 101], Str [115, 99, 114, 101, 101,
     110]]])])"

(* assertions.py line 401: (?:looks like|seems like|appears that)\\s*[\\"\'](.+?)[\\"\']\\s*(?:is|shows|appears|displays)(?:\\s+(?:on|in)\\s+(?:the\\s+)?(?:page|screen))? *)
definition rx_L401 :: pattern where
  "rx_L401 = Rx 1 (Seq [Alt [Str [108, 111, 111, 107, 115, 32, 108, 105, 107, 101], Str [115, 101,
     101, 109, 115, 32, 108, 105, 107, 101], Str [97, 112, 112, 101, 97, 114, 115, 32, 116, 104,
     97, 116]], Star (InSet [CSpace]), One (InSet [CChar 34, CChar 39]), Grp 1 (PlusLazy
     AnyChar), One (InSet [CChar 34, CChar 39]), Star (InSet [CSpace]), Alt [Str [105, 115], Str
     [115, 104, 111, 119, 115], Str [97, 112, 112, 101, 97, 114, 115], Str [100, 105, 115, 112,
     108, 97, 121, 115]], Opt (Seq [Plus (InSet [CSpace]), Alt [Str [111, 110], Str [105, 110]],
     Plus (InSet [CSpace]), Opt (Seq [Str [116, 104, 101], Plus (InSet [CSpace])]), Alt [Str
     [112, 97, 103, 101], Str [115, 99, 114, 101, 101, 110]]])])"

(* assertions.py line 405: (?:please\\s+)?(?:validate|verify|confirm|check)\\s+(?:that\\s+)?(?:the\\s+)?(?:text|content|element)\\s+[\\"\'](.+?)[\\"\']\\s+(?:is\\s+)?(?:present|visible|displayed|shown) *)
definition rx_L405 :: pattern where
  "rx_L405 = Rx 1 (Seq [Opt (Seq [Str [112, 108, 101, 97, 115, 101], Plus (InSet [CSpace])]), Alt
     [Str [118, 97, 108, 105, 100, 97, 116, 101], Str [118, 101, 114, 105, 102, 121], Str [99,
     111, 110, 102, 105, 114, 109], Str [99, 104, 101, 99, 107]], Plus (InSet [CSpace]), Opt
     (Seq [Str [116, 104, 97, 116], Plus (InSet [CSpace])]), Opt (Seq [Str [116, 104, 101], Plus
     (InSet [CSpace])]), Alt [Str [116, 101, 120, 116], Str [99, 111, 110, 116, 101, 110, 116],
     Str [101, 108, 101, 109, 101, 110, 116]], Plus (InSet [CSpace]), One (InSet [CChar 34,
     CChar 39]), Grp 1 (PlusLazy AnyChar), One (InSet [CChar 34, CChar 39]), Plus (InSet
     [CSpace]), Opt (Seq [Str [105, 115], Plus (InSet [CSpace])]), Alt [Str [112, 114, 101, 115,
     101, 110, 116], Str [118, 105, 115, 105, 98, 108, 101], Str [100, 105, 115, 112, 108, 97,
     121, 101, 100], Str [115, 104, 111, 119, 110]]])"

(* assertions.py line 407: (?:we\\s+(?:need|must|should)\\s+to\\s+)?(?:ensure|verify|confirm)\\s+(?:that\\s+)?[\\"\'](.+?)[\\"\']\\s+(?:appears|shows|displays|is\\s+visible) *)
definition rx_L407 :: pattern where
  "rx_L407 = Rx 1 (Seq [Opt (Seq [Str [119, 101], Plus (InSet [CSpace]), Alt [Str [110, 101, 101,
     100], Str [109, 117, 115, 116], Str [115, 104, 111, 117, 108, 100]], Plus (InSet [CSpace]),
     Str [116, 111], Plus (InSet [CSpace])]), Alt [Str [101, 110, 115, 117, 114, 101], Str [118,
     101, 114, 105, 102, 121], Str [99, 111, 110, 102, 105, 114, 109]], Plus (InSet [CSpace]),
     Opt (Seq [Str [116, 104, 97, 116], Plus (InSet [CSpace])]), One (InSet [CChar 34, CChar
     39]), Grp 1 (PlusLazy AnyChar), One (InSet [CChar 34, CChar 39]), Plus (InSet [CSpace]),
     Alt [Str [97, 112, 112, 101, 97, 114, 115], Str [115, 104, 111, 119, 115], Str [100, 105,
     115, 112, 108, 97, 121, 115], Seq [Str [105, 115], Plus (InSet [CSpace]), Str [118, 105,
     115, 105, 98, 108, 101]]]])"

(* assertions.py line 409: (?:it\\s+is\\s+)?(?:required|necessary|essential)\\s+(?:that\\s+)?[\\"\'](.+?)[\\"\']\\s+(?:be|is)\\s+(?:present|visible|displayed) *)
definition rx_L409 :: pattern where
  "rx_L409 = Rx 1 (Seq [Opt (Seq [Str [105, 116], Plus (InSet [CSpace]), Str [105, 115], Plus
     (InSet [CSpace])]), Alt [Str [114, 101, 113, 117, 105, 114, 101, 100], Str [110, 101, 99,
     101, 115, 115, 97, 114, 121], Str [101, 115, 115, 101, 110, 116, 105, 97, 108]], Plus
     (InSet [CSpace]), Opt (Seq [Str [116, 104, 97, 116], Plus (InSet [CSpace])]), One (InSet
     [CChar 34, CChar 39]), Grp 1 (PlusLazy AnyChar), One (InSet [CChar 34, CChar 39]), Plus
     (InSet [CSpace]), Alt [Str [98, 101], Str [105, 115]], Plus (InSet [CSpace]), Alt [Str
     [112, 114, 101, 115, 101, 110, 116], Str [118, 105, 115, 105, 98, 108, 101], Str [100, 105,
     115, 112, 108, 97, 121, 101, 100]]])"

(* assertions.py line 413: (?:do\\s+(?:you|we)|can\\s+(?:you|we)|should\\s+(?:we|i))\\s+(?:see|find|verify|check)\\s+(?:if\\s+)?[\\"\'](.+?)[\\"\']\\s+(?:is\\s+)?(?:there|present|visible|shown) *)
definition rx_L413 :: pattern where
  "rx_L413 = Rx 1 (Seq [Alt [Seq [Str [100, 111], Plus (InSet [CSpace]), Alt [Str [121, 111, 117],
     Str [119, 101]]], Seq [Str [99, 97, 110], Plus (InSet [CSpace]), Alt [Str [121, 111, 117],
     Str [119, 101]]], Seq [Str [115, 104, 111, 117, 108, 100], Plus (InSet [CSpace]), Alt [Str
     [119, 101], Str [105]]]], Plus (InSet [CSpace]), Alt [Str [115, 101, 101], Str [102, 105,
     110, 100], Str [118, 101, 114, 105, 102, 121], Str [99, 104, 101, 99, 107]], Plus (InSet
     [CSpace]), Opt (Seq [Str [105, 102], Plus (InSet [CSpace])]), One (InSet [CChar 34, CChar
     39]), Grp 1 (PlusLazy AnyChar), One (InSet [CChar 34, CChar 39]), Plus (InSet [CSpace]),
     Opt (Seq [Str [105, 115], Plus (InSet [CSpace])]), Alt [Str [116, 104, 101, 114, 101], Str
     [112, 114, 101, 115, 101, 110, 116], Str [118, 105, 115, 105, 98, 108, 101], Str [115, 104,
     111, 119, 110]]])"

(* assertions.py line 415: (?:is|are|does)\\s+[\\"\'](.+?)[\\"\']\\s+(?:currently\\s+)?(?:showing|displayed|visible|present)(?:\\s+(?:on|in)\\s+(?:the\\s+)?(?:page|screen))? *)
definition rx_L415 :: pattern where
  "rx_L415 = Rx 1 (Seq [Alt [Str [105, 115], Str [97, 114, 101], Str [100, 111, 101, 115]], Plus
     (InSet [CSpace]), One (InSet [CChar 34, CChar 39]), Grp 1 (PlusLazy AnyChar), One (InSet
     [CChar 34, CChar 39]), Plus (InSet [CSpace]), Opt (Seq [Str [99, 117, 114, 114, 101, 110,
     116, 108, 121], Plus (InSet [CSpace])]), Alt [Str [115, 104, 111, 119, 105, 110, 103], Str
     [100, 105, 115, 112, 108, 97, 121, 101, 100], Str [118, 105, 115, 105, 98, 108, 101], Str
     [112, 114, 101, 115, 101, 110, 116]], Opt (Seq [Plus (InSet [CSpace]), Alt [Str [111, 110],
     Str [105, 110]], Plus (InSet [CSpace]), Opt (Seq [Str [116, 104, 101], Plus (InSet
     [CSpace])]), Alt [Str [112, 97, 103, 101], Str [115, 99, 114, 101, 101, 110]]])])"

(* assertions.py line 421: (?:\u770b\u770b|\u7785\u7785|\u77a7\u77a7)[\\"\'](.+?)["\'](?:\u6709\u6ca1\u6709|\u662f\u5426)(?:\u663e\u793a|\u51fa\u73b0|\u5b58\u5728)(?:\u4e86|\u5462|\u5417|\u55ce)? *)
definition rx_L421 :: pattern where
  "rx_L421 = Rx 1 (Seq [Alt [Str [30475, 30475], Str [30597, 30597], Str [30631, 30631]], One
     (InSet [CChar 34, CChar 39]), Grp 1 (PlusLazy AnyChar), One (InSet [CChar 34, CChar 39]),
     Alt [Str [26377, 27809, 26377], Str [26159, 21542]], Alt [Str [26174, 31034], Str [20986,
     29616], Str [23384, 22312]], Opt (Alt [Str [20102], Str [21602], Str [21527], Str
     [21966]])])"

(* assertions.py line 423: [\\"\'](.+?)["\'](?:\u5e94\u8be5|\u5e94\u5f53|\u4f30\u8ba1|\u53ef\u80fd)(?:\u4f1a|\u8981)(?:\u663e\u793a|\u51fa\u73b0|\u5b58\u5728)(?:\u5427|\u5462|\u4e86)(?:\uff0c|,)?(?:\u68c0\u67e5|\u786e\u8ba4|\u9a8c\u8bc1)(?:\u4e00\u4e0b|\u4e0b) *)
definition rx_L423 :: pattern where
  "rx_L423 = Rx 1 (Seq [One (InSet [CChar 34, CChar 39]), Grp 1 (PlusLazy AnyChar), One (InSet
     [CChar 34, CChar 39]), Alt [Str [24212, 35813], Str [24212, 24403], Str [20272, 35745], Str
     [21487, 33021]], Alt [Str [20250], Str [35201]], Alt [Str [26174, 31034], Str [20986,
     29616], Str [23384, 22312]], Alt [Str [21543], Str [21602], Str [20102]], Opt (Alt [Str
     [65292], Str [44]]), Alt [Str [26816, 26597], Str [30830, 35748], Str [39564, 35777]], Alt
     [Str [19968, 19979], Str [19979]]])"

(* assertions.py line 427: (?:\u8bf7|\u8acb)(?:\u60a8|\u4f60\u4eec|\u5927\u5bb6)(?:\u534f\u52a9|\u5e2e\u52a9|\u5e2e\u5fd9)(?:\u786e\u8ba4|\u68c0\u67e5|\u9a8c\u8bc1)[\\"\'](.+?)["\'](?:\u7684|\u4e4b)(?:\u663e\u793a|\u5b58\u5728|\u51fa\u73b0)(?:\u60c5\u51b5|\u72b6\u6001|\u72b6\u51b5) *)
definition rx_L427 :: pattern where
  "rx_L427 = Rx 1 (Seq [Alt [Str [35831], Str [35531]], Alt [Str [24744], Str [20320, 20204], Str
     [22823, 23478]], Alt [Str [21327, 21161], Str [24110, 21161], Str [24110, 24537]], Alt [Str
     [30830, 35748], Str [26816, 26597], Str [39564, 35777]], One (InSet [CChar 34, CChar 39]),
     Grp 1 (PlusLazy AnyChar), One (InSet [CChar 34, CChar 39]), Alt [Str [30340], Str [20043]],
     Alt [Str [26174, 31034], Str [23384, 22312], Str [20986, 29616]], Alt [Str [24773, 20917],
     Str [29366, 24577], Str [29366, 20917]]])"

(* assertions.py line 429: (?:\u9700\u8981|\u5fc5\u987b|\u987b\u8981)(?:\u5bf9|\u9488\u5bf9)[\\"\'](.+?)["\'](?:\u8fdb\u884c|\u5f00\u5c55|\u5b9e\u65bd)(?:\u663e\u793a|\u5b58\u5728)(?:\u6027|\u72b6\u6001)(?:\u786e\u8ba4|\u68c0\u67e5|\u9a8c\u8bc1) *)
definition rx_L429 :: pattern where
  "rx_L429 = Rx 1 (Seq [Alt [Str [38656, 35201], Str [24517, 39035], Str [39035, 35201]], Alt [Str
     [23545], Str [38024, 23545]], One (InSet [CChar 34, CChar 39]), Grp 1 (PlusLazy AnyChar),
     One (InSet [CChar 34, CChar 39]), Alt [Str [36827, 34892], Str [24320, 23637], Str [23454,
     26045]], Alt [Str [26174, 31034], Str [23384, 22312]], Alt [Str [24615], Str [29366,
     24577]], Alt [Str [30830, 35748], Str [26816, 26597], Str [39564, 35777]]])"

(* assertions.py line 433: [\\"\'](.+?)["\'](?:\u6709|\u5728)(?:\u8fd9\u4e2a|\u8fd9|\u90a3\u4e2a|\u90a3)(?:\u9875\u9762|\u5c4f\u5e55|\u754c\u9762)(?:\u4e0a|\u91cc|\u4e2d)(?:\u663e\u793a|\u51fa\u73b0|\u5b58\u5728)(?:\u4e86|\u7740|\u5462|\u55ce)(?:\uff1f|?)? *)
definition rx_L433 :: pattern where
  "rx_L433 = NothingToRepeat 83"

(* assertions.py line 435: (?:\u4f60|\u60a8|\u5927\u5bb6)(?:\u80fd|\u53ef\u4ee5|\u4f1a)(?:\u770b\u5230|\u627e\u5230|\u53d1\u73b0)[\\"\'](.+?)["\'](?:\u5728|\u4e8e)(?:\u9875\u9762|\u5c4f\u5e55)(?:\u4e0a|\u4e2d)(?:\u663e\u793a|\u51fa\u73b0)(?:\u5417|\u55ce|\u5462)(?:\uff1f|?)? *)
definition rx_L435 :: pattern where
  "rx_L435 = NothingToRepeat 92"

(* assertions.py line 441: [\u300c]?(.+?)[\u300d]?(?:\u30dc\u30bf\u30f3|button|Button|\u6309\u94ae|\u6309\u9215)(?:\u304c|\u306f)(?:\u8868\u793a|\u5b58\u5728|\u30af\u30ea\u30c3\u30af\u53ef\u80fd|\u62bc\u305b\u308b|\u6709\u52b9)(?:\u306b\u306a\u3063\u3066|\u3067|\u306b)(?:\u3044\u308b|\u3044\u308b\u3053\u3068)(?:\u3092|\u306b\u3064\u3044\u3066)?(?:\u78ba\u8a8d|\u691c\u8a3c|\u30c1\u30a7\u30c3\u30af) *)
definition rx_L441 :: pattern where
  "rx_L441 = Rx 1 (Seq [Opt (One (InSet [CChar 12300])), Grp 1 (PlusLazy AnyChar), Opt (One (InSet
     [CChar 12301])), Alt [Str [12508, 12479, 12531], Str [98, 117, 116, 116, 111, 110], Str
     [66, 117, 116, 116, 111, 110], Str [25353, 38062], Str [25353, 37397]], Alt [Str [12364],
     Str [12399]], Alt [Str [34920, 31034], Str [23384, 22312], Str [12463, 12522, 12483, 12463,
     21487, 33021], Str [25276, 12379, 12427], Str [26377, 21177]], Alt [Str [12395, 12394,
     12387, 12390], Str [12391], Str [12395]], Alt [Str [12356, 12427], Str [12356, 12427,
     12371, 12392]], Opt (Alt [Str [12434], Str [12395, 12388, 12356, 12390]]), Alt [Str [30906,
     35469], Str [26908, 35388], Str [12481, 12455, 12483, 12463]]])"

(* assertions.py line 443: [\u300c]?(.+?)[\u300d]?(?:\u3092|\u306e)(?:\u30af\u30ea\u30c3\u30af|\u62bc\u3059|\u30bf\u30c3\u30d7|click)(?:\u3067\u304d\u308b|\u53ef\u80fd)(?:\u304b|\u304b\u3069\u3046\u304b)(?:\u78ba\u8a8d|\u691c\u8a3c|\u30c1\u30a7\u30c3\u30af) *)
definition rx_L443 :: pattern where
  "rx_L443 = Rx 1 (Seq [Opt (One (InSet [CChar 12300])), Grp 1 (PlusLazy AnyChar), Opt (One (InSet
     [CChar 12301])), Alt [Str [12434], Str [12398]], Alt [Str [12463, 12522, 12483, 12463], Str
     [25276, 12377], Str [12479, 12483, 12503], Str [99, 108, 105, 99, 107]], Alt [Str [12391,
     12365, 12427], Str [21487, 33021]], Alt [Str [12363], Str [12363, 12393, 12358, 12363]],
     Alt [Str [30906, 35469], Str [26908, 35388], Str [12481, 12455, 12483, 12463]]])"

(* assertions.py line 445: [\u300c]?(.+?)[\u300d]?(?:\u30dc\u30bf\u30f3|button)(?:\u304c|\u306f)(?:\u7121\u52b9|\u62bc\u305b\u306a\u3044|\u30af\u30ea\u30c3\u30af\u3067\u304d\u306a\u3044|disabled)(?:\u306b\u306a\u3063\u3066|\u3067)(?:\u3044\u308b|\u3044\u308b\u3053\u3068)(?:\u78ba\u8a8d|\u691c\u8a3c) *)
definition rx_L445 :: pattern where
  "rx_L445 = Rx 1 (Seq [Opt (One (InSet [CChar 12300])), Grp 1 (PlusLazy AnyChar), Opt (One (InSet
     [CChar 12301])), Alt [Str [12508, 12479, 12531], Str [98, 117, 116, 116, 111, 110]], Alt
     [Str [12364], Str [12399]], Alt [Str [28961, 21177], Str [25276, 12379, 12394, 12356], Str
     [12463, 12522, 12483, 12463, 12391, 12365, 12394, 12356], Str [100, 105, 115, 97, 98, 108,
     101, 100]], Alt [Str [12395, 12394, 12387, 12390], Str [12391]], Alt [Str [12356, 12427],
     Str [12356, 12427, 12371, 12392]], Alt [Str [30906, 35469], Str [26908, 35388]]])"

(* assertions.py line 449: [\u300c]?(.+?)[\u300d]?(?:\u30ea\u30f3\u30af|link|Link|\u94fe\u63a5|\u93c8\u63a5)(?:\u304c|\u306f)(?:\u8868\u793a|\u5b58\u5728|\u30af\u30ea\u30c3\u30af\u53ef\u80fd|\u6709\u52b9)(?:\u306b\u306a\u3063\u3066|\u3067|\u306b)(?:\u3044\u308b|\u3044\u308b\u3053\u3068)(?:\u3092|\u306b\u3064\u3044\u3066)?(?:\u78ba\u8a8d|\u691c\u8a3c|\u30c1\u30a7\u30c3\u30af) *)
definition rx_L449 :: pattern where
  "rx_L449 = Rx 1 (Seq [Opt (One (InSet [CChar 12300])), Grp 1 (PlusLazy AnyChar), Opt (One (InSet
     [CChar 12301])), Alt [Str [12522, 12531, 12463], Str [108, 105, 110, 107], Str [76, 105,
     110, 107], Str [38142, 25509], Str [37832, 25509]], Alt [Str [12364], Str [12399]], Alt
     [Str [34920, 31034], Str [23384, 22312], Str [12463, 12522, 12483, 12463, 21487, 33021],
     Str [26377, 21177]], Alt [Str [12395, 12394, 12387, 12390], Str [12391], Str [12395]], Alt
     [Str [12356, 12427], Str [12356, 12427, 12371, 12392]], Opt (Alt [Str [12434], Str [12395,
     12388, 12356, 12390]]), Alt [Str [30906, 35469], Str [26908, 35388], Str [12481, 12455,
     12483, 12463]]])"

(* assertions.py line 451: [\u300c]?(.+?)[\u300d]?(?:\u3078\u306e\u30ea\u30f3\u30af|\u306e\u30ea\u30f3\u30af|\u3078\u306e\u30ea\u30f3\u30af\u5148)(?:\u304c|\u306f)(?:\u6b63\u3057\u304f|\u9069\u5207\u306b)(?:\u8a2d\u5b9a|\u6a5f\u80fd)(?:\u3055\u308c\u3066|\u3057\u3066)(?:\u3044\u308b|\u3044\u308b\u3053\u3068)(?:\u78ba\u8a8d|\u691c\u8a3c) *)
definition rx_L451 :: pattern where
  "rx_L451 = Rx 1 (Seq [Opt (One (InSet [CChar 12300])), Grp 1 (PlusLazy AnyChar), Opt (One (InSet
     [CChar 12301])), Alt [Str [12408, 12398, 12522, 12531, 12463], Str [12398, 12522, 12531,
     12463], Str [12408, 12398, 12522, 12531, 12463, 20808]], Alt [Str [12364], Str [12399]],
     Alt [Str [27491, 12375, 12367], Str [36969, 20999, 12395]], Alt [Str [35373, 23450], Str
     [27231, 33021]], Alt [Str [12373, 12428, 12390], Str [12375, 12390]], Alt [Str [12356,
     12427], Str [12356, 12427, 12371, 12392]], Alt [Str [30906, 35469], Str [26908, 35388]]])"

(* assertions.py line 455: [\u300c]?(.+?)[\u300d]?(?:\u5165\u529b\u6b04|\u30d5\u30a3\u30fc\u30eb\u30c9|\u30c6\u30ad\u30b9\u30c8\u30dc\u30c3\u30af\u30b9|input|field)(?:\u304c|\u306f|\u306b)(?:\u7a7a|\u304b\u3089|empty|blank)(?:\u3067\u3042\u308b|\u306b\u306a\u3063\u3066|\u3067)(?:\u3044\u308b|\u3044\u308b\u3053\u3068)(?:\u78ba\u8a8d|\u691c\u8a3c) *)
definition rx_L455 :: pattern where
  "rx_L455 = Rx 1 (Seq [Opt (One (InSet [CChar 12300])), Grp 1 (PlusLazy AnyChar), Opt (One (InSet
     [CChar 12301])), Alt [Str [20837, 21147, 27396], Str [12501, 12451, 12540, 12523, 12489],
     Str [12486, 12461, 12473, 12488, 12508, 12483, 12463, 12473], Str [105, 110, 112, 117,
     116], Str [102, 105, 101, 108, 100]], Alt [Str [12364], Str [12399], Str [12395]], Alt [Str
     [31354], Str [12363, 12425], Str [101, 109, 112, 116, 121], Str [98, 108, 97, 110, 107]],
     Alt [Str [12391, 12354, 12427], Str [12395, 12394, 12387, 12390], Str [12391]], Alt [Str
     [12356, 12427], Str [12356, 12427, 12371, 12392]], Alt [Str [30906, 35469], Str [26908,
     35388]]])"

(* assertions.py line 457: [\u300c]?(.+?)[\u300d]?(?:\u5165\u529b\u6b04|\u30d5\u30a3\u30fc\u30eb\u30c9|\u30c6\u30ad\u30b9\u30c8\u30dc\u30c3\u30af\u30b9)(?:\u306b|\u3078)(?:\u4f55\u304b|\u5024|\u30c7\u30fc\u30bf)(?:\u304c|\u3092)(?:\u5165\u529b|\u8a2d\u5b9a)(?:\u3055\u308c\u3066|\u3067\u304d\u3066)(?:\u3044\u308b|\u3044\u308b\u3053\u3068)(?:\u78ba\u8a8d|\u691c\u8a3c) *)
definition rx_L457 :: pattern where
  "rx_L457 = Rx 1 (Seq [Opt (One (InSet [CChar 12300])), Grp 1 (PlusLazy AnyChar), Opt (One (InSet
     [CChar 12301])), Alt [Str [20837, 21147, 27396], Str [12501, 12451, 12540, 12523, 12489],
     Str [12486, 12461, 12473, 12488, 12508, 12483, 12463, 12473]], Alt [Str [12395], Str
     [12408]], Alt [Str [20309, 12363], Str [20516], Str [12487, 12540, 12479]], Alt [Str
     [12364], Str [12434]], Alt [Str [20837, 21147], Str [35373, 23450]], Alt [Str [12373,
     12428, 12390], Str [12391, 12365, 12390]], Alt [Str [12356, 12427], Str [12356, 12427,
     12371, 12392]], Alt [Str [30906, 35469], Str [26908, 35388]]])"

(* assertions.py line 461: [\u300c]?(.+?)[\u300d]?(?:\u30d7\u30eb\u30c0\u30a6\u30f3|\u30c9\u30ed\u30c3\u30d7\u30c0\u30a6\u30f3|\u30bb\u30ec\u30af\u30c8\u30dc\u30c3\u30af\u30b9|select)(?:\u3067|\u304b\u3089)[\u300c]?(.+?)[\u300d]?(?:\u304c|\u3092)(?:\u9078\u629e|\u9078\u3070\u308c\u3066)(?:\u3044\u308b|\u3044\u308b\u3053\u3068)(?:\u78ba\u8a8d|\u691c\u8a3c) *)
definition rx_L461 :: pattern where
  "rx_L461 = Rx 2 (Seq [Opt (One (InSet [CChar 12300])), Grp 1 (PlusLazy AnyChar), Opt (One (InSet
     [CChar 12301])), Alt [Str [12503, 12523, 12480, 12454, 12531], Str [12489, 12525, 12483,
     12503, 12480, 12454, 12531], Str [12475, 12524, 12463, 12488, 12508, 12483, 12463, 12473],
     Str [115, 101, 108, 101, 99, 116]], Alt [Str [12391], Str [12363, 12425]], Opt (One (InSet
     [CChar 12300])), Grp 2 (PlusLazy AnyChar), Opt (One (InSet [CChar 12301])), Alt [Str
     [12364], Str [12434]], Alt [Str [36984, 25246], Str [36984, 12400, 12428, 12390]], Alt [Str
     [12356, 12427], Str [12356, 12427, 12371, 12392]], Alt [Str [30906, 35469], Str [26908,
     35388]]])"

(* assertions.py line 463: [\u300c]?(.+?)[\u300d]?(?:\u306e\u9078\u629e\u80a2|\u306e\u30aa\u30d7\u30b7\u30e7\u30f3)(?:\u306b|\u3067)[\u300c]?(.+?)[\u300d]?(?:\u304c|\u3092)(?:\u542b\u307e\u308c\u3066|\u5b58\u5728\u3057\u3066)(?:\u3044\u308b|\u3044\u308b\u3053\u3068)(?:\u78ba\u8a8d|\u691c\u8a3c) *)
definition rx_L463 :: pattern where
  "rx_L463 = Rx 2 (Seq [Opt (One (InSet [CChar 12300])), Grp 1 (PlusLazy AnyChar), Opt (One (InSet
     [CChar 12301])), Alt [Str [12398, 36984, 25246, 32930], Str [12398, 12458, 12503, 12471,
     12519, 12531]], Alt [Str [12395], Str [12391]], Opt (One (InSet [CChar 12300])), Grp 2
     (PlusLazy AnyChar), Opt (One (InSet [CChar 12301])), Alt [Str [12364], Str [12434]], Alt
     [Str [21547, 12414, 12428, 12390], Str [23384, 22312, 12375, 12390]], Alt [Str [12356,
     12427], Str [12356, 12427, 12371, 12392]], Alt [Str [30906, 35469], Str [26908, 35388]]])"

(* assertions.py line 469: (?:\u30da\u30fc\u30b8|\u753b\u9762|\u30b5\u30a4\u30c8)(?:\u304c|\u306e)(?:\u8aad\u307f\u8fbc\u307f\u4e2d|\u30ed\u30fc\u30c7\u30a3\u30f3\u30b0\u4e2d|loading|\u8f09\u5165\u4e2d)(?:\u3067\u306a\u3044|\u3067\u306f\u306a\u3044)(?:\u3053\u3068|\u3053\u3068\u3092)(?:\u78ba\u8a8d|\u691c\u8a3c) *)
definition rx_L469 :: pattern where
  "rx_L469 = Rx 0 (Seq [Alt [Str [12506, 12540, 12472], Str [30011, 38754], Str [12469, 12452,
     12488]], Alt [Str [12364], Str [12398]], Alt [Str [35501, 12415, 36796, 12415, 20013], Str
     [12525, 12540, 12487, 12451, 12531, 12464, 20013], Str [108, 111, 97, 100, 105, 110, 103],
     Str [36617, 20837, 20013]], Alt [Str [12391, 12394, 12356], Str [12391, 12399, 12394,
     12356]], Alt [Str [12371, 12392], Str [12371, 12392, 12434]], Alt [Str [30906, 35469], Str
     [26908, 35388]]])"

(* assertions.py line 471: (?:\u30ed\u30fc\u30c7\u30a3\u30f3\u30b0|\u8aad\u307f\u8fbc\u307f|\u30b9\u30d4\u30ca\u30fc|spinner)(?:\u304c|\u306f)(?:\u6d88\u3048\u3066|\u7d42\u308f\u3063\u3066|\u5b8c\u4e86\u3057\u3066)(?:\u3044\u308b|\u3044\u308b\u3053\u3068)(?:\u78ba\u8a8d|\u691c\u8a3c) *)
definition rx_L471 :: pattern where
  "rx_L471 = Rx 0 (Seq [Alt [Str [12525, 12540, 12487, 12451, 12531, 12464], Str [35501, 12415,
     36796, 12415], Str [12473, 12500, 12490, 12540], Str [115, 112, 105, 110, 110, 101, 114]],
     Alt [Str [12364], Str [12399]], Alt [Str [28040, 12360, 12390], Str [32066, 12431, 12387,
     12390], Str [23436, 20102, 12375, 12390]], Alt [Str [12356, 12427], Str [12356, 12427,
     12371, 12392]], Alt [Str [30906, 35469], Str [26908, 35388]]])"

(* assertions.py line 475: (?:\u30a8\u30e9\u30fc|error|Error|\u9519\u8bef|\u932f\u8aa4)(?:\u30e1\u30c3\u30bb\u30fc\u30b8|\u8868\u793a|\u753b\u9762)(?:\u304c|\u306f)(?:\u51fa\u3066|\u8868\u793a\u3055\u308c\u3066)(?:\u3044\u306a\u3044|\u306a\u3044)(?:\u3053\u3068|\u3053\u3068\u3092)(?:\u78ba\u8a8d|\u691c\u8a3c) *)
definition rx_L475 :: pattern where
  "rx_L475 = Rx 0 (Seq [Alt [Str [12456, 12521, 12540], Str [101, 114, 114, 111, 114], Str [69,
     114, 114, 111, 114], Str [38169, 35823], Str [37679, 35492]], Alt [Str [12513, 12483,
     12475, 12540, 12472], Str [34920, 31034], Str [30011, 38754]], Alt [Str [12364], Str
     [12399]], Alt [Str [20986, 12390], Str [34920, 31034, 12373, 12428, 12390]], Alt [Str
     [12356, 12394, 12356], Str [12394, 12356]], Alt [Str [12371, 12392], Str [12371, 12392,
     12434]], Alt [Str [30906, 35469], Str [26908, 35388]]])"

(* assertions.py line 477: (?:\u8b66\u544a|warning|Warning|\u8b66\u544a\u4fe1\u606f)(?:\u304c|\u306f)(?:\u8868\u793a\u3055\u308c\u3066|\u51fa\u3066)(?:\u3044\u306a\u3044|\u306a\u3044)(?:\u3053\u3068|\u3053\u3068\u3092)(?:\u78ba\u8a8d|\u691c\u8a3c) *)
definition rx_L477 :: pattern where
  "rx_L477 = Rx 0 (Seq [Alt [Str [35686, 21578], Str [119, 97, 114, 110, 105, 110, 103], Str [87,
     97, 114, 110, 105, 110, 103], Str [35686, 21578, 20449, 24687]], Alt [Str [12364], Str
     [12399]], Alt [Str [34920, 31034, 12373, 12428, 12390], Str [20986, 12390]], Alt [Str
     [12356, 12394, 12356], Str [12394, 12356]], Alt [Str [12371, 12392], Str [12371, 12392,
     12434]], Alt [Str [30906, 35469], Str [26908, 35388]]])"

(* assertions.py line 481: (?:\u6210\u529f|success|Success|\u6210\u529f\u4fe1\u606f)(?:\u30e1\u30c3\u30bb\u30fc\u30b8|\u8868\u793a)(?:\u304c|\u306f)(?:\u8868\u793a\u3055\u308c\u3066|\u51fa\u3066)(?:\u3044\u308b|\u3044\u308b\u3053\u3068)(?:\u78ba\u8a8d|\u691c\u8a3c) *)
definition rx_L481 :: pattern where
  "rx_L481 = Rx 0 (Seq [Alt [Str [25104, 21151], Str [115, 117, 99, 99, 101, 115, 115], Str [83,
     117, 99, 99, 101, 115, 115], Str [25104, 21151, 20449, 24687]], Alt [Str [12513, 12483,
     12475, 12540, 12472], Str [34920, 31034]], Alt [Str [12364], Str [12399]], Alt [Str [34920,
     31034, 12373, 12428, 12390], Str [20986, 12390]], Alt [Str [12356, 12427], Str [12356,
     12427, 12371, 12392]], Alt [Str [30906, 35469], Str [26908, 35388]]])"

(* assertions.py line 483: (?:\u5b8c\u4e86|\u5b8c\u6210|complete|Complete)(?:\u30e1\u30c3\u30bb\u30fc\u30b8|\u8868\u793a|\u753b\u9762)(?:\u304c|\u306f)(?:\u8868\u793a\u3055\u308c\u3066|\u51fa\u3066)(?:\u3044\u308b|\u3044\u308b\u3053\u3068)(?:\u78ba\u8a8d|\u691c\u8a3c) *)
definition rx_L483 :: pattern where
  "rx_L483 = Rx 0 (Seq [Alt [Str [23436, 20102], Str [23436, 25104], Str [99, 111, 109, 112, 108,
     101, 116, 101], Str [67, 111, 109, 112, 108, 101, 116, 101]], Alt [Str [12513, 12483,
     12475, 12540, 12472], Str [34920, 31034], Str [30011, 38754]], Alt [Str [12364], Str
     [12399]], Alt [Str [34920, 31034, 12373, 12428, 12390], Str [20986, 12390]], Alt [Str
     [12356, 12427], Str [12356, 12427, 12371, 12392]], Alt [Str [30906, 35469], Str [26908,
     35388]]])"

(* assertions.py line 489: [\u300c]?(.+?)[\u300d]?(?:\u753b\u50cf|\u30a4\u30e1\u30fc\u30b8|image|Image|\u56fe\u7247|\u5716\u7247)(?:\u304c|\u306f)(?:\u8868\u793a|\u30ed\u30fc\u30c9|\u8aad\u307f\u8fbc\u307e\u308c\u3066)(?:\u3044\u308b|\u3044\u308b\u3053\u3068)(?:\u78ba\u8a8d|\u691c\u8a3c) *)
definition rx_L489 :: pattern where
  "rx_L489 = Rx 1 (Seq [Opt (One (InSet [CChar 12300])), Grp 1 (PlusLazy AnyChar), Opt (One (InSet
     [CChar 12301])), Alt [Str [30011, 20687], Str [12452, 12513, 12540, 12472], Str [105, 109,
     97, 103, 101], Str [73, 109, 97, 103, 101], Str [22270, 29255], Str [22294, 29255]], Alt
     [Str [12364], Str [12399]], Alt [Str [34920, 31034], Str [12525, 12540, 12489], Str [35501,
     12415, 36796, 12414, 12428, 12390]], Alt [Str [12356, 12427], Str [12356, 12427, 12371,
     12392]], Alt [Str [30906, 35469], Str [26908, 35388]]])"

(* assertions.py line 491: (?:\u30a2\u30a4\u30b3\u30f3|icon|Icon)(?:\u306e|\u3067)[\u300c]?(.+?)[\u300d]?(?:\u304c|\u306f)(?:\u8868\u793a|\u898b\u3048\u3066)(?:\u3044\u308b|\u3044\u308b\u3053\u3068)(?:\u78ba\u8a8d|\u691c\u8a3c) *)
definition rx_L491 :: pattern where
  "rx_L491 = Rx 1 (Seq [Alt [Str [12450, 12452, 12467, 12531], Str [105, 99, 111, 110], Str [73,
     99, 111, 110]], Alt [Str [12398], Str [12391]], Opt (One (InSet [CChar 12300])), Grp 1
     (PlusLazy AnyChar), Opt (One (InSet [CChar 12301])), Alt [Str [12364], Str [12399]], Alt
     [Str [34920, 31034], Str [35211, 12360, 12390]], Alt [Str [12356, 12427], Str [12356,
     12427, 12371, 12392]], Alt [Str [30906, 35469], Str [26908, 35388]]])"

(* assertions.py line 495: (?:\u52d5\u753b|\u30d3\u30c7\u30aa|video|Video|\u89c6\u9891|\u8996\u983b)(?:\u304c|\u306f)(?:\u518d\u751f\u53ef\u80fd|\u518d\u751f\u3067\u304d\u308b|playable)(?:\u306a\u72b6\u614b|\u3067)(?:\u3042\u308b|\u3044\u308b)(?:\u78ba\u8a8d|\u691c\u8a3c) *)
definition rx_L495 :: pattern where
  "rx_L495 = Rx 0 (Seq [Alt [Str [21205, 30011], Str [12499, 12487, 12458], Str [118, 105, 100,
     101, 111], Str [86, 105, 100, 101, 111], Str [35270, 39057], Str [35222, 38971]], Alt [Str
     [12364], Str [12399]], Alt [Str [20877, 29983, 21487, 33021], Str [20877, 29983, 12391,
     12365, 12427], Str [112, 108, 97, 121, 97, 98, 108, 101]], Alt [Str [12394, 29366, 24907],
     Str [12391]], Alt [Str [12354, 12427], Str [12356, 12427]], Alt [Str [30906, 35469], Str
     [26908, 35388]]])"

(* assertions.py line 497: (?:\u52d5\u753b|\u30d3\u30c7\u30aa|video)(?:\u30d7\u30ec\u30a4\u30e4\u30fc|player)(?:\u304c|\u306f)(?:\u8868\u793a|\u30ed\u30fc\u30c9)(?:\u3055\u308c\u3066|\u3057\u3066)(?:\u3044\u308b|\u3044\u308b\u3053\u3068)(?:\u78ba\u8a8d|\u691c\u8a3c) *)
definition rx_L497 :: pattern where
  "rx_L497 = Rx 0 (Seq [Alt [Str [21205, 30011], Str [12499, 12487, 12458], Str [118, 105, 100,
     101, 111]], Alt [Str [12503, 12524, 12452, 12516, 12540], Str [112, 108, 97, 121, 101,
     114]], Alt [Str [12364], Str [12399]], Alt [Str [34920, 31034], Str [12525, 12540, 12489]],
     Alt [Str [12373, 12428, 12390], Str [12375, 12390]], Alt [Str [12356, 12427], Str [12356,
     12427, 12371, 12392]], Alt [Str [30906, 35469], Str [26908, 35388]]])"

(* assertions.py line 503: (?:\u30c6\u30fc\u30d6\u30eb|\u8868|table|Table)(?:\u306b|\u3067)[\u300c]?(.+?)[\u300d]?(?:\u3068\u3044\u3046|\u306e)(?:\u30c7\u30fc\u30bf|\u884c|\u5217)(?:\u304c|\u306f)(?:\u8868\u793a|\u542b\u307e\u308c\u3066)(?:\u3044\u308b|\u3044\u308b\u3053\u3068)(?:\u78ba\u8a8d|\u691c\u8a3c) *)
definition rx_L503 :: pattern where
  "rx_L503 = Rx 1 (Seq [Alt [Str [12486, 12540, 12502, 12523], Str [34920], Str [116, 97, 98, 108,
     101], Str [84, 97, 98, 108, 101]], Alt [Str [12395], Str [12391]], Opt (One (InSet [CChar
     12300])), Grp 1 (PlusLazy AnyChar), Opt (One (InSet [CChar 12301])), Alt [Str [12392,
     12356, 12358], Str [12398]], Alt [Str [12487, 12540, 12479], Str [34892], Str [21015]], Alt
     [Str [12364], Str [12399]], Alt [Str [34920, 31034], Str [21547, 12414, 12428, 12390]], Alt
     [Str [12356, 12427], Str [12356, 12427, 12371, 12392]], Alt [Str [30906, 35469], Str
     [26908, 35388]]])"

(* assertions.py line 505: (?:\u30c6\u30fc\u30d6\u30eb|\u8868)(?:\u306e|\u3067)(?:\u884c\u6570|\u30ec\u30b3\u30fc\u30c9\u6570|\u4ef6\u6570)(?:\u304c|\u306f)(\\d+)(?:\u4ef6|\u884c|\u500b)(?:\u3067\u3042\u308b|\u306b\u306a\u3063\u3066)(?:\u3044\u308b|\u3044\u308b\u3053\u3068)(?:\u78ba\u8a8d|\u691c\u8a3c) *)
definition rx_L505 :: pattern where
  "rx_L505 = Rx 1 (Seq [Alt [Str [12486, 12540, 12502, 12523], Str [34920]], Alt [Str [12398], Str
     [12391]], Alt [Str [34892, 25968], Str [12524, 12467, 12540, 12489, 25968], Str [20214,
     25968]], Alt [Str [12364], Str [12399]], Grp 1 (Plus (InSet [CDigit])), Alt [Str [20214],
     Str [34892], Str [20491]], Alt [Str [12391, 12354, 12427], Str [12395, 12394, 12387,
     12390]], Alt [Str [12356, 12427], Str [12356, 12427, 12371, 12392]], Alt [Str [30906,
     35469], Str [26908, 35388]]])"

(* assertions.py line 509: (?:\u30ea\u30b9\u30c8|\u4e00\u89a7|list|List)(?:\u306b|\u3067)[\u300c]?(.+?)[\u300d]?(?:\u304c|\u306f)(?:\u542b\u307e\u308c\u3066|\u8868\u793a\u3055\u308c\u3066)(?:\u3044\u308b|\u3044\u308b\u3053\u3068)(?:\u78ba\u8a8d|\u691c\u8a3c) *)
definition rx_L509 :: pattern where
  "rx_L509 = Rx 1 (Seq [Alt [Str [12522, 12473, 12488], Str [19968, 35239], Str [108, 105, 115,
     116], Str [76, 105, 115, 116]], Alt [Str [12395], Str [12391]], Opt (One (InSet [CChar
     12300])), Grp 1 (PlusLazy AnyChar), Opt (One (InSet [CChar 12301])), Alt [Str [12364], Str
     [12399]], Alt [Str [21547, 12414, 12428, 12390], Str [34920, 31034, 12373, 12428, 12390]],
     Alt [Str [12356, 12427], Str [12356, 12427, 12371, 12392]], Alt [Str [30906, 35469], Str
     [26908, 35388]]])"

(* assertions.py line 511: (?:\u30ea\u30b9\u30c8|\u4e00\u89a7)(?:\u306e|\u3067)(?:\u9805\u76ee\u6570|\u30a2\u30a4\u30c6\u30e0\u6570)(?:\u304c|\u306f)(\\d+)(?:\u500b|\u4ef6|\u3064)(?:\u3067\u3042\u308b|\u306b\u306a\u3063\u3066)(?:\u3044\u308b|\u3044\u308b\u3053\u3068)(?:\u78ba\u8a8d|\u691c\u8a3c) *)
definition rx_L511 :: pattern where
  "rx_L511 = Rx 1 (Seq [Alt [Str [12522, 12473, 12488], Str [19968, 35239]], Alt [Str [12398], Str
     [12391]], Alt [Str [38917, 30446, 25968], Str [12450, 12452, 12486, 12512, 25968]], Alt
     [Str [12364], Str [12399]], Grp 1 (Plus (InSet [CDigit])), Alt [Str [20491], Str [20214],
     Str [12388]], Alt [Str [12391, 12354, 12427], Str [12395, 12394, 12387, 12390]], Alt [Str
     [12356, 12427], Str [12356, 12427, 12371, 12392]], Alt [Str [30906, 35469], Str [26908,
     35388]]])"

(* assertions.py line 517: (?:\u30e2\u30fc\u30c0\u30eb|\u30c0\u30a4\u30a2\u30ed\u30b0|\u30dd\u30c3\u30d7\u30a2\u30c3\u30d7|modal|dialog|popup)(?:\u304c|\u306f)(?:\u958b\u3044\u3066|\u8868\u793a\u3055\u308c\u3066)(?:\u3044\u308b|\u3044\u308b\u3053\u3068)(?:\u78ba\u8a8d|\u691c\u8a3c) *)
definition rx_L517 :: pattern where
  "rx_L517 = Rx 0 (Seq [Alt [Str [12514, 12540, 12480, 12523], Str [12480, 12452, 12450, 12525,
     12464], Str [12509, 12483, 12503, 12450, 12483, 12503], Str [109, 111, 100, 97, 108], Str
     [100, 105, 97, 108, 111, 103], Str [112, 111, 112, 117, 112]], Alt [Str [12364], Str
     [12399]], Alt [Str [38283, 12356, 12390], Str [34920, 31034, 12373, 12428, 12390]], Alt
     [Str [12356, 12427], Str [12356, 12427, 12371, 12392]], Alt [Str [30906, 35469], Str
     [26908, 35388]]])"

(* assertions.py line 519: (?:\u30e2\u30fc\u30c0\u30eb|\u30c0\u30a4\u30a2\u30ed\u30b0|\u30dd\u30c3\u30d7\u30a2\u30c3\u30d7)(?:\u304c|\u306f)(?:\u9589\u3058\u3066|\u6d88\u3048\u3066)(?:\u3044\u308b|\u3044\u308b\u3053\u3068)(?:\u78ba\u8a8d|\u691c\u8a3c) *)
definition rx_L519 :: pattern where
  "rx_L519 = Rx 0 (Seq [Alt [Str [12514, 12540, 12480, 12523], Str [12480, 12452, 12450, 12525,
     12464], Str [12509, 12483, 12503, 12450, 12483, 12503]], Alt [Str [12364], Str [12399]],
     Alt [Str [38281, 12376, 12390], Str [28040, 12360, 12390]], Alt [Str [12356, 12427], Str
     [12356, 12427, 12371, 12392]], Alt [Str [30906, 35469], Str [26908, 35388]]])"

(* assertions.py line 523: (?:\u30a2\u30e9\u30fc\u30c8|alert|Alert)(?:\u304c|\u306f)(?:\u8868\u793a\u3055\u308c\u3066|\u51fa\u3066)(?:\u3044\u306a\u3044|\u306a\u3044)(?:\u3053\u3068|\u3053\u3068\u3092)(?:\u78ba\u8a8d|\u691c\u8a3c) *)
definition rx_L523 :: pattern where
  "rx_L523 = Rx 0 (Seq [Alt [Str [12450, 12521, 12540, 12488], Str [97, 108, 101, 114, 116], Str
     [65, 108, 101, 114, 116]], Alt [Str [12364], Str [12399]], Alt [Str [34920, 31034, 12373,
     12428, 12390], Str [20986, 12390]], Alt [Str [12356, 12394, 12356], Str [12394, 12356]],
     Alt [Str [12371, 12392], Str [12371, 12392, 12434]], Alt [Str [30906, 35469], Str [26908,
     35388]]])"

(* assertions.py line 525: (?:\u901a\u77e5|notification|Notification)(?:\u304c|\u306f)(?:\u8868\u793a\u3055\u308c\u3066|\u51fa\u3066)(?:\u3044\u308b|\u3044\u308b\u3053\u3068)(?:\u78ba\u8a8d|\u691c\u8a3c) *)
definition rx_L525 :: pattern where
  "rx_L525 = Rx 0 (Seq [Alt [Str [36890, 30693], Str [110, 111, 116, 105, 102, 105, 99, 97, 116,
     105, 111, 110], Str [78, 111, 116, 105, 102, 105, 99, 97, 116, 105, 111, 110]], Alt [Str
     [12364], Str [12399]], Alt [Str [34920, 31034, 12373, 12428, 12390], Str [20986, 12390]],
     Alt [Str [12356, 12427], Str [12356, 12427, 12371, 12392]], Alt [Str [30906, 35469], Str
     [26908, 35388]]])"

(* assertions.py line 531: [\u300c]?(.+?)[\u300d]?(?:\u30e1\u30cb\u30e5\u30fc|menu|Menu)(?:\u304c|\u306f)(?:\u958b\u3044\u3066|\u5c55\u958b\u3055\u308c\u3066|\u8868\u793a\u3055\u308c\u3066)(?:\u3044\u308b|\u3044\u308b\u3053\u3068)(?:\u78ba\u8a8d|\u691c\u8a3c) *)
definition rx_L531 :: pattern where
  "rx_L531 = Rx 1 (Seq [Opt (One (InSet [CChar 12300])), Grp 1 (PlusLazy AnyChar), Opt (One (InSet
     [CChar 12301])), Alt [Str [12513, 12491, 12517, 12540], Str [109, 101, 110, 117], Str [77,
     101, 110, 117]], Alt [Str [12364], Str [12399]], Alt [Str [38283, 12356, 12390], Str
     [23637, 38283, 12373, 12428, 12390], Str [34920, 31034, 12373, 12428, 12390]], Alt [Str
     [12356, 12427], Str [12356, 12427, 12371, 12392]], Alt [Str [30906, 35469], Str [26908,
     35388]]])"

(* assertions.py line 533: (?:\u30ca\u30d3\u30b2\u30fc\u30b7\u30e7\u30f3|navigation|nav)(?:\u306b|\u3067)[\u300c]?(.+?)[\u300d]?(?:\u304c|\u306f)(?:\u542b\u307e\u308c\u3066|\u8868\u793a\u3055\u308c\u3066)(?:\u3044\u308b|\u3044\u308b\u3053\u3068)(?:\u78ba\u8a8d|\u691c\u8a3c) *)
definition rx_L533 :: pattern where
  "rx_L533 = Rx 1 (Seq [Alt [Str [12490, 12499, 12466, 12540, 12471, 12519, 12531], Str [110, 97,
     118, 105, 103, 97, 116, 105, 111, 110], Str [110, 97, 118]], Alt [Str [12395], Str
     [12391]], Opt (One (InSet [CChar 12300])), Grp 1 (PlusLazy AnyChar), Opt (One (InSet [CChar
     12301])), Alt [Str [12364], Str [12399]], Alt [Str [21547, 12414, 12428, 12390], Str
     [34920, 31034, 12373, 12428, 12390]], Alt [Str [12356, 12427], Str [12356, 12427, 12371,
     12392]], Alt [Str [30906, 35469], Str [26908, 35388]]])"

(* assertions.py line 537: [\u300c]?(.+?)[\u300d]?(?:\u30bf\u30d6|tab|Tab)(?:\u304c|\u306f)(?:\u9078\u629e|\u30a2\u30af\u30c6\u30a3\u30d6|active)(?:\u3055\u308c\u3066|\u306b\u306a\u3063\u3066)(?:\u3044\u308b|\u3044\u308b\u3053\u3068)(?:\u78ba\u8a8d|\u691c\u8a3c) *)
definition rx_L537 :: pattern where
  "rx_L537 = Rx 1 (Seq [Opt (One (InSet [CChar 12300])), Grp 1 (PlusLazy AnyChar), Opt (One (InSet
     [CChar 12301])), Alt [Str [12479, 12502], Str [116, 97, 98], Str [84, 97, 98]], Alt [Str
     [12364], Str [12399]], Alt [Str [36984, 25246], Str [12450, 12463, 12486, 12451, 12502],
     Str [97, 99, 116, 105, 118, 101]], Alt [Str [12373, 12428, 12390], Str [12395, 12394,
     12387, 12390]], Alt [Str [12356, 12427], Str [12356, 12427, 12371, 12392]], Alt [Str
     [30906, 35469], Str [26908, 35388]]])"

(* assertions.py line 539: (?:\u30bf\u30d6|tab)(?:\u306e|\u3067)(?:\u5185\u5bb9|\u30b3\u30f3\u30c6\u30f3\u30c4)(?:\u304c|\u306f)(?:\u6b63\u3057\u304f|\u9069\u5207\u306b)(?:\u8868\u793a\u3055\u308c\u3066|\u5207\u308a\u66ff\u308f\u3063\u3066)(?:\u3044\u308b|\u3044\u308b\u3053\u3068)(?:\u78ba\u8a8d|\u691c\u8a3c) *)
definition rx_L539 :: pattern where
  "rx_L539 = Rx 0 (Seq [Alt [Str [12479, 12502], Str [116, 97, 98]], Alt [Str [12398], Str
     [12391]], Alt [Str [20869, 23481], Str [12467, 12531, 12486, 12531, 12484]], Alt [Str
     [12364], Str [12399]], Alt [Str [27491, 12375, 12367], Str [36969, 20999, 12395]], Alt [Str
     [34920, 31034, 12373, 12428, 12390], Str [20999, 12426, 26367, 12431, 12387, 12390]], Alt
     [Str [12356, 12427], Str [12356, 12427, 12371, 12392]], Alt [Str [30906, 35469], Str
     [26908, 35388]]])"

(* assertions.py line 545: [\u300c]?(.+?)[\u300d]?(?:\u306b|\u3067)(?:aria-label|aria\u30e9\u30d9\u30eb)(?:\u304c|\u306f)(?:\u8a2d\u5b9a|\u4ed8\u4e0e)(?:\u3055\u308c\u3066|\u3057\u3066)(?:\u3044\u308b|\u3044\u308b\u3053\u3068)(?:\u78ba\u8a8d|\u691c\u8a3c) *)
definition rx_L545 :: pattern where
  "rx_L545 = Rx 1 (Seq [Opt (One (InSet [CChar 12300])), Grp 1 (PlusLazy AnyChar), Opt (One (InSet
     [CChar 12301])), Alt [Str [12395], Str [12391]], Alt [Str [97, 114, 105, 97, 45, 108, 97,
     98, 101, 108], Str [97, 114, 105, 97, 12521, 12505, 12523]], Alt [Str [12364], Str
     [12399]], Alt [Str [35373, 23450], Str [20184, 19982]], Alt [Str [12373, 12428, 12390], Str
     [12375, 12390]], Alt [Str [12356, 12427], Str [12356, 12427, 12371, 12392]], Alt [Str
     [30906, 35469], Str [26908, 35388]]])"

(* assertions.py line 547: (?:\u30b9\u30af\u30ea\u30fc\u30f3\u30ea\u30fc\u30c0\u30fc|screen reader)(?:\u3067|\u306b)(?:\u8aad\u307f\u4e0a\u3052\u53ef\u80fd|\u30a2\u30af\u30bb\u30b9\u53ef\u80fd)(?:\u306a|\u306b)(?:\u306a\u3063\u3066|\u8a2d\u5b9a\u3055\u308c\u3066)(?:\u3044\u308b|\u3044\u308b\u3053\u3068)(?:\u78ba\u8a8d|\u691c\u8a3c) *)
definition rx_L547 :: pattern where
  "rx_L547 = Rx 0 (Seq [Alt [Str [12473, 12463, 12522, 12540, 12531, 12522, 12540, 12480, 12540],
     Str [115, 99, 114, 101, 101, 110, 32, 114, 101, 97, 100, 101, 114]], Alt [Str [12391], Str
     [12395]], Alt [Str [35501, 12415, 19978, 12370, 21487, 33021], Str [12450, 12463, 12475,
     12473, 21487, 33021]], Alt [Str [12394], Str [12395]], Alt [Str [12394, 12387, 12390], Str
     [35373, 23450, 12373, 12428, 12390]], Alt [Str [12356, 12427], Str [12356, 12427, 12371,
     12392]], Alt [Str [30906, 35469], Str [26908, 35388]]])"

(* assertions.py line 551: [\u300c]?(.+?)[\u300d]?(?:\u306b|\u3078)(?:\u30d5\u30a9\u30fc\u30ab\u30b9|focus)(?:\u304c|\u306f)(?:\u5f53\u305f\u3063\u3066|\u79fb\u52d5\u3057\u3066|\u8a2d\u5b9a\u3055\u308c\u3066)(?:\u3044\u308b|\u3044\u308b\u3053\u3068)(?:\u78ba\u8a8d|\u691c\u8a3c) *)
definition rx_L551 :: pattern where
  "rx_L551 = Rx 1 (Seq [Opt (One (InSet [CChar 12300])), Grp 1 (PlusLazy AnyChar), Opt (One (InSet
     [CChar 12301])), Alt [Str [12395], Str [12408]], Alt [Str [12501, 12457, 12540, 12459,
     12473], Str [102, 111, 99, 117, 115]], Alt [Str [12364], Str [12399]], Alt [Str [24403,
     12383, 12387, 12390], Str [31227, 21205, 12375, 12390], Str [35373, 23450, 12373, 12428,
     12390]], Alt [Str [12356, 12427], Str [12356, 12427, 12371, 12392]], Alt [Str [30906,
     35469], Str [26908, 35388]]])"

(* assertions.py line 553: (?:\u30bf\u30d6\u30ad\u30fc|Tab)(?:\u3067|\u306b\u3088\u308a)(?:\u6b63\u3057\u304f|\u9069\u5207\u306b)(?:\u30d5\u30a9\u30fc\u30ab\u30b9\u79fb\u52d5|\u30ca\u30d3\u30b2\u30fc\u30b7\u30e7\u30f3)(?:\u3067\u304d\u308b|\u53ef\u80fd)(?:\u3067\u3042\u308b|\u3053\u3068)(?:\u78ba\u8a8d|\u691c\u8a3c) *)
definition rx_L553 :: pattern where
  "rx_L553 = Rx 0 (Seq [Alt [Str [12479, 12502, 12461, 12540], Str [84, 97, 98]], Alt [Str
     [12391], Str [12395, 12424, 12426]], Alt [Str [27491, 12375, 12367], Str [36969, 20999,
     12395]], Alt [Str [12501, 12457, 12540, 12459, 12473, 31227, 21205], Str [12490, 12499,
     12466, 12540, 12471, 12519, 12531]], Alt [Str [12391, 12365, 12427], Str [21487, 33021]],
     Alt [Str [12391, 12354, 12427], Str [12371, 12392]], Alt [Str [30906, 35469], Str [26908,
     35388]]])"

(* assertions.py line 559: (?:\u30e2\u30d0\u30a4\u30eb|\u30b9\u30de\u30db|\u30b9\u30de\u30fc\u30c8\u30d5\u30a9\u30f3|mobile)(?:\u8868\u793a|\u30d3\u30e5\u30fc|\u753b\u9762)(?:\u3067|\u306b\u304a\u3044\u3066)[\u300c]?(.+?)[\u300d]?(?:\u304c|\u306f)(?:\u6b63\u3057\u304f|\u9069\u5207\u306b)(?:\u8868\u793a|\u30ec\u30a4\u30a2\u30a6\u30c8)(?:\u3055\u308c\u3066|\u3057\u3066)(?:\u3044\u308b|\u3044\u308b\u3053\u3068)(?:\u78ba\u8a8d|\u691c\u8a3c) *)
definition rx_L559 :: pattern where
  "rx_L559 = Rx 1 (Seq [Alt [Str [12514, 12496, 12452, 12523], Str [12473, 12510, 12507], Str
     [12473, 12510, 12540, 12488, 12501, 12457, 12531], Str [109, 111, 98, 105, 108, 101]], Alt
     [Str [34920, 31034], Str [12499, 12517, 12540], Str [30011, 38754]], Alt [Str [12391], Str
     [12395, 12362, 12356, 12390]], Opt (One (InSet [CChar 12300])), Grp 1 (PlusLazy AnyChar),
     Opt (One (InSet [CChar 12301])), Alt [Str [12364], Str [12399]], Alt [Str [27491, 12375,
     12367], Str [36969, 20999, 12395]], Alt [Str [34920, 31034], Str [12524, 12452, 12450,
     12454, 12488]], Alt [Str [12373, 12428, 12390], Str [12375, 12390]], Alt [Str [12356,
     12427], Str [12356, 12427, 12371, 12392]], Alt [Str [30906, 35469], Str [26908, 35388]]])"

(* assertions.py line 561: (?:\u30ec\u30b9\u30dd\u30f3\u30b7\u30d6|responsive)(?:\u30c7\u30b6\u30a4\u30f3|\u8868\u793a)(?:\u304c|\u306f)(?:\u6b63\u5e38|\u9069\u5207)(?:\u306b|\u3067)(?:\u52d5\u4f5c|\u6a5f\u80fd)(?:\u3057\u3066|\u3055\u308c\u3066)(?:\u3044\u308b|\u3044\u308b\u3053\u3068)(?:\u78ba\u8a8d|\u691c\u8a3c) *)
definition rx_L561 :: pattern where
  "rx_L561 = Rx 0 (Seq [Alt [Str [12524, 12473, 12509, 12531, 12471, 12502], Str [114, 101, 115,
     112, 111, 110, 115, 105, 118, 101]], Alt [Str [12487, 12470, 12452, 12531], Str [34920,
     31034]], Alt [Str [12364], Str [12399]], Alt [Str [27491, 24120], Str [36969, 20999]], Alt
     [Str [12395], Str [12391]], Alt [Str [21205, 20316], Str [27231, 33021]], Alt [Str [12375,
     12390], Str [12373, 12428, 12390]], Alt [Str [12356, 12427], Str [12356, 12427, 12371,
     12392]], Alt [Str [30906, 35469], Str [26908, 35388]]])"

(* assertions.py line 567: (?:\u30da\u30fc\u30b8|\u753b\u9762)(?:\u304c|\u306f)(\\d+)(?:\u79d2|\u30df\u30ea\u79d2|ms)(?:\u4ee5\u5185\u306b|\u672a\u6e80\u3067)(?:\u8868\u793a|\u30ed\u30fc\u30c9|\u8aad\u307f\u8fbc\u307f)(?:\u3055\u308c\u308b|\u5b8c\u4e86\u3059\u308b)(?:\u3053\u3068|\u3053\u3068\u3092)(?:\u78ba\u8a8d|\u691c\u8a3c) *)
definition rx_L567 :: pattern where
  "rx_L567 = Rx 1 (Seq [Alt [Str [12506, 12540, 12472], Str [30011, 38754]], Alt [Str [12364], Str
     [12399]], Grp 1 (Plus (InSet [CDigit])), Alt [Str [31186], Str [12511, 12522, 31186], Str
     [109, 115]], Alt [Str [20197, 20869, 12395], Str [26410, 28288, 12391]], Alt [Str [34920,
     31034], Str [12525, 12540, 12489], Str [35501, 12415, 36796, 12415]], Alt [Str [12373,
     12428, 12427], Str [23436, 20102, 12377, 12427]], Alt [Str [12371, 12392], Str [12371,
     12392, 12434]], Alt [Str [30906, 35469], Str [26908, 35388]]])"

(* assertions.py line 569: (?:\u30ec\u30b9\u30dd\u30f3\u30b9|\u5fdc\u7b54|response)(?:\u304c|\u306f)(?:\u9ad8\u901f|\u901f\u3044|\u65e9\u3044|quick|fast)(?:\u3067\u3042\u308b|\u3067)(?:\u3053\u3068|\u3053\u3068\u3092)(?:\u78ba\u8a8d|\u691c\u8a3c) *)
definition rx_L569 :: pattern where
  "rx_L569 = Rx 0 (Seq [Alt [Str [12524, 12473, 12509, 12531, 12473], Str [24540, 31572], Str
     [114, 101, 115, 112, 111, 110, 115, 101]], Alt [Str [12364], Str [12399]], Alt [Str [39640,
     36895], Str [36895, 12356], Str [26089, 12356], Str [113, 117, 105, 99, 107], Str [102, 97,
     115, 116]], Alt [Str [12391, 12354, 12427], Str [12391]], Alt [Str [12371, 12392], Str
     [12371, 12392, 12434]], Alt [Str [30906, 35469], Str [26908, 35388]]])"

(* assertions.py line 575: (?:HTTPS|https|SSL)(?:\u3067|\u306b\u3088\u308a)(?:\u4fdd\u8b77|\u6697\u53f7\u5316|secure)(?:\u3055\u308c\u3066|\u3057\u3066)(?:\u3044\u308b|\u3044\u308b\u3053\u3068)(?:\u78ba\u8a8d|\u691c\u8a3c) *)
definition rx_L575 :: pattern where
  "rx_L575 = Rx 0 (Seq [Alt [Str [72, 84, 84, 80, 83], Str [104, 116, 116, 112, 115], Str [83, 83,
     76]], Alt [Str [12391], Str [12395, 12424, 12426]], Alt [Str [20445, 35703], Str [26263,
     21495, 21270], Str [115, 101, 99, 117, 114, 101]], Alt [Str [12373, 12428, 12390], Str
     [12375, 12390]], Alt [Str [12356, 12427], Str [12356, 12427, 12371, 12392]], Alt [Str
     [30906, 35469], Str [26908, 35388]]])"

(* assertions.py line 577: (?:\u30bb\u30ad\u30e5\u30a2|secure|\u5b89\u5168)(?:\u306a|\u306b)(?:\u63a5\u7d9a|\u901a\u4fe1)(?:\u3067\u3042\u308b|\u306b\u306a\u3063\u3066)(?:\u3044\u308b|\u3044\u308b\u3053\u3068)(?:\u78ba\u8a8d|\u691c\u8a3c) *)
definition rx_L577 :: pattern where
  "rx_L577 = Rx 0 (Seq [Alt [Str [12475, 12461, 12517, 12450], Str [115, 101, 99, 117, 114, 101],
     Str [23433, 20840]], Alt [Str [12394], Str [12395]], Alt [Str [25509, 32154], Str [36890,
     20449]], Alt [Str [12391, 12354, 12427], Str [12395, 12394, 12387, 12390]], Alt [Str
     [12356, 12427], Str [12356, 12427, 12371, 12392]], Alt [Str [30906, 35469], Str [26908,
     35388]]])"

(* assertions.py line 583: [\u300c]?(.+?)[\u300d]?(?:\u203b|\uff0a|\u2605|\u2606|\u25cf|\u25cb|\u25a0|\u25a1)(?:\u30de\u30fc\u30af|\u5370|\u8a18\u53f7)(?:\u304c|\u306f)(?:\u8868\u793a|\u4ed8\u3044\u3066)(?:\u3044\u308b|\u3044\u308b\u3053\u3068)(?:\u78ba\u8a8d|\u691c\u8a3c) *)
definition rx_L583 :: pattern where
  "rx_L583 = Rx 1 (Seq [Opt (One (InSet [CChar 12300])), Grp 1 (PlusLazy AnyChar), Opt (One (InSet
     [CChar 12301])), Alt [Str [8251], Str [65290], Str [9733], Str [9734], Str [9679], Str
     [9675], Str [9632], Str [9633]], Alt [Str [12510, 12540, 12463], Str [21360], Str [35352,
     21495]], Alt [Str [12364], Str [12399]], Alt [Str [34920, 31034], Str [20184, 12356,
     12390]], Alt [Str [12356, 12427], Str [12356, 12427, 12371, 12392]], Alt [Str [30906,
     35469], Str [26908, 35388]]])"

(* assertions.py line 585: (?:\u5fc5\u9808|required)(?:\u9805\u76ee|\u30d5\u30a3\u30fc\u30eb\u30c9)(?:\u306b|\u3067)(?:\u203b|\uff0a|\u30a2\u30b9\u30bf\u30ea\u30b9\u30af)(?:\u304c|\u306f)(?:\u8868\u793a|\u4ed8\u3044\u3066)(?:\u3044\u308b|\u3044\u308b\u3053\u3068)(?:\u78ba\u8a8d|\u691c\u8a3c) *)
definition rx_L585 :: pattern where
  "rx_L585 = Rx 0 (Seq [Alt [Str [24517, 38920], Str [114, 101, 113, 117, 105, 114, 101, 100]],
     Alt [Str [38917, 30446], Str [12501, 12451, 12540, 12523, 12489]], Alt [Str [12395], Str
     [12391]], Alt [Str [8251], Str [65290], Str [12450, 12473, 12479, 12522, 12473, 12463]],
     Alt [Str [12364], Str [12399]], Alt [Str [34920, 31034], Str [20184, 12356, 12390]], Alt
     [Str [12356, 12427], Str [12356, 12427, 12371, 12392]], Alt [Str [30906, 35469], Str
     [26908, 35388]]])"

(* assertions.py line 591: (?:\u65e5\u4ed8|\u65e5\u6642|date|Date)(?:\u304c|\u306f)[\u300c]?(.+?)[\u300d]?(?:\u3068|\u306b)(?:\u8a2d\u5b9a|\u8868\u793a)(?:\u3055\u308c\u3066|\u3057\u3066)(?:\u3044\u308b|\u3044\u308b\u3053\u3068)(?:\u78ba\u8a8d|\u691c\u8a3c) *)
definition rx_L591 :: pattern where
  "rx_L591 = Rx 1 (Seq [Alt [Str [26085, 20184], Str [26085, 26178], Str [100, 97, 116, 101], Str
     [68, 97, 116, 101]], Alt [Str [12364], Str [12399]], Opt (One (InSet [CChar 12300])), Grp 1
     (PlusLazy AnyChar), Opt (One (InSet [CChar 12301])), Alt [Str [12392], Str [12395]], Alt
     [Str [35373, 23450], Str [34920, 31034]], Alt [Str [12373, 12428, 12390], Str [12375,
     12390]], Alt [Str [12356, 12427], Str [12356, 12427, 12371, 12392]], Alt [Str [30906,
     35469], Str [26908, 35388]]])"

(* assertions.py line 593: (?:\u4eca\u65e5|\u672c\u65e5|today|Today)(?:\u306e|\u304c)(?:\u65e5\u4ed8|\u65e5\u6642)(?:\u304c|\u306f)(?:\u6b63\u3057\u304f|\u9069\u5207\u306b)(?:\u8868\u793a|\u8a2d\u5b9a)(?:\u3055\u308c\u3066|\u3057\u3066)(?:\u3044\u308b|\u3044\u308b\u3053\u3068)(?:\u78ba\u8a8d|\u691c\u8a3c) *)
definition rx_L593 :: pattern where
  "rx_L593 = Rx 0 (Seq [Alt [Str [20170, 26085], Str [26412, 26085], Str [116, 111, 100, 97, 121],
     Str [84, 111, 100, 97, 121]], Alt [Str [12398], Str [12364]], Alt [Str [26085, 20184], Str
     [26085, 26178]], Alt [Str [12364], Str [12399]], Alt [Str [27491, 12375, 12367], Str
     [36969, 20999, 12395]], Alt [Str [34920, 31034], Str [35373, 23450]], Alt [Str [12373,
     12428, 12390], Str [12375, 12390]], Alt [Str [12356, 12427], Str [12356, 12427, 12371,
     12392]], Alt [Str [30906, 35469], Str [26908, 35388]]])"

(* assertions.py line 597: (?:\u6642\u523b|\u6642\u9593|time|Time)(?:\u304c|\u306f)[\u300c]?(.+?)[\u300d]?(?:\u3068|\u306b)(?:\u8a2d\u5b9a|\u8868\u793a)(?:\u3055\u308c\u3066|\u3057\u3066)(?:\u3044\u308b|\u3044\u308b\u3053\u3068)(?:\u78ba\u8a8d|\u691c\u8a3c) *)
definition rx_L597 :: pattern where
  "rx_L597 = Rx 1 (Seq [Alt [Str [26178, 21051], Str [26178, 38291], Str [116, 105, 109, 101], Str
     [84, 105, 109, 101]], Alt [Str [12364], Str [12399]], Opt (One (InSet [CChar 12300])), Grp
     1 (PlusLazy AnyChar), Opt (One (InSet [CChar 12301])), Alt [Str [12392], Str [12395]], Alt
     [Str [35373, 23450], Str [34920, 31034]], Alt [Str [12373, 12428, 12390], Str [12375,
     12390]], Alt [Str [12356, 12427], Str [12356, 12427, 12371, 12392]], Alt [Str [30906,
     35469], Str [26908, 35388]]])"

(* assertions.py line 599: (?:\u73fe\u5728\u6642\u523b|\u73fe\u5728\u6642\u9593|current time)(?:\u304c|\u306f)(?:\u6b63\u3057\u304f|\u9069\u5207\u306b)(?:\u8868\u793a|\u66f4\u65b0)(?:\u3055\u308c\u3066|\u3057\u3066)(?:\u3044\u308b|\u3044\u308b\u3053\u3068)(?:\u78ba\u8a8d|\u691c\u8a3c) *)
definition rx_L599 :: pattern where
  "rx_L599 = Rx 0 (Seq [Alt [Str [29694, 22312, 26178, 21051], Str [29694, 22312, 26178, 38291],
     Str [99, 117, 114, 114, 101, 110, 116, 32, 116, 105, 109, 101]], Alt [Str [12364], Str
     [12399]], Alt [Str [27491, 12375, 12367], Str [36969, 20999, 12395]], Alt [Str [34920,
     31034], Str [26356, 26032]], Alt [Str [12373, 12428, 12390], Str [12375, 12390]], Alt [Str
     [12356, 12427], Str [12356, 12427, 12371, 12392]], Alt [Str [30906, 35469], Str [26908,
     35388]]])"

(* assertions.py line 605: (?:\u4fa1\u683c|\u91d1\u984d|\u5024\u6bb5|price|Price)(?:\u304c|\u306f)[\u300c]?(.+?)[\u300d]?(?:\u5186|\u30c9\u30eb|dollar|USD|JPY)(?:\u3067|\u3068)(?:\u8868\u793a|\u8a2d\u5b9a)(?:\u3055\u308c\u3066|\u3057\u3066)(?:\u3044\u308b|\u3044\u308b\u3053\u3068)(?:\u78ba\u8a8d|\u691c\u8a3c) *)
definition rx_L605 :: pattern where
  "rx_L605 = Rx 1 (Seq [Alt [Str [20385, 26684], Str [37329, 38989], Str [20516, 27573], Str [112,
     114, 105, 99, 101], Str [80, 114, 105, 99, 101]], Alt [Str [12364], Str [12399]], Opt (One
     (InSet [CChar 12300])), Grp 1 (PlusLazy AnyChar), Opt (One (InSet [CChar 12301])), Alt [Str
     [20870], Str [12489, 12523], Str [100, 111, 108, 108, 97, 114], Str [85, 83, 68], Str [74,
     80, 89]], Alt [Str [12391], Str [12392]], Alt [Str [34920, 31034], Str [35373, 23450]], Alt
     [Str [12373, 12428, 12390], Str [12375, 12390]], Alt [Str [12356, 12427], Str [12356,
     12427, 12371, 12392]], Alt [Str [30906, 35469], Str [26908, 35388]]])"

(* assertions.py line 607: (?:\u5408\u8a08|\u7dcf\u984d|total|Total)(?:\u304c|\u306f)(?:\u6b63\u3057\u304f|\u9069\u5207\u306b)(?:\u8a08\u7b97|\u8868\u793a)(?:\u3055\u308c\u3066|\u3057\u3066)(?:\u3044\u308b|\u3044\u308b\u3053\u3068)(?:\u78ba\u8a8d|\u691c\u8a3c) *)
definition rx_L607 :: pattern where
  "rx_L607 = Rx 0 (Seq [Alt [Str [21512, 35336], Str [32207, 38989], Str [116, 111, 116, 97, 108],
     Str [84, 111, 116, 97, 108]], Alt [Str [12364], Str [12399]], Alt [Str [27491, 12375,
     12367], Str [36969, 20999, 12395]], Alt [Str [35336, 31639], Str [34920, 31034]], Alt [Str
     [12373, 12428, 12390], Str [12375, 12390]], Alt [Str [12356, 12427], Str [12356, 12427,
     12371, 12392]], Alt [Str [30906, 35469], Str [26908, 35388]]])"

(* assertions.py line 613: (?:\u30ab\u30a6\u30f3\u30c8|\u6570|\u4ef6\u6570|count|Count)(?:\u304c|\u306f)(\\d+)(?:\u306b|\u3068)(?:\u306a\u3063\u3066|\u7b49\u3057\u304f)(?:\u3044\u308b|\u3044\u308b\u3053\u3068)(?:\u78ba\u8a8d|\u691c\u8a3c) *)
definition rx_L613 :: pattern where
  "rx_L613 = Rx 1 (Seq [Alt [Str [12459, 12454, 12531, 12488], Str [25968], Str [20214, 25968],
     Str [99, 111, 117, 110, 116], Str [67, 111, 117, 110, 116]], Alt [Str [12364], Str
     [12399]], Grp 1 (Plus (InSet [CDigit])), Alt [Str [12395], Str [12392]], Alt [Str [12394,
     12387, 12390], Str [31561, 12375, 12367]], Alt [Str [12356, 12427], Str [12356, 12427,
     12371, 12392]], Alt [Str [30906, 35469], Str [26908, 35388]]])"

(* assertions.py line 615: (?:\u6b8b\u308a|\u3042\u3068|remaining)(\\d+)(?:\u500b|\u4ef6|\u3064)(?:\u3067\u3042\u308b|\u306b\u306a\u3063\u3066)(?:\u3044\u308b|\u3044\u308b\u3053\u3068)(?:\u78ba\u8a8d|\u691c\u8a3c) *)
definition rx_L615 :: pattern where
  "rx_L615 = Rx 1 (Seq [Alt [Str [27531, 12426], Str [12354, 12392], Str [114, 101, 109, 97, 105,
     110, 105, 110, 103]], Grp 1 (Plus (InSet [CDigit])), Alt [Str [20491], Str [20214], Str
     [12388]], Alt [Str [12391, 12354, 12427], Str [12395, 12394, 12387, 12390]], Alt [Str
     [12356, 12427], Str [12356, 12427, 12371, 12392]], Alt [Str [30906, 35469], Str [26908,
     35388]]])"

(* assertions.py line 621: (?:\u30ed\u30b0\u30a4\u30f3|\u30b5\u30a4\u30f3\u30a4\u30f3|login|sign in)(?:\u72b6\u614b|\u6e08\u307f|\u4e2d)(?:\u3067\u3042\u308b|\u306b\u306a\u3063\u3066)(?:\u3044\u308b|\u3044\u308b\u3053\u3068)(?:\u78ba\u8a8d|\u691c\u8a3c) *)
definition rx_L621 :: pattern where
  "rx_L621 = Rx 0 (Seq [Alt [Str [12525, 12464, 12452, 12531], Str [12469, 12452, 12531, 12452,
     12531], Str [108, 111, 103, 105, 110], Str [115, 105, 103, 110, 32, 105, 110]], Alt [Str
     [29366, 24907], Str [28168, 12415], Str [20013]], Alt [Str [12391, 12354, 12427], Str
     [12395, 12394, 12387, 12390]], Alt [Str [12356, 12427], Str [12356, 12427, 12371, 12392]],
     Alt [Str [30906, 35469], Str [26908, 35388]]])"

(* assertions.py line 623: (?:\u30ed\u30b0\u30a2\u30a6\u30c8|\u30b5\u30a4\u30f3\u30a2\u30a6\u30c8|logout|sign out)(?:\u72b6\u614b|\u6e08\u307f)(?:\u3067\u3042\u308b|\u306b\u306a\u3063\u3066)(?:\u3044\u308b|\u3044\u308b\u3053\u3068)(?:\u78ba\u8a8d|\u691c\u8a3c) *)
definition rx_L623 :: pattern where
  "rx_L623 = Rx 0 (Seq [Alt [Str [12525, 12464, 12450, 12454, 12488], Str [12469, 12452, 12531,
     12450, 12454, 12488], Str [108, 111, 103, 111, 117, 116], Str [115, 105, 103, 110, 32, 111,
     117, 116]], Alt [Str [29366, 24907], Str [28168, 12415]], Alt [Str [12391, 12354, 12427],
     Str [12395, 12394, 12387, 12390]], Alt [Str [12356, 12427], Str [12356, 12427, 12371,
     12392]], Alt [Str [30906, 35469], Str [26908, 35388]]])"

(* assertions.py line 627: (?:\u30e6\u30fc\u30b6\u30fc\u540d|\u30e6\u30fc\u30b6\u30fcID|username|Username)(?:\u304c|\u306f)[\u300c]?(.+?)[\u300d]?(?:\u3068|\u3067)(?:\u8868\u793a|\u8a2d\u5b9a)(?:\u3055\u308c\u3066|\u3057\u3066)(?:\u3044\u308b|\u3044\u308b\u3053\u3068)(?:\u78ba\u8a8d|\u691c\u8a3c) *)
definition rx_L627 :: pattern where
  "rx_L627 = Rx 1 (Seq [Alt [Str [12518, 12540, 12470, 12540, 21517], Str [12518, 12540, 12470,
     12540, 73, 68], Str [117, 115, 101, 114, 110, 97, 109, 101], Str [85, 115, 101, 114, 110,
     97, 109, 101]], Alt [Str [12364], Str [12399]], Opt (One (InSet [CChar 12300])), Grp 1
     (PlusLazy AnyChar), Opt (One (InSet [CChar 12301])), Alt [Str [12392], Str [12391]], Alt
     [Str [34920, 31034], Str [35373, 23450]], Alt [Str [12373, 12428, 12390], Str [12375,
     12390]], Alt [Str [12356, 12427], Str [12356, 12427, 12371, 12392]], Alt [Str [30906,
     35469], Str [26908, 35388]]])"

(* assertions.py line 629: (?:\u30a2\u30ab\u30a6\u30f3\u30c8|account|Account)(?:\u60c5\u5831|\u540d)(?:\u304c|\u306f)(?:\u6b63\u3057\u304f|\u9069\u5207\u306b)(?:\u8868\u793a|\u8a2d\u5b9a)(?:\u3055\u308c\u3066|\u3057\u3066)(?:\u3044\u308b|\u3044\u308b\u3053\u3068)(?:\u78ba\u8a8d|\u691c\u8a3c) *)
definition rx_L629 :: pattern where
  "rx_L629 = Rx 0 (Seq [Alt [Str [12450, 12459, 12454, 12531, 12488], Str [97, 99, 99, 111, 117,
     110, 116], Str [65, 99, 99, 111, 117, 110, 116]], Alt [Str [24773, 22577], Str [21517]],
     Alt [Str [12364], Str [12399]], Alt [Str [27491, 12375, 12367], Str [36969, 20999, 12395]],
     Alt [Str [34920, 31034], Str [35373, 23450]], Alt [Str [12373, 12428, 12390], Str [12375,
     12390]], Alt [Str [12356, 12427], Str [12356, 12427, 12371, 12392]], Alt [Str [30906,
     35469], Str [26908, 35388]]])"

(* assertions.py line 635: (?:\u30c0\u30a6\u30f3\u30ed\u30fc\u30c9|download|Download)(?:\u30dc\u30bf\u30f3|\u30ea\u30f3\u30af)(?:\u304c|\u306f)(?:\u5229\u7528\u53ef\u80fd|\u6709\u52b9|\u30af\u30ea\u30c3\u30af\u53ef\u80fd)(?:\u3067\u3042\u308b|\u306b\u306a\u3063\u3066)(?:\u3044\u308b|\u3044\u308b\u3053\u3068)(?:\u78ba\u8a8d|\u691c\u8a3c) *)
definition rx_L635 :: pattern where
  "rx_L635 = Rx 0 (Seq [Alt [Str [12480, 12454, 12531, 12525, 12540, 12489], Str [100, 111, 119,
     110, 108, 111, 97, 100], Str [68, 111, 119, 110, 108, 111, 97, 100]], Alt [Str [12508,
     12479, 12531], Str [12522, 12531, 12463]], Alt [Str [12364], Str [12399]], Alt [Str [21033,
     29992, 21487, 33021], Str [26377, 21177], Str [12463, 12522, 12483, 12463, 21487, 33021]],
     Alt [Str [12391, 12354, 12427], Str [12395, 12394, 12387, 12390]], Alt [Str [12356, 12427],
     Str [12356, 12427, 12371, 12392]], Alt [Str [30906, 35469], Str [26908, 35388]]])"

(* assertions.py line 637: (?:\u30d5\u30a1\u30a4\u30eb|file|File)[\u300c]?(.+?)[\u300d]?(?:\u304c|\u3092)(?:\u30c0\u30a6\u30f3\u30ed\u30fc\u30c9\u53ef\u80fd|\u53d6\u5f97\u53ef\u80fd)(?:\u3067\u3042\u308b|\u306b\u306a\u3063\u3066)(?:\u3044\u308b|\u3044\u308b\u3053\u3068)(?:\u78ba\u8a8d|\u691c\u8a3c) *)
definition rx_L637 :: pattern where
  "rx_L637 = Rx 1 (Seq [Alt [Str [12501, 12449, 12452, 12523], Str [102, 105, 108, 101], Str [70,
     105, 108, 101]], Opt (One (InSet [CChar 12300])), Grp 1 (PlusLazy AnyChar), Opt (One (InSet
     [CChar 12301])), Alt [Str [12364], Str [12434]], Alt [Str [12480, 12454, 12531, 12525,
     12540, 12489, 21487, 33021], Str [21462, 24471, 21487, 33021]], Alt [Str [12391, 12354,
     12427], Str [12395, 12394, 12387, 12390]], Alt [Str [12356, 12427], Str [12356, 12427,
     12371, 12392]], Alt [Str [30906, 35469], Str [26908, 35388]]])"

(* assertions.py line 641: (?:\u30a2\u30c3\u30d7\u30ed\u30fc\u30c9|upload|Upload)(?:\u30dc\u30bf\u30f3|\u30d5\u30a9\u30fc\u30e0)(?:\u304c|\u306f)(?:\u5229\u7528\u53ef\u80fd|\u6709\u52b9)(?:\u3067\u3042\u308b|\u306b\u306a\u3063\u3066)(?:\u3044\u308b|\u3044\u308b\u3053\u3068)(?:\u78ba\u8a8d|\u691c\u8a3c) *)
definition rx_L641 :: pattern where
  "rx_L641 = Rx 0 (Seq [Alt [Str [12450, 12483, 12503, 12525, 12540, 12489], Str [117, 112, 108,
     111, 97, 100], Str [85, 112, 108, 111, 97, 100]], Alt [Str [12508, 12479, 12531], Str
     [12501, 12457, 12540, 12512]], Alt [Str [12364], Str [12399]], Alt [Str [21033, 29992,
     21487, 33021], Str [26377, 21177]], Alt [Str [12391, 12354, 12427], Str [12395, 12394,
     12387, 12390]], Alt [Str [12356, 12427], Str [12356, 12427, 12371, 12392]], Alt [Str
     [30906, 35469], Str [26908, 35388]]])"

(* assertions.py line 643: (?:\u30d5\u30a1\u30a4\u30eb\u9078\u629e|file selection)(?:\u30dc\u30bf\u30f3|\u30d5\u30a3\u30fc\u30eb\u30c9)(?:\u304c|\u306f)(?:\u8868\u793a|\u5229\u7528\u53ef\u80fd)(?:\u3067\u3042\u308b|\u306b\u306a\u3063\u3066)(?:\u3044\u308b|\u3044\u308b\u3053\u3068)(?:\u78ba\u8a8d|\u691c\u8a3c) *)
definition rx_L643 :: pattern where
  "rx_L643 = Rx 0 (Seq [Alt [Str [12501, 12449, 12452, 12523, 36984, 25246], Str [102, 105, 108,
     101, 32, 115, 101, 108, 101, 99, 116, 105, 111, 110]], Alt [Str [12508, 12479, 12531], Str
     [12501, 12451, 12540, 12523, 12489]], Alt [Str [12364], Str [12399]], Alt [Str [34920,
     31034], Str [21033, 29992, 21487, 33021]], Alt [Str [12391, 12354, 12427], Str [12395,
     12394, 12387, 12390]], Alt [Str [12356, 12427], Str [12356, 12427, 12371, 12392]], Alt [Str
     [30906, 35469], Str [26908, 35388]]])"

(* assertions.py line 649: (?:\u9032\u6357|\u30d7\u30ed\u30b0\u30ec\u30b9|progress|Progress)(?:\u304c|\u306f)(\\d+)(?:%|\u30d1\u30fc\u30bb\u30f3\u30c8)(?:\u3067\u3042\u308b|\u306b\u306a\u3063\u3066)(?:\u3044\u308b|\u3044\u308b\u3053\u3068)(?:\u78ba\u8a8d|\u691c\u8a3c) *)
definition rx_L649 :: pattern where
  "rx_L649 = Rx 1 (Seq [Alt [Str [36914, 25431], Str [12503, 12525, 12464, 12524, 12473], Str
     [112, 114, 111, 103, 114, 101, 115, 115], Str [80, 114, 111, 103, 114, 101, 115, 115]], Alt
     [Str [12364], Str [12399]], Grp 1 (Plus (InSet [CDigit])), Alt [Str [37], Str [12497,
     12540, 12475, 12531, 12488]], Alt [Str [12391, 12354, 12427], Str [12395, 12394, 12387,
     12390]], Alt [Str [12356, 12427], Str [12356, 12427, 12371, 12392]], Alt [Str [30906,
     35469], Str [26908, 35388]]])"

(* assertions.py line 651: (?:\u30d7\u30ed\u30b0\u30ec\u30b9\u30d0\u30fc|\u9032\u6357\u30d0\u30fc|progress bar)(?:\u304c|\u306f)(?:\u8868\u793a|\u66f4\u65b0)(?:\u3055\u308c\u3066|\u3057\u3066)(?:\u3044\u308b|\u3044\u308b\u3053\u3068)(?:\u78ba\u8a8d|\u691c\u8a3c) *)
definition rx_L651 :: pattern where
  "rx_L651 = Rx 0 (Seq [Alt [Str [12503, 12525, 12464, 12524, 12473, 12496, 12540], Str [36914,
     25431, 12496, 12540], Str [112, 114, 111, 103, 114, 101, 115, 115, 32, 98, 97, 114]], Alt
     [Str [12364], Str [12399]], Alt [Str [34920, 31034], Str [26356, 26032]], Alt [Str [12373,
     12428, 12390], Str [12375, 12390]], Alt [Str [12356, 12427], Str [12356, 12427, 12371,
     12392]], Alt [Str [30906, 35469], Str [26908, 35388]]])"

(* assertions.py line 657: (?:\u60c5\u5831|\u30a4\u30f3\u30d5\u30a9|info|Info)(?:\u30e1\u30c3\u30bb\u30fc\u30b8|\u8868\u793a)(?:\u304c|\u306f)(?:\u8868\u793a|\u51fa\u3066)(?:\u3044\u308b|\u3044\u308b\u3053\u3068)(?:\u78ba\u8a8d|\u691c\u8a3c) *)
definition rx_L657 :: pattern where
  "rx_L657 = Rx 0 (Seq [Alt [Str [24773, 22577], Str [12452, 12531, 12501, 12457], Str [105, 110,
     102, 111], Str [73, 110, 102, 111]], Alt [Str [12513, 12483, 12475, 12540, 12472], Str
     [34920, 31034]], Alt [Str [12364], Str [12399]], Alt [Str [34920, 31034], Str [20986,
     12390]], Alt [Str [12356, 12427], Str [12356, 12427, 12371, 12392]], Alt [Str [30906,
     35469], Str [26908, 35388]]])"

(* assertions.py line 659: (?:\u30d2\u30f3\u30c8|\u30d2\u30f3\u30c8|hint|Hint|tip|Tip)(?:\u304c|\u306f)(?:\u8868\u793a|\u51fa\u3066)(?:\u3044\u308b|\u3044\u308b\u3053\u3068)(?:\u78ba\u8a8d|\u691c\u8a3c) *)
definition rx_L659 :: pattern where
  "rx_L659 = Rx 0 (Seq [Alt [Str [12498, 12531, 12488], Str [12498, 12531, 12488], Str [104, 105,
     110, 116], Str [72, 105, 110, 116], Str [116, 105, 112], Str [84, 105, 112]], Alt [Str
     [12364], Str [12399]], Alt [Str [34920, 31034], Str [20986, 12390]], Alt [Str [12356,
     12427], Str [12356, 12427, 12371, 12392]], Alt [Str [30906, 35469], Str [26908, 35388]]])"

(* assertions.py line 665: (?:\u30d0\u30ea\u30c7\u30fc\u30b7\u30e7\u30f3|\u691c\u8a3c|validation|Validation)(?:\u30a8\u30e9\u30fc|\u30e1\u30c3\u30bb\u30fc\u30b8)(?:\u304c|\u306f)(?:\u8868\u793a\u3055\u308c\u3066|\u51fa\u3066)(?:\u3044\u306a\u3044|\u306a\u3044)(?:\u3053\u3068|\u3053\u3068\u3092)(?:\u78ba\u8a8d|\u691c\u8a3c) *)
definition rx_L665 :: pattern where
  "rx_L665 = Rx 0 (Seq [Alt [Str [12496, 12522, 12487, 12540, 12471, 12519, 12531], Str [26908,
     35388], Str [118, 97, 108, 105, 100, 97, 116, 105, 111, 110], Str [86, 97, 108, 105, 100,
     97, 116, 105, 111, 110]], Alt [Str [12456, 12521, 12540], Str [12513, 12483, 12475, 12540,
     12472]], Alt [Str [12364], Str [12399]], Alt [Str [34920, 31034, 12373, 12428, 12390], Str
     [20986, 12390]], Alt [Str [12356, 12394, 12356], Str [12394, 12356]], Alt [Str [12371,
     12392], Str [12371, 12392, 12434]], Alt [Str [30906, 35469], Str [26908, 35388]]])"

(* assertions.py line 667: (?:\u5165\u529b\u5185\u5bb9|\u30d5\u30a9\u30fc\u30e0|form)(?:\u304c|\u306f)(?:\u6b63\u3057\u3044|\u6709\u52b9|valid)(?:\u3067\u3042\u308b|\u306b\u306a\u3063\u3066)(?:\u3044\u308b|\u3044\u308b\u3053\u3068)(?:\u78ba\u8a8d|\u691c\u8a3c) *)
definition rx_L667 :: pattern where
  "rx_L667 = Rx 0 (Seq [Alt [Str [20837, 21147, 20869, 23481], Str [12501, 12457, 12540, 12512],
     Str [102, 111, 114, 109]], Alt [Str [12364], Str [12399]], Alt [Str [27491, 12375, 12356],
     Str [26377, 21177], Str [118, 97, 108, 105, 100]], Alt [Str [12391, 12354, 12427], Str
     [12395, 12394, 12387, 12390]], Alt [Str [12356, 12427], Str [12356, 12427, 12371, 12392]],
     Alt [Str [30906, 35469], Str [26908, 35388]]])"

(* assertions.py line 673: (?:\u30bd\u30fc\u30c8|\u4e26\u3073\u66ff\u3048|sort|Sort)(?:\u304c|\u306f)(?:\u6607\u9806|\u964d\u9806|ascending|descending)(?:\u306b|\u3067)(?:\u8a2d\u5b9a|\u9069\u7528)(?:\u3055\u308c\u3066|\u3057\u3066)(?:\u3044\u308b|\u3044\u308b\u3053\u3068)(?:\u78ba\u8a8d|\u691c\u8a3c) *)
definition rx_L673 :: pattern where
  "rx_L673 = Rx 0 (Seq [Alt [Str [12477, 12540, 12488], Str [20006, 12403, 26367, 12360], Str
     [115, 111, 114, 116], Str [83, 111, 114, 116]], Alt [Str [12364], Str [12399]], Alt [Str
     [26119, 38918], Str [38477, 38918], Str [97, 115, 99, 101, 110, 100, 105, 110, 103], Str
     [100, 101, 115, 99, 101, 110, 100, 105, 110, 103]], Alt [Str [12395], Str [12391]], Alt
     [Str [35373, 23450], Str [36969, 29992]], Alt [Str [12373, 12428, 12390], Str [12375,
     12390]], Alt [Str [12356, 12427], Str [12356, 12427, 12371, 12392]], Alt [Str [30906,
     35469], Str [26908, 35388]]])"

(* assertions.py line 675: (?:\u9805\u76ee|\u30a2\u30a4\u30c6\u30e0|items)(?:\u304c|\u306f)(?:\u6b63\u3057\u304f|\u9069\u5207\u306b)(?:\u4e26\u3093\u3067|\u30bd\u30fc\u30c8\u3055\u308c\u3066)(?:\u3044\u308b|\u3044\u308b\u3053\u3068)(?:\u78ba\u8a8d|\u691c\u8a3c) *)
definition rx_L675 :: pattern where
  "rx_L675 = Rx 0 (Seq [Alt [Str [38917, 30446], Str [12450, 12452, 12486, 12512], Str [105, 116,
     101, 109, 115]], Alt [Str [12364], Str [12399]], Alt [Str [27491, 12375, 12367], Str
     [36969, 20999, 12395]], Alt [Str [20006, 12435, 12391], Str [12477, 12540, 12488, 12373,
     12428, 12390]], Alt [Str [12356, 12427], Str [12356, 12427, 12371, 12392]], Alt [Str
     [30906, 35469], Str [26908, 35388]]])"

(* assertions.py line 681: (?:\u30d5\u30a3\u30eb\u30bf\u30fc|\u30d5\u30a3\u30eb\u30bf|filter|Filter)(?:\u304c|\u306f)(?:\u9069\u7528|\u8a2d\u5b9a)(?:\u3055\u308c\u3066|\u3057\u3066)(?:\u3044\u308b|\u3044\u308b\u3053\u3068)(?:\u78ba\u8a8d|\u691c\u8a3c) *)
definition rx_L681 :: pattern where
  "rx_L681 = Rx 0 (Seq [Alt [Str [12501, 12451, 12523, 12479, 12540], Str [12501, 12451, 12523,
     12479], Str [102, 105, 108, 116, 101, 114], Str [70, 105, 108, 116, 101, 114]], Alt [Str
     [12364], Str [12399]], Alt [Str [36969, 29992], Str [35373, 23450]], Alt [Str [12373,
     12428, 12390], Str [12375, 12390]], Alt [Str [12356, 12427], Str [12356, 12427, 12371,
     12392]], Alt [Str [30906, 35469], Str [26908, 35388]]])"

(* assertions.py line 683: (?:\u691c\u7d22\u7d50\u679c|search results)(?:\u304c|\u306f)(\\d+)(?:\u4ef6|\u500b|\u3064)(?:\u8868\u793a|\u30d2\u30c3\u30c8)(?:\u3055\u308c\u3066|\u3057\u3066)(?:\u3044\u308b|\u3044\u308b\u3053\u3068)(?:\u78ba\u8a8d|\u691c\u8a3c) *)
definition rx_L683 :: pattern where
  "rx_L683 = Rx 1 (Seq [Alt [Str [26908, 32034, 32080, 26524], Str [115, 101, 97, 114, 99, 104,
     32, 114, 101, 115, 117, 108, 116, 115]], Alt [Str [12364], Str [12399]], Grp 1 (Plus (InSet
     [CDigit])), Alt [Str [20214], Str [20491], Str [12388]], Alt [Str [34920, 31034], Str
     [12498, 12483, 12488]], Alt [Str [12373, 12428, 12390], Str [12375, 12390]], Alt [Str
     [12356, 12427], Str [12356, 12427, 12371, 12392]], Alt [Str [30906, 35469], Str [26908,
     35388]]])"

(* assertions.py line 689: (?:\u30da\u30fc\u30b8|page|Page)(\\d+)(?:\u304c|\u3092)(?:\u8868\u793a|\u9078\u629e)(?:\u3055\u308c\u3066|\u3057\u3066)(?:\u3044\u308b|\u3044\u308b\u3053\u3068)(?:\u78ba\u8a8d|\u691c\u8a3c) *)
definition rx_L689 :: pattern where
  "rx_L689 = Rx 1 (Seq [Alt [Str [12506, 12540, 12472], Str [112, 97, 103, 101], Str [80, 97, 103,
     101]], Grp 1 (Plus (InSet [CDigit])), Alt [Str [12364], Str [12434]], Alt [Str [34920,
     31034], Str [36984, 25246]], Alt [Str [12373, 12428, 12390], Str [12375, 12390]], Alt [Str
     [12356, 12427], Str [12356, 12427, 12371, 12392]], Alt [Str [30906, 35469], Str [26908,
     35388]]])"

(* assertions.py line 691: (?:\u6b21\u306e\u30da\u30fc\u30b8|\u524d\u306e\u30da\u30fc\u30b8|next|previous)(?:\u30dc\u30bf\u30f3|\u30ea\u30f3\u30af)(?:\u304c|\u306f)(?:\u5229\u7528\u53ef\u80fd|\u30af\u30ea\u30c3\u30af\u53ef\u80fd)(?:\u3067\u3042\u308b|\u306b\u306a\u3063\u3066)(?:\u3044\u308b|\u3044\u308b\u3053\u3068)(?:\u78ba\u8a8d|\u691c\u8a3c) *)
definition rx_L691 :: pattern where
  "rx_L691 = Rx 0 (Seq [Alt [Str [27425, 12398, 12506, 12540, 12472], Str [21069, 12398, 12506,
     12540, 12472], Str [110, 101, 120, 116], Str [112, 114, 101, 118, 105, 111, 117, 115]], Alt
     [Str [12508, 12479, 12531], Str [12522, 12531, 12463]], Alt [Str [12364], Str [12399]], Alt
     [Str [21033, 29992, 21487, 33021], Str [12463, 12522, 12483, 12463, 21487, 33021]], Alt
     [Str [12391, 12354, 12427], Str [12395, 12394, 12387, 12390]], Alt [Str [12356, 12427], Str
     [12356, 12427, 12371, 12392]], Alt [Str [30906, 35469], Str [26908, 35388]]])"

(* assertions.py line 697: (?:\u8a00\u8a9e|language|Language)(?:\u304c|\u306f)[\u300c]?(.+?)[\u300d]?(?:\u306b|\u3067)(?:\u8a2d\u5b9a|\u5207\u308a\u66ff\u3048)(?:\u3055\u308c\u3066|\u3057\u3066)(?:\u3044\u308b|\u3044\u308b\u3053\u3068)(?:\u78ba\u8a8d|\u691c\u8a3c) *)
definition rx_L697 :: pattern where
  "rx_L697 = Rx 1 (Seq [Alt [Str [35328, 35486], Str [108, 97, 110, 103, 117, 97, 103, 101], Str
     [76, 97, 110, 103, 117, 97, 103, 101]], Alt [Str [12364], Str [12399]], Opt (One (InSet
     [CChar 12300])), Grp 1 (PlusLazy AnyChar), Opt (One (InSet [CChar 12301])), Alt [Str
     [12395], Str [12391]], Alt [Str [35373, 23450], Str [20999, 12426, 26367, 12360]], Alt [Str
     [12373, 12428, 12390], Str [12375, 12390]], Alt [Str [12356, 12427], Str [12356, 12427,
     12371, 12392]], Alt [Str [30906, 35469], Str [26908, 35388]]])"

(* assertions.py line 699: (?:\u65e5\u672c\u8a9e|\u82f1\u8a9e|\u4e2d\u56fd\u8a9e|Japanese|English|Chinese)(?:\u8868\u793a|\u7248)(?:\u306b|\u3067)(?:\u306a\u3063\u3066|\u8a2d\u5b9a\u3055\u308c\u3066)(?:\u3044\u308b|\u3044\u308b\u3053\u3068)(?:\u78ba\u8a8d|\u691c\u8a3c) *)
definition rx_L699 :: pattern where
  "rx_L699 = Rx 0 (Seq [Alt [Str [26085, 26412, 35486], Str [33521, 35486], Str [20013, 22269,
     35486], Str [74, 97, 112, 97, 110, 101, 115, 101], Str [69, 110, 103, 108, 105, 115, 104],
     Str [67, 104, 105, 110, 101, 115, 101]], Alt [Str [34920, 31034], Str [29256]], Alt [Str
     [12395], Str [12391]], Alt [Str [12394, 12387, 12390], Str [35373, 23450, 12373, 12428,
     12390]], Alt [Str [12356, 12427], Str [12356, 12427, 12371, 12392]], Alt [Str [30906,
     35469], Str [26908, 35388]]])"

definition PATTERNS :: "(pattern \<times> AssertionType \<times> string) list" where
  "PATTERNS = [
     (rx_L107, TEXT_EXISTS, ''text''),
     (rx_L109, TEXT_EXISTS, ''text''),
     (rx_L111, TEXT_EXISTS, ''text''),
     (rx_L115, TEXT_NOT_EXISTS, ''text''),
     (rx_L117, TEXT_NOT_EXISTS, ''text''),
     (rx_L119, TEXT_NOT_EXISTS, ''text''),
     (rx_L123, ELEMENT_EXISTS, ''selector''),
     (rx_L125, ELEMENT_VISIBLE, ''selector''),
     (rx_L129, ELEMENT_NOT_EXISTS, ''selector''),
     (rx_L131, ELEMENT_HIDDEN, ''selector''),
     (rx_L135, URL_CONTAINS, ''url''),
     (rx_L137, URL_CONTAINS, ''url''),
     (rx_L139, URL_EQUALS, ''url''),
     (rx_L141, URL_STARTS_WITH, ''url''),
     (rx_L143, URL_ENDS_WITH, ''url''),
     (rx_L147, TITLE_EQUALS, ''title''),
     (rx_L149, TITLE_CONTAINS, ''title''),
     (rx_L153, INPUT_VALUE_EQUALS, ''selector_value''),
     (rx_L155, CHECKBOX_CHECKED, ''selector''),
     (rx_L157, CHECKBOX_UNCHECKED, ''selector''),
     (rx_L161, ELEMENT_COUNT, ''selector_count''),
     (rx_L163, ELEMENT_COUNT, ''selector_count''),
     (rx_L167, ELEMENT_EXISTS, ''html_element''),
     (rx_L169, ELEMENT_EXISTS, ''html_element''),
     (rx_L173, TEXT_EXISTS, ''text''),
     (rx_L175, TEXT_NOT_EXISTS, ''text''),
     (rx_L177, URL_CONTAINS, ''url''),
     (rx_L179, URL_STARTS_WITH, ''url''),
     (rx_L181, URL_ENDS_WITH, ''url''),
     (rx_L183, TITLE_CONTAINS, ''title''),
     (rx_L185, TITLE_EQUALS, ''title''),
     (rx_L189, TEXT_EXISTS, ''text''),
     (rx_L191, TEXT_NOT_EXISTS, ''text''),
     (rx_L193, URL_CONTAINS, ''url''),
     (rx_L195, URL_STARTS_WITH, ''url''),
     (rx_L197, URL_ENDS_WITH, ''url''),
     (rx_L199, TITLE_CONTAINS, ''title''),
     (rx_L201, TITLE_EQUALS, ''title''),
     (rx_L207, TEXT_EXISTS, ''text''),
     (rx_L209, TEXT_EXISTS, ''text''),
     (rx_L211, TEXT_EXISTS, ''text''),
     (rx_L213, TEXT_EXISTS, ''text''),
     (rx_L217, TEXT_EXISTS, ''text''),
     (rx_L219, TEXT_EXISTS, ''text''),
     (rx_L221, TEXT_EXISTS, ''text''),
     (rx_L225, TEXT_EXISTS, ''text''),
     (rx_L227, TEXT_EXISTS, ''text''),
     (rx_L231, TEXT_EXISTS, ''text''),
     (rx_L233, TEXT_EXISTS, ''text''),
     (rx_L237, URL_CONTAINS, ''url''),
     (rx_L239, URL_STARTS_WITH, ''url''),
     (rx_L241, URL_ENDS_WITH, ''url''),
     (rx_L245, TITLE_CONTAINS, ''title''),
     (rx_L247, TITLE_EQUALS, ''title''),
     (rx_L251, TEXT_NOT_EXISTS, ''text''),
     (rx_L253, TEXT_NOT_EXISTS, ''text''),
     (rx_L255, TEXT_NOT_EXISTS, ''text''),
     (rx_L259, TEXT_EXISTS, ''text''),
     (rx_L261, TEXT_NOT_EXISTS, ''text''),
     (rx_L263, TEXT_EXISTS, ''text''),
     (rx_L265, TEXT_EXISTS, ''text''),
     (rx_L269, TEXT_EXISTS, ''text''),
     (rx_L271, TEXT_EXISTS, ''text''),
     (rx_L273, TEXT_EXISTS, ''text''),
     (rx_L279, TEXT_EXISTS, ''text''),
     (rx_L281, TEXT_EXISTS, ''text''),
     (rx_L283, TEXT_EXISTS, ''text''),
     (rx_L287, TEXT_EXISTS, ''text''),
     (rx_L289, TEXT_EXISTS, ''text''),
     (rx_L293, TEXT_EXISTS, ''text''),
     (rx_L295, TEXT_EXISTS, ''text''),
     (rx_L301, TEXT_EXISTS, ''text''),
     (rx_L303, TEXT_EXISTS, ''text''),
     (rx_L307, TEXT_EXISTS, ''text''),
     (rx_L309, TEXT_EXISTS, ''text''),
     (rx_L313, TEXT_EXISTS, ''text''),
     (rx_L315, TEXT_EXISTS, ''text''),
     (rx_L321, TEXT_EXISTS, ''text''),
     (rx_L323, TEXT_EXISTS, ''text''),
     (rx_L325, TEXT_EXISTS, ''text''),
     (rx_L329, TEXT_EXISTS, ''text''),
     (rx_L331, TEXT_EXISTS, ''text''),
     (rx_L333, TEXT_EXISTS, ''text''),
     (rx_L339, TEXT_EXISTS, ''text''),
     (rx_L341, TEXT_EXISTS, ''text''),
     (rx_L345, TEXT_EXISTS, ''text''),
     (rx_L347, TEXT_EXISTS, ''text''),
     (rx_L353, TEXT_EXISTS, ''text''),
     (rx_L355, TEXT_EXISTS, ''text''),
     (rx_L359, TEXT_NOT_EXISTS, ''text''),
     (rx_L361, TEXT_NOT_EXISTS, ''text''),
     (rx_L367, TEXT_EXISTS, ''text''),
     (rx_L369, TEXT_EXISTS, ''text''),
     (rx_L373, TEXT_EXISTS, ''text''),
     (rx_L375, TEXT_EXISTS, ''text''),
     (rx_L381, URL_CONTAINS, ''url''),
     (rx_L383, URL_STARTS_WITH, ''url''),
     (rx_L385, URL_ENDS_WITH, ''url''),
     (rx_L389, TITLE_CONTAINS, ''title''),
     (rx_L391, TITLE_EQUALS, ''title''),
     (rx_L397, TEXT_EXISTS, ''text''),
     (rx_L399, TEXT_EXISTS, ''text''),
     (rx_L401, TEXT_EXISTS, ''text''),
     (rx_L405, TEXT_EXISTS, ''text''),
     (rx_L407, TEXT_EXISTS, ''text''),
     (rx_L409, TEXT_EXISTS, ''text''),
     (rx_L413, TEXT_EXISTS, ''text''),
     (rx_L415, TEXT_EXISTS, ''text''),
     (rx_L421, TEXT_EXISTS, ''text''),
     (rx_L423, TEXT_EXISTS, ''text''),
     (rx_L427, TEXT_EXISTS, ''text''),
     (rx_L429, TEXT_EXISTS, ''text''),
     (rx_L433, TEXT_EXISTS, ''text''),
     (rx_L435, TEXT_EXISTS, ''text''),
     (rx_L441, ELEMENT_EXISTS, ''button''),
     (rx_L443, ELEMENT_ENABLED, ''button''),
     (rx_L445, ELEMENT_DISABLED, ''button''),
     (rx_L449, ELEMENT_EXISTS, ''link''),
     (rx_L451, ELEMENT_EXISTS, ''link''),
     (rx_L455, INPUT_VALUE_EQUALS, ''input_empty''),
     (rx_L457, INPUT_VALUE_CONTAINS, ''input_any''),
     (rx_L461, INPUT_VALUE_EQUALS, ''select_value''),
     (rx_L463, ELEMENT_EXISTS, ''select_option''),
     (rx_L469, ELEMENT_NOT_EXISTS, ''loading''),
     (rx_L471, ELEMENT_NOT_EXISTS, ''loading''),
     (rx_L475, TEXT_NOT_EXISTS, ''error''),
     (rx_L477, TEXT_NOT_EXISTS, ''warning''),
     (rx_L481, TEXT_EXISTS, ''success''),
     (rx_L483, TEXT_EXISTS, ''complete''),
     (rx_L489, ELEMENT_EXISTS, ''image''),
     (rx_L491, ELEMENT_EXISTS, ''icon''),
     (rx_L495, ELEMENT_EXISTS, ''video''),
     (rx_L497, ELEMENT_EXISTS, ''video_player''),
     (rx_L503, TEXT_EXISTS, ''table_data''),
     (rx_L505, ELEMENT_COUNT, ''table_rows''),
     (rx_L509, TEXT_EXISTS, ''list_item''),
     (rx_L511, ELEMENT_COUNT, ''list_items''),
     (rx_L517, ELEMENT_VISIBLE, ''modal''),
     (rx_L519, ELEMENT_NOT_EXISTS, ''modal''),
     (rx_L523, ELEMENT_NOT_EXISTS, ''alert''),
     (rx_L525, ELEMENT_EXISTS, ''notification''),
     (rx_L531, ELEMENT_VISIBLE, ''menu''),
     (rx_L533, TEXT_EXISTS, ''nav''),
     (rx_L537, ELEMENT_EXISTS, ''tab_active''),
     (rx_L539, ELEMENT_VISIBLE, ''tab_content''),
     (rx_L545, ATTRIBUTE_EXISTS, ''aria_label''),
     (rx_L547, ATTRIBUTE_EXISTS, ''aria''),
     (rx_L551, ELEMENT_EXISTS, ''focused''),
     (rx_L553, ELEMENT_ENABLED, ''tabbable''),
     (rx_L559, ELEMENT_VISIBLE, ''mobile''),
     (rx_L561, ELEMENT_VISIBLE, ''responsive''),
     (rx_L567, ELEMENT_VISIBLE, ''performance''),
     (rx_L569, ELEMENT_VISIBLE, ''fast_response''),
     (rx_L575, URL_STARTS_WITH, ''https''),
     (rx_L577, URL_STARTS_WITH, ''secure''),
     (rx_L583, TEXT_EXISTS, ''symbol''),
     (rx_L585, TEXT_EXISTS, ''required_mark''),
     (rx_L591, TEXT_EXISTS, ''date''),
     (rx_L593, TEXT_EXISTS, ''today_date''),
     (rx_L597, TEXT_EXISTS, ''time''),
     (rx_L599, TEXT_EXISTS, ''current_time''),
     (rx_L605, TEXT_EXISTS, ''price''),
     (rx_L607, TEXT_EXISTS, ''total''),
     (rx_L613, TEXT_CONTAINS, ''count''),
     (rx_L615, TEXT_CONTAINS, ''remaining''),
     (rx_L621, TEXT_EXISTS, ''logged_in''),
     (rx_L623, TEXT_NOT_EXISTS, ''logged_in''),
     (rx_L627, TEXT_EXISTS, ''username''),
     (rx_L629, TEXT_EXISTS, ''account''),
     (rx_L635, ELEMENT_ENABLED, ''download''),
     (rx_L637, ELEMENT_EXISTS, ''file_download''),
     (rx_L641, ELEMENT_ENABLED, ''upload''),
     (rx_L643, ELEMENT_EXISTS, ''file_input''),
     (rx_L649, TEXT_CONTAINS, ''progress''),
     (rx_L651, ELEMENT_EXISTS, ''progress_bar''),
     (rx_L657, TEXT_EXISTS, ''info''),
     (rx_L659, TEXT_EXISTS, ''hint''),
     (rx_L665, TEXT_NOT_EXISTS, ''validation_error''),
     (rx_L667, ELEMENT_EXISTS, ''valid_form''),
     (rx_L673, ELEMENT_EXISTS, ''sorted''),
     (rx_L675, ELEMENT_EXISTS, ''ordered''),
     (rx_L681, ELEMENT_EXISTS, ''filter''),
     (rx_L683, TEXT_CONTAINS, ''search_results''),
     (rx_L689, TEXT_CONTAINS, ''page_number''),
     (rx_L691, ELEMENT_ENABLED, ''pagination''),
     (rx_L697, TEXT_EXISTS, ''language''),
     (rx_L699, TEXT_EXISTS, ''locale'')]"


subsection \<open>\<open>AssertionPatternMatcher\<close>\<close>

definition quote_chars :: ustr where
  "quote_chars = [12300, 12301, 34, 39]"

definition has_text :: "ustr \<Rightarrow> ustr" where
  "has_text name = [58, 104, 97, 115, 45, 116, 101, 120, 116, 40, 34] @ name @ [34, 41]"

definition button_selector :: "ustr \<Rightarrow> ustr" where
  "button_selector name =
     [98, 117, 116, 116, 111, 110] @ has_text name @ [44, 32, 105, 110, 112, 117, 116, 91, 116, 121, 112, 101, 61, 34, 98, 117, 116, 116, 111, 110, 34, 93] @ has_text name
       @ [44, 32, 105, 110, 112, 117, 116, 91, 116, 121, 112, 101, 61, 34, 115, 117, 98, 109, 105, 116, 34, 93] @ has_text name"

definition link_selector :: "ustr \<Rightarrow> ustr" where
  "link_selector name = [97] @ has_text name @ [58, 118, 105, 115, 105, 98, 108, 101]"

definition field_selector :: "ustr \<Rightarrow> ustr" where
  "field_selector name =
     [105, 110, 112, 117, 116, 91, 112, 108, 97, 99, 101, 104, 111, 108, 100, 101, 114, 42, 61, 34] @ name @ [34, 93, 44, 32, 105, 110, 112, 117, 116, 91, 110, 97, 109, 101, 42, 61, 34] @ name @ [34, 93, 44, 32, 108, 97, 98, 101, 108]
       @ has_text name @ [32, 43, 32, 105, 110, 112, 117, 116]"

definition checkbox_selector :: "ustr \<Rightarrow> ustr" where
  "checkbox_selector name =
     [105, 110, 112, 117, 116, 91, 116, 121, 112, 101, 61, 34, 99, 104, 101, 99, 107, 98, 111, 120, 34, 93, 91, 110, 97, 109, 101, 42, 61, 34] @ name @ [34, 93, 44, 32, 108, 97, 98, 101, 108] @ has_text name
       @ [32, 105, 110, 112, 117, 116, 91, 116, 121, 112, 101, 61, 34, 99, 104, 101, 99, 107, 98, 111, 120, 34, 93]"

definition text_to_selector :: "pyrt \<Rightarrow> ustr \<Rightarrow> ustr" where
  "text_to_selector rt text0 =
     (let text = strip_chars text0 quote_chars;
          clean = (\<lambda>s. strip_chars (strip s) quote_chars)
      in if contains text [12508, 12479, 12531] then button_selector (clean (replace text [12508, 12479, 12531] []))
         else if contains text [12522, 12531, 12463] then link_selector (clean (replace text [12522, 12531, 12463] []))
         else if contains text [12501, 12451, 12540, 12523, 12489] \<or> contains text [20837, 21147, 27396]
           then field_selector (clean (replace (replace text [12501, 12451, 12540, 12523, 12489] []) [20837, 21147, 27396] []))
         else if contains text [12481, 12455, 12483, 12463, 12508, 12483, 12463, 12473]
           then checkbox_selector (clean (replace text [12481, 12455, 12483, 12463, 12508, 12483, 12463, 12473] []))
         else if contains (lower rt text) [98, 117, 116, 116, 111, 110]
           then button_selector (clean (replace (lower rt text) [98, 117, 116, 116, 111, 110] []))
         else if contains (lower rt text) [108, 105, 110, 107]
           then link_selector (clean (replace (lower rt text) [108, 105, 110, 107] []))
         else if contains text [25353, 38062] \<or> contains text [25353, 37397]
           then button_selector (clean (replace (replace text [25353, 38062] []) [25353, 37397] []))
         else if contains text [38142, 25509] \<or> contains text [36899, 32080]
           then link_selector (clean (replace (replace text [38142, 25509] []) [36899, 32080] []))
         else has_text text)"

text \<open>What \<open>parse\<close> returns: the dictionary with the keys \<open>type\<close>, \<open>selector\<close> and
  \<open>expected\<close>.\<close>

record assertion_info =
  ai_type :: AssertionType
  ai_selector :: "ustr option"
  ai_expected :: "pyval option"

text \<open>\<open>groups[i].strip()\<close>: an IndexError when the pattern has no such group, an
  AttributeError when the group took no part in the match (it is \<open>None\<close>).\<close>

definition group_strip :: "ustr option list \<Rightarrow> nat \<Rightarrow> exn + ustr" where
  "group_strip gs i =
     (if length gs \<le> i then Inl (Exn ''IndexError'' (ascii ''tuple index out of range''))
      else case gs ! i of
             None \<Rightarrow> Inl (Exn ''AttributeError''
                        [39, 78, 111, 110, 101, 84, 121, 112, 101, 39, 32, 111, 98, 106, 101, 99, 116, 32, 104, 97, 115, 32, 110, 111, 32, 97, 116, 116, 114, 105, 98, 117, 116, 101, 32, 39, 115, 116, 114, 105, 112, 39])
           | Some g \<Rightarrow> Inr (strip g))"

definition group_int :: "pyrt \<Rightarrow> ustr option list \<Rightarrow> nat \<Rightarrow> exn + int" where
  "group_int rt gs i =
     (if length gs \<le> i then Inl (Exn ''IndexError'' (ascii ''tuple index out of range''))
      else case gs ! i of
             None \<Rightarrow> Inl (Exn ''TypeError''
                        [105, 110, 116, 40, 41, 32, 97, 114, 103, 117, 109, 101, 110, 116, 32, 109, 117, 115, 116, 32, 98, 101, 32, 97, 32, 115, 116, 114, 105, 110, 103, 44, 32, 97, 32, 98, 121, 116, 101, 115, 45, 108, 105, 107, 101, 32, 111, 98, 106, 101, 99, 116, 32, 111, 114, 32, 97, 32, 114, 101, 97, 108, 32, 110, 117, 109, 98, 101, 114, 44, 32, 110, 111, 116, 32, 39, 78, 111, 110, 101, 84, 121, 112, 101, 39])
           | Some g \<Rightarrow> py_int (str_repr rt) (int_max_str_digits rt) g)"

text \<open>The body of the loop of \<open>parse\<close> for an entry whose pattern matched: the branch of
  the parameter kind returns, and an entry of any other kind returns nothing, so that the
  loop goes on to the next entry (\<open>Inr None\<close> here).\<close>

definition extract_info :: "pyrt \<Rightarrow> AssertionType \<Rightarrow> string \<Rightarrow> ustr option list \<Rightarrow> exn + assertion_info option" where
  "extract_info rt assertion_type param_type gs =
     (if param_type = ''text'' \<or> param_type = ''url'' \<or> param_type = ''title'' then
        (case group_strip gs 0 of
           Inl e \<Rightarrow> Inl e
         | Inr text \<Rightarrow>
             Inr (Some \<lparr>ai_type = assertion_type, ai_selector = None,
                        ai_expected = Some (PStr (strip_chars text quote_chars))\<rparr>))
      else if param_type = ''selector'' then
        (case group_strip gs 0 of
           Inl e \<Rightarrow> Inl e
         | Inr text \<Rightarrow>
             Inr (Some \<lparr>ai_type = assertion_type,
                        ai_selector = Some (text_to_selector rt text), ai_expected = None\<rparr>))
      else if param_type = ''selector_value'' then
        (case group_strip gs 0 of
           Inl e \<Rightarrow> Inl e
         | Inr text \<Rightarrow>
             (case group_strip gs 1 of
                Inl e \<Rightarrow> Inl e
              | Inr v \<Rightarrow>
                  Inr (Some \<lparr>ai_type = assertion_type,
                             ai_selector = Some (text_to_selector rt text),
                             ai_expected = Some (PStr v)\<rparr>)))
      else if param_type = ''selector_count'' then
        (case group_strip gs 0 of
           Inl e \<Rightarrow> Inl e
         | Inr text \<Rightarrow>
             (case group_int rt gs 1 of
                Inl e \<Rightarrow> Inl e
              | Inr n \<Rightarrow>
                  Inr (Some \<lparr>ai_type = assertion_type,
                             ai_selector = Some (text_to_selector rt text),
                             ai_expected = Some (PInt n)\<rparr>)))
      else if param_type = ''html_element'' then
        (case group_strip gs 0 of
           Inl e \<Rightarrow> Inl e
         | Inr text \<Rightarrow>
             Inr (Some \<lparr>ai_type = assertion_type, ai_selector = Some text,
                        ai_expected = None\<rparr>))
      else Inr None)"

text \<open>\<open>parse\<close>: the loop over the table.  \<open>re.search\<close> compiles the pattern of the entry
  it has reached, so a pattern that does not compile raises there, not before.\<close>

fun parse_loop :: "pyrt \<Rightarrow> (pattern \<times> AssertionType \<times> string) list \<Rightarrow> ustr \<Rightarrow> exn + assertion_info option" where
  "parse_loop rt [] instruction = Inr None"
| "parse_loop rt ((pat, assertion_type, param_type) # rest) instruction =
     (case re_search pat instruction of
        Inl e \<Rightarrow> Inl e
      | Inr None \<Rightarrow> parse_loop rt rest instruction
      | Inr (Some m) \<Rightarrow>
          (case extract_info rt assertion_type param_type (groups m) of
             Inl e \<Rightarrow> Inl e
           | Inr (Some info) \<Rightarrow> Inr (Some info)
           | Inr None \<Rightarrow> parse_loop rt rest instruction))"

definition parse :: "pyrt \<Rightarrow> ustr \<Rightarrow> exn + assertion_info option" where
  "parse rt instruction = parse_loop rt PATTERNS instruction"


subsection \<open>\<open>Assertion\<close>, \<open>AssertionResult\<close> and the page\<close>

record assertion =
  a_type :: AssertionType
  a_selector :: "ustr option"
  a_expected :: "pyval option"
  a_attribute :: "ustr option"
  a_timeout :: int
  a_ignore_case :: bool
  a_wait_for :: bool

text \<open>\<open>Assertion(**assertion_info)\<close>: the three keys of the dictionary, every other field
  at its declared default.\<close>

definition make_assertion :: "assertion_info \<Rightarrow> assertion" where
  "make_assertion info =
     \<lparr>a_type = ai_type info, a_selector = ai_selector info, a_expected = ai_expected info,
      a_attribute = None, a_timeout = 5000, a_ignore_case = False, a_wait_for = True\<rparr>"

text \<open>\<open>execution_time_ms\<close>, a reading of the wall clock, is left out of the result.\<close>

record AssertionResult =
  passed :: bool
  assertion_of :: assertion
  actual_value :: "pyval option"
  expected_value :: "pyval option"
  error_message :: "ustr option"
  screenshot_path :: "ustr option"

text \<open>
  The page of the browser engine, in one fixed state: what each call the evaluators make
  answers, an exception of the engine being \<open>Inl\<close>.  A locator is named by the selector
  it was made from (\<open>assertion.selector\<close> may be \<open>None\<close>); \<open>page.url\<close> is a property.
\<close>

record page =
  pg_count :: "ustr option \<Rightarrow> exn + nat"
  pg_first_wait_for :: "ustr option \<Rightarrow> int \<Rightarrow> exn + unit"
  pg_first_wait_for_visible :: "ustr option \<Rightarrow> int \<Rightarrow> exn + unit"
  pg_wait_for_visible :: "ustr option \<Rightarrow> int \<Rightarrow> exn + unit"
  pg_is_visible :: "ustr option \<Rightarrow> exn + bool"
  pg_input_value :: "ustr option \<Rightarrow> exn + ustr"
  pg_is_checked :: "ustr option \<Rightarrow> exn + bool"
  pg_url :: ustr
  pg_title :: "exn + ustr"
  pg_content :: "exn + ustr"

subsection \<open>\<open>str\<close> of the values an assertion holds\<close>

fun str_pyval :: "pyrt \<Rightarrow> pyval option \<Rightarrow> ustr" where
  "str_pyval rt None = [78, 111, 110, 101]"
| "str_pyval rt (Some (PStr s)) = s"
| "str_pyval rt (Some (PInt i)) = str_int i"
| "str_pyval rt (Some (PBool b)) = (if b then [84, 114, 117, 101] else [70, 97, 108, 115, 101])"
| "str_pyval rt (Some (PFloat f)) = float_str rt f"

definition str_selector :: "ustr option \<Rightarrow> ustr" where
  "str_selector sel = (case sel of None \<Rightarrow> [78, 111, 110, 101] | Some s \<Rightarrow> s)"

text \<open>\<open>int(assertion.expected)\<close>.\<close>

fun int_pyval :: "pyrt \<Rightarrow> pyval option \<Rightarrow> exn + int" where
  "int_pyval rt None = Inl (Exn ''TypeError'' [105, 110, 116, 40, 41, 32, 97, 114, 103, 117, 109, 101, 110, 116, 32, 109, 117, 115, 116, 32, 98, 101, 32, 97, 32, 115, 116, 114, 105, 110, 103, 44, 32, 97, 32, 98, 121, 116, 101, 115, 45, 108, 105, 107, 101, 32, 111, 98, 106, 101, 99, 116, 32, 111, 114, 32, 97, 32, 114, 101, 97, 108, 32, 110, 117, 109, 98, 101, 114, 44, 32, 110, 111, 116, 32, 39, 78, 111, 110, 101, 84, 121, 112, 101, 39])"
| "int_pyval rt (Some (PStr s)) = py_int (str_repr rt) (int_max_str_digits rt) s"
| "int_pyval rt (Some (PInt i)) = Inr i"
| "int_pyval rt (Some (PBool b)) = Inr (if b then 1 else 0)"
| "int_pyval rt (Some (PFloat f)) = float_int rt f"

subsection \<open>The evaluators of \<open>AssertionExecutor\<close>\<close>

definition failed_with :: "assertion \<Rightarrow> ustr \<Rightarrow> exn \<Rightarrow> AssertionResult" where
  "failed_with a prefix e =
     \<lparr>passed = False, assertion_of = a, actual_value = None, expected_value = None,
      error_message = Some (prefix @ exn_message e), screenshot_path = None\<rparr>"

text \<open>The loop of \<open>_assert_text_exists\<close> over its selectors: the first one with a positive
  count wins, and a selector whose wait or count raises is skipped.\<close>

fun text_exists_loop :: "page \<Rightarrow> bool \<Rightarrow> ustr list \<Rightarrow> nat option" where
  "text_exists_loop pg w [] = None"
| "text_exists_loop pg w (sel # sels) =
     (case (if w then pg_first_wait_for pg (Some sel) 1000 else Inr ()) of
        Inl e \<Rightarrow> text_exists_loop pg w sels
      | Inr u \<Rightarrow>
          (case pg_count pg (Some sel) of
             Inl e \<Rightarrow> text_exists_loop pg w sels
           | Inr n \<Rightarrow> if n > 0 then Some n else text_exists_loop pg w sels))"

text \<open>The fallback of both text evaluators: \<open>assertion.expected.lower() in
  page_content.lower()\<close> inside a bare \<open>try\<close>; reading the content may raise, and so does
  \<open>.lower()\<close> on an expected value that is not a string.\<close>

definition content_has :: "pyrt \<Rightarrow> page \<Rightarrow> pyval option \<Rightarrow> bool" where
  "content_has rt pg e =
     (case pg_content pg of
        Inl ex \<Rightarrow> False
      | Inr page_content \<Rightarrow>
          (case e of
             Some (PStr s) \<Rightarrow> contains (lower rt page_content) (lower rt s)
           | _ \<Rightarrow> False))"

text \<open>The selectors \<open>_assert_text_exists\<close> tries, in its order, for the text \<open>e\<close>.\<close>

definition text_exists_selectors :: "ustr \<Rightarrow> ustr list" where
  "text_exists_selectors e =
     [[116, 101, 120, 116, 61, 34] @ e @ [34], [116, 101, 120, 116, 61, 47] @ e @ [47, 105], [116, 101, 120, 116, 42, 61, 34] @ e @ [34],
      [58, 116, 101, 120, 116, 45, 105, 115, 40, 34] @ e @ [34, 41], [58, 116, 101, 120, 116, 40, 34] @ e @ [34, 41]]"

definition assert_text_exists :: "pyrt \<Rightarrow> page \<Rightarrow> assertion \<Rightarrow> AssertionResult" where
  "assert_text_exists rt pg a =
     (let e = str_pyval rt (a_expected a);
          selectors = text_exists_selectors e;
          found = text_exists_loop pg (a_wait_for a) selectors;
          fallback = (found = None \<and> content_has rt pg (a_expected a));
          passed = (found \<noteq> None \<or> fallback);
          count = (case found of Some n \<Rightarrow> n | None \<Rightarrow> if fallback then 1 else 0)
      in \<lparr>passed = passed, assertion_of = a, actual_value = Some (PInt (int count)),
          expected_value = Some (PStr ([12486, 12461, 12473, 12488, 32, 39] @ e @ [39, 32, 12364, 49, 12388, 20197, 19978, 23384, 22312])),
          error_message = (if passed then None else Some ([12486, 12461, 12473, 12488, 32, 39] @ e @ [39, 32, 12364, 35211, 12388, 12363, 12426, 12414, 12379, 12435])),
          screenshot_path = None\<rparr>)"

fun text_not_exists_loop :: "page \<Rightarrow> ustr list \<Rightarrow> bool" where
  "text_not_exists_loop pg [] = False"
| "text_not_exists_loop pg (sel # sels) =
     (case pg_count pg (Some sel) of
        Inl e \<Rightarrow> text_not_exists_loop pg sels
      | Inr n \<Rightarrow> if n > 0 then True else text_not_exists_loop pg sels)"

text \<open>The selectors \<open>_assert_text_not_exists\<close> tries.\<close>

definition text_not_exists_selectors :: "ustr \<Rightarrow> ustr list" where
  "text_not_exists_selectors e = [[116, 101, 120, 116, 61, 34] @ e @ [34], [116, 101, 120, 116, 61, 47] @ e @ [47, 105], [116, 101, 120, 116, 42, 61, 34] @ e @ [34]]"

definition assert_text_not_exists :: "pyrt \<Rightarrow> page \<Rightarrow> assertion \<Rightarrow> AssertionResult" where
  "assert_text_not_exists rt pg a =
     (let e = str_pyval rt (a_expected a);
          selectors = text_not_exists_selectors e;
          found = (text_not_exists_loop pg selectors \<or> content_has rt pg (a_expected a));
          passed = (\<not> found)
      in \<lparr>passed = passed, assertion_of = a,
          actual_value = Some (PInt (if found then 1 else 0)),
          expected_value = Some (PStr ([12486, 12461, 12473, 12488, 32, 39] @ e @ [39, 32, 12364, 23384, 22312, 12375, 12394, 12356])),
          error_message = (if passed then None else Some ([12486, 12461, 12473, 12488, 32, 39] @ e @ [39, 32, 12364, 35211, 12388, 12363, 12426, 12414, 12375, 12383])),
          screenshot_path = None\<rparr>)"

definition assert_element_exists :: "pyrt \<Rightarrow> page \<Rightarrow> assertion \<Rightarrow> AssertionResult" where
  "assert_element_exists rt pg a =
     (case (if a_wait_for a then pg_first_wait_for_visible pg (a_selector a) (a_timeout a)
            else Inr ()) of
        Inl e \<Rightarrow> failed_with a [35201, 32032, 23384, 22312, 30906, 35469, 12456, 12521, 12540, 58, 32] e
      | Inr u \<Rightarrow>
          (case pg_count pg (a_selector a) of
             Inl e \<Rightarrow> failed_with a [35201, 32032, 23384, 22312, 30906, 35469, 12456, 12521, 12540, 58, 32] e
           | Inr count \<Rightarrow>
               \<lparr>passed = (count > 0), assertion_of = a,
                actual_value = Some (PInt (int count)),
                expected_value = Some (PStr ([35201, 32032, 32, 39] @ str_selector (a_selector a) @ [39, 32, 12364, 49, 12388, 20197, 19978, 23384, 22312])),
                error_message = (if count > 0 then None
                   else Some ([35201, 32032, 32, 39] @ str_selector (a_selector a) @ [39, 32, 12364, 35211, 12388, 12363, 12426, 12414, 12379, 12435])),
                screenshot_path = None\<rparr>))"

definition assert_element_not_exists :: "pyrt \<Rightarrow> page \<Rightarrow> assertion \<Rightarrow> AssertionResult" where
  "assert_element_not_exists rt pg a =
     (case pg_count pg (a_selector a) of
        Inl e \<Rightarrow> failed_with a [35201, 32032, 38750, 23384, 22312, 30906, 35469, 12456, 12521, 12540, 58, 32] e
      | Inr count \<Rightarrow>
          \<lparr>passed = (count = 0), assertion_of = a,
           actual_value = Some (PInt (int count)),
           expected_value = Some (PStr ([35201, 32032, 32, 39] @ str_selector (a_selector a) @ [39, 32, 12364, 23384, 22312, 12375, 12394, 12356])),
           error_message = (if count = 0 then None
              else Some ([35201, 32032, 32, 39] @ str_selector (a_selector a) @ [39, 32, 12364, 35211, 12388, 12363, 12426, 12414, 12375, 12383, 65288]
                         @ str_nat count @ [20491, 65289])),
           screenshot_path = None\<rparr>)"

definition assert_element_visible :: "pyrt \<Rightarrow> page \<Rightarrow> assertion \<Rightarrow> AssertionResult" where
  "assert_element_visible rt pg a =
     (case (if a_wait_for a then pg_wait_for_visible pg (a_selector a) (a_timeout a)
            else Inr ()) of
        Inl e \<Rightarrow> failed_with a [35201, 32032, 34920, 31034, 30906, 35469, 12456, 12521, 12540, 58, 32] e
      | Inr u \<Rightarrow>
          (case pg_is_visible pg (a_selector a) of
             Inl e \<Rightarrow> failed_with a [35201, 32032, 34920, 31034, 30906, 35469, 12456, 12521, 12540, 58, 32] e
           | Inr is_visible \<Rightarrow>
               \<lparr>passed = is_visible, assertion_of = a,
                actual_value = Some (PBool is_visible),
                expected_value = Some (PStr ([35201, 32032, 32, 39] @ str_selector (a_selector a) @ [39, 32, 12364, 34920, 31034, 12373, 12428, 12390, 12356, 12427])),
                error_message = (if is_visible then None
                   else Some ([35201, 32032, 32, 39] @ str_selector (a_selector a) @ [39, 32, 12364, 34920, 31034, 12373, 12428, 12390, 12356, 12414, 12379, 12435])),
                screenshot_path = None\<rparr>))"

definition assert_element_hidden :: "pyrt \<Rightarrow> page \<Rightarrow> assertion \<Rightarrow> AssertionResult" where
  "assert_element_hidden rt pg a =
     (case pg_is_visible pg (a_selector a) of
        Inl e \<Rightarrow> failed_with a [35201, 32032, 38750, 34920, 31034, 30906, 35469, 12456, 12521, 12540, 58, 32] e
      | Inr is_visible \<Rightarrow>
          \<lparr>passed = (\<not> is_visible), assertion_of = a,
           actual_value = Some (PBool is_visible),
           expected_value = Some (PStr ([35201, 32032, 32, 39] @ str_selector (a_selector a) @ [39, 32, 12364, 38750, 34920, 31034])),
           error_message = (if \<not> is_visible then None
              else Some ([35201, 32032, 32, 39] @ str_selector (a_selector a) @ [39, 32, 12364, 34920, 31034, 12373, 12428, 12390, 12356, 12414, 12377])),
           screenshot_path = None\<rparr>)"

definition assert_url_contains :: "pyrt \<Rightarrow> page \<Rightarrow> assertion \<Rightarrow> AssertionResult" where
  "assert_url_contains rt pg a =
     (let current_url = pg_url pg;
          expected_url = str_pyval rt (a_expected a);
          passed = contains current_url expected_url
      in \<lparr>passed = passed, assertion_of = a, actual_value = Some (PStr current_url),
          expected_value = Some (PStr ([85, 82, 76, 12395, 32, 39] @ expected_url @ [39, 32, 12364, 21547, 12414, 12428, 12427])),
          error_message = (if passed then None
             else Some ([85, 82, 76, 12395, 32, 39] @ expected_url @ [39, 32, 12364, 21547, 12414, 12428, 12390, 12356, 12414, 12379, 12435])),
          screenshot_path = None\<rparr>)"

definition assert_url_equals :: "pyrt \<Rightarrow> page \<Rightarrow> assertion \<Rightarrow> AssertionResult" where
  "assert_url_equals rt pg a =
     (let current_url = pg_url pg;
          expected_url = str_pyval rt (a_expected a);
          passed = (current_url = expected_url)
      in \<lparr>passed = passed, assertion_of = a, actual_value = Some (PStr current_url),
          expected_value = Some (PStr expected_url),
          error_message = (if passed then None else Some [85, 82, 76, 12364, 19968, 33268, 12375, 12414, 12379, 12435]),
          screenshot_path = None\<rparr>)"

definition assert_url_starts_with :: "pyrt \<Rightarrow> page \<Rightarrow> assertion \<Rightarrow> AssertionResult" where
  "assert_url_starts_with rt pg a =
     (let current_url = pg_url pg;
          expected_start = str_pyval rt (a_expected a);
          passed = startswith current_url expected_start
      in \<lparr>passed = passed, assertion_of = a, actual_value = Some (PStr current_url),
          expected_value = Some (PStr ([85, 82, 76, 12364, 32, 39] @ expected_start @ [39, 32, 12391, 22987, 12414, 12427])),
          error_message = (if passed then None
             else Some ([85, 82, 76, 12364, 32, 39] @ expected_start @ [39, 32, 12391, 22987, 12414, 12387, 12390, 12356, 12414, 12379, 12435])),
          screenshot_path = None\<rparr>)"

definition assert_url_ends_with :: "pyrt \<Rightarrow> page \<Rightarrow> assertion \<Rightarrow> AssertionResult" where
  "assert_url_ends_with rt pg a =
     (let current_url = pg_url pg;
          expected_end = str_pyval rt (a_expected a);
          passed = endswith current_url expected_end
      in \<lparr>passed = passed, assertion_of = a, actual_value = Some (PStr current_url),
          expected_value = Some (PStr ([85, 82, 76, 12364, 32, 39] @ expected_end @ [39, 32, 12391, 32066, 12431, 12427])),
          error_message = (if passed then None
             else Some ([85, 82, 76, 12364, 32, 39] @ expected_end @ [39, 32, 12391, 32066, 12431, 12387, 12390, 12356, 12414, 12379, 12435])),
          screenshot_path = None\<rparr>)"

definition assert_title_contains :: "pyrt \<Rightarrow> page \<Rightarrow> assertion \<Rightarrow> AssertionResult" where
  "assert_title_contains rt pg a =
     (case pg_title pg of
        Inl e \<Rightarrow> failed_with a [12479, 12452, 12488, 12523, 21253, 21547, 30906, 35469, 12456, 12521, 12540, 58, 32] e
      | Inr current_title \<Rightarrow>
          (let expected_text = str_pyval rt (a_expected a);
               passed = contains current_title expected_text
           in \<lparr>passed = passed, assertion_of = a, actual_value = Some (PStr current_title),
               expected_value = Some (PStr ([12479, 12452, 12488, 12523, 12395, 32, 39] @ expected_text @ [39, 32, 12364, 21547, 12414, 12428, 12427])),
               error_message = (if passed then None
                  else Some ([12479, 12452, 12488, 12523, 12395, 32, 39] @ expected_text @ [39, 32, 12364, 21547, 12414, 12428, 12390, 12356, 12414, 12379, 12435])),
               screenshot_path = None\<rparr>))"

definition assert_title_equals :: "pyrt \<Rightarrow> page \<Rightarrow> assertion \<Rightarrow> AssertionResult" where
  "assert_title_equals rt pg a =
     (case pg_title pg of
        Inl e \<Rightarrow> failed_with a [12479, 12452, 12488, 12523, 19968, 33268, 30906, 35469, 12456, 12521, 12540, 58, 32] e
      | Inr current_title \<Rightarrow>
          (let expected_title = str_pyval rt (a_expected a);
               passed = (current_title = expected_title)
           in \<lparr>passed = passed, assertion_of = a, actual_value = Some (PStr current_title),
               expected_value = Some (PStr expected_title),
               error_message = (if passed then None else Some [12479, 12452, 12488, 12523, 12364, 19968, 33268, 12375, 12414, 12379, 12435]),
               screenshot_path = None\<rparr>))"

definition assert_element_count :: "pyrt \<Rightarrow> page \<Rightarrow> assertion \<Rightarrow> AssertionResult" where
  "assert_element_count rt pg a =
     (case pg_count pg (a_selector a) of
        Inl e \<Rightarrow> failed_with a [35201, 32032, 25968, 30906, 35469, 12456, 12521, 12540, 58, 32] e
      | Inr actual_count \<Rightarrow>
          (case int_pyval rt (a_expected a) of
             Inl e \<Rightarrow> failed_with a [35201, 32032, 25968, 30906, 35469, 12456, 12521, 12540, 58, 32] e
           | Inr expected_count \<Rightarrow>
               (let passed = (int actual_count = expected_count)
                in \<lparr>passed = passed, assertion_of = a,
                    actual_value = Some (PInt (int actual_count)),
                    expected_value = Some (PInt expected_count),
                    error_message = (if passed then None
                       else Some ([35201, 32032, 25968, 12364, 19968, 33268, 12375, 12414, 12379, 12435, 65288, 26399, 24453, 20516, 58, 32] @ str_int expected_count
                                  @ [44, 32, 23455, 38555, 58, 32] @ str_nat actual_count @ [65289])),
                    screenshot_path = None\<rparr>)))"

definition assert_input_value_equals :: "pyrt \<Rightarrow> page \<Rightarrow> assertion \<Rightarrow> AssertionResult" where
  "assert_input_value_equals rt pg a =
     (case pg_input_value pg (a_selector a) of
        Inl e \<Rightarrow> failed_with a [20837, 21147, 20516, 30906, 35469, 12456, 12521, 12540, 58, 32] e
      | Inr actual \<Rightarrow>
          (let expected_v = str_pyval rt (a_expected a);
               passed = (actual = expected_v)
           in \<lparr>passed = passed, assertion_of = a, actual_value = Some (PStr actual),
               expected_value = Some (PStr expected_v),
               error_message = (if passed then None else Some [20837, 21147, 20516, 12364, 19968, 33268, 12375, 12414, 12379, 12435]),
               screenshot_path = None\<rparr>))"

definition assert_checkbox_checked :: "pyrt \<Rightarrow> page \<Rightarrow> assertion \<Rightarrow> AssertionResult" where
  "assert_checkbox_checked rt pg a =
     (case pg_is_checked pg (a_selector a) of
        Inl e \<Rightarrow> failed_with a [12481, 12455, 12483, 12463, 12508, 12483, 12463, 12473, 30906, 35469, 12456, 12521, 12540, 58, 32] e
      | Inr is_checked \<Rightarrow>
          \<lparr>passed = is_checked, assertion_of = a, actual_value = Some (PBool is_checked),
           expected_value = Some (PBool True),
           error_message = (if is_checked then None
              else Some [12481, 12455, 12483, 12463, 12508, 12483, 12463, 12473, 12364, 12481, 12455, 12483, 12463, 12373, 12428, 12390, 12356, 12414, 12379, 12435]),
           screenshot_path = None\<rparr>)"

definition assert_checkbox_unchecked :: "pyrt \<Rightarrow> page \<Rightarrow> assertion \<Rightarrow> AssertionResult" where
  "assert_checkbox_unchecked rt pg a =
     (case pg_is_checked pg (a_selector a) of
        Inl e \<Rightarrow> failed_with a [12481, 12455, 12483, 12463, 12508, 12483, 12463, 12473, 30906, 35469, 12456, 12521, 12540, 58, 32] e
      | Inr is_checked \<Rightarrow>
          \<lparr>passed = (\<not> is_checked), assertion_of = a, actual_value = Some (PBool is_checked),
           expected_value = Some (PBool False),
           error_message = (if \<not> is_checked then None
              else Some [12481, 12455, 12483, 12463, 12508, 12483, 12463, 12473, 12364, 12481, 12455, 12483, 12463, 12373, 12428, 12390, 12356, 12414, 12377]),
           screenshot_path = None\<rparr>)"

subsection \<open>The dispatcher\<close>

text \<open>The \<open>if\<close>/\<open>elif\<close> chain of \<open>_execute_assertion\<close>: the evaluator of each of the sixteen
  types it names, and \<open>None\<close> for the types that fall to its \<open>else\<close>.\<close>

fun evaluator_of :: "AssertionType \<Rightarrow> (pyrt \<Rightarrow> page \<Rightarrow> assertion \<Rightarrow> AssertionResult) option" where
  "evaluator_of TEXT_EXISTS = Some assert_text_exists"
| "evaluator_of TEXT_NOT_EXISTS = Some assert_text_not_exists"
| "evaluator_of ELEMENT_EXISTS = Some assert_element_exists"
| "evaluator_of ELEMENT_NOT_EXISTS = Some assert_element_not_exists"
| "evaluator_of ELEMENT_VISIBLE = Some assert_element_visible"
| "evaluator_of ELEMENT_HIDDEN = Some assert_element_hidden"
| "evaluator_of URL_CONTAINS = Some assert_url_contains"
| "evaluator_of URL_EQUALS = Some assert_url_equals"
| "evaluator_of URL_STARTS_WITH = Some assert_url_starts_with"
| "evaluator_of URL_ENDS_WITH = Some assert_url_ends_with"
| "evaluator_of TITLE_CONTAINS = Some assert_title_contains"
| "evaluator_of TITLE_EQUALS = Some assert_title_equals"
| "evaluator_of ELEMENT_COUNT = Some assert_element_count"
| "evaluator_of INPUT_VALUE_EQUALS = Some assert_input_value_equals"
| "evaluator_of CHECKBOX_CHECKED = Some assert_checkbox_checked"
| "evaluator_of CHECKBOX_UNCHECKED = Some assert_checkbox_unchecked"
| "evaluator_of _ = None"

fun type_name :: "AssertionType \<Rightarrow> string" where
  "type_name TEXT_EXISTS = ''TEXT_EXISTS''"
| "type_name TEXT_NOT_EXISTS = ''TEXT_NOT_EXISTS''"
| "type_name TEXT_EQUALS = ''TEXT_EQUALS''"
| "type_name TEXT_CONTAINS = ''TEXT_CONTAINS''"
| "type_name TEXT_MATCHES = ''TEXT_MATCHES''"
| "type_name ELEMENT_EXISTS = ''ELEMENT_EXISTS''"
| "type_name ELEMENT_NOT_EXISTS = ''ELEMENT_NOT_EXISTS''"
| "type_name ELEMENT_VISIBLE = ''ELEMENT_VISIBLE''"
| "type_name ELEMENT_HIDDEN = ''ELEMENT_HIDDEN''"
| "type_name ELEMENT_COUNT = ''ELEMENT_COUNT''"
| "type_name ATTRIBUTE_EQUALS = ''ATTRIBUTE_EQUALS''"
| "type_name ATTRIBUTE_CONTAINS = ''ATTRIBUTE_CONTAINS''"
| "type_name ATTRIBUTE_EXISTS = ''ATTRIBUTE_EXISTS''"
| "type_name URL_EQUALS = ''URL_EQUALS''"
| "type_name URL_CONTAINS = ''URL_CONTAINS''"
| "type_name URL_MATCHES = ''URL_MATCHES''"
| "type_name URL_STARTS_WITH = ''URL_STARTS_WITH''"
| "type_name URL_ENDS_WITH = ''URL_ENDS_WITH''"
| "type_name TITLE_EQUALS = ''TITLE_EQUALS''"
| "type_name TITLE_CONTAINS = ''TITLE_CONTAINS''"
| "type_name TITLE_MATCHES = ''TITLE_MATCHES''"
| "type_name INPUT_VALUE_EQUALS = ''INPUT_VALUE_EQUALS''"
| "type_name INPUT_VALUE_CONTAINS = ''INPUT_VALUE_CONTAINS''"
| "type_name CHECKBOX_CHECKED = ''CHECKBOX_CHECKED''"
| "type_name CHECKBOX_UNCHECKED = ''CHECKBOX_UNCHECKED''"
| "type_name ELEMENT_ENABLED = ''ELEMENT_ENABLED''"
| "type_name ELEMENT_DISABLED = ''ELEMENT_DISABLED''"

definition unimplemented_result :: "assertion \<Rightarrow> AssertionResult" where
  "unimplemented_result a =
     \<lparr>passed = False, assertion_of = a, actual_value = None, expected_value = None,
      error_message = Some ([85, 110, 105, 109, 112, 108, 101, 109, 101, 110, 116, 101, 100, 32, 97, 115, 115, 101, 114, 116, 105, 111, 110, 32, 116, 121, 112, 101, 58, 32, 65, 115, 115, 101, 114, 116, 105, 111, 110, 84, 121, 112, 101, 46]
                            @ ascii (type_name (a_type a))),
      screenshot_path = None\<rparr>"

text \<open>\<open>_execute_assertion\<close>.  Every evaluator catches what the engine raises, so the
  result is always a value; the type keeps the shape of the source, where \<open>execute\<close>
  wraps the call in a handler of its own.\<close>

definition execute_assertion_inner :: "pyrt \<Rightarrow> page \<Rightarrow> assertion \<Rightarrow> exn + AssertionResult" where
  "execute_assertion_inner rt pg a =
     (case evaluator_of (a_type a) of
        Some evaluator \<Rightarrow> Inr (evaluator rt pg a)
      | None \<Rightarrow> Inr (unimplemented_result a))"

definition execute :: "pyrt \<Rightarrow> page \<Rightarrow> assertion \<Rightarrow> AssertionResult" where
  "execute rt pg a =
     (case execute_assertion_inner rt pg a of
        Inr result \<Rightarrow> result
      | Inl e \<Rightarrow> failed_with a [12450, 12469, 12540, 12471, 12519, 12531, 23455, 34892, 12456, 12521, 12540, 58, 32] e)"


section \<open>The mock translator: \<open>mock_llm.py\<close>\<close>

text \<open>An action is the dictionary the translators return (\<open>Dict[str, Any]\<close>), with its
  keys in the order of the source.\<close>

type_synonym action = "(string \<times> pyval) list"

(* mock_llm.py line 29: https?://[^\\s]+ *)
definition mock_rx_L29 :: pattern where
  "mock_rx_L29 = Rx 0 (Seq [Str [104, 116, 116, 112], Opt (Str [115]), Str [58, 47, 47], Plus
     (NotInSet [CSpace])])"

(* mock_llm.py line 51: \u300c([^\u300d]+)\u300d|"([^"]+)"|([A-Za-z][A-Za-z\\s]+) *)
definition mock_rx_L51 :: pattern where
  "mock_rx_L51 = Rx 3 (Alt [Seq [Str [12300], Grp 1 (Plus (NotInSet [CChar 12301])), Str [12301]],
     Seq [Str [34], Grp 2 (Plus (NotInSet [CChar 34])), Str [34]], Grp 3 (Seq [One (InSet
     [CRange 65 90, CRange 97 122]), Plus (InSet [CRange 65 90, CRange 97 122, CSpace])])])"

(* mock_llm.py line 79: \u300c([^\u300d]+)\u300d|"([^"]+)"|\u306b\\s*([^\\s]+)\\s*\u3068|\u3092\\s*([^\\s]+)\\s*\u3068 *)
definition mock_rx_L79 :: pattern where
  "mock_rx_L79 = Rx 4 (Alt [Seq [Str [12300], Grp 1 (Plus (NotInSet [CChar 12301])), Str [12301]],
     Seq [Str [34], Grp 2 (Plus (NotInSet [CChar 34])), Str [34]], Seq [Str [12395], Star (InSet
     [CSpace]), Grp 3 (Plus (NotInSet [CSpace])), Star (InSet [CSpace]), Str [12392]], Seq [Str
     [12434], Star (InSet [CSpace]), Grp 4 (Plus (NotInSet [CSpace])), Star (InSet [CSpace]),
     Str [12392]]])"

(* mock_llm.py line 92: (\\d+)\\s*(?:\u79d2|seconds?) *)
definition mock_rx_L92 :: pattern where
  "mock_rx_L92 = Rx 1 (Seq [Grp 1 (Plus (InSet [CDigit])), Star (InSet [CSpace]), Alt [Str
     [31186], Seq [Str [115, 101, 99, 111, 110, 100], Opt (Str [115])]]])"

(* mock_llm.py line 111: \u300c([^\u300d]+)\u300d|"([^"]+)"|([A-Za-z0-9]+) *)
definition mock_rx_L111 :: pattern where
  "mock_rx_L111 = Rx 3 (Alt [Seq [Str [12300], Grp 1 (Plus (NotInSet [CChar 12301])), Str
     [12301]], Seq [Str [34], Grp 2 (Plus (NotInSet [CChar 34])), Str [34]], Grp 3 (Plus (InSet
     [CRange 65 90, CRange 97 122, CRange 48 57]))])"


text \<open>\<open>a or b or ...\<close> on the groups of a match: the first one that took part in the match
  and is not empty.  In the patterns of this file each alternative has exactly one group,
  which matches at least one character, so a match always has such a group and the last
  operand of the chain is never what decides.\<close>

fun first_group :: "ustr option list \<Rightarrow> ustr option" where
  "first_group [] = None"
| "first_group (None # gs) = first_group gs"
| "first_group (Some g # gs) = (if g = [] then first_group gs else Some g)"

text \<open>The patterns of this file all compile; \<open>mock_search\<close> is \<open>re.search\<close> on them.\<close>

definition mock_search :: "pattern \<Rightarrow> ustr \<Rightarrow> match option" where
  "mock_search p s = (case re_search p s of Inr m \<Rightarrow> m | Inl e \<Rightarrow> None)"

definition click_selector :: "pyrt \<Rightarrow> ustr \<Rightarrow> ustr" where
  "click_selector rt natural_language =
     (let text_lower = lower rt natural_language
      in if contains natural_language [12508, 12479, 12531] \<or> contains text_lower [98, 117, 116, 116, 111, 110] then [98, 117, 116, 116, 111, 110]
         else if contains natural_language [12522, 12531, 12463] \<or> contains text_lower [108, 105, 110, 107] then [97]
         else if contains natural_language [65, 100, 100, 32, 69, 108, 101, 109, 101, 110, 116] then [98, 117, 116, 116, 111, 110, 58, 104, 97, 115, 45, 116, 101, 120, 116, 40, 39, 65, 100, 100, 32, 69, 108, 101, 109, 101, 110, 116, 39, 41]
         else if contains natural_language [76, 111, 103, 105, 110]
           then [98, 117, 116, 116, 111, 110, 91, 116, 121, 112, 101, 61, 39, 115, 117, 98, 109, 105, 116, 39, 93, 44, 32, 105, 110, 112, 117, 116, 91, 116, 121, 112, 101, 61, 39, 115, 117, 98, 109, 105, 116, 39, 93]
         else if contains natural_language [68, 101, 108, 101, 116, 101] then [98, 117, 116, 116, 111, 110, 58, 104, 97, 115, 45, 116, 101, 120, 116, 40, 39, 68, 101, 108, 101, 116, 101, 39, 41]
         else (case mock_search mock_rx_L51 natural_language of
                 Some m \<Rightarrow>
                   [42, 58, 104, 97, 115, 45, 116, 101, 120, 116, 40, 39] @ str_selector (first_group (groups m)) @ [39, 41]
               | None \<Rightarrow> [98, 117, 116, 116, 111, 110, 44, 32, 97, 44, 32, 105, 110, 112, 117, 116, 91, 116, 121, 112, 101, 61, 39, 115, 117, 98, 109, 105, 116, 39, 93]))"

definition type_selector :: "pyrt \<Rightarrow> ustr \<Rightarrow> ustr" where
  "type_selector rt natural_language =
     (let text_lower = lower rt natural_language
      in if contains natural_language [12518, 12540, 12470, 12540, 21517] \<or> contains text_lower [117, 115, 101, 114, 110, 97, 109, 101]
           then [105, 110, 112, 117, 116, 91, 110, 97, 109, 101, 61, 39, 117, 115, 101, 114, 110, 97, 109, 101, 39, 93, 44, 32, 105, 110, 112, 117, 116, 91, 105, 100, 61, 39, 117, 115, 101, 114, 110, 97, 109, 101, 39, 93]
         else if contains natural_language [12497, 12473, 12527, 12540, 12489] \<or> contains text_lower [112, 97, 115, 115, 119, 111, 114, 100]
           then [105, 110, 112, 117, 116, 91, 116, 121, 112, 101, 61, 39, 112, 97, 115, 115, 119, 111, 114, 100, 39, 93]
         else if contains natural_language [26908, 32034] \<or> contains text_lower [115, 101, 97, 114, 99, 104]
           then [105, 110, 112, 117, 116, 91, 116, 121, 112, 101, 61, 39, 115, 101, 97, 114, 99, 104, 39, 93, 44, 32, 105, 110, 112, 117, 116, 91, 110, 97, 109, 101, 61, 39, 113, 39, 93, 44, 32, 105, 110, 112, 117, 116, 91, 110, 97, 109, 101, 61, 39, 115, 101, 97, 114, 99, 104, 39, 93, 44, 32, 105, 110, 112, 117, 116, 91, 112, 108, 97, 99, 101, 104, 111, 108, 100, 101, 114, 42, 61, 39, 115, 101, 97, 114, 99, 104, 39, 32, 105, 93]
         else [105, 110, 112, 117, 116, 91, 116, 121, 112, 101, 61, 39, 116, 101, 120, 116, 39, 93, 44, 32, 105, 110, 112, 117, 116, 58, 110, 111, 116, 40, 91, 116, 121, 112, 101, 93, 41, 44, 32, 116, 101, 120, 116, 97, 114, 101, 97])"

text \<open>
  \<open>translate_to_actions\<close>.  The function imports \<open>re\<close> inside four of its branches
  (navigation, the last case of click, typing, waiting) and the module imports it
  nowhere, so \<open>re\<close> is a local name of the function, bound only once one of those
  \<open>import\<close> statements has run.  The selection branch calls \<open>re.search\<close> without an
  import of its own: on that path the name is unbound and Python raises
  UnboundLocalError before any pattern is looked at.
\<close>

definition translate_to_actions :: "pyrt \<Rightarrow> ustr \<Rightarrow> exn + action" where
  "translate_to_actions rt natural_language =
     (let text_lower = lower rt natural_language
      in if contains natural_language [31227, 21205] \<or> contains text_lower [110, 97, 118, 105, 103, 97, 116, 101]
            \<or> contains natural_language [12395, 31227, 21205] then
           Inr [(''action_type'', PStr [110, 97, 118, 105, 103, 97, 116, 101]),
                (''url'', PStr (case mock_search mock_rx_L29 natural_language of
                                  Some m \<Rightarrow> whole m
                                | None \<Rightarrow> [104, 116, 116, 112, 115, 58, 47, 47, 101, 120, 97, 109, 112, 108, 101, 46, 99, 111, 109]))]
         else if contains natural_language [12463, 12522, 12483, 12463] \<or> contains text_lower [99, 108, 105, 99, 107]
            \<or> contains natural_language [25276, 12377] then
           Inr [(''action_type'', PStr [99, 108, 105, 99, 107]),
                (''selector'', PStr (click_selector rt natural_language))]
         else if contains natural_language [20837, 21147] \<or> contains text_lower [116, 121, 112, 101] then
           Inr [(''action_type'', PStr [116, 121, 112, 101]),
                (''selector'', PStr (type_selector rt natural_language)),
                (''text'', (case mock_search mock_rx_L79 natural_language of
                              Some m \<Rightarrow> (case first_group (groups m) of
                                           Some t \<Rightarrow> PStr t
                                         | None \<Rightarrow> PStr [])
                            | None \<Rightarrow> PStr [116, 101, 115, 116, 32, 105, 110, 112, 117, 116]))]
         else if contains natural_language [24453, 12388] \<or> contains text_lower [119, 97, 105, 116] then
           (case mock_search mock_rx_L92 natural_language of
              None \<Rightarrow> Inr [(''action_type'', PStr [119, 97, 105, 116]), (''timeout'', PInt 3000)]
            | Some m \<Rightarrow>
                (case group_int rt (groups m) 0 of
                   Inl e \<Rightarrow> Inl e
                 | Inr n \<Rightarrow> Inr [(''action_type'', PStr [119, 97, 105, 116]), (''timeout'', PInt (n * 1000))]))
         else if contains natural_language [12473, 12463, 12522, 12540, 12531, 12471, 12519, 12483, 12488] \<or> contains text_lower [115, 99, 114, 101, 101, 110, 115, 104, 111, 116] then
           Inr [(''action_type'', PStr [115, 99, 114, 101, 101, 110, 115, 104, 111, 116]), (''path'', PStr [116, 101, 115, 116, 95, 115, 99, 114, 101, 101, 110, 115, 104, 111, 116, 46, 112, 110, 103])]
         else if contains natural_language [30906, 35469] \<or> contains text_lower [99, 104, 101, 99, 107]
            \<or> contains text_lower [118, 101, 114, 105, 102, 121] then
           Inr [(''action_type'', PStr [119, 97, 105, 116]), (''timeout'', PInt 1000)]
         else if contains natural_language [25147, 12427] \<or> contains text_lower [98, 97, 99, 107] then
           Inr [(''action_type'', PStr [110, 97, 118, 105, 103, 97, 116, 101]), (''url'', PStr [98, 97, 99, 107])]
         else if contains natural_language [36984, 25246] \<or> contains text_lower [115, 101, 108, 101, 99, 116] then
           Inl (Exn ''UnboundLocalError''
                  [99, 97, 110, 110, 111, 116, 32, 97, 99, 99, 101, 115, 115, 32, 108, 111, 99, 97, 108, 32, 118, 97, 114, 105, 97, 98, 108, 101, 32, 39, 114, 101, 39, 32, 119, 104, 101, 114, 101, 32, 105, 116, 32, 105, 115, 32, 110, 111, 116, 32, 97, 115, 115, 111, 99, 105, 97, 116, 101, 100, 32, 119, 105, 116, 104, 32, 97, 32, 118, 97, 108, 117, 101])
         else
           Inr [(''action_type'', PStr [99, 108, 105, 99, 107]), (''selector'', PStr [42])])"

text \<open>What the selection branch would compute if \<open>re\<close> were bound there: the value is the
  quoted or alphanumeric token found by the pattern of line 111, or \<open>Option 1\<close>.  This is
  the branch as its own lines read, kept to compare the code with.\<close>

definition select_branch_as_written :: "ustr \<Rightarrow> action" where
  "select_branch_as_written natural_language =
     [(''action_type'', PStr [115, 101, 108, 101, 99, 116]), (''selector'', PStr [115, 101, 108, 101, 99, 116]),
      (''value'', (case mock_search mock_rx_L111 natural_language of
                     None \<Rightarrow> PStr [79, 112, 116, 105, 111, 110, 32, 49]
                   | Some m \<Rightarrow> (case first_group (groups m) of
                                Some v \<Rightarrow> PStr v
                              | None \<Rightarrow> PStr [])))]"

text \<open>The condition under which the cascade reaches its selection branch: a selection
  keyword, and none of the keywords of the seven branches before it.\<close>

definition earlier_keyword :: "pyrt \<Rightarrow> ustr \<Rightarrow> bool" where
  "earlier_keyword rt natural_language =
     (let text_lower = lower rt natural_language
      in contains natural_language [31227, 21205] \<or> contains text_lower [110, 97, 118, 105, 103, 97, 116, 101]
         \<or> contains natural_language [12395, 31227, 21205]
         \<or> contains natural_language [12463, 12522, 12483, 12463] \<or> contains text_lower [99, 108, 105, 99, 107]
         \<or> contains natural_language [25276, 12377]
         \<or> contains natural_language [20837, 21147] \<or> contains text_lower [116, 121, 112, 101]
         \<or> contains natural_language [24453, 12388] \<or> contains text_lower [119, 97, 105, 116]
         \<or> contains natural_language [12473, 12463, 12522, 12540, 12531, 12471, 12519, 12483, 12488] \<or> contains text_lower [115, 99, 114, 101, 101, 110, 115, 104, 111, 116]
         \<or> contains natural_language [30906, 35469] \<or> contains text_lower [99, 104, 101, 99, 107]
         \<or> contains text_lower [118, 101, 114, 105, 102, 121]
         \<or> contains natural_language [25147, 12427] \<or> contains text_lower [98, 97, 99, 107])"

definition selection_keyword :: "pyrt \<Rightarrow> ustr \<Rightarrow> bool" where
  "selection_keyword rt natural_language =
     (contains natural_language [36984, 25246] \<or> contains (lower rt natural_language) [115, 101, 108, 101, 99, 116])"

section \<open>The runners\<close>

subsection \<open>Values of a test file\<close>

text \<open>
  The runners read a test file with \<open>.get(key, default)\<close>, \<open>[key]\<close>, \<open>len\<close>, iteration, the
  truth value and \<open>str\<close>; each of them is defined on every value, raising what Python
  raises on a value of the wrong type.  \<open>type_of\<close> is the type's name as the messages
  print it.
\<close>

fun type_of :: "yval \<Rightarrow> ustr" where
  "type_of VNull = [78, 111, 110, 101, 84, 121, 112, 101]"
| "type_of (VBool b) = [98, 111, 111, 108]"
| "type_of (VInt i) = [105, 110, 116]"
| "type_of (VFloat f) = [102, 108, 111, 97, 116]"
| "type_of (VStr s) = [115, 116, 114]"
| "type_of (VList xs) = [108, 105, 115, 116]"
| "type_of (VDict items) = [100, 105, 99, 116]"
| "type_of (VOther name) = ascii name"

definition no_attribute :: "yval \<Rightarrow> ustr \<Rightarrow> exn" where
  "no_attribute v name =
     Exn ''AttributeError'' ([39] @ type_of v @ [39, 32, 111, 98, 106, 101, 99, 116, 32, 104, 97, 115, 32, 110, 111, 32, 97, 116, 116, 114, 105, 98, 117, 116, 101, 32, 39] @ name @ [39])"

text \<open>The value a dictionary holds under a string key, \<open>d.get(key, default)\<close> and
  \<open>d[key]\<close>; \<open>str\<close> of the KeyError is \<open>repr\<close> of the key, here always a plain word.\<close>

fun lookup :: "(yval \<times> yval) list \<Rightarrow> ustr \<Rightarrow> yval option" where
  "lookup [] key = None"
| "lookup ((k, v) # items) key = (if k = VStr key then Some v else lookup items key)"

definition dict_get :: "(yval \<times> yval) list \<Rightarrow> ustr \<Rightarrow> yval \<Rightarrow> yval" where
  "dict_get items key dflt = (case lookup items key of None \<Rightarrow> dflt | Some v \<Rightarrow> v)"

definition dict_item :: "(yval \<times> yval) list \<Rightarrow> ustr \<Rightarrow> exn + yval" where
  "dict_item items key =
     (case lookup items key of
        None \<Rightarrow> Inl (Exn ''KeyError'' ([39] @ key @ [39]))
      | Some v \<Rightarrow> Inr v)"

fun py_truthy :: "pyrt \<Rightarrow> yval \<Rightarrow> bool" where
  "py_truthy rt VNull = False"
| "py_truthy rt (VBool b) = b"
| "py_truthy rt (VInt i) = (i \<noteq> 0)"
| "py_truthy rt (VFloat f) = float_nonzero rt f"
| "py_truthy rt (VStr s) = (s \<noteq> [])"
| "py_truthy rt (VList xs) = (xs \<noteq> [])"
| "py_truthy rt (VDict items) = (items \<noteq> [])"
| "py_truthy rt (VOther name) = True"

text \<open>Iteration (\<open>enumerate(v)\<close>): the members of a list, the keys of a dictionary, the
  characters of a string.\<close>

definition not_iterable :: "yval \<Rightarrow> exn" where
  "not_iterable v = Exn ''TypeError'' ([39] @ type_of v @ [39, 32, 111, 98, 106, 101, 99, 116, 32, 105, 115, 32, 110, 111, 116, 32, 105, 116, 101, 114, 97, 98, 108, 101])"

fun py_iter :: "yval \<Rightarrow> exn + yval list" where
  "py_iter (VList xs) = Inr xs"
| "py_iter (VDict items) = Inr (map fst items)"
| "py_iter (VStr s) = Inr (map (\<lambda>c. VStr [c]) s)"
| "py_iter v = Inl (not_iterable v)"

definition no_len :: "yval \<Rightarrow> exn" where
  "no_len v = Exn ''TypeError'' ([111, 98, 106, 101, 99, 116, 32, 111, 102, 32, 116, 121, 112, 101, 32, 39] @ type_of v @ [39, 32, 104, 97, 115, 32, 110, 111, 32, 108, 101, 110, 40, 41])"

fun py_len :: "yval \<Rightarrow> exn + nat" where
  "py_len (VList xs) = Inr (length xs)"
| "py_len (VDict items) = Inr (length items)"
| "py_len (VStr s) = Inr (length s)"
| "py_len v = Inl (no_len v)"

text \<open>\<open>str(v)\<close>, as an f-string applies it.\<close>

fun py_str :: "pyrt \<Rightarrow> yval \<Rightarrow> ustr" where
  "py_str rt VNull = [78, 111, 110, 101]"
| "py_str rt (VBool b) = (if b then [84, 114, 117, 101] else [70, 97, 108, 115, 101])"
| "py_str rt (VInt i) = str_int i"
| "py_str rt (VStr s) = s"
| "py_str rt v = value_str rt v"

subsection \<open>The engine\<close>

text \<open>
  What the runners do not contain is taken as an engine over a world \<open>'w\<close> that every
  call may change: the translator (\<open>llm_manager.translate_to_actions\<close>, the model-backed
  one or the mock), the browser manager's \<open>execute_action\<close>, \<open>navigate\<close> and
  \<open>take_screenshot\<close>, the page its assertion executor is bound to (\<open>None\<close> before
  \<open>start()\<close>), the clock that stamps a screenshot's name, and \<open>pathlib\<close>, which puts the
  configured output directory in front of a file name (\<open>str(output_dir / name)\<close>).

  The console is the library \<open>rich\<close>: \<open>en_print\<close> is \<open>console.print\<close> of a text with
  markup, \<open>en_add_task\<close> and \<open>en_update_task\<close> are \<open>progress.add_task\<close> and
  \<open>progress.update\<close> of a description; each tells what the call raises, if anything, and
  what it shows is left out.  So are the log lines (\<open>loguru\<close>), the timestamps of the
  results, the pauses after an action, and the \<open>Progress\<close> display as far as it is given
  no text of the test file.
\<close>

record 'w engine =
  en_translate :: "yval \<Rightarrow> 'w \<Rightarrow> (exn + action) \<times> 'w"
  en_execute_action :: "action \<Rightarrow> 'w \<Rightarrow> (exn + unit) \<times> 'w"
  en_navigate :: "yval \<Rightarrow> 'w \<Rightarrow> (exn + unit) \<times> 'w"
  en_take_screenshot :: "ustr \<Rightarrow> 'w \<Rightarrow> (exn + unit) \<times> 'w"
  en_assertion_page :: "'w \<Rightarrow> page option"
  en_timestamp :: "'w \<Rightarrow> ustr"
  en_output_path :: "ustr \<Rightarrow> ustr"
  en_print :: "ustr \<Rightarrow> exn option"
  en_add_task :: "ustr \<Rightarrow> exn option"
  en_update_task :: "ustr \<Rightarrow> exn option"

text \<open>The first exception of a sequence of calls, which ends the sequence.\<close>

fun first_raise :: "exn option list \<Rightarrow> exn option" where
  "first_raise [] = None"
| "first_raise (None # rest) = first_raise rest"
| "first_raise (Some e # rest) = Some e"

text \<open>The dictionaries of the results.  A step or a case that a crash handler of the
  robust runner writes has fewer keys than a regular one; a key it lacks is \<open>None\<close>
  here (\<open>sr_description\<close>, \<open>sr_natural_language\<close>) or holds the initial value.\<close>

record step_result =
  sr_index :: int
  sr_description :: "yval option"
  sr_natural_language :: "yval option"
  sr_status :: string
  sr_action :: "action option"
  sr_assertion_result :: "AssertionResult option"
  sr_error :: "ustr option"

record case_result =
  cr_name :: yval
  cr_status :: string
  cr_steps :: "step_result list"
  cr_error :: "ustr option"
  cr_screenshot :: "ustr option"

record summary =
  sm_total :: nat
  sm_passed :: nat
  sm_failed :: nat
  sm_errors :: nat

record suite_result =
  su_test_name :: yval
  su_base_url :: yval
  su_test_cases :: "case_result list"
  su_summary :: summary

text \<open>The step result \<open>_execute_step\<close> starts from, for a step that is a dictionary.\<close>

definition new_step_result :: "(yval \<times> yval) list \<Rightarrow> int \<Rightarrow> step_result" where
  "new_step_result items step_idx =
     \<lparr>sr_index = step_idx,
      sr_description = Some (dict_get items [100, 101, 115, 99, 114, 105, 112, 116, 105, 111, 110] (VStr [])),
      sr_natural_language = Some (dict_get items [105, 110, 115, 116, 114, 117, 99, 116, 105, 111, 110] (VStr [])),
      sr_status = ''running'', sr_action = None, sr_assertion_result = None,
      sr_error = None\<rparr>"

definition not_started :: exn where
  "not_started = Exn ''RuntimeError'' [66, 114, 111, 119, 115, 101, 114, 32, 110, 111, 116, 32, 115, 116, 97, 114, 116, 101, 100, 46, 32, 67, 97, 108, 108, 32, 115, 116, 97, 114, 116, 40, 41, 32, 102, 105, 114, 115, 116, 46]"

definition no_instruction :: exn where
  "no_instruction = Exn ''ValueError'' [78, 111, 32, 105, 110, 115, 116, 114, 117, 99, 116, 105, 111, 110, 32, 112, 114, 111, 118, 105, 100, 101, 100]"

subsection \<open>\<open>BrowserManager.execute_assertion\<close> (\<open>browser.py\<close>)\<close>

text \<open>\<open>AssertionType.value\<close>.\<close>

fun type_value :: "AssertionType \<Rightarrow> ustr" where
  "type_value TEXT_EXISTS = ascii ''text_exists''"
| "type_value TEXT_NOT_EXISTS = ascii ''text_not_exists''"
| "type_value TEXT_EQUALS = ascii ''text_equals''"
| "type_value TEXT_CONTAINS = ascii ''text_contains''"
| "type_value TEXT_MATCHES = ascii ''text_matches''"
| "type_value ELEMENT_EXISTS = ascii ''element_exists''"
| "type_value ELEMENT_NOT_EXISTS = ascii ''element_not_exists''"
| "type_value ELEMENT_VISIBLE = ascii ''element_visible''"
| "type_value ELEMENT_HIDDEN = ascii ''element_hidden''"
| "type_value ELEMENT_COUNT = ascii ''element_count''"
| "type_value ATTRIBUTE_EQUALS = ascii ''attribute_equals''"
| "type_value ATTRIBUTE_CONTAINS = ascii ''attribute_contains''"
| "type_value ATTRIBUTE_EXISTS = ascii ''attribute_exists''"
| "type_value URL_EQUALS = ascii ''url_equals''"
| "type_value URL_CONTAINS = ascii ''url_contains''"
| "type_value URL_MATCHES = ascii ''url_matches''"
| "type_value URL_STARTS_WITH = ascii ''url_starts_with''"
| "type_value URL_ENDS_WITH = ascii ''url_ends_with''"
| "type_value TITLE_EQUALS = ascii ''title_equals''"
| "type_value TITLE_CONTAINS = ascii ''title_contains''"
| "type_value TITLE_MATCHES = ascii ''title_matches''"
| "type_value INPUT_VALUE_EQUALS = ascii ''input_value_equals''"
| "type_value INPUT_VALUE_CONTAINS = ascii ''input_value_contains''"
| "type_value CHECKBOX_CHECKED = ascii ''checkbox_checked''"
| "type_value CHECKBOX_UNCHECKED = ascii ''checkbox_unchecked''"
| "type_value ELEMENT_ENABLED = ascii ''element_enabled''"
| "type_value ELEMENT_DISABLED = ascii ''element_disabled''"

text \<open>The truth value of \<open>assertion.expected\<close> and of \<open>assertion.selector\<close>.\<close>

fun pyval_truthy :: "pyrt \<Rightarrow> pyval option \<Rightarrow> bool" where
  "pyval_truthy rt None = False"
| "pyval_truthy rt (Some (PStr s)) = (s \<noteq> [])"
| "pyval_truthy rt (Some (PInt i)) = (i \<noteq> 0)"
| "pyval_truthy rt (Some (PBool b)) = b"
| "pyval_truthy rt (Some (PFloat f)) = float_nonzero rt f"

text \<open>
  The method announces the assertion on the console, runs the executor and reports the
  result on the console; whatever is raised on the way is logged and raised again.
\<close>

definition announce :: "pyrt \<Rightarrow> 'w engine \<Rightarrow> assertion \<Rightarrow> exn option" where
  "announce rt en a =
     first_raise
       ([en_print en ([91, 121, 101, 108, 108, 111, 119, 93, 9989, 32, 65, 115, 115, 101, 114, 116, 105, 111, 110, 58, 32] @ type_value (a_type a) @ [91, 47, 121, 101, 108, 108, 111, 119, 93])]
        @ (if pyval_truthy rt (a_expected a)
           then [en_print en ([91, 100, 105, 109, 93, 32, 32, 32, 69, 120, 112, 101, 99, 116, 101, 100, 58, 32] @ str_pyval rt (a_expected a) @ [91, 47, 100, 105, 109, 93])]
           else [])
        @ (if a_selector a \<noteq> None \<and> a_selector a \<noteq> Some []
           then [en_print en ([91, 100, 105, 109, 93, 32, 32, 32, 83, 101, 108, 101, 99, 116, 111, 114, 58, 32] @ str_selector (a_selector a) @ [91, 47, 100, 105, 109, 93])]
           else []))"

definition report :: "pyrt \<Rightarrow> 'w engine \<Rightarrow> AssertionResult \<Rightarrow> exn option" where
  "report rt en r =
     first_raise
       (if passed r then [en_print en [91, 103, 114, 101, 101, 110, 93, 10003, 32, 65, 115, 115, 101, 114, 116, 105, 111, 110, 32, 112, 97, 115, 115, 101, 100, 91, 47, 103, 114, 101, 101, 110, 93]]
        else [en_print en ([91, 114, 101, 100, 93, 10007, 32, 65, 115, 115, 101, 114, 116, 105, 111, 110, 32, 102, 97, 105, 108, 101, 100, 58, 32] @ str_selector (error_message r) @ [91, 47, 114, 101, 100, 93])]
             @ (if actual_value r \<noteq> None
                then [en_print en ([91, 100, 105, 109, 93, 32, 32, 32, 65, 99, 116, 117, 97, 108, 58, 32] @ str_pyval rt (actual_value r) @ [91, 47, 100, 105, 109, 93])]
                else []))"

definition browser_execute_assertion :: "pyrt \<Rightarrow> 'w engine \<Rightarrow> assertion \<Rightarrow> 'w \<Rightarrow> exn + AssertionResult" where
  "browser_execute_assertion rt en a w =
     (case en_assertion_page en w of
        None \<Rightarrow> Inl not_started
      | Some pg \<Rightarrow>
          (case announce rt en a of
             Some e \<Rightarrow> Inl e
           | None \<Rightarrow>
               (let r = execute rt pg a
                in case report rt en r of
                     Some e \<Rightarrow> Inl e
                   | None \<Rightarrow> Inr r)))"

subsection \<open>\<open>TestRunner\<close> (\<open>runner.py\<close>)\<close>

text \<open>\<open>parse(instruction)\<close> for whatever the step holds under \<open>instruction\<close>: on a value
  that is not a string the first \<open>re.search\<close> raises.\<close>

definition parse_value :: "pyrt \<Rightarrow> yval \<Rightarrow> exn + assertion_info option" where
  "parse_value rt v =
     (case v of
        VStr s \<Rightarrow> parse rt s
      | _ \<Rightarrow> Inl (Exn ''TypeError''
                 ([101, 120, 112, 101, 99, 116, 101, 100, 32, 115, 116, 114, 105, 110, 103, 32, 111, 114, 32, 98, 121, 116, 101, 115, 45, 108, 105, 107, 101, 32, 111, 98, 106, 101, 99, 116, 44, 32, 103, 111, 116, 32, 39] @ type_of v @ [39])))"

text \<open>
  The \<open>try\<close> block of \<open>_execute_step\<close>, for a step that is a dictionary, gives the step
  result as the block left it and the exception that ended the block, if one did.  The
  instruction goes to \<open>AssertionPatternMatcher.parse\<close> first.  \<open>step_dispatch\<close> is the rest
  of the block, for what the call of \<open>parse\<close> gave: an exception ends the block, a
  dictionary is run as an assertion by the browser manager, and only \<open>None\<close> sends the
  instruction to the translator and the action to the browser.
\<close>

definition step_dispatch :: "pyrt \<Rightarrow> 'w engine \<Rightarrow> step_result \<Rightarrow> yval \<Rightarrow> exn + assertion_info option \<Rightarrow> 'w \<Rightarrow> (exn option \<times> step_result) \<times> 'w" where
  "step_dispatch rt en sr instruction parsed w =
     (case parsed of
        Inl e \<Rightarrow> ((Some e, sr), w)
      | Inr (Some info) \<Rightarrow>
          (case browser_execute_assertion rt en (make_assertion info) w of
             Inl e \<Rightarrow> ((Some e, sr), w)
           | Inr r \<Rightarrow>
               ((None, sr\<lparr>sr_assertion_result := Some r,
                      sr_status := (if passed r then ''passed'' else ''failed''),
                      sr_error := (if passed r then None else error_message r)\<rparr>), w))
      | Inr None \<Rightarrow>
          (case en_translate en instruction w of
             (Inl e, w1) \<Rightarrow> ((Some e, sr), w1)
           | (Inr act, w1) \<Rightarrow>
               (case en_execute_action en act w1 of
                  (Inl e, w2) \<Rightarrow> ((Some e, sr\<lparr>sr_action := Some act\<rparr>), w2)
                | (Inr u, w2) \<Rightarrow>
                    ((None, sr\<lparr>sr_action := Some act, sr_status := ''passed''\<rparr>), w2))))"

definition step_try :: "pyrt \<Rightarrow> 'w engine \<Rightarrow> (yval \<times> yval) list \<Rightarrow> int \<Rightarrow> 'w \<Rightarrow> (exn option \<times> step_result) \<times> 'w" where
  "step_try rt en items step_idx w =
     (let sr = new_step_result items step_idx;
          instruction = dict_get items [105, 110, 115, 116, 114, 117, 99, 116, 105, 111, 110] (VStr [])
      in if \<not> py_truthy rt instruction then ((Some no_instruction, sr), w)
         else step_dispatch rt en sr instruction (parse_value rt instruction) w)"

text \<open>The \<open>except Exception\<close> handler of \<open>_execute_step\<close>.\<close>

definition step_failed :: "step_result \<Rightarrow> exn \<Rightarrow> step_result" where
  "step_failed sr e = sr\<lparr>sr_status := ''failed'', sr_error := Some (exn_message e)\<rparr>"

text \<open>\<open>_execute_step\<close>.  The step result is built before the \<open>try\<close>, from
  \<open>step.get(...)\<close>: a step that is not a dictionary raises there, and the exception
  leaves the function (\<open>Inl\<close>).\<close>

definition execute_step :: "pyrt \<Rightarrow> 'w engine \<Rightarrow> yval \<Rightarrow> int \<Rightarrow> 'w \<Rightarrow> (exn + step_result) \<times> 'w" where
  "execute_step rt en step step_idx w =
     (case step of
        VDict items \<Rightarrow>
          (case step_try rt en items step_idx w of
             ((None, sr), w1) \<Rightarrow> (Inr sr, w1)
           | ((Some e, sr), w1) \<Rightarrow> (Inr (step_failed sr e), w1))
      | _ \<Rightarrow> (Inl (no_attribute step [103, 101, 116]), w))"

text \<open>\<open>_take_failure_screenshot\<close>: the path of the file, or the fixed name when the
  capture raises.\<close>

definition take_failure_screenshot :: "pyrt \<Rightarrow> 'w engine \<Rightarrow> yval \<Rightarrow> int \<Rightarrow> 'w \<Rightarrow> ustr \<times> 'w" where
  "take_failure_screenshot rt en test_name step_idx w =
     (let screenshot_name = [102, 97, 105, 108, 117, 114, 101, 95] @ py_str rt test_name @ [95]
                              @ str_int step_idx @ [95] @ en_timestamp en w
                              @ [46, 112, 110, 103];
          screenshot_path = en_output_path en screenshot_name
      in case en_take_screenshot en screenshot_path w of
           (Inr u, w1) \<Rightarrow> (screenshot_path, w1)
         | (Inl e, w1) \<Rightarrow> ([115, 99, 114, 101, 101, 110, 115, 104, 111, 116, 95, 102, 97, 105, 108, 101, 100, 46, 112, 110, 103], w1))"

text \<open>The loop of \<open>_execute_test_case\<close> over the steps, inside its \<open>try\<close>: it stops at the
  first step whose status is \<open>failed\<close>, and an exception that leaves \<open>_execute_step\<close> or
  \<open>test_case["name"]\<close> ends it.  The result is the case result as the loop left it and
  the exception that ended the loop, if one did.\<close>

fun case_loop :: "pyrt \<Rightarrow> 'w engine \<Rightarrow> bool \<Rightarrow> (yval \<times> yval) list \<Rightarrow> yval list \<Rightarrow> int \<Rightarrow> case_result \<Rightarrow> 'w \<Rightarrow> (exn option \<times> case_result) \<times> 'w" where
  "case_loop rt en screenshot_on_failure test_case [] step_idx cr w = ((None, cr), w)"
| "case_loop rt en screenshot_on_failure test_case (step # steps) step_idx cr w =
     (case execute_step rt en step step_idx w of
        (Inl e, w1) \<Rightarrow> ((Some e, cr), w1)
      | (Inr sr, w1) \<Rightarrow>
          (let cr1 = cr\<lparr>cr_steps := cr_steps cr @ [sr]\<rparr>
           in if sr_status sr = ''failed'' then
                (let cr2 = cr1\<lparr>cr_status := ''failed''\<rparr>
                 in if screenshot_on_failure then
                      (case dict_item test_case [110, 97, 109, 101] of
                         Inl e \<Rightarrow> ((Some e, cr2), w1)
                       | Inr test_name \<Rightarrow>
                           (case take_failure_screenshot rt en test_name step_idx w1 of
                              (path, w2) \<Rightarrow> ((None, cr2\<lparr>cr_screenshot := Some path\<rparr>), w2)))
                    else ((None, cr2), w1))
              else case_loop rt en screenshot_on_failure test_case steps (step_idx + 1) cr1 w1))"

definition new_case_result :: "(yval \<times> yval) list \<Rightarrow> case_result" where
  "new_case_result test_case =
     \<lparr>cr_name = dict_get test_case [110, 97, 109, 101] (VStr [85, 110, 107, 110, 111, 119, 110]), cr_status = ''running'',
      cr_steps = [], cr_error = None, cr_screenshot = None\<rparr>"

text \<open>\<open>_execute_test_case\<close>.  A case that is not a dictionary raises before the \<open>try\<close>.
  The \<open>except\<close> handler reads \<open>test_case["name"]\<close> again for the screenshot; an exception
  raised there leaves the function too.\<close>

definition execute_test_case :: "pyrt \<Rightarrow> 'w engine \<Rightarrow> bool \<Rightarrow> yval \<Rightarrow> 'w \<Rightarrow> (exn + case_result) \<times> 'w" where
  "execute_test_case rt en screenshot_on_failure test_case w =
     (case test_case of
        VDict items \<Rightarrow>
          (let cr0 = new_case_result items;
               body = (case py_iter (dict_get items [115, 116, 101, 112, 115] (VList [])) of
                         Inl e \<Rightarrow> ((Some e, cr0), w)
                       | Inr steps \<Rightarrow> case_loop rt en screenshot_on_failure items steps 0 cr0 w)
           in case body of
                ((None, cr), w1) \<Rightarrow>
                  (Inr (if cr_status cr = ''running'' then cr\<lparr>cr_status := ''passed''\<rparr> else cr),
                   w1)
              | ((Some e, cr), w1) \<Rightarrow>
                  (let cr1 = cr\<lparr>cr_status := ''error'', cr_error := Some (exn_message e)\<rparr>
                   in if screenshot_on_failure then
                        (case dict_item items [110, 97, 109, 101] of
                           Inl e2 \<Rightarrow> (Inl e2, w1)
                         | Inr test_name \<Rightarrow>
                             (case take_failure_screenshot rt en test_name (- 1) w1 of
                                (path, w2) \<Rightarrow> (Inr (cr1\<lparr>cr_screenshot := Some path\<rparr>), w2)))
                      else (Inr cr1, w1)))
      | _ \<Rightarrow> (Inl (no_attribute test_case [103, 101, 116]), w))"

definition count_case :: "case_result \<Rightarrow> summary \<Rightarrow> summary" where
  "count_case cr s =
     (let s1 = s\<lparr>sm_total := sm_total s + 1\<rparr>
      in if cr_status cr = ''passed'' then s1\<lparr>sm_passed := sm_passed s1 + 1\<rparr>
         else if cr_status cr = ''failed'' then s1\<lparr>sm_failed := sm_failed s1 + 1\<rparr>
         else s1\<lparr>sm_errors := sm_errors s1 + 1\<rparr>)"

text \<open>\<open>status_display.get(case_result['status'], '')\<close>.\<close>

definition status_display :: "string \<Rightarrow> ustr" where
  "status_display status =
     (if status = ''passed'' then [91, 103, 114, 101, 101, 110, 93, 10003, 32, 80, 97, 115, 115, 101, 100, 91, 47, 103, 114, 101, 101, 110, 93]
      else if status = ''failed'' then [91, 114, 101, 100, 93, 10007, 32, 70, 97, 105, 108, 101, 100, 91, 47, 114, 101, 100, 93]
      else if status = ''error'' then [91, 114, 101, 100, 93, 9888, 65039, 32, 32, 69, 114, 114, 111, 114, 91, 47, 114, 101, 100, 93]
      else [])"

text \<open>The loop of \<open>_execute_test_suite\<close> over the cases, \<open>n_cases\<close> being
  \<open>len(test_cases)\<close>; nothing catches what is raised in it.\<close>

fun suite_loop :: "pyrt \<Rightarrow> 'w engine \<Rightarrow> bool \<Rightarrow> nat \<Rightarrow> yval list \<Rightarrow> nat \<Rightarrow> suite_result \<Rightarrow> 'w \<Rightarrow> (exn + suite_result) \<times> 'w" where
  "suite_loop rt en screenshot_on_failure n_cases [] i results w = (Inr results, w)"
| "suite_loop rt en screenshot_on_failure n_cases (test_case # rest) i results w =
     (case test_case of
        VDict items \<Rightarrow>
          (let test_name = dict_get items [110, 97, 109, 101] (VStr ([84, 101, 115, 116, 32] @ str_nat (i + 1)))
           in case en_add_task en ([91, 99, 121, 97, 110, 93, 84, 101, 115, 116, 32] @ str_nat (i + 1) @ [47]
                     @ str_nat n_cases @ [58, 32] @ py_str rt test_name
                     @ [91, 47, 99, 121, 97, 110, 93]) of
                Some e \<Rightarrow> (Inl e, w)
              | None \<Rightarrow>
                  (case execute_test_case rt en screenshot_on_failure test_case w of
                     (Inl e, w1) \<Rightarrow> (Inl e, w1)
                   | (Inr cr, w1) \<Rightarrow>
                       (case en_update_task en (py_str rt test_name @ [32]
                                 @ status_display (cr_status cr)) of
                          Some e \<Rightarrow> (Inl e, w1)
                        | None \<Rightarrow>
                            suite_loop rt en screenshot_on_failure n_cases rest (i + 1)
                              (results\<lparr>su_test_cases := su_test_cases results @ [cr],
                                       su_summary := count_case cr (su_summary results)\<rparr>) w1)))
      | _ \<Rightarrow> (Inl (no_attribute test_case [103, 101, 116]), w))"

definition new_suite_result :: "(yval \<times> yval) list \<Rightarrow> suite_result" where
  "new_suite_result test_data =
     \<lparr>su_test_name = dict_get test_data [110, 97, 109, 101] (VStr [85, 110, 107, 110, 111, 119, 110]),
      su_base_url = dict_get test_data [98, 97, 115, 101, 95, 117, 114, 108] (VStr []),
      su_test_cases = [],
      su_summary = \<lparr>sm_total = 0, sm_passed = 0, sm_failed = 0, sm_errors = 0\<rparr>\<rparr>"

text \<open>\<open>_execute_test_suite\<close>.\<close>

definition execute_test_suite :: "pyrt \<Rightarrow> 'w engine \<Rightarrow> bool \<Rightarrow> yval \<Rightarrow> 'w \<Rightarrow> (exn + suite_result) \<times> 'w" where
  "execute_test_suite rt en screenshot_on_failure test_data w =
     (case test_data of
        VDict items \<Rightarrow>
          (let results = new_suite_result items;
               base_url = dict_get items [98, 97, 115, 101, 95, 117, 114, 108] VNull;
               nav = (if py_truthy rt base_url then en_navigate en base_url w else (Inr (), w))
           in case nav of
                (Inl e, w1) \<Rightarrow> (Inl e, w1)
              | (Inr u, w1) \<Rightarrow>
                  (let test_cases = dict_get items [116, 101, 115, 116, 95, 99, 97, 115, 101, 115] (VList [])
                   in case py_len test_cases of
                        Inl e \<Rightarrow> (Inl e, w1)
                      | Inr n_cases \<Rightarrow>
                          (case en_print en ([10, 128221, 32, 78, 117, 109, 98, 101, 114, 32, 111, 102, 32, 116, 101, 115, 116, 32, 99, 97, 115, 101, 115, 58, 32, 91, 99, 121, 97, 110, 93] @ str_nat n_cases @ [91, 47, 99, 121, 97, 110, 93, 10]) of
                             Some e \<Rightarrow> (Inl e, w1)
                           | None \<Rightarrow>
                               (case py_iter test_cases of
                                  Inl e \<Rightarrow> (Inl e, w1)
                                | Inr cases \<Rightarrow>
                                    suite_loop rt en screenshot_on_failure n_cases cases 0
                                      results w1))))
      | _ \<Rightarrow> (Inl (no_attribute test_data [103, 101, 116]), w))"

subsection \<open>\<open>OptimizedTestRunner\<close> (\<open>optimized_runner.py\<close>)\<close>






subsection \<open>\<open>RobustTestRunner\<close> (\<open>robust_runner.py\<close>)\<close>

text \<open>
  The robust runner swaps pages, so its engine also opens and closes them.  A page is
  named by a number; \<open>rb_is_closed\<close> is \<open>page.is_closed()\<close>.  \<open>rb_timed_out\<close> tells whether
  \<open>asyncio.wait_for\<close> gives up on an action before it ends (\<open>asyncio.TimeoutError\<close>), and
  \<open>rb_dict_repr\<close> is \<open>str\<close> of the action dictionary.  The module does not import the
  assertion subsystem: its step result has no \<open>assertion_result\<close> key and every
  instruction goes to the translator.
\<close>

record 'w robust_engine =
  rb_engine :: "'w engine"
  rb_new_page :: "'w \<Rightarrow> (exn + nat) \<times> 'w"
  rb_set_default_timeout :: "nat \<Rightarrow> 'w \<Rightarrow> (exn + unit) \<times> 'w"
  rb_is_closed :: "nat \<Rightarrow> 'w \<Rightarrow> bool"
  rb_close :: "nat \<Rightarrow> 'w \<Rightarrow> (exn + unit) \<times> 'w"
  rb_timed_out :: "action \<Rightarrow> 'w \<Rightarrow> bool"
  rb_dict_repr :: "action \<Rightarrow> ustr"

text \<open>The browser manager's \<open>page\<close> attribute (\<open>None\<close> before \<open>start()\<close>) and the world.\<close>

record 'w session =
  active_page :: "nat option"
  world :: 'w

text \<open>The \<open>try\<close> block of \<open>_execute_step_robust\<close>, for a step that is a dictionary.\<close>

definition robust_step_try :: "pyrt \<Rightarrow> 'w robust_engine \<Rightarrow> (yval \<times> yval) list \<Rightarrow> int \<Rightarrow> 'w session \<Rightarrow> (exn option \<times> step_result) \<times> 'w session" where
  "robust_step_try rt rb items step_idx s =
     (let sr = new_step_result items step_idx;
          w = world s
      in if (case active_page s of None \<Rightarrow> True | Some p \<Rightarrow> rb_is_closed rb p w)
         then ((Some (Exn ''RuntimeError'' [80, 97, 103, 101, 32, 105, 115, 32, 99, 108, 111, 115, 101, 100, 32, 111, 114, 32, 117, 110, 97, 118, 97, 105, 108, 97, 98, 108, 101]), sr), s)
         else
           (let instruction = dict_get items [105, 110, 115, 116, 114, 117, 99, 116, 105, 111, 110] (VStr [])
            in if \<not> py_truthy rt instruction then ((Some no_instruction, sr), s)
               else
                 (case en_translate (rb_engine rb) instruction w of
                    (Inl e, w1) \<Rightarrow> ((Some e, sr), s\<lparr>world := w1\<rparr>)
                  | (Inr act, w1) \<Rightarrow>
                      if rb_timed_out rb act w1
                      then ((Some (Exn ''RuntimeError'' ([65, 99, 116, 105, 111, 110, 32, 116, 105, 109, 101, 100, 32, 111, 117, 116, 58, 32] @ rb_dict_repr rb act)),
                             sr\<lparr>sr_action := Some act\<rparr>), s\<lparr>world := w1\<rparr>)
                      else
                        (case en_execute_action (rb_engine rb) act w1 of
                           (Inl e, w2) \<Rightarrow> ((Some e, sr\<lparr>sr_action := Some act\<rparr>), s\<lparr>world := w2\<rparr>)
                         | (Inr u, w2) \<Rightarrow>
                             ((None, sr\<lparr>sr_action := Some act, sr_status := ''passed''\<rparr>),
                              s\<lparr>world := w2\<rparr>)))))"

text \<open>\<open>_execute_step_robust\<close>.  As in the other runners the step result is built before
  the \<open>try\<close>, so a step that is not a dictionary raises out of the function (\<open>Inl\<close>),
  into the handler the case loop puts around the call.\<close>

definition execute_step_robust :: "pyrt \<Rightarrow> 'w robust_engine \<Rightarrow> yval \<Rightarrow> int \<Rightarrow> 'w session \<Rightarrow> (exn + step_result) \<times> 'w session" where
  "execute_step_robust rt rb step step_idx s =
     (case step of
        VDict items \<Rightarrow>
          (case robust_step_try rt rb items step_idx s of
             ((None, sr), s1) \<Rightarrow> (Inr sr, s1)
           | ((Some e, sr), s1) \<Rightarrow> (Inr (step_failed sr e), s1))
      | _ \<Rightarrow> (Inl (no_attribute step [103, 101, 116]), s))"

text \<open>The step a crash leaves behind in \<open>_execute_test_case_robust\<close>: the only place of
  the three runners that gives a step the status \<open>error\<close>.\<close>

definition error_step :: "int \<Rightarrow> exn \<Rightarrow> step_result" where
  "error_step step_idx e =
     \<lparr>sr_index = step_idx, sr_description = None, sr_natural_language = None,
      sr_status = ''error'', sr_action = None, sr_assertion_result = None,
      sr_error = Some (exn_message e)\<rparr>"

fun robust_case_loop :: "pyrt \<Rightarrow> 'w robust_engine \<Rightarrow> yval list \<Rightarrow> int \<Rightarrow> case_result \<Rightarrow> 'w session \<Rightarrow> case_result \<times> 'w session" where
  "robust_case_loop rt rb [] step_idx cr s = (cr, s)"
| "robust_case_loop rt rb (step # steps) step_idx cr s =
     (case execute_step_robust rt rb step step_idx s of
        (Inl e, s1) \<Rightarrow>
          (cr\<lparr>cr_steps := cr_steps cr @ [error_step step_idx e], cr_status := ''error''\<rparr>, s1)
      | (Inr sr, s1) \<Rightarrow>
          (let cr1 = cr\<lparr>cr_steps := cr_steps cr @ [sr]\<rparr>
           in if sr_status sr = ''failed'' then (cr1\<lparr>cr_status := ''failed''\<rparr>, s1)
              else robust_case_loop rt rb steps (step_idx + 1) cr1 s1))"

text \<open>\<open>_execute_test_case_robust\<close>; a case that is not a dictionary raises before the
  \<open>try\<close>.\<close>

definition execute_test_case_robust :: "pyrt \<Rightarrow> 'w robust_engine \<Rightarrow> yval \<Rightarrow> 'w session \<Rightarrow> (exn + case_result) \<times> 'w session" where
  "execute_test_case_robust rt rb test_case s =
     (case test_case of
        VDict items \<Rightarrow>
          (let cr0 = new_case_result items
           in case py_iter (dict_get items [115, 116, 101, 112, 115] (VList [])) of
                Inl e \<Rightarrow>
                  (Inr (cr0\<lparr>cr_status := ''error'', cr_error := Some (exn_message e)\<rparr>), s)
              | Inr steps \<Rightarrow>
                  (case robust_case_loop rt rb steps 0 cr0 s of
                     (cr, s1) \<Rightarrow>
                       (Inr (if cr_status cr = ''running'' then cr\<lparr>cr_status := ''passed''\<rparr>
                             else cr), s1)))
      | _ \<Rightarrow> (Inl (no_attribute test_case [103, 101, 116]), s))"

text \<open>The case a crash leaves behind in \<open>_execute_test_suite_robust\<close>.\<close>

definition error_case :: "yval \<Rightarrow> exn \<Rightarrow> case_result" where
  "error_case test_name e =
     \<lparr>cr_name = test_name, cr_status = ''error'', cr_steps = [],
      cr_error = Some (exn_message e), cr_screenshot = None\<rparr>"

text \<open>The line the suite loop prints for the status of a case.\<close>

definition robust_status_line :: "string \<Rightarrow> ustr" where
  "robust_status_line status =
     (if status = ''passed'' then [32, 32, 32, 32, 91, 103, 114, 101, 101, 110, 93, 226, 339, 8220, 32, 83, 117, 99, 99, 101, 115, 115, 91, 47, 103, 114, 101, 101, 110, 93]
      else if status = ''failed'' then [32, 32, 32, 32, 91, 114, 101, 100, 93, 226, 339, 8212, 32, 70, 97, 105, 108, 101, 100, 91, 47, 114, 101, 100, 93]
      else [32, 32, 32, 32, 91, 114, 101, 100, 93, 226, 353, 160, 239, 184, 32, 32, 69, 114, 114, 111, 114, 91, 47, 114, 101, 100, 93])"

text \<open>
  The loop of \<open>_execute_test_suite_robust\<close> over the cases.  The name is read and printed
  before the \<open>try\<close>: what is raised there leaves the suite.  Inside the \<open>try\<close> the case is
  run, listed and counted, and its status printed; the handler lists and counts an error
  case for whatever the \<open>try\<close> raised (also when the case was listed already) and prints
  a line of its own, outside any handler.
\<close>

fun robust_suite_loop :: "pyrt \<Rightarrow> 'w robust_engine \<Rightarrow> yval list \<Rightarrow> nat \<Rightarrow> suite_result \<Rightarrow> 'w session \<Rightarrow> (exn + suite_result) \<times> 'w session" where
  "robust_suite_loop rt rb [] i results s = (Inr results, s)"
| "robust_suite_loop rt rb (test_case # rest) i results s =
     (case test_case of
        VDict items \<Rightarrow>
          (let test_name = dict_get items [110, 97, 109, 101] (VStr ([84, 101, 115, 116, 32] @ str_nat (i + 1)))
           in case en_print (rb_engine rb) ([32, 32, 32, 32, 226, 353, 161, 32] @ py_str rt test_name) of
                Some e \<Rightarrow> (Inl e, s)
              | None \<Rightarrow>
                  (case (case execute_test_case_robust rt rb test_case s of
                           (Inl e, s1) \<Rightarrow> ((Some e, results), s1)
                         | (Inr cr, s1) \<Rightarrow>
                             ((en_print (rb_engine rb) (robust_status_line (cr_status cr)),
                               results\<lparr>su_test_cases := su_test_cases results @ [cr],
                                        su_summary := count_case cr (su_summary results)\<rparr>), s1)) of
                     ((None, results1), s1) \<Rightarrow> robust_suite_loop rt rb rest (i + 1) results1 s1
                   | ((Some e, results1), s1) \<Rightarrow>
                       (let results2 = results1
                              \<lparr>su_test_cases := su_test_cases results1 @ [error_case test_name e],
                               su_summary := (su_summary results1)
                                 \<lparr>sm_total := sm_total (su_summary results1) + 1,
                                  sm_errors := sm_errors (su_summary results1) + 1\<rparr>\<rparr>
                        in case en_print (rb_engine rb) [32, 32, 32, 32, 91, 114, 101, 100, 93, 240, 376, 8217, 165, 32, 67, 114, 97, 115, 104, 91, 47, 114, 101, 100, 93] of
                             Some e2 \<Rightarrow> (Inl e2, s1)
                           | None \<Rightarrow> robust_suite_loop rt rb rest (i + 1) results2 s1)))
      | _ \<Rightarrow> (Inl (no_attribute test_case [103, 101, 116]), s))"

text \<open>\<open>_execute_test_suite_robust\<close>.  \<open>navigate\<close> of the browser manager raises when there
  is no page; a navigation that raises is counted as an error and ends the suite with
  its result.\<close>

definition execute_test_suite_robust :: "pyrt \<Rightarrow> 'w robust_engine \<Rightarrow> yval \<Rightarrow> 'w session \<Rightarrow> (exn + suite_result) \<times> 'w session" where
  "execute_test_suite_robust rt rb test_data s =
     (case test_data of
        VDict items \<Rightarrow>
          (let results = new_suite_result items;
               base_url = dict_get items [98, 97, 115, 101, 95, 117, 114, 108] VNull;
               nav = (if py_truthy rt base_url then
                        (if active_page s = None then (Inl not_started, world s)
                         else en_navigate (rb_engine rb) base_url (world s))
                      else (Inr (), world s))
           in case nav of
                (Inl e, w1) \<Rightarrow>
                  (Inr (results\<lparr>su_summary := (su_summary results)
                           \<lparr>sm_errors := sm_errors (su_summary results) + 1\<rparr>\<rparr>), s\<lparr>world := w1\<rparr>)
              | (Inr u, w1) \<Rightarrow>
                  (let test_cases = dict_get items [116, 101, 115, 116, 95, 99, 97, 115, 101, 115] (VList []);
                       s1 = s\<lparr>world := w1\<rparr>
                   in case py_len test_cases of
                        Inl e \<Rightarrow> (Inl e, s1)
                      | Inr n_cases \<Rightarrow>
                          (case en_print (rb_engine rb)
                                  ([32, 32, 240, 376, 8220, 32, 78, 117, 109, 98, 101, 114, 32, 111, 102, 32, 116, 101, 115, 116, 32, 99, 97, 115, 101, 115, 58, 32, 91, 99, 121, 97, 110, 93] @ str_nat n_cases @ [91, 47, 99, 121, 97, 110, 93]) of
                             Some e \<Rightarrow> (Inl e, s1)
                           | None \<Rightarrow>
                               (case py_iter test_cases of
                                  Inl e \<Rightarrow> (Inl e, s1)
                                | Inr cases \<Rightarrow> robust_suite_loop rt rb cases 0 results s1))))
      | _ \<Rightarrow> (Inl (no_attribute test_data [103, 101, 116]), s))"

text \<open>
  \<open>_run_single_test_robust\<close>.  The test data arrive loaded (\<open>_load_test_file\<close> runs before
  the \<open>try\<close>, so a file that does not load never reaches the page swap), and
  \<open>save_results\<close> gives the path of the result file (\<open>str\<close> of it) or what writing it
  raises.  The \<open>finally\<close> clause closes the new page unless it is closed already, and
  ignores what closing raises.
\<close>

definition close_used_page :: "'w robust_engine \<Rightarrow> nat \<Rightarrow> 'w \<Rightarrow> 'w" where
  "close_used_page rb p w = (if rb_is_closed rb p w then w else snd (rb_close rb p w))"

definition run_single_test_robust :: "pyrt \<Rightarrow> 'w robust_engine \<Rightarrow> (suite_result \<Rightarrow> exn + ustr) \<Rightarrow> nat \<Rightarrow> yval \<Rightarrow> 'w session \<Rightarrow> (exn + suite_result) \<times> 'w session" where
  "run_single_test_robust rt rb save_results timeout test_data s =
     (case test_data of
        VDict items \<Rightarrow>
          (case en_print (rb_engine rb)
                  ([32, 32, 226, 339, 8220, 32, 84, 101, 115, 116, 32, 100, 97, 116, 97, 32, 108, 111, 97, 100, 101, 100, 58, 32, 91, 103, 114, 101, 101, 110, 93] @ py_str rt (dict_get items [110, 97, 109, 101] (VStr [85, 110, 110, 97, 109, 101, 100]))
                   @ [91, 47, 103, 114, 101, 101, 110, 93]) of
             Some e \<Rightarrow> (Inl e, s)
           | None \<Rightarrow>
               (case rb_new_page rb (world s) of
                  (Inl e, w1) \<Rightarrow> (Inl e, s\<lparr>world := w1\<rparr>)
                | (Inr p, w1) \<Rightarrow>
                    (case rb_set_default_timeout rb timeout w1 of
                       (Inl e, w2) \<Rightarrow> (Inl e, s\<lparr>world := close_used_page rb p w2\<rparr>)
                     | (Inr u, w2) \<Rightarrow>
                         (let original_page = active_page s;
                              s1 = s\<lparr>active_page := Some p, world := w2\<rparr>
                          in case execute_test_suite_robust rt rb test_data s1 of
                               (Inl e, s2) \<Rightarrow>
                                 (Inl e, s2\<lparr>world := close_used_page rb p (world s2)\<rparr>)
                             | (Inr results, s2) \<Rightarrow>
                                 (let s3 = s2\<lparr>active_page := original_page\<rparr>;
                                      s4 = s3\<lparr>world := close_used_page rb p (world s3)\<rparr>
                                  in case save_results results of
                                       Inl e \<Rightarrow> (Inl e, s4)
                                     | Inr result_file \<Rightarrow>
                                         (case en_print (rb_engine rb)
                                                 ([32, 32, 226, 339, 8220, 32, 82, 101, 115, 117, 108, 116, 115, 32, 115, 97, 118, 101, 100, 58, 32, 91, 100, 105, 109, 93] @ result_file
                                                  @ [91, 47, 100, 105, 109, 93]) of
                                            Some e \<Rightarrow> (Inl e, s4)
                                          | None \<Rightarrow> (Inr results, s4)))))))
      | _ \<Rightarrow> (Inl (no_attribute test_data [103, 101, 116]), s))"


section \<open>The command line: \<open>__main__.py\<close>\<close>

text \<open>
  How a call of a runner ends, as \<open>main\<close> sees it: it returns, it raises an exception
  that \<open>except Exception\<close> catches, or the user interrupts it (KeyboardInterrupt is not
  an \<open>Exception\<close>).  What a runner hands back for a file is a suite result or, from the
  batch runners, the dictionary written for a file that failed as a whole, which has no
  \<open>summary\<close> key.
\<close>

datatype 'a outcome = Returns 'a | Raises exn | Interrupted

datatype file_result = SuiteResult suite_result | FileError ustr

text \<open>\<open>summary.get("failed", 0) > 0 or summary.get("errors", 0) > 0\<close>, where \<open>summary\<close> is
  \<open>result.get("summary", {})\<close>.\<close>

definition reports_failure :: "file_result \<Rightarrow> bool" where
  "reports_failure r =
     (case r of
        SuiteResult s \<Rightarrow> sm_failed (su_summary s) > 0 \<or> sm_errors (su_summary s) > 0
      | FileError msg \<Rightarrow> False)"

text \<open>The runners, as \<open>main\<close> calls them.  The standard runner is called once per file;
  the number tells the calls apart.\<close>

record runners =
  robust_batch :: "ustr list \<Rightarrow> file_result list outcome"
  optimized_batch :: "ustr list \<Rightarrow> file_result list outcome"
  standard_file :: "nat \<Rightarrow> ustr \<Rightarrow> file_result outcome"
  interactive :: "unit outcome"

text \<open>\<open>run_test_file\<close> of the two batch runners: \<open>(await
  self.run_test_files_batch([path]))[0]\<close>.\<close>

definition first_of_batch :: "file_result list outcome \<Rightarrow> file_result outcome" where
  "first_of_batch b =
     (case b of
        Returns [] \<Rightarrow> Raises (Exn ''IndexError'' [108, 105, 115, 116, 32, 105, 110, 100, 101, 120, 32, 111, 117, 116, 32, 111, 102, 32, 114, 97, 110, 103, 101])
      | Returns (r # rs) \<Rightarrow> Returns r
      | Raises e \<Rightarrow> Raises e
      | Interrupted \<Rightarrow> Interrupted)"

text \<open>The loop of the standard mode over several files; the flag is
  \<open>all_tests_passed\<close>.\<close>

fun standard_loop :: "runners \<Rightarrow> nat \<Rightarrow> ustr list \<Rightarrow> bool \<Rightarrow> bool outcome" where
  "standard_loop rs i [] all_tests_passed = Returns all_tests_passed"
| "standard_loop rs i (p # ps) all_tests_passed =
     (case standard_file rs i p of
        Returns result \<Rightarrow>
          standard_loop rs (i + 1) ps (if reports_failure result then False else all_tests_passed)
      | Raises e \<Rightarrow> Raises e
      | Interrupted \<Rightarrow> Interrupted)"

text \<open>The \<open>try\<close> block of \<open>main\<close> up to its last statement: the value of
  \<open>all_tests_passed\<close> when the block gets there.\<close>

definition run_selected :: "runners \<Rightarrow> ustr list \<Rightarrow> bool \<Rightarrow> bool \<Rightarrow> bool outcome" where
  "run_selected rs test_file_paths robust optimized =
     (if test_file_paths \<noteq> [] then
        (if length test_file_paths > 1 then
           (if robust then
              (case robust_batch rs test_file_paths of
                 Returns results \<Rightarrow> Returns (\<not> list_ex reports_failure results)
               | Raises e \<Rightarrow> Raises e
               | Interrupted \<Rightarrow> Interrupted)
            else if optimized then
              (case optimized_batch rs test_file_paths of
                 Returns results \<Rightarrow> Returns (\<not> list_ex reports_failure results)
               | Raises e \<Rightarrow> Raises e
               | Interrupted \<Rightarrow> Interrupted)
            else standard_loop rs 0 test_file_paths True)
         else
           (case (if robust then first_of_batch (robust_batch rs [hd test_file_paths])
                  else if optimized then first_of_batch (optimized_batch rs [hd test_file_paths])
                  else standard_file rs 0 (hd test_file_paths)) of
              Returns result \<Rightarrow> Returns (\<not> reports_failure result)
            | Raises e \<Rightarrow> Raises e
            | Interrupted \<Rightarrow> Interrupted))
      else
        (case interactive rs of
           Returns u \<Rightarrow> Returns True
         | Raises e \<Rightarrow> Raises e
         | Interrupted \<Rightarrow> Interrupted))"

text \<open>
  The exit code of the process, from the \<open>try\<close> statement of \<open>main\<close> on (the
  configuration is loaded before it).  \<open>sys.exit(1)\<close> ends the process with code 1; a
  \<open>main\<close> that returns ends it with code 0, and so does the handler of
  KeyboardInterrupt, which only logs.
\<close>

definition main_exit :: "runners \<Rightarrow> ustr list \<Rightarrow> bool \<Rightarrow> bool \<Rightarrow> int" where
  "main_exit rs test_file_paths robust optimized =
     (case run_selected rs test_file_paths robust optimized of
        Returns all_tests_passed \<Rightarrow>
          if test_file_paths \<noteq> [] \<and> \<not> all_tests_passed then 1 else 0
      | Interrupted \<Rightarrow> 0
      | Raises e \<Rightarrow> 1)"

text \<open>
  What the exit code is stated against: how the selected run ended, with the results it
  handed to \<open>main\<close> when every call returned (none in interactive mode).
\<close>

fun standard_results :: "runners \<Rightarrow> nat \<Rightarrow> ustr list \<Rightarrow> file_result list outcome" where
  "standard_results rs i [] = Returns []"
| "standard_results rs i (p # ps) =
     (case standard_file rs i p of
        Returns result \<Rightarrow>
          (case standard_results rs (i + 1) ps of
             Returns results \<Rightarrow> Returns (result # results)
           | Raises e \<Rightarrow> Raises e
           | Interrupted \<Rightarrow> Interrupted)
      | Raises e \<Rightarrow> Raises e
      | Interrupted \<Rightarrow> Interrupted)"

definition run_results :: "runners \<Rightarrow> ustr list \<Rightarrow> bool \<Rightarrow> bool \<Rightarrow> file_result list outcome" where
  "run_results rs test_file_paths robust optimized =
     (case test_file_paths of
        [] \<Rightarrow> (case interactive rs of
                 Returns u \<Rightarrow> Returns []
               | Raises e \<Rightarrow> Raises e
               | Interrupted \<Rightarrow> Interrupted)
      | [p] \<Rightarrow> (case (if robust then first_of_batch (robust_batch rs [p])
                      else if optimized then first_of_batch (optimized_batch rs [p])
                      else standard_file rs 0 p) of
                  Returns result \<Rightarrow> Returns [result]
                | Raises e \<Rightarrow> Raises e
                | Interrupted \<Rightarrow> Interrupted)
      | p # q # ps \<Rightarrow>
          (if robust then robust_batch rs test_file_paths
           else if optimized then optimized_batch rs test_file_paths
           else standard_results rs 0 test_file_paths))"


section \<open>The configuration: \<open>config.py\<close>\<close>

record LLMConfig =
  model_name :: ustr
  device :: ustr
  max_length :: int
  temperature :: pyfloat
  top_p :: pyfloat

record PlaywrightConfig =
  browser :: ustr
  headless :: bool
  pw_timeout :: int
  viewport :: "(ustr \<times> int) list"

text \<open>\<open>output_dir\<close> is a \<open>pathlib.Path\<close>: its parts.\<close>

record TestConfig =
  base_url :: ustr
  screenshot_on_failure :: bool
  output_dir :: "ustr list"
  retry_count :: int

record KotobaConfig =
  llm :: LLMConfig
  playwright :: PlaywrightConfig
  test :: TestConfig
  log_level :: ustr

text \<open>
  The Python values \<open>model_dump()\<close> builds.  In its default mode it keeps each field's
  Python object, so \<open>output_dir\<close> stays a \<open>Path\<close> object and does not become a string.
\<close>

datatype pyobj =
    ONone
  | OStr ustr
  | OInt int
  | OFloat pyfloat
  | OBool bool
  | OPath "ustr list"
  | ODict "(ustr \<times> pyobj) list"

definition model_dump :: "KotobaConfig \<Rightarrow> pyobj" where
  "model_dump c =
     ODict [
       ([108, 108, 109], ODict [([109, 111, 100, 101, 108, 95, 110, 97, 109, 101], OStr (model_name (llm c))),
                     ([100, 101, 118, 105, 99, 101], OStr (device (llm c))),
                     ([109, 97, 120, 95, 108, 101, 110, 103, 116, 104], OInt (max_length (llm c))),
                     ([116, 101, 109, 112, 101, 114, 97, 116, 117, 114, 101], OFloat (temperature (llm c))),
                     ([116, 111, 112, 95, 112], OFloat (top_p (llm c)))]),
       ([112, 108, 97, 121, 119, 114, 105, 103, 104, 116], ODict [([98, 114, 111, 119, 115, 101, 114], OStr (browser (playwright c))),
                            ([104, 101, 97, 100, 108, 101, 115, 115], OBool (headless (playwright c))),
                            ([116, 105, 109, 101, 111, 117, 116], OInt (pw_timeout (playwright c))),
                            ([118, 105, 101, 119, 112, 111, 114, 116], ODict (map (\<lambda>(k, v). (k, OInt v))
                                                  (viewport (playwright c))))]),
       ([116, 101, 115, 116], ODict [([98, 97, 115, 101, 95, 117, 114, 108], OStr (base_url (test c))),
                      ([115, 99, 114, 101, 101, 110, 115, 104, 111, 116, 95, 111, 110, 95, 102, 97, 105, 108, 117, 114, 101], OBool (screenshot_on_failure (test c))),
                      ([111, 117, 116, 112, 117, 116, 95, 100, 105, 114], OPath (output_dir (test c))),
                      ([114, 101, 116, 114, 121, 95, 99, 111, 117, 110, 116], OInt (retry_count (test c)))]),
       ([108, 111, 103, 95, 108, 101, 118, 101, 108], OStr (log_level c))]"

text \<open>
  PyYAML is a package the repository uses, not a part of it; what is modelled of it is
  the tags of the document, not its text.  \<open>yaml.dump\<close>, called without a \<open>Dumper\<close>,
  writes strings, numbers, booleans and mappings with the standard tags and any other
  object with a \<open>!!python/object/apply:\<close> tag naming its class (for a path:
  \<open>pathlib.PosixPath\<close> and its parts).  \<open>yaml.safe_load\<close> builds the standard tags only
  and raises ConstructorError on any other.  That scalars keep their value from
  \<open>dump\<close> to \<open>load\<close> is granted.
\<close>

datatype ynode =
    YNull
  | YStr ustr
  | YInt int
  | YFloat pyfloat
  | YBool bool
  | YMap "(ustr \<times> ynode) list"
  | YPythonApply ustr "ustr list"

fun yaml_dump :: "pyobj \<Rightarrow> ynode" where
  "yaml_dump ONone = YNull"
| "yaml_dump (OStr s) = YStr s"
| "yaml_dump (OInt i) = YInt i"
| "yaml_dump (OFloat f) = YFloat f"
| "yaml_dump (OBool b) = YBool b"
| "yaml_dump (OPath parts) = YPythonApply [112, 97, 116, 104, 108, 105, 98, 46, 80, 111, 115, 105, 120, 80, 97, 116, 104] parts"
| "yaml_dump (ODict kvs) = YMap (map (\<lambda>(k, v). (k, yaml_dump v)) kvs)"

text \<open>The exception of \<open>safe_load\<close>, with the problem it states as its message; \<open>str\<close>
  of the exception goes on with a second line, the position of the tag in the file
  (name, line and column), which a model of the tags does not have.\<close>

definition constructor_error :: "ustr \<Rightarrow> exn" where
  "constructor_error cls =
     Exn ''yaml.constructor.ConstructorError''
       ([99, 111, 117, 108, 100, 32, 110, 111, 116, 32, 100, 101, 116, 101, 114, 109, 105, 110, 101, 32, 97, 32, 99, 111, 110, 115, 116, 114, 117, 99, 116, 111, 114, 32, 102, 111, 114, 32, 116, 104, 101, 32, 116, 97, 103, 32, 39, 116, 97, 103, 58, 121, 97, 109, 108, 46, 111, 114, 103, 44, 50, 48, 48, 50, 58, 112, 121, 116, 104, 111, 110, 47, 111, 98, 106, 101, 99, 116, 47, 97, 112, 112, 108, 121, 58]
        @ cls @ [39])"

fun yaml_safe_load :: "ynode \<Rightarrow> exn + pyobj"
  and load_items :: "(ustr \<times> ynode) list \<Rightarrow> exn + (ustr \<times> pyobj) list" where
  "yaml_safe_load YNull = Inr ONone"
| "yaml_safe_load (YStr s) = Inr (OStr s)"
| "yaml_safe_load (YInt i) = Inr (OInt i)"
| "yaml_safe_load (YFloat f) = Inr (OFloat f)"
| "yaml_safe_load (YBool b) = Inr (OBool b)"
| "yaml_safe_load (YPythonApply cls args) = Inl (constructor_error cls)"
| "yaml_safe_load (YMap kvs) =
     (case load_items kvs of Inl e \<Rightarrow> Inl e | Inr items \<Rightarrow> Inr (ODict items))"
| "load_items [] = Inr []"
| "load_items ((k, n) # kvs) =
     (case yaml_safe_load n of
        Inl e \<Rightarrow> Inl e
      | Inr v \<Rightarrow> (case load_items kvs of Inl e \<Rightarrow> Inl e | Inr items \<Rightarrow> Inr ((k, v) # items)))"

text \<open>The files: the document each path holds.  \<open>validate\<close> is
  \<open>KotobaConfig(**config_data)\<close>, the validation of pydantic, and \<open>defaults\<close> is
  \<open>KotobaConfig()\<close>.\<close>

type_synonym files = "ustr \<Rightarrow> ynode option"

definition save_config :: "KotobaConfig \<Rightarrow> ustr \<Rightarrow> files \<Rightarrow> files" where
  "save_config config config_path fs = fs(config_path \<mapsto> yaml_dump (model_dump config))"

definition load_config :: "(pyobj \<Rightarrow> exn + KotobaConfig) \<Rightarrow> KotobaConfig \<Rightarrow> ustr \<Rightarrow> files \<Rightarrow> exn + KotobaConfig" where
  "load_config validate defaults config_path fs =
     (case fs config_path of
        None \<Rightarrow> Inr defaults
      | Some doc \<Rightarrow>
          (case yaml_safe_load doc of
             Inl e \<Rightarrow> Inl e
           | Inr config_data \<Rightarrow> validate config_data))"


section \<open>Inputs the properties are evaluated at\<close>

text \<open>A runtime to evaluate at: \<open>str.lower\<close> as it is on text whose only cased letters
  are ASCII, \<open>repr\<close> as it is on text that needs no escape, and the interpreter's default
  limit on digits.  The inputs below hold no float and nothing whose \<open>str\<close> is taken from
  the runtime; the entries for them are placeholders.\<close>

definition ascii_lower :: "ustr \<Rightarrow> ustr" where
  "ascii_lower s = map (\<lambda>c. if 65 \<le> c \<and> c \<le> 90 then c + 32 else c) s"

definition plain_rt :: pyrt where
  "plain_rt = \<lparr>lower = ascii_lower, float_str = (\<lambda>f. [48, 46, 48]), float_int = (\<lambda>f. Inr 0),
     str_repr = (\<lambda>s. [39] @ s @ [39]), float_nonzero = (\<lambda>f. False),
     value_str = (\<lambda>v. [46, 46, 46]), int_max_str_digits = 4300\<rparr>"

text \<open>The parameter kinds for which the loop of \<open>parse\<close> has a returning branch.\<close>

definition handled_kinds :: "string list" where
  "handled_kinds = [''text'', ''selector'', ''url'', ''title'', ''selector_value'',
     ''selector_count'', ''html_element'']"

definition table_types :: "AssertionType list" where
  "table_types = map (\<lambda>(p, t, k). t) PATTERNS"

text \<open>Instructions: the two examples of the spec (a quoted "login" text is displayed;
  the URL ends with "success"), and the two click instructions of
  \<open>tests/test_runner.py\<close> ("click the button", "click the button that is not there").\<close>

definition login_instruction :: ustr where
  "login_instruction = [12300, 12525, 12464, 12452, 12531, 12301, 12364, 34920, 31034, 12373, 12428, 12390, 12356, 12427, 12371, 12392, 12434, 30906, 35469, 12377, 12427]"

definition url_instruction :: ustr where
  "url_instruction = [85, 82, 76, 12364, 34, 115, 117, 99, 99, 101, 115, 115, 34, 12391, 32066, 12431, 12427, 12371, 12392, 12434, 30906, 35469, 12377, 12427]"

definition click_instruction :: ustr where
  "click_instruction = [12508, 12479, 12531, 12434, 12463, 12522, 12483, 12463, 12377, 12427]"

definition missing_instruction :: ustr where
  "missing_instruction = [23384, 22312, 12375, 12394, 12356, 12508, 12479, 12531, 12434, 12463, 12522, 12483, 12463, 12377, 12427]"


text \<open>"Select the apple (quoted)": a selection keyword and none of the earlier keywords of
  the mock translator.\<close>

definition select_instruction :: ustr where
  "select_instruction = [12300, 12426, 12435, 12372, 12301, 12434, 36984, 25246, 12377, 12427]"

text \<open>A page in one state: no locator finds anything, and the rendered content holds
  the word LOGIN in capitals.\<close>

definition quiet_page :: page where
  "quiet_page =
     \<lparr>pg_count = (\<lambda>sel. Inr 0), pg_first_wait_for = (\<lambda>sel t. Inr ()),
      pg_first_wait_for_visible = (\<lambda>sel t. Inr ()), pg_wait_for_visible = (\<lambda>sel t. Inr ()),
      pg_is_visible = (\<lambda>sel. Inr False), pg_input_value = (\<lambda>sel. Inr []),
      pg_is_checked = (\<lambda>sel. Inr False), pg_url = [104, 116, 116, 112, 115, 58, 47, 47, 101, 120, 97, 109, 112, 108, 101, 46, 99, 111, 109, 47],
      pg_title = Inr [69, 120, 97, 109, 112, 108, 101], pg_content = Inr [60, 104, 116, 109, 108, 62, 60, 98, 111, 100, 121, 62, 76, 79, 71, 73, 78, 60, 47, 98, 111, 100, 121, 62, 60, 47, 104, 116, 109, 108, 62]\<rparr>"

definition login_assertion :: assertion where
  "login_assertion =
     \<lparr>a_type = TEXT_EXISTS, a_selector = None, a_expected = Some (PStr [108, 111, 103, 105, 110]),
      a_attribute = None, a_timeout = 5000, a_ignore_case = False, a_wait_for = True\<rparr>"

text \<open>\<open>MockLLMManager.translate_to_actions\<close> on whatever a step holds as its
  instruction: the method starts with \<open>natural_language.lower()\<close>.\<close>

definition mock_translate :: "pyrt \<Rightarrow> yval \<Rightarrow> exn + action" where
  "mock_translate rt v =
     (case v of
        VStr s \<Rightarrow> translate_to_actions rt s
      | _ \<Rightarrow> Inl (no_attribute v [108, 111, 119, 101, 114]))"

text \<open>An engine to evaluate the runners at.  Its world counts the actions executed and
  the pages opened, and lists the pages closed.  The translator is the mock; the first
  action executed succeeds and every later one raises "Element not found", as the two
  tests of \<open>tests/test_runner.py\<close> set the browser up.  The output directory is the
  default, \<open>outputs\<close>, and the console shows whatever it is given: no text of the inputs
  below holds markup of its own.\<close>

record demo_world =
  dw_actions :: nat
  dw_next_page :: nat
  dw_closed :: "nat list"

definition demo_engine :: "demo_world engine" where
  "demo_engine =
     \<lparr>en_translate = (\<lambda>instruction w. (mock_translate plain_rt instruction, w)),
      en_execute_action = (\<lambda>act w.
         (if dw_actions w = 0 then Inr () else Inl (Exn ''Exception'' [69, 108, 101, 109, 101, 110, 116, 32, 110, 111, 116, 32, 102, 111, 117, 110, 100]),
          w\<lparr>dw_actions := dw_actions w + 1\<rparr>)),
      en_navigate = (\<lambda>url w. (Inr (), w)),
      en_take_screenshot = (\<lambda>path w. (Inr (), w)),
      en_assertion_page = (\<lambda>w. Some quiet_page),
      en_timestamp = (\<lambda>w. [50, 48, 50, 52, 48, 49, 48, 49, 95, 48, 48, 48, 48, 48, 48]),
      en_output_path = (\<lambda>name. [111, 117, 116, 112, 117, 116, 115, 47] @ name),
      en_print = (\<lambda>text. None), en_add_task = (\<lambda>text. None),
      en_update_task = (\<lambda>text. None)\<rparr>"

definition demo_robust :: "demo_world robust_engine" where
  "demo_robust =
     \<lparr>rb_engine = demo_engine,
      rb_new_page = (\<lambda>w. (Inr (dw_next_page w), w\<lparr>dw_next_page := dw_next_page w + 1\<rparr>)),
      rb_set_default_timeout = (\<lambda>t w. (Inr (), w)),
      rb_is_closed = (\<lambda>p w. p \<in> set (dw_closed w)),
      rb_close = (\<lambda>p w. (Inr (), w\<lparr>dw_closed := p # dw_closed w\<rparr>)),
      rb_timed_out = (\<lambda>act w. False),
      rb_dict_repr = (\<lambda>act. [123, 46, 46, 46, 125])\<rparr>"

text \<open>The world after \<open>start()\<close>: page 0 is open and is the browser manager's page.\<close>

definition started_world :: demo_world where
  "started_world = \<lparr>dw_actions = 0, dw_next_page = 1, dw_closed = []\<rparr>"

definition started_session :: "demo_world session" where
  "started_session = \<lparr>active_page = Some 0, world = started_world\<rparr>"


definition used_world :: demo_world where
  "used_world = \<lparr>dw_actions = 1, dw_next_page = 1, dw_closed = []\<rparr>"

definition wait_action :: action where
  "wait_action = [(''action_type'', PStr [119, 97, 105, 116]), (''timeout'', PInt 1000)]"

text \<open>Steps as a test file holds them: dictionaries with an \<open>instruction\<close>, and a step
  written as a bare string (YAML \<open>steps: ["..."]\<close>).\<close>

definition click_step :: yval where
  "click_step = VDict [(VStr [105, 110, 115, 116, 114, 117, 99, 116, 105, 111, 110], VStr click_instruction)]"

definition missing_step :: yval where
  "missing_step = VDict [(VStr [105, 110, 115, 116, 114, 117, 99, 116, 105, 111, 110], VStr missing_instruction)]"

definition login_step :: yval where
  "login_step = VDict [(VStr [105, 110, 115, 116, 114, 117, 99, 116, 105, 111, 110], VStr login_instruction)]"





text \<open>The suite of the end-to-end scenario: two cases of one step each, the two click
  instructions.\<close>

definition two_case_suite :: yval where
  "two_case_suite =
     VDict [(VStr [110, 97, 109, 101], VStr [68, 101, 109, 111]),
            (VStr [116, 101, 115, 116, 95, 99, 97, 115, 101, 115], VList
               [VDict [(VStr [110, 97, 109, 101], VStr [99, 97, 115, 101, 32, 49]), (VStr [115, 116, 101, 112, 115], VList [click_step])],
                VDict [(VStr [110, 97, 109, 101], VStr [99, 97, 115, 101, 32, 50]), (VStr [115, 116, 101, 112, 115], VList [missing_step])]])]"

text \<open>A suite whose only case has no \<open>name\<close> key, and a file whose \<open>test_cases\<close> key holds
  nothing (YAML \<open>test_cases:\<close> with no entries under it reads as \<open>null\<close>).\<close>

definition nameless_suite :: yval where
  "nameless_suite =
     VDict [(VStr [110, 97, 109, 101], VStr [68, 101, 109, 111]),
            (VStr [116, 101, 115, 116, 95, 99, 97, 115, 101, 115], VList [VDict [(VStr [115, 116, 101, 112, 115], VList [click_step])]])]"

definition empty_cases_file :: yval where
  "empty_cases_file = VDict [(VStr [110, 97, 109, 101], VStr [68, 101, 109, 111]), (VStr [116, 101, 115, 116, 95, 99, 97, 115, 101, 115], VNull)]"

text \<open>Runners for the command line to call: one whose only file passes, one whose first
  file reports a failed case and whose second is interrupted by the user.\<close>

definition passing_result :: file_result where
  "passing_result = SuiteResult
     \<lparr>su_test_name = VStr [68, 101, 109, 111], su_base_url = VStr [], su_test_cases = [],
      su_summary = \<lparr>sm_total = 1, sm_passed = 1, sm_failed = 0, sm_errors = 0\<rparr>\<rparr>"

definition failing_result :: file_result where
  "failing_result = SuiteResult
     \<lparr>su_test_name = VStr [68, 101, 109, 111], su_base_url = VStr [], su_test_cases = [],
      su_summary = \<lparr>sm_total = 2, sm_passed = 1, sm_failed = 1, sm_errors = 0\<rparr>\<rparr>"

definition demo_runners :: runners where
  "demo_runners =
     \<lparr>robust_batch = (\<lambda>paths. Returns (map (\<lambda>p. failing_result) paths)),
      optimized_batch = (\<lambda>paths. Returns (map (\<lambda>p. passing_result) paths)),
      standard_file = (\<lambda>i p. if i = 0 then Returns failing_result else Interrupted),
      interactive = Returns ()\<rparr>"

text \<open>The default configuration of \<open>config.py\<close>, but for its two floats, which stay
  arbitrary.\<close>

definition demo_config :: "pyfloat \<Rightarrow> pyfloat \<Rightarrow> KotobaConfig" where
  "demo_config t p =
     \<lparr>llm = \<lparr>model_name = [114, 105, 110, 110, 97, 47, 106, 97, 112, 97, 110, 101, 115, 101, 45, 103, 112, 116, 45, 110, 101, 111, 120, 45, 51, 46, 54, 98], device = [97, 117, 116, 111], max_length = 512,
             temperature = t, top_p = p\<rparr>,
      playwright = \<lparr>browser = [99, 104, 114, 111, 109, 105, 117, 109], headless = True, pw_timeout = 30000,
                    viewport = [([119, 105, 100, 116, 104], 1280), ([104, 101, 105, 103, 104, 116], 720)]\<rparr>,
      test = \<lparr>base_url = [], screenshot_on_failure = True, output_dir = [[111, 117, 116, 112, 117, 116, 115]],
              retry_count = 3\<rparr>,
      log_level = [73, 78, 70, 79]\<rparr>"


section \<open>Properties\<close>

subsection \<open>Evaluation lemmas\<close>

lemma str_nat_small [simp]: "n < 10 \<Longrightarrow> str_nat n = [48 + n]"
  by (subst str_nat.simps) simp

lemma str_nat_large [simp]: "10 \<le> n \<Longrightarrow> str_nat n = str_nat (n div 10) @ [48 + n mod 10]"
  by (subst str_nat.simps) simp

lemma upt_small [simp]:
  "[Suc 0..<3] = [Suc 0, 2]" "[Suc 0..<4] = [Suc 0, 2, 3]" "[Suc 0..<5] = [Suc 0, 2, 3, 4]"
  by (simp_all add: upt_rec)

lemmas string_simps = strip_def strip_chars_def strip_by_def quote_chars_def py_isspace_def
  group_strip_def startswith_def ascii_def

subsection \<open>What \<open>parse\<close> can return\<close>

lemma extract_info_Some:
  assumes "extract_info rt t k gs = Inr (Some info)"
  shows "ai_type info = t \<and> k \<in> set handled_kinds"
  using assms
  by (auto simp: extract_info_def handled_kinds_def split: if_splits sum.splits)

lemma parse_loop_Some:
  "parse_loop rt tbl s = Inr (Some info) \<Longrightarrow>
     \<exists>p k. (p, ai_type info, k) \<in> set tbl \<and> k \<in> set handled_kinds"
proof (induction tbl)
  case Nil
  then show ?case by simp
next
  case (Cons entry tbl)
  obtain p t k where entry: "entry = (p, t, k)" by (cases entry) auto
  show ?case
  proof (cases "re_search p s")
    case (Inl e)
    with Cons.prems entry show ?thesis by simp
  next
    case (Inr mo)
    show ?thesis
    proof (cases mo)
      case None
      with Inr Cons entry show ?thesis by auto
    next
      case (Some m)
      show ?thesis
      proof (cases "extract_info rt t k (groups m)")
        case (Inl e)
        with Some Inr Cons.prems entry show ?thesis by simp
      next
        case (Inr r)
        note ex = this
        show ?thesis
        proof (cases r)
          case None
          with ex Some \<open>re_search p s = Inr mo\<close> Cons entry show ?thesis by auto
        next
          case (Some info')
          with ex \<open>mo = Some m\<close> \<open>re_search p s = Inr mo\<close> Cons.prems entry
          have "info' = info" by simp
          with ex Some extract_info_Some[of rt t k "groups m" info]
          have "ai_type info = t \<and> k \<in> set handled_kinds" by simp
          with entry show ?thesis by auto
        qed
      qed
    qed
  qed
qed

lemma table_handled_implemented:
  "\<forall>(p, t, k) \<in> set PATTERNS. k \<in> set handled_kinds \<longrightarrow> evaluator_of t \<noteq> None"
  by (simp add: PATTERNS_def handled_kinds_def)

lemma table_has_unimplemented:
  "ELEMENT_ENABLED \<in> set table_types \<and> ELEMENT_DISABLED \<in> set table_types
   \<and> ATTRIBUTE_EXISTS \<in> set table_types \<and> INPUT_VALUE_CONTAINS \<in> set table_types
   \<and> TEXT_CONTAINS \<in> set table_types"
  by (simp add: table_types_def PATTERNS_def)

lemma login_L107: "re_search rx_L107 login_instruction = Inr (Some \<lparr>whole = [12300, 12525, 12464, 12452, 12531, 12301, 12364, 34920, 31034, 12373, 12428, 12390, 12356, 12427, 12371, 12392, 12434, 30906, 35469, 12377, 12427], groups = [Some [12300, 12525, 12464, 12452, 12531, 12301]]\<rparr>)"
  by (simp add: rx_L107_def login_instruction_def)

lemmas login_all = login_L107

lemma login_parse:
  "parse rt login_instruction =
     Inr (Some \<lparr>ai_type = TEXT_EXISTS, ai_selector = None, ai_expected = Some (PStr [12525, 12464, 12452, 12531])\<rparr>)"
  by (simp add: parse_def PATTERNS_def login_all extract_info_def string_simps)

text \<open>
  C1.  Whatever the instruction, an assertion that \<open>parse\<close> returns has one of the
  sixteen types the dispatcher of \<open>AssertionExecutor\<close> names: \<open>execute\<close> runs that type's
  evaluator on it and never takes the "Unimplemented assertion type" branch.  The table
  does hold entries of five types without an evaluator (ELEMENT_ENABLED,
  ELEMENT_DISABLED, ATTRIBUTE_EXISTS, INPUT_VALUE_CONTAINS, TEXT_CONTAINS); their
  parameter kinds have no returning branch in \<open>parse\<close>.
\<close>

theorem parse_emits_implemented:
  assumes "parse rt instruction = Inr (Some info)"
  shows "evaluator_of (ai_type info) \<noteq> None
    \<and> (\<exists>evaluator. evaluator_of (ai_type info) = Some evaluator
          \<and> execute rt pg (make_assertion info) = evaluator rt pg (make_assertion info))
    \<and> ELEMENT_ENABLED \<in> set table_types \<and> evaluator_of ELEMENT_ENABLED = None
    \<and> ELEMENT_DISABLED \<in> set table_types \<and> evaluator_of ELEMENT_DISABLED = None
    \<and> ATTRIBUTE_EXISTS \<in> set table_types \<and> evaluator_of ATTRIBUTE_EXISTS = None
    \<and> INPUT_VALUE_CONTAINS \<in> set table_types \<and> evaluator_of INPUT_VALUE_CONTAINS = None
    \<and> TEXT_CONTAINS \<in> set table_types \<and> evaluator_of TEXT_CONTAINS = None"
proof -
  from assms obtain p k where "(p, ai_type info, k) \<in> set PATTERNS" "k \<in> set handled_kinds"
    unfolding parse_def using parse_loop_Some by blast
  with table_handled_implemented have impl: "evaluator_of (ai_type info) \<noteq> None" by blast
  then obtain ev where ev: "evaluator_of (ai_type info) = Some ev" by blast
  then have "execute rt pg (make_assertion info) = ev rt pg (make_assertion info)"
    by (simp add: execute_def execute_assertion_inner_def make_assertion_def)
  with impl ev table_has_unimplemented show ?thesis by simp
qed

theorem parse_emits_implemented_witness:
  "parse plain_rt login_instruction =
     Inr (Some \<lparr>ai_type = TEXT_EXISTS, ai_selector = None, ai_expected = Some (PStr [12525, 12464, 12452, 12531])\<rparr>)
   \<and> evaluator_of TEXT_EXISTS = Some assert_text_exists"
proof -
  have h: "parse plain_rt login_instruction =
     Inr (Some \<lparr>ai_type = TEXT_EXISTS, ai_selector = None, ai_expected = Some (PStr [12525, 12464, 12452, 12531])\<rparr>)"
    by (rule login_parse)
  from parse_emits_implemented [OF h] show ?thesis using h by simp
qed

lemma url_L107: "re_search rx_L107 url_instruction = Inr None"
  by (simp add: rx_L107_def url_instruction_def)

lemma url_L109: "re_search rx_L109 url_instruction = Inr None"
  by (simp add: rx_L109_def url_instruction_def)

lemma url_L111: "re_search rx_L111 url_instruction = Inr None"
  by (simp add: rx_L111_def url_instruction_def)

lemma url_L115: "re_search rx_L115 url_instruction = Inr None"
  by (simp add: rx_L115_def url_instruction_def)

lemma url_L117: "re_search rx_L117 url_instruction = Inr None"
  by (simp add: rx_L117_def url_instruction_def)

lemma url_L119: "re_search rx_L119 url_instruction = Inr None"
  by (simp add: rx_L119_def url_instruction_def)

lemma url_L123: "re_search rx_L123 url_instruction = Inr None"
  by (simp add: rx_L123_def url_instruction_def)

lemma url_L125: "re_search rx_L125 url_instruction = Inr None"
  by (simp add: rx_L125_def url_instruction_def)

lemma url_L129: "re_search rx_L129 url_instruction = Inr None"
  by (simp add: rx_L129_def url_instruction_def)

lemma url_L131: "re_search rx_L131 url_instruction = Inr None"
  by (simp add: rx_L131_def url_instruction_def)

lemma url_L135: "re_search rx_L135 url_instruction = Inr (Some \<lparr>whole = [85, 82, 76, 12364, 34, 115, 117, 99, 99, 101, 115, 115, 34, 12391, 32066, 12431, 12427], groups = [Some [34, 115, 117, 99, 99, 101, 115, 115, 34]]\<rparr>)"
  by (simp add: rx_L135_def url_instruction_def)

lemmas url_all = url_L107 url_L109 url_L111 url_L115 url_L117 url_L119 url_L123 url_L125 url_L129 url_L131 url_L135

text \<open>
  C2.  \<open>parse\<close> on the instruction \<open>URL...\<close> "success" \<open>... confirm that it ends\<close>: no pattern
  before line 135 matches, the pattern of line 135 does, and it is tagged URL_CONTAINS,
  so that is the type returned, with \<open>expected\<close> \<open>success\<close>.  The pattern of line 143, the
  one tagged URL_ENDS_WITH, matches the instruction too, but the loop never gets to it.
\<close>

theorem url_instruction_parses_to_contains:
  "parse rt url_instruction =
     Inr (Some \<lparr>ai_type = URL_CONTAINS, ai_selector = None, ai_expected = Some (PStr [115, 117, 99, 99, 101, 115, 115])\<rparr>)
   \<and> re_search rx_L143 url_instruction =
       Inr (Some \<lparr>whole = [85, 82, 76, 12364, 34, 115, 117, 99, 99, 101, 115, 115, 34, 12391, 32066, 12431, 12427, 12371, 12392, 12434, 30906, 35469, 12377, 12427], groups = [Some [34, 115, 117, 99, 99, 101, 115, 115, 34]]\<rparr>)
   \<and> (rx_L135, URL_CONTAINS, ''url'') \<in> set PATTERNS
   \<and> (rx_L143, URL_ENDS_WITH, ''url'') \<in> set PATTERNS"
proof -
  have "parse rt url_instruction =
     Inr (Some \<lparr>ai_type = URL_CONTAINS, ai_selector = None, ai_expected = Some (PStr [115, 117, 99, 99, 101, 115, 115])\<rparr>)"
    by (simp add: parse_def PATTERNS_def url_all extract_info_def string_simps)
  moreover have "re_search rx_L143 url_instruction =
       Inr (Some \<lparr>whole = [85, 82, 76, 12364, 34, 115, 117, 99, 99, 101, 115, 115, 34, 12391, 32066, 12431, 12427, 12371, 12392, 12434, 30906, 35469, 12377, 12427], groups = [Some [34, 115, 117, 99, 99, 101, 115, 115, 34]]\<rparr>)"
    by (simp add: rx_L143_def url_instruction_def)
  moreover have "(rx_L135, URL_CONTAINS, ''url'') \<in> set PATTERNS"
    by (simp add: PATTERNS_def)
  moreover have "(rx_L143, URL_ENDS_WITH, ''url'') \<in> set PATTERNS"
    by (simp add: PATTERNS_def)
  ultimately show ?thesis by simp
qed


subsection \<open>The \<open>ignore_case\<close> field\<close>

lemmas evaluator_defs = assert_text_exists_def assert_text_not_exists_def
  assert_element_exists_def assert_element_not_exists_def assert_element_visible_def
  assert_element_hidden_def assert_url_contains_def assert_url_equals_def
  assert_url_starts_with_def assert_url_ends_with_def assert_title_contains_def
  assert_title_equals_def assert_element_count_def assert_input_value_equals_def
  assert_checkbox_checked_def assert_checkbox_unchecked_def

lemma evaluator_ignores_ignore_case:
  assumes "evaluator_of t = Some ev"
  shows "passed (ev rt pg (a\<lparr>a_ignore_case := b\<rparr>)) = passed (ev rt pg a)
       \<and> error_message (ev rt pg (a\<lparr>a_ignore_case := b\<rparr>)) = error_message (ev rt pg a)
       \<and> actual_value (ev rt pg (a\<lparr>a_ignore_case := b\<rparr>)) = actual_value (ev rt pg a)
       \<and> expected_value (ev rt pg (a\<lparr>a_ignore_case := b\<rparr>)) = expected_value (ev rt pg a)"
  using assms
  by (cases t) (auto simp: evaluator_defs failed_with_def Let_def split: sum.splits)

lemma execute_ignores_ignore_case:
  "passed (execute rt pg (a\<lparr>a_ignore_case := b\<rparr>)) = passed (execute rt pg a)
   \<and> error_message (execute rt pg (a\<lparr>a_ignore_case := b\<rparr>)) = error_message (execute rt pg a)
   \<and> actual_value (execute rt pg (a\<lparr>a_ignore_case := b\<rparr>)) = actual_value (execute rt pg a)
   \<and> expected_value (execute rt pg (a\<lparr>a_ignore_case := b\<rparr>)) = expected_value (execute rt pg a)"
proof (cases "evaluator_of (a_type a)")
  case None
  then show ?thesis
    by (simp add: execute_def execute_assertion_inner_def unimplemented_result_def)
next
  case (Some ev)
  from evaluator_ignores_ignore_case[OF Some, where rt=rt and pg=pg and a=a and b=b] Some
  show ?thesis
    by (simp add: execute_def execute_assertion_inner_def)
qed

lemma text_exists_fallback:
  assumes "a_type a = TEXT_EXISTS" "a_expected a = Some (PStr s)" "pg_content pg = Inr content"
    "text_exists_loop pg (a_wait_for a) (text_exists_selectors s) = None"
  shows "passed (execute rt pg a) = contains (lower rt content) (lower rt s)"
  using assms
  by (simp add: execute_def execute_assertion_inner_def assert_text_exists_def content_has_def Let_def)

lemma text_not_exists_fallback:
  assumes "a_type a = TEXT_NOT_EXISTS" "a_expected a = Some (PStr s)" "pg_content pg = Inr content"
    "\<not> text_not_exists_loop pg (text_not_exists_selectors s)"
  shows "passed (execute rt pg a) = (\<not> contains (lower rt content) (lower rt s))"
  using assms
  by (simp add: execute_def execute_assertion_inner_def assert_text_not_exists_def content_has_def Let_def)

lemma case_sensitive_comparisons:
  "(a_type a = URL_CONTAINS \<longrightarrow> passed (execute rt pg a) = contains (pg_url pg) (str_pyval rt (a_expected a)))
   \<and> (a_type a = URL_EQUALS \<longrightarrow> passed (execute rt pg a) = (pg_url pg = str_pyval rt (a_expected a)))
   \<and> (a_type a = URL_STARTS_WITH \<longrightarrow> passed (execute rt pg a) = startswith (pg_url pg) (str_pyval rt (a_expected a)))
   \<and> (a_type a = URL_ENDS_WITH \<longrightarrow> passed (execute rt pg a) = endswith (pg_url pg) (str_pyval rt (a_expected a)))
   \<and> (a_type a = TITLE_CONTAINS \<and> pg_title pg = Inr title \<longrightarrow>
         passed (execute rt pg a) = contains title (str_pyval rt (a_expected a)))
   \<and> (a_type a = TITLE_EQUALS \<and> pg_title pg = Inr title \<longrightarrow>
         passed (execute rt pg a) = (title = str_pyval rt (a_expected a)))
   \<and> (a_type a = INPUT_VALUE_EQUALS \<and> pg_input_value pg (a_selector a) = Inr v \<longrightarrow>
         passed (execute rt pg a) = (v = str_pyval rt (a_expected a)))"
  by (simp add: execute_def execute_assertion_inner_def evaluator_defs Let_def)

text \<open>
  C9.  For every assertion and every page in a fixed state, \<open>execute\<close> gives the same
  \<open>passed\<close> flag and the same error message whether \<open>ignore_case\<close> is true or false:
  no evaluator reads the field.  The two fallbacks that search the whole page content
  (text exists, text not exists) compare the lower-cased texts whatever the field says;
  the URL, title and input-value evaluators compare the strings as they are.
\<close>

theorem ignore_case_is_not_consulted:
  "passed (execute rt pg (a\<lparr>a_ignore_case := True\<rparr>)) = passed (execute rt pg (a\<lparr>a_ignore_case := False\<rparr>))
   \<and> error_message (execute rt pg (a\<lparr>a_ignore_case := True\<rparr>))
       = error_message (execute rt pg (a\<lparr>a_ignore_case := False\<rparr>))
   \<and> (a_type a = TEXT_EXISTS \<and> a_expected a = Some (PStr s) \<and> pg_content pg = Inr content
        \<and> text_exists_loop pg (a_wait_for a) (text_exists_selectors s) = None
       \<longrightarrow> passed (execute rt pg (a\<lparr>a_ignore_case := b\<rparr>)) = contains (lower rt content) (lower rt s))
   \<and> (a_type a = TEXT_NOT_EXISTS \<and> a_expected a = Some (PStr s) \<and> pg_content pg = Inr content
        \<and> \<not> text_not_exists_loop pg (text_not_exists_selectors s)
       \<longrightarrow> passed (execute rt pg (a\<lparr>a_ignore_case := b\<rparr>)) = (\<not> contains (lower rt content) (lower rt s)))
   \<and> (a_type a = URL_CONTAINS \<longrightarrow> passed (execute rt pg a) = contains (pg_url pg) (str_pyval rt (a_expected a)))
   \<and> (a_type a = URL_EQUALS \<longrightarrow> passed (execute rt pg a) = (pg_url pg = str_pyval rt (a_expected a)))
   \<and> (a_type a = URL_STARTS_WITH \<longrightarrow> passed (execute rt pg a) = startswith (pg_url pg) (str_pyval rt (a_expected a)))
   \<and> (a_type a = URL_ENDS_WITH \<longrightarrow> passed (execute rt pg a) = endswith (pg_url pg) (str_pyval rt (a_expected a)))
   \<and> (a_type a = TITLE_CONTAINS \<and> pg_title pg = Inr title \<longrightarrow>
         passed (execute rt pg a) = contains title (str_pyval rt (a_expected a)))
   \<and> (a_type a = TITLE_EQUALS \<and> pg_title pg = Inr title \<longrightarrow>
         passed (execute rt pg a) = (title = str_pyval rt (a_expected a)))
   \<and> (a_type a = INPUT_VALUE_EQUALS \<and> pg_input_value pg (a_selector a) = Inr v \<longrightarrow>
         passed (execute rt pg a) = (v = str_pyval rt (a_expected a)))"
proof -
  have 1: "passed (execute rt pg (a\<lparr>a_ignore_case := True\<rparr>)) = passed (execute rt pg (a\<lparr>a_ignore_case := False\<rparr>))
   \<and> error_message (execute rt pg (a\<lparr>a_ignore_case := True\<rparr>))
       = error_message (execute rt pg (a\<lparr>a_ignore_case := False\<rparr>))"
    using execute_ignores_ignore_case[where rt=rt and pg=pg and a=a and b=True]
          execute_ignores_ignore_case[where rt=rt and pg=pg and a=a and b=False] by simp
  have 2: "a_type a = TEXT_EXISTS \<and> a_expected a = Some (PStr s) \<and> pg_content pg = Inr content
        \<and> text_exists_loop pg (a_wait_for a) (text_exists_selectors s) = None
       \<longrightarrow> passed (execute rt pg (a\<lparr>a_ignore_case := b\<rparr>)) = contains (lower rt content) (lower rt s)"
    using text_exists_fallback[where a=a and s=s and pg=pg and content=content and rt=rt]
          execute_ignores_ignore_case[where rt=rt and pg=pg and a=a and b=b] by simp
  have 3: "a_type a = TEXT_NOT_EXISTS \<and> a_expected a = Some (PStr s) \<and> pg_content pg = Inr content
        \<and> \<not> text_not_exists_loop pg (text_not_exists_selectors s)
       \<longrightarrow> passed (execute rt pg (a\<lparr>a_ignore_case := b\<rparr>)) = (\<not> contains (lower rt content) (lower rt s))"
    using text_not_exists_fallback[where a=a and s=s and pg=pg and content=content and rt=rt]
          execute_ignores_ignore_case[where rt=rt and pg=pg and a=a and b=b] by simp
  from 1 2 3 case_sensitive_comparisons[where a=a and rt=rt and pg=pg and title=title and v=v]
  show ?thesis by simp
qed

lemma quiet_loop: "text_exists_loop quiet_page w sels = None"
  by (induction sels) (auto simp: quiet_page_def)

theorem ignore_case_is_not_consulted_witness:
  "passed (execute plain_rt quiet_page (login_assertion\<lparr>a_ignore_case := True\<rparr>))
   \<and> passed (execute plain_rt quiet_page (login_assertion\<lparr>a_ignore_case := False\<rparr>))
   \<and> error_message (execute plain_rt quiet_page (login_assertion\<lparr>a_ignore_case := True\<rparr>)) = None
   \<and> a_type login_assertion = TEXT_EXISTS
   \<and> text_exists_loop quiet_page (a_wait_for login_assertion) (text_exists_selectors [108, 111, 103, 105, 110]) = None"
proof -
  have t: "a_type login_assertion = TEXT_EXISTS" by (simp add: login_assertion_def)
  have e: "a_expected login_assertion = Some (PStr [108, 111, 103, 105, 110])" by (simp add: login_assertion_def)
  have c: "pg_content quiet_page = Inr [60, 104, 116, 109, 108, 62, 60, 98, 111, 100, 121, 62, 76, 79, 71, 73, 78, 60, 47, 98, 111, 100, 121, 62, 60, 47, 104, 116, 109, 108, 62]"
    by (simp add: quiet_page_def)
  have l: "text_exists_loop quiet_page (a_wait_for login_assertion) (text_exists_selectors [108, 111, 103, 105, 110]) = None"
    by (rule quiet_loop)
  have lw: "contains (lower plain_rt [60, 104, 116, 109, 108, 62, 60, 98, 111, 100, 121, 62, 76, 79, 71, 73, 78, 60, 47, 98, 111, 100, 121, 62, 60, 47, 104, 116, 109, 108, 62]) (lower plain_rt [108, 111, 103, 105, 110])"
    by (simp add: plain_rt_def ascii_lower_def startswith_def)
  note main = ignore_case_is_not_consulted[where a=login_assertion and rt=plain_rt
      and pg=quiet_page and s="[108, 111, 103, 105, 110]" and content="[60, 104, 116, 109, 108, 62, 60, 98, 111, 100, 121, 62, 76, 79, 71, 73, 78, 60, 47, 98, 111, 100, 121, 62, 60, 47, 104, 116, 109, 108, 62]" and b=True]
  from main t e c l lw
  have p: "passed (execute plain_rt quiet_page (login_assertion\<lparr>a_ignore_case := True\<rparr>))"
    by blast
  from main
  have q: "passed (execute plain_rt quiet_page (login_assertion\<lparr>a_ignore_case := True\<rparr>))
            = passed (execute plain_rt quiet_page (login_assertion\<lparr>a_ignore_case := False\<rparr>))"
    by blast
  from p
  have "error_message (execute plain_rt quiet_page (login_assertion\<lparr>a_ignore_case := True\<rparr>)) = None"
    by (simp add: execute_def execute_assertion_inner_def login_assertion_def
        assert_text_exists_def Let_def)
  with p q t l show ?thesis by simp
qed


subsection \<open>The mock translator's selection branch\<close>

text \<open>
  C6.  For every instruction with a selection keyword and none of the keywords of the
  seven earlier branches, \<open>translate_to_actions\<close> of the mock translator returns no
  action: it raises UnboundLocalError, because the branch uses \<open>re\<close>, a local name no
  statement of that path has bound.  The claim describes \<open>select_branch_as_written\<close>,
  which the code never gets to compute.
\<close>

theorem select_branch_raises:
  assumes "selection_keyword rt natural_language" and "\<not> earlier_keyword rt natural_language"
  shows "translate_to_actions rt natural_language =
     Inl (Exn ''UnboundLocalError'' [99, 97, 110, 110, 111, 116, 32, 97, 99, 99, 101, 115, 115, 32, 108, 111, 99, 97, 108, 32, 118, 97, 114, 105, 97, 98, 108, 101, 32, 39, 114, 101, 39, 32, 119, 104, 101, 114, 101, 32, 105, 116, 32, 105, 115, 32, 110, 111, 116, 32, 97, 115, 115, 111, 99, 105, 97, 116, 101, 100, 32, 119, 105, 116, 104, 32, 97, 32, 118, 97, 108, 117, 101])"
  using assms
  by (simp add: translate_to_actions_def selection_keyword_def earlier_keyword_def Let_def)

lemma select_instruction_keywords:
  "selection_keyword plain_rt select_instruction \<and> \<not> earlier_keyword plain_rt select_instruction"
  by (simp add: selection_keyword_def earlier_keyword_def select_instruction_def plain_rt_def
      ascii_lower_def startswith_def Let_def)

lemma select_as_written:
  "select_branch_as_written select_instruction =
     [(''action_type'', PStr [115, 101, 108, 101, 99, 116]), (''selector'', PStr [115, 101, 108, 101, 99, 116]), (''value'', PStr [12426, 12435, 12372])]"
  by (simp add: select_branch_as_written_def mock_search_def mock_rx_L111_def select_instruction_def)

theorem select_branch_raises_witness:
  "selection_keyword plain_rt select_instruction \<and> \<not> earlier_keyword plain_rt select_instruction
   \<and> translate_to_actions plain_rt select_instruction =
       Inl (Exn ''UnboundLocalError'' [99, 97, 110, 110, 111, 116, 32, 97, 99, 99, 101, 115, 115, 32, 108, 111, 99, 97, 108, 32, 118, 97, 114, 105, 97, 98, 108, 101, 32, 39, 114, 101, 39, 32, 119, 104, 101, 114, 101, 32, 105, 116, 32, 105, 115, 32, 110, 111, 116, 32, 97, 115, 115, 111, 99, 105, 97, 116, 101, 100, 32, 119, 105, 116, 104, 32, 97, 32, 118, 97, 108, 117, 101])
   \<and> select_branch_as_written select_instruction =
       [(''action_type'', PStr [115, 101, 108, 101, 99, 116]), (''selector'', PStr [115, 101, 108, 101, 99, 116]), (''value'', PStr [12426, 12435, 12372])]"
proof -
  have k: "selection_keyword plain_rt select_instruction"
    and e: "\<not> earlier_keyword plain_rt select_instruction"
    using select_instruction_keywords by simp_all
  from select_branch_raises [OF k e] k e select_as_written show ?thesis by simp
qed

subsection \<open>Saving and loading the configuration\<close>

lemma load_viewport:
  "load_items (map (\<lambda>(k, v). (k, yaml_dump v)) (map (\<lambda>(k, v). (k, OInt v)) vp))
     = Inr (map (\<lambda>(k, v). (k, OInt v)) vp)"
  by (induction vp) auto

text \<open>
  C5.  Whatever the configuration, the path and the files, \<open>load_config\<close> on the file
  \<open>save_config\<close> has just written does not give the configuration back: it raises
  ConstructorError.  \<open>save_config\<close> dumps \<open>model_dump()\<close>, in which \<open>test.output_dir\<close> is a
  \<open>Path\<close> object, so the document carries a \<open>python/object/apply\<close> tag, which
  \<open>yaml.safe_load\<close> refuses.
\<close>

theorem saved_config_does_not_load:
  "load_config validate defaults config_path (save_config config config_path fs)
     = Inl (constructor_error [112, 97, 116, 104, 108, 105, 98, 46, 80, 111, 115, 105, 120, 80, 97, 116, 104])"
  by (simp add: load_config_def save_config_def model_dump_def load_viewport del: map_map)


subsection \<open>\<open>parse\<close> never returns \<open>None\<close>\<close>

text \<open>The loop of \<open>parse\<close> cannot get past an entry whose pattern does not compile: it
  returns before that entry or raises at it.\<close>

lemma parse_loop_reaches_bad_pattern:
  "(NothingToRepeat n, t, k) \<in> set tbl \<Longrightarrow> parse_loop rt tbl s \<noteq> Inr None"
proof (induction tbl)
  case Nil
  then show ?case by simp
next
  case (Cons entry tbl)
  obtain p t' k' where entry: "entry = (p, t', k')" by (cases entry) auto
  show ?case
  proof (cases "entry = (NothingToRepeat n, t, k)")
    case True
    then show ?thesis by simp
  next
    case False
    with Cons have ih: "parse_loop rt tbl s \<noteq> Inr None" by simp
    show ?thesis
    proof (cases "re_search p s")
      case (Inl e)
      with entry show ?thesis by simp
    next
      case (Inr mo)
      show ?thesis
      proof (cases mo)
        case None
        with Inr entry ih show ?thesis by simp
      next
        case (Some m)
        with Inr entry ih show ?thesis
          by (cases "extract_info rt t' k' (groups m)") (auto split: option.splits)
      qed
    qed
  qed
qed

lemma parse_never_None: "parse rt s \<noteq> Inr None"
proof -
  have "(NothingToRepeat 83, TEXT_EXISTS, ''text'') \<in> set PATTERNS"
    by (simp add: PATTERNS_def rx_L433_def)
  then show ?thesis
    unfolding parse_def by (rule parse_loop_reaches_bad_pattern)
qed

text \<open>The two click instructions match none of the 112 patterns in front of line 433, so
  \<open>parse\<close> raises on them.\<close>

lemma click_L107: "re_search rx_L107 click_instruction = Inr None"
  by (simp add: rx_L107_def click_instruction_def)

lemma click_L109: "re_search rx_L109 click_instruction = Inr None"
  by (simp add: rx_L109_def click_instruction_def)

lemma click_L111: "re_search rx_L111 click_instruction = Inr None"
  by (simp add: rx_L111_def click_instruction_def)

lemma click_L115: "re_search rx_L115 click_instruction = Inr None"
  by (simp add: rx_L115_def click_instruction_def)

lemma click_L117: "re_search rx_L117 click_instruction = Inr None"
  by (simp add: rx_L117_def click_instruction_def)

lemma click_L119: "re_search rx_L119 click_instruction = Inr None"
  by (simp add: rx_L119_def click_instruction_def)

lemma click_L123: "re_search rx_L123 click_instruction = Inr None"
  by (simp add: rx_L123_def click_instruction_def)

lemma click_L125: "re_search rx_L125 click_instruction = Inr None"
  by (simp add: rx_L125_def click_instruction_def)

lemma click_L129: "re_search rx_L129 click_instruction = Inr None"
  by (simp add: rx_L129_def click_instruction_def)

lemma click_L131: "re_search rx_L131 click_instruction = Inr None"
  by (simp add: rx_L131_def click_instruction_def)

lemma click_L135: "re_search rx_L135 click_instruction = Inr None"
  by (simp add: rx_L135_def click_instruction_def)

lemma click_L137: "re_search rx_L137 click_instruction = Inr None"
  by (simp add: rx_L137_def click_instruction_def)

lemma click_L139: "re_search rx_L139 click_instruction = Inr None"
  by (simp add: rx_L139_def click_instruction_def)

lemma click_L141: "re_search rx_L141 click_instruction = Inr None"
  by (simp add: rx_L141_def click_instruction_def)

lemma click_L143: "re_search rx_L143 click_instruction = Inr None"
  by (simp add: rx_L143_def click_instruction_def)

lemma click_L147: "re_search rx_L147 click_instruction = Inr None"
  by (simp add: rx_L147_def click_instruction_def)

lemma click_L149: "re_search rx_L149 click_instruction = Inr None"
  by (simp add: rx_L149_def click_instruction_def)

lemma click_L153: "re_search rx_L153 click_instruction = Inr None"
  by (simp add: rx_L153_def click_instruction_def)

lemma click_L155: "re_search rx_L155 click_instruction = Inr None"
  by (simp add: rx_L155_def click_instruction_def)

lemma click_L157: "re_search rx_L157 click_instruction = Inr None"
  by (simp add: rx_L157_def click_instruction_def)

lemma click_L161: "re_search rx_L161 click_instruction = Inr None"
  by (simp add: rx_L161_def click_instruction_def)

lemma click_L163: "re_search rx_L163 click_instruction = Inr None"
  by (simp add: rx_L163_def click_instruction_def)

lemma click_L167: "re_search rx_L167 click_instruction = Inr None"
  by (simp add: rx_L167_def click_instruction_def)

lemma click_L169: "re_search rx_L169 click_instruction = Inr None"
  by (simp add: rx_L169_def click_instruction_def)

lemma click_L173: "re_search rx_L173 click_instruction = Inr None"
  by (simp add: rx_L173_def click_instruction_def)

lemma click_L175: "re_search rx_L175 click_instruction = Inr None"
  by (simp add: rx_L175_def click_instruction_def)

lemma click_L177: "re_search rx_L177 click_instruction = Inr None"
  by (simp add: rx_L177_def click_instruction_def)

lemma click_L179: "re_search rx_L179 click_instruction = Inr None"
  by (simp add: rx_L179_def click_instruction_def)

lemma click_L181: "re_search rx_L181 click_instruction = Inr None"
  by (simp add: rx_L181_def click_instruction_def)

lemma click_L183: "re_search rx_L183 click_instruction = Inr None"
  by (simp add: rx_L183_def click_instruction_def)

lemma click_L185: "re_search rx_L185 click_instruction = Inr None"
  by (simp add: rx_L185_def click_instruction_def)

lemma click_L189: "re_search rx_L189 click_instruction = Inr None"
  by (simp add: rx_L189_def click_instruction_def)

lemma click_L191: "re_search rx_L191 click_instruction = Inr None"
  by (simp add: rx_L191_def click_instruction_def)

lemma click_L193: "re_search rx_L193 click_instruction = Inr None"
  by (simp add: rx_L193_def click_instruction_def)

lemma click_L195: "re_search rx_L195 click_instruction = Inr None"
  by (simp add: rx_L195_def click_instruction_def)

lemma click_L197: "re_search rx_L197 click_instruction = Inr None"
  by (simp add: rx_L197_def click_instruction_def)

lemma click_L199: "re_search rx_L199 click_instruction = Inr None"
  by (simp add: rx_L199_def click_instruction_def)

lemma click_L201: "re_search rx_L201 click_instruction = Inr None"
  by (simp add: rx_L201_def click_instruction_def)

lemma click_L207: "re_search rx_L207 click_instruction = Inr None"
  by (simp add: rx_L207_def click_instruction_def)

lemma click_L209: "re_search rx_L209 click_instruction = Inr None"
  by (simp add: rx_L209_def click_instruction_def)

lemma click_L211: "re_search rx_L211 click_instruction = Inr None"
  by (simp add: rx_L211_def click_instruction_def)

lemma click_L213: "re_search rx_L213 click_instruction = Inr None"
  by (simp add: rx_L213_def click_instruction_def)

lemma click_L217: "re_search rx_L217 click_instruction = Inr None"
  by (simp add: rx_L217_def click_instruction_def)

lemma click_L219: "re_search rx_L219 click_instruction = Inr None"
  by (simp add: rx_L219_def click_instruction_def)

lemma click_L221: "re_search rx_L221 click_instruction = Inr None"
  by (simp add: rx_L221_def click_instruction_def)

lemma click_L225: "re_search rx_L225 click_instruction = Inr None"
  by (simp add: rx_L225_def click_instruction_def)

lemma click_L227: "re_search rx_L227 click_instruction = Inr None"
  by (simp add: rx_L227_def click_instruction_def)

lemma click_L231: "re_search rx_L231 click_instruction = Inr None"
  by (simp add: rx_L231_def click_instruction_def)

lemma click_L233: "re_search rx_L233 click_instruction = Inr None"
  by (simp add: rx_L233_def click_instruction_def)

lemma click_L237: "re_search rx_L237 click_instruction = Inr None"
  by (simp add: rx_L237_def click_instruction_def)

lemma click_L239: "re_search rx_L239 click_instruction = Inr None"
  by (simp add: rx_L239_def click_instruction_def)

lemma click_L241: "re_search rx_L241 click_instruction = Inr None"
  by (simp add: rx_L241_def click_instruction_def)

lemma click_L245: "re_search rx_L245 click_instruction = Inr None"
  by (simp add: rx_L245_def click_instruction_def)

lemma click_L247: "re_search rx_L247 click_instruction = Inr None"
  by (simp add: rx_L247_def click_instruction_def)

lemma click_L251: "re_search rx_L251 click_instruction = Inr None"
  by (simp add: rx_L251_def click_instruction_def)

lemma click_L253: "re_search rx_L253 click_instruction = Inr None"
  by (simp add: rx_L253_def click_instruction_def)

lemma click_L255: "re_search rx_L255 click_instruction = Inr None"
  by (simp add: rx_L255_def click_instruction_def)

lemma click_L259: "re_search rx_L259 click_instruction = Inr None"
  by (simp add: rx_L259_def click_instruction_def)

lemma click_L261: "re_search rx_L261 click_instruction = Inr None"
  by (simp add: rx_L261_def click_instruction_def)

lemma click_L263: "re_search rx_L263 click_instruction = Inr None"
  by (simp add: rx_L263_def click_instruction_def)

lemma click_L265: "re_search rx_L265 click_instruction = Inr None"
  by (simp add: rx_L265_def click_instruction_def)

lemma click_L269: "re_search rx_L269 click_instruction = Inr None"
  by (simp add: rx_L269_def click_instruction_def)

lemma click_L271: "re_search rx_L271 click_instruction = Inr None"
  by (simp add: rx_L271_def click_instruction_def)

lemma click_L273: "re_search rx_L273 click_instruction = Inr None"
  by (simp add: rx_L273_def click_instruction_def)

lemma click_L279: "re_search rx_L279 click_instruction = Inr None"
  by (simp add: rx_L279_def click_instruction_def)

lemma click_L281: "re_search rx_L281 click_instruction = Inr None"
  by (simp add: rx_L281_def click_instruction_def)

lemma click_L283: "re_search rx_L283 click_instruction = Inr None"
  by (simp add: rx_L283_def click_instruction_def)

lemma click_L287: "re_search rx_L287 click_instruction = Inr None"
  by (simp add: rx_L287_def click_instruction_def)

lemma click_L289: "re_search rx_L289 click_instruction = Inr None"
  by (simp add: rx_L289_def click_instruction_def)

lemma click_L293: "re_search rx_L293 click_instruction = Inr None"
  by (simp add: rx_L293_def click_instruction_def)

lemma click_L295: "re_search rx_L295 click_instruction = Inr None"
  by (simp add: rx_L295_def click_instruction_def)

lemma click_L301: "re_search rx_L301 click_instruction = Inr None"
  by (simp add: rx_L301_def click_instruction_def)

lemma click_L303: "re_search rx_L303 click_instruction = Inr None"
  by (simp add: rx_L303_def click_instruction_def)

lemma click_L307: "re_search rx_L307 click_instruction = Inr None"
  by (simp add: rx_L307_def click_instruction_def)

lemma click_L309: "re_search rx_L309 click_instruction = Inr None"
  by (simp add: rx_L309_def click_instruction_def)

lemma click_L313: "re_search rx_L313 click_instruction = Inr None"
  by (simp add: rx_L313_def click_instruction_def)

lemma click_L315: "re_search rx_L315 click_instruction = Inr None"
  by (simp add: rx_L315_def click_instruction_def)

lemma click_L321: "re_search rx_L321 click_instruction = Inr None"
  by (simp add: rx_L321_def click_instruction_def)

lemma click_L323: "re_search rx_L323 click_instruction = Inr None"
  by (simp add: rx_L323_def click_instruction_def)

lemma click_L325: "re_search rx_L325 click_instruction = Inr None"
  by (simp add: rx_L325_def click_instruction_def)

lemma click_L329: "re_search rx_L329 click_instruction = Inr None"
  by (simp add: rx_L329_def click_instruction_def)

lemma click_L331: "re_search rx_L331 click_instruction = Inr None"
  by (simp add: rx_L331_def click_instruction_def)

lemma click_L333: "re_search rx_L333 click_instruction = Inr None"
  by (simp add: rx_L333_def click_instruction_def)

lemma click_L339: "re_search rx_L339 click_instruction = Inr None"
  by (simp add: rx_L339_def click_instruction_def)

lemma click_L341: "re_search rx_L341 click_instruction = Inr None"
  by (simp add: rx_L341_def click_instruction_def)

lemma click_L345: "re_search rx_L345 click_instruction = Inr None"
  by (simp add: rx_L345_def click_instruction_def)

lemma click_L347: "re_search rx_L347 click_instruction = Inr None"
  by (simp add: rx_L347_def click_instruction_def)

lemma click_L353: "re_search rx_L353 click_instruction = Inr None"
  by (simp add: rx_L353_def click_instruction_def)

lemma click_L355: "re_search rx_L355 click_instruction = Inr None"
  by (simp add: rx_L355_def click_instruction_def)

lemma click_L359: "re_search rx_L359 click_instruction = Inr None"
  by (simp add: rx_L359_def click_instruction_def)

lemma click_L361: "re_search rx_L361 click_instruction = Inr None"
  by (simp add: rx_L361_def click_instruction_def)

lemma click_L367: "re_search rx_L367 click_instruction = Inr None"
  by (simp add: rx_L367_def click_instruction_def)

lemma click_L369: "re_search rx_L369 click_instruction = Inr None"
  by (simp add: rx_L369_def click_instruction_def)

lemma click_L373: "re_search rx_L373 click_instruction = Inr None"
  by (simp add: rx_L373_def click_instruction_def)

lemma click_L375: "re_search rx_L375 click_instruction = Inr None"
  by (simp add: rx_L375_def click_instruction_def)

lemma click_L381: "re_search rx_L381 click_instruction = Inr None"
  by (simp add: rx_L381_def click_instruction_def)

lemma click_L383: "re_search rx_L383 click_instruction = Inr None"
  by (simp add: rx_L383_def click_instruction_def)

lemma click_L385: "re_search rx_L385 click_instruction = Inr None"
  by (simp add: rx_L385_def click_instruction_def)

lemma click_L389: "re_search rx_L389 click_instruction = Inr None"
  by (simp add: rx_L389_def click_instruction_def)

lemma click_L391: "re_search rx_L391 click_instruction = Inr None"
  by (simp add: rx_L391_def click_instruction_def)

lemma click_L397: "re_search rx_L397 click_instruction = Inr None"
  by (simp add: rx_L397_def click_instruction_def)

lemma click_L399: "re_search rx_L399 click_instruction = Inr None"
  by (simp add: rx_L399_def click_instruction_def)

lemma click_L401: "re_search rx_L401 click_instruction = Inr None"
  by (simp add: rx_L401_def click_instruction_def)

lemma click_L405: "re_search rx_L405 click_instruction = Inr None"
  by (simp add: rx_L405_def click_instruction_def)

lemma click_L407: "re_search rx_L407 click_instruction = Inr None"
  by (simp add: rx_L407_def click_instruction_def)

lemma click_L409: "re_search rx_L409 click_instruction = Inr None"
  by (simp add: rx_L409_def click_instruction_def)

lemma click_L413: "re_search rx_L413 click_instruction = Inr None"
  by (simp add: rx_L413_def click_instruction_def)

lemma click_L415: "re_search rx_L415 click_instruction = Inr None"
  by (simp add: rx_L415_def click_instruction_def)

lemma click_L421: "re_search rx_L421 click_instruction = Inr None"
  by (simp add: rx_L421_def click_instruction_def)

lemma click_L423: "re_search rx_L423 click_instruction = Inr None"
  by (simp add: rx_L423_def click_instruction_def)

lemma click_L427: "re_search rx_L427 click_instruction = Inr None"
  by (simp add: rx_L427_def click_instruction_def)

lemma click_L429: "re_search rx_L429 click_instruction = Inr None"
  by (simp add: rx_L429_def click_instruction_def)

lemmas click_all = click_L107 click_L109 click_L111 click_L115 click_L117 click_L119 click_L123 click_L125 click_L129 click_L131 click_L135 click_L137 click_L139 click_L141 click_L143 click_L147 click_L149 click_L153 click_L155 click_L157 click_L161 click_L163 click_L167 click_L169 click_L173 click_L175 click_L177 click_L179 click_L181 click_L183 click_L185 click_L189 click_L191 click_L193 click_L195 click_L197 click_L199 click_L201 click_L207 click_L209 click_L211 click_L213 click_L217 click_L219 click_L221 click_L225 click_L227 click_L231 click_L233 click_L237 click_L239 click_L241 click_L245 click_L247 click_L251 click_L253 click_L255 click_L259 click_L261 click_L263 click_L265 click_L269 click_L271 click_L273 click_L279 click_L281 click_L283 click_L287 click_L289 click_L293 click_L295 click_L301 click_L303 click_L307 click_L309 click_L313 click_L315 click_L321 click_L323 click_L325 click_L329 click_L331 click_L333 click_L339 click_L341 click_L345 click_L347 click_L353 click_L355 click_L359 click_L361 click_L367 click_L369 click_L373 click_L375 click_L381 click_L383 click_L385 click_L389 click_L391 click_L397 click_L399 click_L401 click_L405 click_L407 click_L409 click_L413 click_L415 click_L421 click_L423 click_L427 click_L429

lemma missing_L107: "re_search rx_L107 missing_instruction = Inr None"
  by (simp add: rx_L107_def missing_instruction_def)

lemma missing_L109: "re_search rx_L109 missing_instruction = Inr None"
  by (simp add: rx_L109_def missing_instruction_def)

lemma missing_L111: "re_search rx_L111 missing_instruction = Inr None"
  by (simp add: rx_L111_def missing_instruction_def)

lemma missing_L115: "re_search rx_L115 missing_instruction = Inr None"
  by (simp add: rx_L115_def missing_instruction_def)

lemma missing_L117: "re_search rx_L117 missing_instruction = Inr None"
  by (simp add: rx_L117_def missing_instruction_def)

lemma missing_L119: "re_search rx_L119 missing_instruction = Inr None"
  by (simp add: rx_L119_def missing_instruction_def)

lemma missing_L123: "re_search rx_L123 missing_instruction = Inr None"
  by (simp add: rx_L123_def missing_instruction_def)

lemma missing_L125: "re_search rx_L125 missing_instruction = Inr None"
  by (simp add: rx_L125_def missing_instruction_def)

lemma missing_L129: "re_search rx_L129 missing_instruction = Inr None"
  by (simp add: rx_L129_def missing_instruction_def)

lemma missing_L131: "re_search rx_L131 missing_instruction = Inr None"
  by (simp add: rx_L131_def missing_instruction_def)

lemma missing_L135: "re_search rx_L135 missing_instruction = Inr None"
  by (simp add: rx_L135_def missing_instruction_def)

lemma missing_L137: "re_search rx_L137 missing_instruction = Inr None"
  by (simp add: rx_L137_def missing_instruction_def)

lemma missing_L139: "re_search rx_L139 missing_instruction = Inr None"
  by (simp add: rx_L139_def missing_instruction_def)

lemma missing_L141: "re_search rx_L141 missing_instruction = Inr None"
  by (simp add: rx_L141_def missing_instruction_def)

lemma missing_L143: "re_search rx_L143 missing_instruction = Inr None"
  by (simp add: rx_L143_def missing_instruction_def)

lemma missing_L147: "re_search rx_L147 missing_instruction = Inr None"
  by (simp add: rx_L147_def missing_instruction_def)

lemma missing_L149: "re_search rx_L149 missing_instruction = Inr None"
  by (simp add: rx_L149_def missing_instruction_def)

lemma missing_L153: "re_search rx_L153 missing_instruction = Inr None"
  by (simp add: rx_L153_def missing_instruction_def)

lemma missing_L155: "re_search rx_L155 missing_instruction = Inr None"
  by (simp add: rx_L155_def missing_instruction_def)

lemma missing_L157: "re_search rx_L157 missing_instruction = Inr None"
  by (simp add: rx_L157_def missing_instruction_def)

lemma missing_L161: "re_search rx_L161 missing_instruction = Inr None"
  by (simp add: rx_L161_def missing_instruction_def)

lemma missing_L163: "re_search rx_L163 missing_instruction = Inr None"
  by (simp add: rx_L163_def missing_instruction_def)

lemma missing_L167: "re_search rx_L167 missing_instruction = Inr None"
  by (simp add: rx_L167_def missing_instruction_def)

lemma missing_L169: "re_search rx_L169 missing_instruction = Inr None"
  by (simp add: rx_L169_def missing_instruction_def)

lemma missing_L173: "re_search rx_L173 missing_instruction = Inr None"
  by (simp add: rx_L173_def missing_instruction_def)

lemma missing_L175: "re_search rx_L175 missing_instruction = Inr None"
  by (simp add: rx_L175_def missing_instruction_def)

lemma missing_L177: "re_search rx_L177 missing_instruction = Inr None"
  by (simp add: rx_L177_def missing_instruction_def)

lemma missing_L179: "re_search rx_L179 missing_instruction = Inr None"
  by (simp add: rx_L179_def missing_instruction_def)

lemma missing_L181: "re_search rx_L181 missing_instruction = Inr None"
  by (simp add: rx_L181_def missing_instruction_def)

lemma missing_L183: "re_search rx_L183 missing_instruction = Inr None"
  by (simp add: rx_L183_def missing_instruction_def)

lemma missing_L185: "re_search rx_L185 missing_instruction = Inr None"
  by (simp add: rx_L185_def missing_instruction_def)

lemma missing_L189: "re_search rx_L189 missing_instruction = Inr None"
  by (simp add: rx_L189_def missing_instruction_def)

lemma missing_L191: "re_search rx_L191 missing_instruction = Inr None"
  by (simp add: rx_L191_def missing_instruction_def)

lemma missing_L193: "re_search rx_L193 missing_instruction = Inr None"
  by (simp add: rx_L193_def missing_instruction_def)

lemma missing_L195: "re_search rx_L195 missing_instruction = Inr None"
  by (simp add: rx_L195_def missing_instruction_def)

lemma missing_L197: "re_search rx_L197 missing_instruction = Inr None"
  by (simp add: rx_L197_def missing_instruction_def)

lemma missing_L199: "re_search rx_L199 missing_instruction = Inr None"
  by (simp add: rx_L199_def missing_instruction_def)

lemma missing_L201: "re_search rx_L201 missing_instruction = Inr None"
  by (simp add: rx_L201_def missing_instruction_def)

lemma missing_L207: "re_search rx_L207 missing_instruction = Inr None"
  by (simp add: rx_L207_def missing_instruction_def)

lemma missing_L209: "re_search rx_L209 missing_instruction = Inr None"
  by (simp add: rx_L209_def missing_instruction_def)

lemma missing_L211: "re_search rx_L211 missing_instruction = Inr None"
  by (simp add: rx_L211_def missing_instruction_def)

lemma missing_L213: "re_search rx_L213 missing_instruction = Inr None"
  by (simp add: rx_L213_def missing_instruction_def)

lemma missing_L217: "re_search rx_L217 missing_instruction = Inr None"
  by (simp add: rx_L217_def missing_instruction_def)

lemma missing_L219: "re_search rx_L219 missing_instruction = Inr None"
  by (simp add: rx_L219_def missing_instruction_def)

lemma missing_L221: "re_search rx_L221 missing_instruction = Inr None"
  by (simp add: rx_L221_def missing_instruction_def)

lemma missing_L225: "re_search rx_L225 missing_instruction = Inr None"
  by (simp add: rx_L225_def missing_instruction_def)

lemma missing_L227: "re_search rx_L227 missing_instruction = Inr None"
  by (simp add: rx_L227_def missing_instruction_def)

lemma missing_L231: "re_search rx_L231 missing_instruction = Inr None"
  by (simp add: rx_L231_def missing_instruction_def)

lemma missing_L233: "re_search rx_L233 missing_instruction = Inr None"
  by (simp add: rx_L233_def missing_instruction_def)

lemma missing_L237: "re_search rx_L237 missing_instruction = Inr None"
  by (simp add: rx_L237_def missing_instruction_def)

lemma missing_L239: "re_search rx_L239 missing_instruction = Inr None"
  by (simp add: rx_L239_def missing_instruction_def)

lemma missing_L241: "re_search rx_L241 missing_instruction = Inr None"
  by (simp add: rx_L241_def missing_instruction_def)

lemma missing_L245: "re_search rx_L245 missing_instruction = Inr None"
  by (simp add: rx_L245_def missing_instruction_def)

lemma missing_L247: "re_search rx_L247 missing_instruction = Inr None"
  by (simp add: rx_L247_def missing_instruction_def)

lemma missing_L251: "re_search rx_L251 missing_instruction = Inr None"
  by (simp add: rx_L251_def missing_instruction_def)

lemma missing_L253: "re_search rx_L253 missing_instruction = Inr None"
  by (simp add: rx_L253_def missing_instruction_def)

lemma missing_L255: "re_search rx_L255 missing_instruction = Inr None"
  by (simp add: rx_L255_def missing_instruction_def)

lemma missing_L259: "re_search rx_L259 missing_instruction = Inr None"
  by (simp add: rx_L259_def missing_instruction_def)

lemma missing_L261: "re_search rx_L261 missing_instruction = Inr None"
  by (simp add: rx_L261_def missing_instruction_def)

lemma missing_L263: "re_search rx_L263 missing_instruction = Inr None"
  by (simp add: rx_L263_def missing_instruction_def)

lemma missing_L265: "re_search rx_L265 missing_instruction = Inr None"
  by (simp add: rx_L265_def missing_instruction_def)

lemma missing_L269: "re_search rx_L269 missing_instruction = Inr None"
  by (simp add: rx_L269_def missing_instruction_def)

lemma missing_L271: "re_search rx_L271 missing_instruction = Inr None"
  by (simp add: rx_L271_def missing_instruction_def)

lemma missing_L273: "re_search rx_L273 missing_instruction = Inr None"
  by (simp add: rx_L273_def missing_instruction_def)

lemma missing_L279: "re_search rx_L279 missing_instruction = Inr None"
  by (simp add: rx_L279_def missing_instruction_def)

lemma missing_L281: "re_search rx_L281 missing_instruction = Inr None"
  by (simp add: rx_L281_def missing_instruction_def)

lemma missing_L283: "re_search rx_L283 missing_instruction = Inr None"
  by (simp add: rx_L283_def missing_instruction_def)

lemma missing_L287: "re_search rx_L287 missing_instruction = Inr None"
  by (simp add: rx_L287_def missing_instruction_def)

lemma missing_L289: "re_search rx_L289 missing_instruction = Inr None"
  by (simp add: rx_L289_def missing_instruction_def)

lemma missing_L293: "re_search rx_L293 missing_instruction = Inr None"
  by (simp add: rx_L293_def missing_instruction_def)

lemma missing_L295: "re_search rx_L295 missing_instruction = Inr None"
  by (simp add: rx_L295_def missing_instruction_def)

lemma missing_L301: "re_search rx_L301 missing_instruction = Inr None"
  by (simp add: rx_L301_def missing_instruction_def)

lemma missing_L303: "re_search rx_L303 missing_instruction = Inr None"
  by (simp add: rx_L303_def missing_instruction_def)

lemma missing_L307: "re_search rx_L307 missing_instruction = Inr None"
  by (simp add: rx_L307_def missing_instruction_def)

lemma missing_L309: "re_search rx_L309 missing_instruction = Inr None"
  by (simp add: rx_L309_def missing_instruction_def)

lemma missing_L313: "re_search rx_L313 missing_instruction = Inr None"
  by (simp add: rx_L313_def missing_instruction_def)

lemma missing_L315: "re_search rx_L315 missing_instruction = Inr None"
  by (simp add: rx_L315_def missing_instruction_def)

lemma missing_L321: "re_search rx_L321 missing_instruction = Inr None"
  by (simp add: rx_L321_def missing_instruction_def)

lemma missing_L323: "re_search rx_L323 missing_instruction = Inr None"
  by (simp add: rx_L323_def missing_instruction_def)

lemma missing_L325: "re_search rx_L325 missing_instruction = Inr None"
  by (simp add: rx_L325_def missing_instruction_def)

lemma missing_L329: "re_search rx_L329 missing_instruction = Inr None"
  by (simp add: rx_L329_def missing_instruction_def)

lemma missing_L331: "re_search rx_L331 missing_instruction = Inr None"
  by (simp add: rx_L331_def missing_instruction_def)

lemma missing_L333: "re_search rx_L333 missing_instruction = Inr None"
  by (simp add: rx_L333_def missing_instruction_def)

lemma missing_L339: "re_search rx_L339 missing_instruction = Inr None"
  by (simp add: rx_L339_def missing_instruction_def)

lemma missing_L341: "re_search rx_L341 missing_instruction = Inr None"
  by (simp add: rx_L341_def missing_instruction_def)

lemma missing_L345: "re_search rx_L345 missing_instruction = Inr None"
  by (simp add: rx_L345_def missing_instruction_def)

lemma missing_L347: "re_search rx_L347 missing_instruction = Inr None"
  by (simp add: rx_L347_def missing_instruction_def)

lemma missing_L353: "re_search rx_L353 missing_instruction = Inr None"
  by (simp add: rx_L353_def missing_instruction_def)

lemma missing_L355: "re_search rx_L355 missing_instruction = Inr None"
  by (simp add: rx_L355_def missing_instruction_def)

lemma missing_L359: "re_search rx_L359 missing_instruction = Inr None"
  by (simp add: rx_L359_def missing_instruction_def)

lemma missing_L361: "re_search rx_L361 missing_instruction = Inr None"
  by (simp add: rx_L361_def missing_instruction_def)

lemma missing_L367: "re_search rx_L367 missing_instruction = Inr None"
  by (simp add: rx_L367_def missing_instruction_def)

lemma missing_L369: "re_search rx_L369 missing_instruction = Inr None"
  by (simp add: rx_L369_def missing_instruction_def)

lemma missing_L373: "re_search rx_L373 missing_instruction = Inr None"
  by (simp add: rx_L373_def missing_instruction_def)

lemma missing_L375: "re_search rx_L375 missing_instruction = Inr None"
  by (simp add: rx_L375_def missing_instruction_def)

lemma missing_L381: "re_search rx_L381 missing_instruction = Inr None"
  by (simp add: rx_L381_def missing_instruction_def)

lemma missing_L383: "re_search rx_L383 missing_instruction = Inr None"
  by (simp add: rx_L383_def missing_instruction_def)

lemma missing_L385: "re_search rx_L385 missing_instruction = Inr None"
  by (simp add: rx_L385_def missing_instruction_def)

lemma missing_L389: "re_search rx_L389 missing_instruction = Inr None"
  by (simp add: rx_L389_def missing_instruction_def)

lemma missing_L391: "re_search rx_L391 missing_instruction = Inr None"
  by (simp add: rx_L391_def missing_instruction_def)

lemma missing_L397: "re_search rx_L397 missing_instruction = Inr None"
  by (simp add: rx_L397_def missing_instruction_def)

lemma missing_L399: "re_search rx_L399 missing_instruction = Inr None"
  by (simp add: rx_L399_def missing_instruction_def)

lemma missing_L401: "re_search rx_L401 missing_instruction = Inr None"
  by (simp add: rx_L401_def missing_instruction_def)

lemma missing_L405: "re_search rx_L405 missing_instruction = Inr None"
  by (simp add: rx_L405_def missing_instruction_def)

lemma missing_L407: "re_search rx_L407 missing_instruction = Inr None"
  by (simp add: rx_L407_def missing_instruction_def)

lemma missing_L409: "re_search rx_L409 missing_instruction = Inr None"
  by (simp add: rx_L409_def missing_instruction_def)

lemma missing_L413: "re_search rx_L413 missing_instruction = Inr None"
  by (simp add: rx_L413_def missing_instruction_def)

lemma missing_L415: "re_search rx_L415 missing_instruction = Inr None"
  by (simp add: rx_L415_def missing_instruction_def)

lemma missing_L421: "re_search rx_L421 missing_instruction = Inr None"
  by (simp add: rx_L421_def missing_instruction_def)

lemma missing_L423: "re_search rx_L423 missing_instruction = Inr None"
  by (simp add: rx_L423_def missing_instruction_def)

lemma missing_L427: "re_search rx_L427 missing_instruction = Inr None"
  by (simp add: rx_L427_def missing_instruction_def)

lemma missing_L429: "re_search rx_L429 missing_instruction = Inr None"
  by (simp add: rx_L429_def missing_instruction_def)

lemmas missing_all = missing_L107 missing_L109 missing_L111 missing_L115 missing_L117 missing_L119 missing_L123 missing_L125 missing_L129 missing_L131 missing_L135 missing_L137 missing_L139 missing_L141 missing_L143 missing_L147 missing_L149 missing_L153 missing_L155 missing_L157 missing_L161 missing_L163 missing_L167 missing_L169 missing_L173 missing_L175 missing_L177 missing_L179 missing_L181 missing_L183 missing_L185 missing_L189 missing_L191 missing_L193 missing_L195 missing_L197 missing_L199 missing_L201 missing_L207 missing_L209 missing_L211 missing_L213 missing_L217 missing_L219 missing_L221 missing_L225 missing_L227 missing_L231 missing_L233 missing_L237 missing_L239 missing_L241 missing_L245 missing_L247 missing_L251 missing_L253 missing_L255 missing_L259 missing_L261 missing_L263 missing_L265 missing_L269 missing_L271 missing_L273 missing_L279 missing_L281 missing_L283 missing_L287 missing_L289 missing_L293 missing_L295 missing_L301 missing_L303 missing_L307 missing_L309 missing_L313 missing_L315 missing_L321 missing_L323 missing_L325 missing_L329 missing_L331 missing_L333 missing_L339 missing_L341 missing_L345 missing_L347 missing_L353 missing_L355 missing_L359 missing_L361 missing_L367 missing_L369 missing_L373 missing_L375 missing_L381 missing_L383 missing_L385 missing_L389 missing_L391 missing_L397 missing_L399 missing_L401 missing_L405 missing_L407 missing_L409 missing_L413 missing_L415 missing_L421 missing_L423 missing_L427 missing_L429

lemma nothing_to_repeat_83:
  "re_search rx_L433 s = Inl (Exn ''re.error'' [110, 111, 116, 104, 105, 110, 103, 32, 116, 111, 32, 114, 101, 112, 101, 97, 116, 32, 97, 116, 32, 112, 111, 115, 105, 116, 105, 111, 110, 32, 56, 51])"
  by (simp add: rx_L433_def re_error_def ascii_def)

lemma click_parse:
  "parse rt click_instruction = Inl (Exn ''re.error'' [110, 111, 116, 104, 105, 110, 103, 32, 116, 111, 32, 114, 101, 112, 101, 97, 116, 32, 97, 116, 32, 112, 111, 115, 105, 116, 105, 111, 110, 32, 56, 51])"
  by (simp add: parse_def PATTERNS_def click_all nothing_to_repeat_83)

lemma missing_parse:
  "parse rt missing_instruction = Inl (Exn ''re.error'' [110, 111, 116, 104, 105, 110, 103, 32, 116, 111, 32, 114, 101, 112, 101, 97, 116, 32, 97, 116, 32, 112, 111, 115, 105, 116, 105, 111, 110, 32, 56, 51])"
  by (simp add: parse_def PATTERNS_def missing_all nothing_to_repeat_83)

subsection \<open>The status of a step\<close>

text \<open>\<open>parse\<close> never returns \<open>None\<close>, so the branch of \<open>_execute_step\<close> that translates and
  acts is never taken in the standard and the optimized runner as the table stands: a
  step that is a dictionary ends \<open>passed\<close> or \<open>failed\<close> with no action.\<close>

lemma parse_value_never_None: "parse_value rt v \<noteq> Inr None"
  using parse_never_None[of rt] by (cases v) (simp_all add: parse_value_def)

lemma dispatch_status:
  "parsed \<noteq> Inr None \<Longrightarrow> sr_action sr = None \<Longrightarrow>
   step_dispatch rt en sr instruction parsed w = ((x, sr'), w') \<Longrightarrow>
   sr_action sr' = None \<and> (x = None \<longrightarrow> sr_status sr' \<in> {''passed'', ''failed''})"
  by (auto simp: step_dispatch_def split: sum.splits option.splits prod.splits if_splits)

lemma dict_step_result:
  "\<exists>sr w'. execute_step rt en (VDict items) i w = (Inr sr, w')
      \<and> sr_status sr \<in> {''passed'', ''failed''} \<and> sr_action sr = None"
proof -
  obtain x sr' w' where t: "step_try rt en items i w = ((x, sr'), w')"
    by (metis surj_pair)
  have "sr_action sr' = None \<and> (x = None \<longrightarrow> sr_status sr' \<in> {''passed'', ''failed''})"
  proof (cases "py_truthy rt (dict_get items [105, 110, 115, 116, 114, 117, 99, 116, 105, 111, 110] (VStr []))")
    case False
    with t show ?thesis by (auto simp: step_try_def Let_def new_step_result_def)
  next
    case True
    with t have "step_dispatch rt en (new_step_result items i) (dict_get items [105, 110, 115, 116, 114, 117, 99, 116, 105, 111, 110] (VStr []))
        (parse_value rt (dict_get items [105, 110, 115, 116, 114, 117, 99, 116, 105, 111, 110] (VStr []))) w = ((x, sr'), w')"
      by (simp add: step_try_def Let_def)
    then show ?thesis
      by (rule dispatch_status[OF parse_value_never_None, rotated]) (simp add: new_step_result_def)
  qed
  with t show ?thesis
    by (cases x) (auto simp: execute_step_def step_failed_def)
qed






lemma robust_dict_step_result:
  "\<exists>sr s'. execute_step_robust rt rb (VDict items) i s = (Inr sr, s')
      \<and> sr_status sr \<in> {''passed'', ''failed''} \<and> sr_assertion_result sr = None
      \<and> active_page s' = active_page s"
  by (auto simp: execute_step_robust_def robust_step_try_def new_step_result_def step_failed_def
      Let_def split: option.splits sum.splits prod.splits if_splits)










lemma login_translates_to_wait:
  "translate_to_actions plain_rt login_instruction = Inr wait_action"
  by (simp add: translate_to_actions_def login_instruction_def plain_rt_def ascii_lower_def
      startswith_def wait_action_def Let_def)

lemma instruction_of [simp]:
  "dict_get [(VStr [105, 110, 115, 116, 114, 117, 99, 116, 105, 111, 110], v)] [105, 110, 115, 116, 114, 117, 99, 116, 105, 111, 110] d = v"
  "dict_get [(VStr [105, 110, 115, 116, 114, 117, 99, 116, 105, 111, 110], v)] [100, 101, 115, 99, 114, 105, 112, 116, 105, 111, 110] d = d"
  by (simp_all add: dict_get_def)

lemma nonempty_instructions [simp]:
  "click_instruction \<noteq> []" "missing_instruction \<noteq> []" "login_instruction \<noteq> []"
  by (simp_all add: click_instruction_def missing_instruction_def login_instruction_def)




lemma robust_login_step_result:
  "execute_step_robust plain_rt demo_robust login_step 0 started_session
     = (Inr ((new_step_result [(VStr [105, 110, 115, 116, 114, 117, 99, 116, 105, 111, 110], VStr login_instruction)] 0)
              \<lparr>sr_action := Some wait_action, sr_status := ''passed''\<rparr>),
        started_session\<lparr>world := used_world\<rparr>)"
  by (simp add: execute_step_robust_def robust_step_try_def demo_robust_def demo_engine_def
      started_session_def started_world_def used_world_def login_step_def mock_translate_def
      login_translates_to_wait Let_def)




subsection \<open>Assertion or action\<close>

text \<open>
  C3.  The robust runner does not give a step to the pattern matcher: whatever the
  dictionary of the step, \<open>_execute_step_robust\<close> returns a result without an assertion.
  On the instruction of the spec's first example, which \<open>parse\<close> reads as a text-exists
  assertion, it asks the translator (here the mock, which answers with a wait of
  1000 ms) and the step passes; the standard runner runs the assertion, which fails on
  a page that does not show the text.
\<close>

theorem robust_step_skips_the_matcher:
  "(\<forall>rt rb items i s. \<exists>sr s'.
        execute_step_robust rt rb (VDict items) i (s :: 'w session) = (Inr sr, s')
        \<and> sr_assertion_result sr = None)
   \<and> parse plain_rt login_instruction =
       Inr (Some \<lparr>ai_type = TEXT_EXISTS, ai_selector = None, ai_expected = Some (PStr [12525, 12464, 12452, 12531])\<rparr>)
   \<and> fst (execute_step_robust plain_rt demo_robust login_step 0 started_session) =
       Inr \<lparr>sr_index = 0, sr_description = Some (VStr []),
            sr_natural_language = Some (VStr login_instruction), sr_status = ''passed'',
            sr_action = Some [(''action_type'', PStr [119, 97, 105, 116]), (''timeout'', PInt 1000)],
            sr_assertion_result = None, sr_error = None\<rparr>
   \<and> (case fst (execute_step plain_rt demo_engine login_step 0 started_world) of
         Inr sr \<Rightarrow> sr_status sr = ''failed''
           \<and> sr_error sr = Some [12486, 12461, 12473, 12488, 32, 39, 12525, 12464, 12452, 12531, 39, 32, 12364, 35211, 12388, 12363, 12426, 12414, 12379, 12435]
           \<and> sr_action sr = None \<and> sr_assertion_result sr \<noteq> None
       | Inl e \<Rightarrow> False)"
proof -
  have 1: "\<forall>rt rb items i s. \<exists>sr s'.
        execute_step_robust rt rb (VDict items) i (s :: 'w session) = (Inr sr, s')
        \<and> sr_assertion_result sr = None"
  proof (intro allI)
    fix rt rb items i and s :: "'w session"
    from robust_dict_step_result[of rt rb items i s]
    show "\<exists>sr s'. execute_step_robust rt rb (VDict items) i s = (Inr sr, s')
        \<and> sr_assertion_result sr = None"
      by blast
  qed
  have 2: "fst (execute_step_robust plain_rt demo_robust login_step 0 started_session) =
       Inr \<lparr>sr_index = 0, sr_description = Some (VStr []),
            sr_natural_language = Some (VStr login_instruction), sr_status = ''passed'',
            sr_action = Some [(''action_type'', PStr [119, 97, 105, 116]), (''timeout'', PInt 1000)],
            sr_assertion_result = None, sr_error = None\<rparr>"
    by (simp add: robust_login_step_result new_step_result_def wait_action_def)
  have l: "text_exists_loop quiet_page w sels = None" for w sels
    by (induction sels) (auto simp: quiet_page_def)
  have 3: "(case fst (execute_step plain_rt demo_engine login_step 0 started_world) of
         Inr sr \<Rightarrow> sr_status sr = ''failed''
           \<and> sr_error sr = Some [12486, 12461, 12473, 12488, 32, 39, 12525, 12464, 12452, 12531, 39, 32, 12364, 35211, 12388, 12363, 12426, 12414, 12379, 12435]
           \<and> sr_action sr = None \<and> sr_assertion_result sr \<noteq> None
       | Inl e \<Rightarrow> False)"
    by (simp add: execute_step_def step_try_def step_dispatch_def login_step_def parse_value_def
        login_parse browser_execute_assertion_def announce_def report_def
        demo_engine_def new_step_result_def execute_def execute_assertion_inner_def
        make_assertion_def assert_text_exists_def l content_has_def Let_def)
       (simp add: login_instruction_def quiet_page_def plain_rt_def ascii_lower_def startswith_def)
  from 1 2 3 login_parse[of plain_rt] show ?thesis by simp
qed

subsection \<open>The summary of a suite\<close>

lemma click_step_fails:
  "execute_step rt en click_step i w
     = (Inr (step_failed (new_step_result [(VStr [105, 110, 115, 116, 114, 117, 99, 116, 105, 111, 110], VStr click_instruction)] i)
               (Exn ''re.error'' [110, 111, 116, 104, 105, 110, 103, 32, 116, 111, 32, 114, 101, 112, 101, 97, 116, 32, 97, 116, 32, 112, 111, 115, 105, 116, 105, 111, 110, 32, 56, 51])), w)"
  by (simp add: execute_step_def step_try_def step_dispatch_def click_step_def parse_value_def
      click_parse Let_def)

lemma missing_step_fails:
  "execute_step rt en missing_step i w
     = (Inr (step_failed (new_step_result [(VStr [105, 110, 115, 116, 114, 117, 99, 116, 105, 111, 110], VStr missing_instruction)] i)
               (Exn ''re.error'' [110, 111, 116, 104, 105, 110, 103, 32, 116, 111, 32, 114, 101, 112, 101, 97, 116, 32, 97, 116, 32, 112, 111, 115, 105, 116, 105, 111, 110, 32, 56, 51])), w)"
  by (simp add: execute_step_def step_try_def step_dispatch_def missing_step_def parse_value_def
      missing_parse Let_def)

text \<open>
  C7.  The standard runner on the two-case suite of the scenario, with an engine on
  which the first action would succeed and the second fail: both cases end \<open>failed\<close>
  and the summary is total 2, passed 0, failed 2, errors 0.  Both steps fail in
  \<open>parse\<close>, on the pattern that does not compile, with the engine never asked to act;
  \<open>parse\<close> returns \<open>None\<close> for no instruction at all, so no step of this runner is
  ever run as an action.  A suite whose failing case has no \<open>name\<close> key does not
  continue either: the KeyError of \<open>test_case["name"]\<close> leaves \<open>_execute_test_suite\<close>.
\<close>

theorem two_case_suite_fails_both:
  "(case execute_test_suite plain_rt demo_engine True two_case_suite started_world of
      (Inr r, w) \<Rightarrow>
        su_summary r = \<lparr>sm_total = 2, sm_passed = 0, sm_failed = 2, sm_errors = 0\<rparr>
        \<and> map cr_status (su_test_cases r) = [''failed'', ''failed'']
        \<and> map (\<lambda>c. map sr_error (cr_steps c)) (su_test_cases r)
            = [[Some [110, 111, 116, 104, 105, 110, 103, 32, 116, 111, 32, 114, 101, 112, 101, 97, 116, 32, 97, 116, 32, 112, 111, 115, 105, 116, 105, 111, 110, 32, 56, 51]], [Some [110, 111, 116, 104, 105, 110, 103, 32, 116, 111, 32, 114, 101, 112, 101, 97, 116, 32, 97, 116, 32, 112, 111, 115, 105, 116, 105, 111, 110, 32, 56, 51]]]
        \<and> dw_actions w = 0
    | (Inl e, w) \<Rightarrow> False)
   \<and> (\<forall>rt s. parse rt s \<noteq> Inr None)
   \<and> (\<forall>rt en items i w. \<exists>sr w'.
         execute_step rt en (VDict items) i (w :: 'w) = (Inr sr, w') \<and> sr_action sr = None)
   \<and> fst (execute_test_suite plain_rt demo_engine True nameless_suite started_world)
       = Inl (Exn ''KeyError'' [39, 110, 97, 109, 101, 39])"
proof -
  have a: "(case execute_test_suite plain_rt demo_engine True two_case_suite started_world of
      (Inr r, w) \<Rightarrow>
        su_summary r = \<lparr>sm_total = 2, sm_passed = 0, sm_failed = 2, sm_errors = 0\<rparr>
        \<and> map cr_status (su_test_cases r) = [''failed'', ''failed'']
        \<and> map (\<lambda>c. map sr_error (cr_steps c)) (su_test_cases r)
            = [[Some [110, 111, 116, 104, 105, 110, 103, 32, 116, 111, 32, 114, 101, 112, 101, 97, 116, 32, 97, 116, 32, 112, 111, 115, 105, 116, 105, 111, 110, 32, 56, 51]], [Some [110, 111, 116, 104, 105, 110, 103, 32, 116, 111, 32, 114, 101, 112, 101, 97, 116, 32, 97, 116, 32, 112, 111, 115, 105, 116, 105, 111, 110, 32, 56, 51]]]
        \<and> dw_actions w = 0
    | (Inl e, w) \<Rightarrow> False)"
    by (simp add: execute_test_suite_def two_case_suite_def new_suite_result_def dict_get_def
        execute_test_case_def new_case_result_def click_step_fails missing_step_fails
        dict_item_def take_failure_screenshot_def demo_engine_def step_failed_def
        count_case_def started_world_def Let_def)
  have b: "fst (execute_test_suite plain_rt demo_engine True nameless_suite started_world)
       = Inl (Exn ''KeyError'' [39, 110, 97, 109, 101, 39])"
    by (simp add: execute_test_suite_def nameless_suite_def new_suite_result_def dict_get_def
        execute_test_case_def new_case_result_def click_step_fails dict_item_def
        demo_engine_def step_failed_def Let_def)
  have c: "\<forall>rt en items i w. \<exists>sr w'.
         execute_step rt en (VDict items) i (w :: 'w) = (Inr sr, w') \<and> sr_action sr = None"
  proof (intro allI)
    fix rt en items i and w :: 'w
    from dict_step_result[of rt en items i w]
    show "\<exists>sr w'. execute_step rt en (VDict items) i w = (Inr sr, w') \<and> sr_action sr = None"
      by blast
  qed
  have d: "\<forall>rt s. parse rt s \<noteq> Inr None"
    by (simp add: parse_never_None)
  from a b c d show ?thesis by (intro conjI)
qed

subsection \<open>The active page of the robust runner\<close>

text \<open>
  C8.  \<open>_run_single_test_robust\<close> on a file whose \<open>test_cases\<close> key holds nothing, in a
  session whose active page is page 0: the suite raises TypeError after the new page
  (page 1) was swapped in, the line that restores the prior page is skipped, and the
  \<open>finally\<close> clause closes page 1.  The browser manager's page is then page 1, a closed
  page, not the page it had before the file.
\<close>

theorem failed_file_leaves_new_page_active:
  "(case run_single_test_robust plain_rt demo_robust (\<lambda>r. Inr [114, 101, 115, 117, 108, 116, 46, 106, 115, 111, 110]) 30000
           empty_cases_file started_session of
      (Inl e, s) \<Rightarrow>
        e = Exn ''TypeError'' [111, 98, 106, 101, 99, 116, 32, 111, 102, 32, 116, 121, 112, 101, 32, 39, 78, 111, 110, 101, 84, 121, 112, 101, 39, 32, 104, 97, 115, 32, 110, 111, 32, 108, 101, 110, 40, 41]
        \<and> active_page s = Some 1 \<and> rb_is_closed demo_robust 1 (world s)
    | (Inr r, s) \<Rightarrow> False)
   \<and> active_page started_session = Some 0"
  by (simp add: run_single_test_robust_def demo_robust_def demo_engine_def started_session_def
      started_world_def execute_test_suite_robust_def empty_cases_file_def new_suite_result_def
      close_used_page_def dict_get_def no_len_def Let_def)


subsection \<open>The exit code\<close>

lemma standard_loop_results:
  "standard_loop rs i ps ok =
     (case standard_results rs i ps of
        Returns results \<Rightarrow> Returns (ok \<and> \<not> list_ex reports_failure results)
      | Raises e \<Rightarrow> Raises e
      | Interrupted \<Rightarrow> Interrupted)"
  by (induction ps arbitrary: i ok) (auto split: outcome.splits)

text \<open>
  C4.  The exit code of the process is decided by how the selected run ends.  It is 0
  when every call returned and no result handed to \<open>main\<close> reports a failed or errored
  case (full success), and when interactive mode returns; it is 1 when every call
  returned and some result reports \<open>failed > 0\<close> or \<open>errors > 0\<close>, and when an exception
  reaches \<open>main\<close>; it is 0 when the user interrupts the run, whatever was reported
  before the interrupt.
\<close>

theorem exit_code:
  "main_exit rs test_file_paths robust optimized =
     (case run_results rs test_file_paths robust optimized of
        Returns results \<Rightarrow> if list_ex reports_failure results then 1 else 0
      | Raises e \<Rightarrow> 1
      | Interrupted \<Rightarrow> 0)"
proof (cases test_file_paths)
  case Nil
  then show ?thesis
    by (cases "interactive rs") (simp_all add: main_exit_def run_selected_def run_results_def)
next
  case (Cons p ps)
  show ?thesis
  proof (cases ps)
    case Nil
    with Cons have one: "test_file_paths = [p]" by simp
    show ?thesis
    proof (cases robust)
      case True
      with one show ?thesis
        by (cases "first_of_batch (robust_batch rs [p])")
           (simp_all add: main_exit_def run_selected_def run_results_def)
    next
      case False
      note not_robust = this
      show ?thesis
      proof (cases optimized)
        case True
        with one not_robust show ?thesis
          by (cases "first_of_batch (optimized_batch rs [p])")
             (simp_all add: main_exit_def run_selected_def run_results_def)
      next
        case False
        with one not_robust show ?thesis
          by (cases "standard_file rs 0 p")
             (simp_all add: main_exit_def run_selected_def run_results_def)
      qed
    qed
  next
    case (Cons q qs)
    with \<open>test_file_paths = p # ps\<close> have many: "test_file_paths = p # q # qs" by simp
    show ?thesis
    proof (cases robust)
      case True
      with many show ?thesis
        by (cases "robust_batch rs (p # q # qs)")
           (simp_all add: main_exit_def run_selected_def run_results_def)
    next
      case False
      note not_robust = this
      show ?thesis
      proof (cases optimized)
        case True
        with many not_robust show ?thesis
          by (cases "optimized_batch rs (p # q # qs)")
             (simp_all add: main_exit_def run_selected_def run_results_def)
      next
        case False
        with many not_robust show ?thesis
          by (cases "standard_results rs 0 (p # q # qs)")
             (simp_all add: main_exit_def run_selected_def run_results_def standard_loop_results
                del: standard_results.simps standard_loop.simps)
      qed
    qed
  qed
qed

theorem exit_code_witness:
  "main_exit demo_runners [] False True = 0
   \<and> main_exit demo_runners [[97, 46, 121, 97, 109, 108], [98, 46, 121, 97, 109, 108]] False True = 0
   \<and> main_exit demo_runners [[97, 46, 121, 97, 109, 108], [98, 46, 121, 97, 109, 108]] True True = 1
   \<and> main_exit demo_runners [[97, 46, 121, 97, 109, 108]] False False = 1
   \<and> main_exit demo_runners [[97, 46, 121, 97, 109, 108], [98, 46, 121, 97, 109, 108]] False False = 0
   \<and> run_results demo_runners [[97, 46, 121, 97, 109, 108], [98, 46, 121, 97, 109, 108]] False False = Interrupted"
proof -
  have r: "run_results demo_runners [[97, 46, 121, 97, 109, 108], [98, 46, 121, 97, 109, 108]] False False = Interrupted"
    by (simp add: run_results_def demo_runners_def)
  have 1: "main_exit demo_runners [] False True = 0"
    using exit_code[of demo_runners "[]" False True]
    by (simp add: run_results_def demo_runners_def)
  have 2: "main_exit demo_runners [[97, 46, 121, 97, 109, 108], [98, 46, 121, 97, 109, 108]] False True = 0"
    using exit_code[of demo_runners "[[97, 46, 121, 97, 109, 108], [98, 46, 121, 97, 109, 108]]" False True]
    by (simp add: run_results_def demo_runners_def reports_failure_def passing_result_def)
  have 3: "main_exit demo_runners [[97, 46, 121, 97, 109, 108], [98, 46, 121, 97, 109, 108]] True True = 1"
    using exit_code[of demo_runners "[[97, 46, 121, 97, 109, 108], [98, 46, 121, 97, 109, 108]]" True True]
    by (simp add: run_results_def demo_runners_def reports_failure_def failing_result_def)
  have 4: "main_exit demo_runners [[97, 46, 121, 97, 109, 108]] False False = 1"
    using exit_code[of demo_runners "[[97, 46, 121, 97, 109, 108]]" False False]
    by (simp add: run_results_def demo_runners_def reports_failure_def failing_result_def)
  have 5: "main_exit demo_runners [[97, 46, 121, 97, 109, 108], [98, 46, 121, 97, 109, 108]] False False = 0"
    using exit_code[of demo_runners "[[97, 46, 121, 97, 109, 108], [98, 46, 121, 97, 109, 108]]" False False] r
    by simp
  from 1 2 3 4 5 r show ?thesis by simp
qed


end
